(* ===== verification/Prelude.thy ===== *)
theory Prelude
  imports Main "HOL-Library.Signed_Division"
begin

text \<open>
  Shared ground of the development: the error values of the TypeScript client, the result
  type every fallible function returns, the integer operations of the two number types the
  sources compute with (\<^verbatim>\<open>BN\<close> of bn.js and the built-in \<^verbatim>\<open>bigint\<close>), and the lemmas on
  truncating division and on results that the component theories use.
\<close>

section \<open>Collections of facts\<close>

named_theorems res_simps \<open>unfolding of results, guards and number operations\<close>

section \<open>Errors as values\<close>

text \<open>
  What a call can throw: \<^verbatim>\<open>invariant(c, m)\<close> of the package invariant, \<^verbatim>\<open>new Error(m)\<close>, a
  \<^verbatim>\<open>RangeError\<close> (a \<^verbatim>\<open>bigint\<close> divided by zero, a buffer read out of range, \<^verbatim>\<open>BigInt\<close> of a
  number that is not finite), a failed assertion of bn.js (division by zero, a number over
  53 bits in \<^verbatim>\<open>toNumber\<close>) and a \<^verbatim>\<open>TypeError\<close> (a property of undefined).
\<close>

datatype js_error =
    Invariant string
  | Error string
  | RangeError
  | BnAssert
  | TypeError

type_synonym 'a res = "js_error + 'a"

text \<open>
  Binding, guards and options are over any type of errors: the Rust sources have errors of their
  own.
\<close>

definition rbind :: "'e + 'a \<Rightarrow> ('a \<Rightarrow> 'e + 'b) \<Rightarrow> 'e + 'b" where
  "rbind m f = (case m of Inl e \<Rightarrow> Inl e | Inr x \<Rightarrow> f x)"

definition guard :: "bool \<Rightarrow> 'e \<Rightarrow> 'e + unit" where
  "guard c e = (if c then Inr () else Inl e)"

definition invariant :: "bool \<Rightarrow> string \<Rightarrow> unit res" where
  "invariant c m = guard c (Invariant m)"

definition of_option :: "'e \<Rightarrow> 'a option \<Rightarrow> 'e + 'a" where
  "of_option e x = (case x of None \<Rightarrow> Inl e | Some y \<Rightarrow> Inr y)"

fun rmap :: "('a \<Rightarrow> 'b res) \<Rightarrow> 'a list \<Rightarrow> 'b list res" where
  "rmap f [] = Inr []"
| "rmap f (x # xs) = rbind (f x) (\<lambda>y. rbind (rmap f xs) (\<lambda>ys. Inr (y # ys)))"

lemma rbind_simps [simp, res_simps]:
  "rbind (Inl e) f = Inl e"
  "rbind (Inr x) f = f x"
  by (simp_all add: rbind_def)

lemma rbind_Inr_iff [simp]: "rbind m f = Inr y \<longleftrightarrow> (\<exists>x. m = Inr x \<and> f x = Inr y)"
  by (cases m) auto

lemma rbind_assoc: "rbind (rbind m f) g = rbind m (\<lambda>x. rbind (f x) g)"
  by (cases m) auto

lemma rbind_cong [fundef_cong]:
  "m = m' \<Longrightarrow> (\<And>x. m' = Inr x \<Longrightarrow> f x = g x) \<Longrightarrow> rbind m f = rbind m' g"
  by (cases m') auto

lemma guard_simps [simp, res_simps]:
  "guard True e = Inr ()"
  "guard False e = Inl e"
  by (simp_all add: guard_def)

lemma guard_Inr_iff [simp]: "guard c e = Inr u \<longleftrightarrow> c"
  by (simp add: guard_def)

lemma invariant_simps [simp, res_simps]:
  "invariant True m = Inr ()"
  "invariant False m = Inl (Invariant m)"
  by (simp_all add: invariant_def)

lemma invariant_Inr_iff [simp]: "invariant c m = Inr u \<longleftrightarrow> c"
  by (simp add: invariant_def)

lemma of_option_simps [simp, res_simps]:
  "of_option e None = Inl e"
  "of_option e (Some x) = Inr x"
  by (simp_all add: of_option_def)

lemma of_option_Inr_iff [simp]: "of_option e x = Inr y \<longleftrightarrow> x = Some y"
  by (cases x) auto

lemma rmap_Inr_length: "rmap f xs = Inr ys \<Longrightarrow> length ys = length xs"
  by (induction xs arbitrary: ys) auto

lemma rmap_Inr_nth: "rmap f xs = Inr ys \<Longrightarrow> i < length xs \<Longrightarrow> f (xs ! i) = Inr (ys ! i)"
proof (induction xs arbitrary: ys i)
  case (Cons x xs)
  then show ?case by (cases i) auto
qed simp

section \<open>BN and bigint\<close>

text \<open>
  Both number types are unbounded integers. Division truncates towards zero and fails on a
  zero divisor; the remainder has the sign of the dividend. \<^verbatim>\<open>divRound\<close> of bn.js rounds the
  quotient to the nearest integer, a half away from zero. \<^verbatim>\<open>toNumber\<close> refuses values over 53
  bits.
\<close>

definition bn_div :: "int \<Rightarrow> int \<Rightarrow> int res" where
  "bn_div a b = (if b = 0 then Inl BnAssert else Inr (a sdiv b))"

definition bn_mod :: "int \<Rightarrow> int \<Rightarrow> int res" where
  "bn_mod a b = (if b = 0 then Inl BnAssert else Inr (a smod b))"

definition bn_divRound :: "int \<Rightarrow> int \<Rightarrow> int res" where
  "bn_divRound a b =
     (if b = 0 then Inl BnAssert
      else Inr (if 2 * \<bar>a smod b\<bar> \<ge> \<bar>b\<bar> then a sdiv b + sgn a * sgn b else a sdiv b))"

definition bn_toNumber :: "int \<Rightarrow> int res" where
  "bn_toNumber a = (if \<bar>a\<bar> < 2 ^ 53 then Inr a else Inl BnAssert)"

definition bigint_div :: "int \<Rightarrow> int \<Rightarrow> int res" where
  "bigint_div a b = (if b = 0 then Inl RangeError else Inr (a sdiv b))"

lemma sdiv_nonneg_eq_div: "0 \<le> a \<Longrightarrow> 0 \<le> b \<Longrightarrow> a sdiv b = a div (b::int)"
  by (auto simp: signed_divide_int_def sgn_if)

lemma smod_nonneg_eq_mod: "0 \<le> a \<Longrightarrow> 0 \<le> b \<Longrightarrow> a smod b = a mod (b::int)"
  by (cases "a = 0") (simp_all add: signed_modulo_int_def)

lemma bn_div_pos [simp]: "0 \<le> a \<Longrightarrow> 0 < b \<Longrightarrow> bn_div a b = Inr (a div b)"
  by (simp add: bn_div_def sdiv_nonneg_eq_div)

lemma bn_mod_pos [simp]: "0 \<le> a \<Longrightarrow> 0 < b \<Longrightarrow> bn_mod a b = Inr (a mod b)"
  by (simp add: bn_mod_def smod_nonneg_eq_mod)

lemma bigint_div_pos [simp]: "0 \<le> a \<Longrightarrow> 0 < b \<Longrightarrow> bigint_div a b = Inr (a div b)"
  by (simp add: bigint_div_def sdiv_nonneg_eq_div)

lemma bn_div_zero [simp, res_simps]: "bn_div a 0 = Inl BnAssert"
  by (simp add: bn_div_def)

lemma bn_mod_zero [simp, res_simps]: "bn_mod a 0 = Inl BnAssert"
  by (simp add: bn_mod_def)

lemma bigint_div_zero [simp, res_simps]: "bigint_div a 0 = Inl RangeError"
  by (simp add: bigint_div_def)

lemma bn_divRound_pos:
  assumes "0 \<le> a" "0 < b"
  shows "bn_divRound a b = Inr (if b \<le> 2 * (a mod b) then a div b + 1 else a div b)"
proof (cases "a = 0")
  case False
  with assms show ?thesis
    by (simp add: bn_divRound_def sdiv_nonneg_eq_div smod_nonneg_eq_mod)
next
  case True
  with assms show ?thesis
    by (simp add: bn_divRound_def sdiv_nonneg_eq_div smod_nonneg_eq_mod)
qed

section \<open>Integer division\<close>

lemma div_mult_le_pos: "0 < b \<Longrightarrow> a div b * b \<le> (a::int)"
  by (metis div_mult_mod_eq le_add_same_cancel1 pos_mod_sign)

lemma div_Suc_mult_gt: "0 < b \<Longrightarrow> (a::int) < (a div b + 1) * b"
  by (metis add.commute div_mult_mod_eq distrib_right mult_1 add_less_cancel_left pos_mod_bound)

lemma le_div_iff_pos: "0 < b \<Longrightarrow> q \<le> a div b \<longleftrightarrow> q * b \<le> (a::int)"
proof
  assume b: "0 < b"
  show "q * b \<le> a" if "q \<le> a div b"
    using mult_right_mono [OF that, of b] div_mult_le_pos [OF b, of a] b by linarith
  show "q \<le> a div b" if "q * b \<le> a"
  proof -
    have "q * b < (a div b + 1) * b" using that div_Suc_mult_gt [OF b, of a] by linarith
    with b show ?thesis by simp
  qed
qed

lemma div_less_iff_pos: "0 < b \<Longrightarrow> a div b < q \<longleftrightarrow> (a::int) < q * b"
  using le_div_iff_pos [of b q a] by linarith

lemma div_nonneg [simp]: "0 \<le> a \<Longrightarrow> 0 < b \<Longrightarrow> 0 \<le> (a::int) div b"
  by (simp add: pos_imp_zdiv_nonneg_iff)

lemma mult_div_le_self:
  assumes "0 \<le> a" "0 \<le> n" "n \<le> (d::int)" "0 < d"
  shows "a * n div d \<le> a"
proof -
  have "a * n \<le> a * d" using assms by (simp add: mult_left_mono)
  then have "a * n div d \<le> a * d div d" using assms by (intro zdiv_mono1) auto
  with assms show ?thesis by simp
qed

lemma floor_share_roundtrip:
  assumes "0 \<le> x" "0 < t" "0 < (s::int)"
  shows "(x * s div t) * t div s \<le> x"
proof -
  have "(x * s div t) * t \<le> x * s" using assms by (simp add: div_mult_le_pos)
  then have "(x * s div t) * t div s \<le> x * s div s" using assms by (intro zdiv_mono1) auto
  with assms show ?thesis by simp
qed

lemma square_bracket_le: "0 \<le> t \<Longrightarrow> s * s \<le> n \<Longrightarrow> n < (t + 1) * (t + 1) \<Longrightarrow> s \<le> (t::int)"
proof (rule ccontr)
  assume *: "0 \<le> t" "s * s \<le> n" "n < (t + 1) * (t + 1)" and "\<not> s \<le> t"
  then have "(t + 1) * (t + 1) \<le> s * s" by (intro mult_mono) auto
  with * show False by linarith
qed

lemma div_less_self_square: "0 < x \<Longrightarrow> n < x * x \<Longrightarrow> n div x < (x::int)"
proof -
  assume "0 < x" "n < x * x"
  then have "n div x * x < x * x" using div_mult_le_pos [of x n] by linarith
  with \<open>0 < x\<close> show ?thesis by simp
qed

end
