(* ===== verification/StableSwapMath.thy ===== *)
theory StableSwapMath
  imports Prelude Complex_Main
begin

text \<open>
  The StableSwap calculator (ts-client/src/amm/curve/stable-swap-math/calculator.ts): the two
  Newton iterations over \<^verbatim>\<open>bigint\<close>, bounded by \<^verbatim>\<open>MAX_ITERS\<close>, that find the invariant D and
  the balance y on the curve of D. The iteration count of the source is the structural
  argument of the loops, so a loop of the model ends exactly where the loop of the source does.
\<close>

section \<open>Definitions\<close>

definition N_COINS :: int where
  "N_COINS = 2"

definition MAX_ITERS :: nat where
  "MAX_ITERS = 20"

definition abs_bigint :: "int \<Rightarrow> int" where
  "abs_bigint a = (if a > 0 then a else - a)"

fun computeD_loop :: "nat \<Rightarrow> int \<Rightarrow> int \<Rightarrow> int \<Rightarrow> int \<Rightarrow> int \<Rightarrow> int \<Rightarrow> int res" where
  "computeD_loop 0 Ann S amountA amountB dPrev d = Inr d"
| "computeD_loop (Suc n) Ann S amountA amountB dPrev d =
     (if abs_bigint (d - dPrev) > 1 then
        rbind (bigint_div (d * d) (amountA * N_COINS)) (\<lambda>dP1.
        rbind (bigint_div (dP1 * d) (amountB * N_COINS)) (\<lambda>dP.
        rbind (bigint_div (d * (Ann * S + dP * N_COINS))
                          (d * (Ann - 1) + dP * (N_COINS + 1))) (\<lambda>d'.
        computeD_loop n Ann S amountA amountB d d')))
      else Inr d)"

definition computeD :: "int \<Rightarrow> int \<Rightarrow> int \<Rightarrow> int res" where
  "computeD ampFactor amountA amountB =
     (let Ann = ampFactor * N_COINS; S = amountA + amountB in
      if S = 0 then Inr 0
      else computeD_loop MAX_ITERS Ann S amountA amountB 0 S)"

fun computeY_loop :: "nat \<Rightarrow> int \<Rightarrow> int \<Rightarrow> int \<Rightarrow> int \<Rightarrow> int res" where
  "computeY_loop 0 b c yPrev y = Inr y"
| "computeY_loop (Suc n) b c yPrev y =
     (if abs_bigint (y - yPrev) > 1 then
        rbind (bigint_div (y * y + c) (N_COINS * y + b)) (\<lambda>y'.
        computeY_loop n b c y y')
      else Inr y)"

definition computeY :: "int \<Rightarrow> int \<Rightarrow> int \<Rightarrow> int res" where
  "computeY ampFactor x d =
     (let Ann = ampFactor * N_COINS in
      rbind (bigint_div d Ann) (\<lambda>dAnn.
      let b = x + dAnn - d in
      rbind (bigint_div (d * d * d) (N_COINS * (N_COINS * (x * Ann)))) (\<lambda>c.
      computeY_loop MAX_ITERS b c 0 d)))"

text \<open>
  A \<^verbatim>\<open>Percent\<close> is kept as its numerator and denominator; a \<^verbatim>\<open>Fraction\<close> is the rational it
  denotes. A zero denominator has no value, and converting such a fraction to an integer
  fails, so building one for use fails.
\<close>

record saberFees =
  f_trade :: "int \<times> int"
  f_withdraw :: "int \<times> int"
  f_adminTrade :: "int \<times> int"
  f_adminWithdraw :: "int \<times> int"

definition Fraction :: "int \<Rightarrow> int \<Rightarrow> rat res" where
  "Fraction n d = (if d = 0 then Inl RangeError else Inr (of_int n / of_int d))"

definition asFraction :: "int \<times> int \<Rightarrow> rat res" where
  "asFraction p = Fraction (fst p) (snd p)"

definition normalizedTradeFee :: "saberFees \<Rightarrow> int \<Rightarrow> int \<Rightarrow> rat res" where
  "normalizedTradeFee feeInfo n_coins amount =
     rbind (asFraction (f_trade feeInfo)) (\<lambda>trade.
     rbind (Fraction n_coins ((n_coins - 1) * 4)) (\<lambda>adjustedTradeFee.
     Inr (of_int amount * trade * adjustedTradeFee)))"

section \<open>The StableSwap curve\<close>

text \<open>
  The curve of invariant D through balances x and y, cleared of denominators:
  Ann (x + y) + D = Ann D + D^3 / (4 x y). A pair is strictly above the curve when the left
  side is the greater one.
\<close>

definition below_curve :: "int \<Rightarrow> int \<Rightarrow> int \<Rightarrow> int \<Rightarrow> bool" where
  "below_curve amp D x y \<longleftrightarrow>
     4 * x * y * (2 * amp * (x + y) + D) < 4 * x * y * (2 * amp * D) + D ^ 3"

definition above_curve :: "int \<Rightarrow> int \<Rightarrow> int \<Rightarrow> int \<Rightarrow> bool" where
  "above_curve amp D x y \<longleftrightarrow>
     4 * x * y * (2 * amp * D) + D ^ 3 < 4 * x * y * (2 * amp * (x + y) + D)"

lemma abs_bigint_eq_abs [simp]: "abs_bigint a = \<bar>a\<bar>"
  by (simp add: abs_bigint_def)

subsection \<open>The Newton step for D\<close>

lemma cube_tangent: "0 \<le> m \<Longrightarrow> 0 \<le> d \<Longrightarrow> 3 * d\<^sup>2 * m - 2 * d ^ 3 \<le> (m::int) ^ 3"
proof -
  assume "0 \<le> m" "0 \<le> d"
  then have "0 \<le> (m - d)\<^sup>2 * (m + 2 * d)" by simp
  also have "\<dots> = m ^ 3 - (3 * d\<^sup>2 * m - 2 * d ^ 3)"
    by (simp add: algebra_simps power2_eq_square power3_eq_cube)
  finally show ?thesis by simp
qed

lemma newton_D_dP:
  assumes "1 \<le> a" "1 \<le> b" "0 \<le> (d::int)"
  shows "4 * a * b * ((d * d div (a * 2)) * d div (b * 2)) \<le> d ^ 3"
proof -
  let ?p = "d * d div (a * 2)"
  have "4 * a * b * (?p * d div (b * 2)) = (?p * d div (b * 2)) * (b * 2) * (a * 2)"
    by (simp add: algebra_simps)
  also have "\<dots> \<le> ?p * d * (a * 2)"
    using assms by (intro mult_right_mono div_mult_le_pos) auto
  also have "\<dots> = ?p * (a * 2) * d" by (simp add: algebra_simps)
  also have "\<dots> \<le> d * d * d"
    using assms by (intro mult_right_mono div_mult_le_pos) auto
  finally show ?thesis by (simp add: power3_eq_cube)
qed

lemma newton_D_above:
  fixes d p k Ann S m :: int
  assumes d: "1 \<le> d" and p: "0 \<le> p" and k: "0 < k" and kp: "k * p \<le> d ^ 3"
    and Ann: "2 \<le> Ann" and S: "1 \<le> S" and dS: "(Ann - 1) * d \<le> Ann * S"
    and m: "d * (Ann * S + 2 * p) < m * (d * (Ann - 1) + 3 * p)"
  shows "k * (Ann * S) < m ^ 3 + k * ((Ann - 1) * m)"
proof -
  have Q: "0 < d * (Ann - 1) + 3 * p" using d p Ann by (simp add: add_pos_nonneg)
  have AS: "0 < Ann * S" using Ann S by simp
  have m3: "2 * d < 3 * m"
  proof (rule ccontr)
    assume "\<not> ?thesis"
    then have "3 * m * (d * (Ann - 1) + 3 * p) \<le> 2 * d * (d * (Ann - 1) + 3 * p)"
      using Q by (intro mult_right_mono) auto
    with m have "d * (3 * (Ann * S) + 6 * p) < d * (2 * ((Ann - 1) * d) + 6 * p)"
      by (simp add: algebra_simps)
    then have "3 * (Ann * S) < 2 * ((Ann - 1) * d)" using d by simp
    with dS AS show False by linarith
  qed
  have "k * (d * (Ann * S + 2 * p)) < k * (m * (d * (Ann - 1) + 3 * p))"
    using m k by simp
  then have "(k * p) * (2 * d - 3 * m) < d * (k * ((Ann - 1) * m) - k * (Ann * S))"
    by (simp add: algebra_simps)
  moreover have "d ^ 3 * (2 * d - 3 * m) \<le> (k * p) * (2 * d - 3 * m)"
    using kp m3 by (intro mult_right_mono_neg) auto
  moreover have "d * (3 * d\<^sup>2 * m - 2 * d ^ 3) \<le> d * m ^ 3"
    using cube_tangent [of m d] d m3 by (intro mult_left_mono) auto
  moreover have "d * (3 * d\<^sup>2 * m - 2 * d ^ 3) = - (d ^ 3 * (2 * d - 3 * m))"
    by (simp add: algebra_simps power2_eq_square power3_eq_cube)
  ultimately have "0 < d * m ^ 3 + d * (k * ((Ann - 1) * m) - k * (Ann * S))"
    by linarith
  then have "0 < d * (m ^ 3 + k * ((Ann - 1) * m) - k * (Ann * S))"
    by (simp add: algebra_simps)
  with d show ?thesis by (simp add: zero_less_mult_iff)
qed

lemma newton_D_bound:
  fixes d p Ann S :: int
  assumes d: "1 \<le> d" and p: "0 \<le> p" and Ann: "2 \<le> Ann" and S: "1 \<le> S"
    and dS: "(Ann - 1) * d \<le> Ann * S"
  shows "(Ann - 1) * (d * (Ann * S + 2 * p) div (d * (Ann - 1) + 3 * p)) \<le> Ann * S"
proof -
  let ?Q = "d * (Ann - 1) + 3 * p" and ?N = "d * (Ann * S + 2 * p)"
  have Q: "0 < ?Q" using d p Ann by (simp add: add_pos_nonneg)
  have "(Ann - 1) * d * (2 * p) \<le> Ann * S * (2 * p)"
    using dS p by (intro mult_right_mono) auto
  moreover have "0 \<le> Ann * S * p" using Ann S p by simp
  ultimately have "(Ann - 1) * ?N \<le> Ann * S * ?Q"
    by (simp add: algebra_simps)
  moreover have "(Ann - 1) * (?N div ?Q) * ?Q \<le> (Ann - 1) * ?N"
    using Ann Q by (simp add: mult.assoc div_mult_le_pos mult_left_mono)
  ultimately have "(Ann - 1) * (?N div ?Q) * ?Q \<le> Ann * S * ?Q" by linarith
  with Q show ?thesis by simp
qed

subsection \<open>The loop for D\<close>

text \<open>What every iterate of the loop keeps, and what it gains after one step.\<close>

definition D_range :: "int \<Rightarrow> int \<Rightarrow> int \<Rightarrow> bool" where
  "D_range Ann S d \<longleftrightarrow> 1 \<le> d \<and> (Ann - 1) * d \<le> Ann * S"

definition D_above :: "int \<Rightarrow> int \<Rightarrow> int \<Rightarrow> int \<Rightarrow> bool" where
  "D_above k Ann S d \<longleftrightarrow> k * (Ann * S) < (d + 1) ^ 3 + k * ((Ann - 1) * (d + 1))"

lemma D_step:
  fixes a b d Ann S :: int
  defines "p \<equiv> (d * d div (a * 2)) * d div (b * 2)"
  defines "d' \<equiv> d * (Ann * S + p * 2) div (d * (Ann - 1) + p * 3)"
  assumes ab: "1 \<le> a" "1 \<le> b" and Ann: "2 \<le> Ann" and S: "2 \<le> S" and d: "D_range Ann S d"
  shows "D_range Ann S d'" and "D_above (4 * a * b) Ann S d'"
proof -
  have d1: "1 \<le> d" and dS: "(Ann - 1) * d \<le> Ann * S" using d by (auto simp: D_range_def)
  have p: "0 \<le> p" using ab d1 by (simp add: p_def)
  have Q: "0 < d * (Ann - 1) + p * 3" using d1 p Ann by (simp add: add_pos_nonneg)
  have kp: "4 * a * b * p \<le> d ^ 3" unfolding p_def using ab d1 by (intro newton_D_dP) auto
  have k: "4 \<le> 4 * a * b"
    using ab mult_mono [of 1 a 1 b] by simp
  have lt: "d * (Ann * S + 2 * p) < (d' + 1) * (d * (Ann - 1) + 3 * p)"
    using div_Suc_mult_gt [OF Q, of "d * (Ann * S + p * 2)"] by (simp add: d'_def mult.commute)
  show above: "D_above (4 * a * b) Ann S d'"
    unfolding D_above_def
    by (rule newton_D_above [OF d1 p _ kp Ann _ dS lt]) (use k S in auto)
  have "0 \<le> d'" unfolding d'_def using d1 p Ann S Q by (intro div_nonneg) auto
  moreover have "d' \<noteq> 0"
  proof
    assume "d' = 0"
    with above have "4 * a * b * (Ann * S) < 1 + 4 * a * b * (Ann - 1)"
      by (simp add: D_above_def)
    moreover have "4 * a * b * (Ann * 2) \<le> 4 * a * b * (Ann * S)"
      using k Ann S by (intro mult_left_mono) auto
    moreover have "0 < 4 * a * b * Ann" using k Ann by simp
    moreover have "1 + 4 * a * b * (Ann - 1) \<le> 4 * a * b * Ann"
      using k by (simp add: right_diff_distrib)
    ultimately show False by linarith
  qed
  moreover have "(Ann - 1) * d' \<le> Ann * S"
    unfolding d'_def using newton_D_bound [OF d1 p Ann _ dS] S by (simp add: mult.commute)
  ultimately show "D_range Ann S d'" by (simp add: D_range_def)
qed

lemma computeD_loop_total:
  assumes "1 \<le> a" "1 \<le> b" "2 \<le> Ann" "2 \<le> S" "D_range Ann S d"
    and "D_above (4 * a * b) Ann S d \<or> (0 < n \<and> 1 < \<bar>d - dPrev\<bar>)"
  shows "\<exists>D. computeD_loop n Ann S a b dPrev d = Inr D \<and> D_range Ann S D \<and> D_above (4 * a * b) Ann S D"
  using assms(5,6)
proof (induction n arbitrary: dPrev d)
  case 0
  then show ?case by auto
next
  case (Suc n)
  show ?case
  proof (cases "1 < \<bar>d - dPrev\<bar>")
    case False
    with Suc.prems show ?thesis by auto
  next
    case True
    let ?p = "(d * d div (a * 2)) * d div (b * 2)"
    let ?d' = "d * (Ann * S + ?p * 2) div (d * (Ann - 1) + ?p * 3)"
    have d1: "1 \<le> d" using Suc.prems(1) by (simp add: D_range_def)
    have p: "0 \<le> ?p" using assms(1,2) d1 by simp
    have Q: "0 < d * (Ann - 1) + ?p * 3"
      using d1 p assms(3) by (intro add_pos_nonneg) auto
    have N: "0 \<le> d * (Ann * S + ?p * 2)" using d1 p assms(3,4) by simp
    have "computeD_loop (Suc n) Ann S a b dPrev d = computeD_loop n Ann S a b d ?d'"
      using True assms(1,2) d1 p Q N by (simp add: N_COINS_def)
    moreover have "D_range Ann S ?d'" "D_above (4 * a * b) Ann S ?d'"
      using D_step [OF assms(1-4) Suc.prems(1)] by auto
    ultimately show ?thesis using Suc.IH by auto
  qed
qed

lemma D_above_iff_below_curve:
  "D_above (4 * a * b) (2 * amp) (a + b) d \<longleftrightarrow> below_curve amp (d + 1) a b"
  by (simp add: D_above_def below_curve_def algebra_simps)

lemma computeD_spec:
  assumes "1 \<le> amp" "1 \<le> a" "1 \<le> b"
  obtains D where "computeD amp a b = Inr D" "1 \<le> D" "below_curve amp (D + 1) a b"
    "(2 * amp - 1) * D \<le> 2 * amp * (a + b)"
proof -
  have "D_range (2 * amp) (a + b) (a + b)"
    using assms by (simp add: D_range_def mult_right_mono)
  then obtain D where "computeD_loop MAX_ITERS (2 * amp) (a + b) a b 0 (a + b) = Inr D"
      "D_range (2 * amp) (a + b) D" "D_above (4 * a * b) (2 * amp) (a + b) D"
    using computeD_loop_total [of a b "2 * amp" "a + b" "a + b" MAX_ITERS 0] assms
    by (auto simp: MAX_ITERS_def)
  moreover from this(1) have "computeD amp a b = Inr D"
    using assms by (simp add: computeD_def N_COINS_def mult.commute)
  ultimately show ?thesis
    by (intro that) (auto simp: D_range_def D_above_iff_below_curve)
qed

subsection \<open>The loop for y\<close>

lemma newton_Y_above:
  fixes b c y :: int
  assumes den: "0 < 2 * y + b"
  defines "n \<equiv> (y * y + c) div (2 * y + b)"
  shows "c < (n + 1) * (n + 1 + b)"
proof -
  have "y * y + c < (n + 1) * (2 * y + b)" unfolding n_def using den by (rule div_Suc_mult_gt)
  moreover have "0 \<le> (n + 1 - y) * (n + 1 - y)" by simp
  moreover have "(n + 1 - y) * (n + 1 - y) = (n + 1) * (n + 1 + b) - (n + 1) * (2 * y + b) + y * y"
    by (simp add: algebra_simps)
  ultimately show ?thesis by linarith
qed

lemma newton_Y_upper:
  fixes b c y :: int
  assumes den: "0 < 2 * y + b"
  defines "n \<equiv> (y * y + c) div (2 * y + b)"
  assumes close: "\<bar>n - y\<bar> \<le> 1"
  shows "n * (n + b) \<le> c + 1"
proof -
  have "n * (2 * y + b) \<le> y * y + c" unfolding n_def using den by (rule div_mult_le_pos)
  moreover have "(n - y) * (n - y) \<le> 1"
    using close abs_mult_self_eq [of "n - y"] mult_mono [of "\<bar>n - y\<bar>" 1 "\<bar>n - y\<bar>" 1] by simp
  moreover have "(n - y) * (n - y) = n * (n + b) - n * (2 * y + b) + y * y"
    by (simp add: algebra_simps)
  ultimately show ?thesis by linarith
qed

text \<open>A zero denominator cannot be met: the iterate before it was at most one away.\<close>

lemma newton_Y_den:
  fixes b c y :: int
  assumes den: "0 < 2 * y + b" and c: "0 \<le> c" and y: "0 \<le> y"
  defines "n \<equiv> (y * y + c) div (2 * y + b)"
  assumes far: "1 < \<bar>n - y\<bar>"
  shows "0 < 2 * n + b"
proof -
  have n: "0 \<le> n" unfolding n_def using c y den by (intro div_nonneg) auto
  have "0 < (n + 1) * (n + 1 + b)" using newton_Y_above [OF den, of c] c by (simp add: n_def)
  then have nb: "0 \<le> n + b" using n by (simp add: zero_less_mult_iff)
  show ?thesis
  proof (rule ccontr)
    assume "\<not> ?thesis"
    with n nb have n0: "n = 0" and b0: "b = 0" by auto
    have "y * y + c < 1 * (2 * y + b)"
      using div_Suc_mult_gt [OF den, of "y * y + c"] n0 by (simp add: n_def)
    with b0 c have "y * y < 2 * y" by simp
    then have "y < 2" using y by (simp add: mult_less_cancel_right)
    with far n0 y show False by simp
  qed
qed

lemma computeY_loop_total:
  assumes c: "0 \<le> c" and y: "0 \<le> y" and den: "1 < \<bar>y - yPrev\<bar> \<Longrightarrow> 0 < 2 * y + b"
    and above: "c < (y + 1) * (y + 1 + b) \<or> (0 < n \<and> 1 < \<bar>y - yPrev\<bar>)"
  shows "\<exists>Y. computeY_loop n b c yPrev y = Inr Y \<and> 0 \<le> Y \<and> c < (Y + 1) * (Y + 1 + b)"
  using y den above
proof (induction n arbitrary: yPrev y)
  case 0
  then show ?case by auto
next
  case (Suc n)
  show ?case
  proof (cases "1 < \<bar>y - yPrev\<bar>")
    case False
    with Suc.prems show ?thesis by auto
  next
    case True
    let ?y' = "(y * y + c) div (2 * y + b)"
    have den: "0 < 2 * y + b" using Suc.prems(2) True by blast
    have "computeY_loop (Suc n) b c yPrev y = computeY_loop n b c y ?y'"
      using True den c Suc.prems(1) by (simp add: N_COINS_def)
    moreover have "\<exists>Y. computeY_loop n b c y ?y' = Inr Y \<and> 0 \<le> Y \<and> c < (Y + 1) * (Y + 1 + b)"
    proof (rule Suc.IH)
      show "0 \<le> ?y'" using c Suc.prems(1) den by (intro div_nonneg) auto
      show "0 < 2 * ?y' + b" if "1 < \<bar>?y' - y\<bar>"
        using that c Suc.prems(1) den by (intro newton_Y_den) auto
      show "c < (?y' + 1) * (?y' + 1 + b) \<or> (0 < n \<and> 1 < \<bar>?y' - y\<bar>)"
        using newton_Y_above [OF den, of c] by blast
    qed
    ultimately show ?thesis by simp
  qed
qed

text \<open>From the rounded quadratic to the exact curve.\<close>

lemma rounded_quadratic_above_curve:
  fixes amp x d Y :: int
  assumes amp: "1 \<le> amp" and x: "1 \<le> x" and Y: "1 \<le> Y"
    and q: "d * d * d div (4 * (x * (2 * amp))) < Y * (Y + (x + d div (2 * amp) - d))"
  shows "above_curve amp d x Y"
proof -
  let ?k = "4 * (x * (2 * amp))" and ?b = "x + d div (2 * amp) - d"
  have k: "0 < ?k" using amp x by simp
  have "d * d * d < (d * d * d div ?k + 1) * ?k" using k by (rule div_Suc_mult_gt)
  also have "\<dots> \<le> Y * (Y + ?b) * ?k" using q k by (intro mult_right_mono) auto
  also have "\<dots> = 4 * x * Y * (2 * amp * Y + 2 * amp * x + d div (2 * amp) * (2 * amp) - 2 * amp * d)"
    by (simp add: algebra_simps)
  also have "\<dots> \<le> 4 * x * Y * (2 * amp * Y + 2 * amp * x + d - 2 * amp * d)"
    using amp x Y div_mult_le_pos [of "2 * amp" d] by (intro mult_left_mono) auto
  finally show ?thesis
    by (simp add: above_curve_def power3_eq_cube algebra_simps)
qed

lemma computeY_spec:
  assumes amp: "1 \<le> amp" and x: "1 \<le> x" and d: "0 \<le> d"
  obtains y where "computeY amp x d = Inr y" "0 \<le> y" "2 \<le> d \<Longrightarrow> above_curve amp d x (y + 1)"
proof -
  let ?b = "x + d div (2 * amp) - d" and ?c = "d * d * d div (4 * (x * (2 * amp)))"
  have c: "0 \<le> ?c" using amp x d by (intro div_nonneg) auto
  have den: "0 < 2 * d + ?b" using amp x d div_nonneg [of d "2 * amp"] by linarith
  have eq: "computeY amp x d = computeY_loop MAX_ITERS ?b ?c 0 d"
    using amp x d by (simp add: computeY_def N_COINS_def Let_def mult.commute mult.left_commute)
  show thesis
  proof (cases "2 \<le> d")
    case True
    then obtain y where "computeY_loop MAX_ITERS ?b ?c 0 d = Inr y" "0 \<le> y"
        and q: "?c < (y + 1) * (y + 1 + ?b)"
      using computeY_loop_total [OF c d, of 0 ?b MAX_ITERS] den by (auto simp: MAX_ITERS_def)
    moreover have "above_curve amp d x (y + 1)"
      using amp x \<open>0 \<le> y\<close> q by (intro rounded_quadratic_above_curve) auto
    ultimately show thesis using eq that by simp
  next
    case False
    then have "\<not> 1 < \<bar>d - 0\<bar>" using d by simp
    then have "computeY_loop MAX_ITERS ?b ?c 0 d = Inr d"
      by (simp add: MAX_ITERS_def eval_nat_numeral)
    with False eq d that show thesis by simp
  qed
qed

subsection \<open>Consequences\<close>

lemma above_curve_mono:
  assumes "0 \<le> amp" "0 \<le> D" "0 \<le> x" "0 \<le> y" "y \<le> y'" "above_curve amp D x y"
  shows "above_curve amp D x y'"
proof -
  let ?f = "\<lambda>z. 2 * amp * (x + z) + D - 2 * amp * D"
  have iff: "above_curve amp D x z \<longleftrightarrow> D ^ 3 < 4 * x * z * ?f z" for z
    by (auto simp: above_curve_def algebra_simps)
  have "0 \<le> D ^ 3" using assms(2) by simp
  then have pos: "0 < 4 * x * y * ?f y" using assms(6) iff [of y] by linarith
  moreover have "0 \<le> 4 * x * y" using assms by simp
  ultimately have f: "0 < ?f y" by (simp add: zero_less_mult_iff)
  have le: "?f y \<le> ?f y'" using assms(1,5) by (simp add: distrib_left mult_left_mono)
  have "4 * x * y * ?f y \<le> 4 * x * y' * ?f y'"
    using assms f le by (intro mult_mono) (auto intro: mult_left_mono)
  with assms(6) iff show ?thesis by fastforce
qed

lemma above_curve_sym: "above_curve amp D x y \<longleftrightarrow> above_curve amp D y x"
  by (simp add: above_curve_def algebra_simps)

lemma above_curve_mono2:
  assumes "0 \<le> amp" "0 \<le> D" "0 \<le> x" "0 \<le> y" "x \<le> x'" "y \<le> y'" "above_curve amp D x y"
  shows "above_curve amp D x' y'"
  using assms above_curve_mono [of amp D x y y'] above_curve_mono [of amp D y' x x']
  by (simp add: above_curve_sym)

lemma below_curve_sqrt:
  assumes "1 \<le> amp" "1 \<le> a" "1 \<le> b" "0 \<le> M" "below_curve amp M a b"
  shows "4 * a * b < M * M"
proof (rule ccontr)
  assume "\<not> ?thesis"
  then have le: "M * M \<le> 4 * a * b" by simp
  have k: "0 < 4 * a * b" using assms by simp
  have "M ^ 3 \<le> 4 * a * b * M"
    using mult_right_mono [OF le assms(4)] by (simp add: power3_eq_cube)
  with assms(5) have "4 * a * b * (2 * amp * (a + b) + M) < 4 * a * b * (2 * amp * M + M)"
    by (simp add: below_curve_def algebra_simps)
  then have "2 * amp * (a + b) + M < 2 * amp * M + M"
    using k by (simp only: mult_less_cancel_left_pos)
  then have "2 * amp * (a + b) < 2 * amp * M" by simp
  then have "a + b < M" using assms(1) by simp
  then have "(a + b) * (a + b) < M * M" using assms by (intro mult_strict_mono) auto
  moreover have "0 \<le> (a - b) * (a - b)" by simp
  then have "4 * a * b \<le> (a + b) * (a + b)" by (simp add: algebra_simps)
  ultimately show False using le by linarith
qed

lemma computeD_ge_2:
  assumes "1 \<le> amp" "1 \<le> a" "1 \<le> b" "computeD amp a b = Inr D"
  shows "2 \<le> D" and "4 * a * b < (D + 1) * (D + 1)"
proof -
  have D: "1 \<le> D" "below_curve amp (D + 1) a b"
    using computeD_spec [OF assms(1-3)] assms(4) by auto
  then show lt: "4 * a * b < (D + 1) * (D + 1)"
    using assms below_curve_sqrt [of amp a b "D + 1"] by simp
  have "4 \<le> 4 * a * b" using assms(2,3) mult_mono [of 1 a 1 b] by simp
  with lt D(1) show "2 \<le> D" using mult_mono [of "D + 1" 2 "D + 1" 2] by linarith
qed

text \<open>One swap on the curve, as both directions of the stable pool use it.\<close>

lemma swap_above_curve:
  assumes "1 \<le> amp" "1 \<le> X" "1 \<le> Y" "0 \<le> i"
    and D: "computeD amp X Y = Inr D" and y: "computeY amp (X + i) D = Inr y"
  shows "0 \<le> y" and "above_curve amp D (X + i) (y + 1)"
proof -
  have D2: "2 \<le> D" using computeD_ge_2(1) [OF assms(1-3) D] .
  then obtain y' where "computeY amp (X + i) D = Inr y'" "0 \<le> y'" "above_curve amp D (X + i) (y' + 1)"
    using computeY_spec [of amp "X + i" D] assms by force
  with y show "0 \<le> y" "above_curve amp D (X + i) (y + 1)" by auto
qed

lemma computeY_zero: "computeY amp 0 d \<noteq> Inr y"
  by (auto simp: computeY_def Let_def)

section \<open>The invariant and the sum of the balances\<close>

text \<open>
  The iteration for D starts at the sum of the balances and never climbs more than one above it.
  While d is at least the invariant of the constant product curve its cube term is at least d and
  the step goes down; below that the balances are close to each other, the previous value is one
  or two short of their sum, and the step overshoots the sum by at most one.
\<close>

lemma D_step_dP_large:
  assumes "1 \<le> a" "1 \<le> b" "1 \<le> d" "4 * a * b \<le> d * d"
  shows "(d::int) \<le> (d * d div (a * 2)) * d div (b * 2)"
proof -
  have "(2 * b) * (a * 2) \<le> d * d" using assms(4) by (simp add: mult.commute mult.left_commute)
  then have "2 * b \<le> d * d div (a * 2)" using assms(1) by (subst le_div_iff_pos) auto
  then have "d * (b * 2) \<le> (d * d div (a * 2)) * d" using assms(3) mult_right_mono [of "2 * b" "d * d div (a * 2)" d] by (simp add: mult.commute mult.left_commute)
  then show ?thesis using assms(2) by (subst le_div_iff_pos) auto
qed

lemma D_step_le_good:
  assumes "1 \<le> d" "d \<le> S + 1" "2 \<le> Ann" "d \<le> (p::int)"
  shows "d * (Ann * S + p * 2) < (S + 2) * (d * (Ann - 1) + p * 3)"
proof -
  have "d * p \<le> (S + 1) * p" "S * d \<le> S * p" using assms by (auto intro: mult_right_mono mult_left_mono)
  moreover have "0 < d * (Ann - 1)" using assms by simp
  moreover have "0 < p" using assms by simp
  ultimately show ?thesis by (simp add: algebra_simps)
qed

text \<open>Below 4 a b the two balances are close, and the previous value is one or two short of their sum.\<close>

lemma D_near_balanced:
  assumes k: "1 \<le> a" "1 \<le> b" "1 \<le> d" "2 \<le> Ann" "d * d < 4 * a * b"
    and above: "D_above (4 * a * b) Ann (a + b) d"
  shows "a + b = d + 1 \<or> a + b = d + (2::int)"
proof -
  let ?K = "4 * a * b" and ?m = "d + 1"
  have sq: "?K \<le> (a + b) * (a + b)" using zero_le_square [of "a - b"] by (simp add: algebra_simps)
  have "d < a + b"
  proof (rule ccontr)
    assume "\<not> ?thesis"
    then have "(a + b) * (a + b) \<le> d * d" using k by (intro mult_mono) auto
    with sq k(5) show False by linarith
  qed
  moreover have "a + b \<le> d + 2"
  proof (rule ccontr)
    assume "\<not> ?thesis"
    then have "2 * 2 \<le> Ann * (a + b - ?m)" using k by (intro mult_mono) auto
    then have "?K * 4 \<le> ?K * (Ann * (a + b - ?m))" using k by (intro mult_left_mono) auto
    also have "\<dots> < ?m ^ 3 - ?K * ?m" using above by (simp add: D_above_def algebra_simps)
    also have "\<dots> = ?m * (?m * ?m - ?K)" by (simp add: power3_eq_cube algebra_simps)
    also have "\<dots> \<le> ?m * (2 * d)" using k by (intro mult_left_mono) (auto simp: algebra_simps)
    finally have "?K * 4 < 2 * (d * d) + 2 * d" by (simp add: algebra_simps)
    moreover have "d \<le> d * d" using k(3) by (simp add: mult_le_cancel_right1)
    ultimately show False using k(5) by linarith
  qed
  ultimately show ?thesis by linarith
qed

lemma D_small:
  "list_all (\<lambda>a. list_all (\<lambda>b. list_all (\<lambda>d. d * d < 4 * a * b \<and> 4 * a * b < (d + 1) * (d + 1) \<and> a + b \<le> d + 2 \<longrightarrow>
     d * d < d + ((d * d div (a * 2)) * d div (b * 2)) * (d + 9) \<and>
     d * d < ((d * d div (a * 2)) * d div (b * 2)) * (d + 12)) [1..13]) [1..14]) [1..(14::int)]"
  by code_simp

lemma D_step_le_bad:
  assumes k: "1 \<le> a" "1 \<le> b" "1 \<le> d" "2 \<le> Ann" "d * d < 4 * a * b" "4 * a * b < (d + 1) * (d + 1)"
    and S: "a + b = d + 1 \<or> a + b = d + (2::int)"
  defines "p \<equiv> (d * d div (a * 2)) * d div (b * 2)"
  shows "d * d < d + p * (d + 9) \<and> d * d < p * (d + 12)"
proof (cases "d \<le> 13")
  case True
  have "a \<in> set [1..14]" "b \<in> set [1..14]" "d \<in> set [1..13]" using True k S by auto
  with D_small have "d * d < 4 * a * b \<and> 4 * a * b < (d + 1) * (d + 1) \<and> a + b \<le> d + 2 \<longrightarrow>
     d * d < d + ((d * d div (a * 2)) * d div (b * 2)) * (d + 9) \<and>
     d * d < ((d * d div (a * 2)) * d div (b * 2)) * (d + 12)"
    unfolding list_all_iff by blast
  with k S show ?thesis unfolding p_def by auto
next
  case False
  have b: "d < 8 * b"
  proof (rule ccontr)
    assume "\<not> ?thesis"
    then have "8 * b \<le> d" by simp
    then have "(8 * b) * a \<le> d * a" using k by (intro mult_right_mono) auto
    then have "2 * (d * d) < d * a" using k(5) by (simp add: algebra_simps)
    then have "2 * d < a" using k(3) by (metis mult.assoc mult.commute mult_less_cancel_left_pos zero_less_one_class.zero_less_one order_less_le_trans)
    with S k False show False by linarith
  qed
  let ?q = "d * d div (a * 2)"
  have q: "d * d < (?q + 1) * (a * 2)" using k by (intro div_Suc_mult_gt) auto
  have p: "?q * d < (p + 1) * (b * 2)" unfolding p_def using k by (intro div_Suc_mult_gt) auto
  have "d * d * d \<le> (?q + 1) * (a * 2) * d" using q k by (intro mult_right_mono) auto
  also have "\<dots> = (?q * d) * (a * 2) + d * (a * 2)" by (simp add: algebra_simps)
  also have "\<dots> \<le> ((p + 1) * (b * 2)) * (a * 2) + d * (a * 2)" using p k by (intro add_right_mono mult_right_mono) auto
  also have "\<dots> \<le> ((p + 1) * (b * 2)) * (a * 2) + (8 * b) * (a * 2)" using b k by (intro add_left_mono mult_right_mono) auto
  also have "\<dots> = (p + 5) * (4 * a * b)" by (simp add: algebra_simps)
  finally have le: "d * d * d \<le> (p + 5) * (4 * a * b)" .
  have p0: "0 \<le> p" unfolding p_def using k by simp
  have "(p + 5) * (4 * a * b) \<le> (p + 5) * (d * d + 2 * d)" using k p0 by (intro mult_left_mono) (auto simp: algebra_simps)
  with le have "d * (d * d) \<le> d * ((p + 5) * (d + 2))" by (simp add: algebra_simps)
  then have "d * d \<le> (p + 5) * (d + 2)" using k(3) by (simp only: mult_le_cancel_left_pos)
  then have l1: "d * d \<le> p * (d + 2) + 5 * d + 10" by (simp add: algebra_simps)
  have "d - 7 < p"
  proof (rule ccontr)
    assume "\<not> ?thesis"
    then have "p * (d + 2) \<le> (d - 7) * (d + 2)" using k by (intro mult_right_mono) auto
    with l1 show False by (simp add: algebra_simps)
  qed
  then have "(d - 6) * (d + 9) \<le> p * (d + 9)" using k by (intro mult_right_mono) auto
  moreover from \<open>d - 7 < p\<close> have "(d - 6) * (d + 12) \<le> p * (d + 12)" using k by (intro mult_right_mono) auto
  ultimately show ?thesis using False by (simp add: algebra_simps)
qed

lemma D_step_le:
  fixes a b d amp :: int
  defines "p \<equiv> (d * d div (a * 2)) * d div (b * 2)"
  assumes k: "1 \<le> a" "1 \<le> b" "1 \<le> d" "d \<le> a + b + 1" "1 \<le> amp"
    and above: "D_above (4 * a * b) (2 * amp) (a + b) d \<or> 4 * a * b \<le> d * d"
  shows "d * (2 * amp * (a + b) + p * 2) div (d * (2 * amp - 1) + p * 3) \<le> a + b + 1"
proof -
  have p: "0 \<le> p" unfolding p_def using k by simp
  have "d * (2 * amp * (a + b) + p * 2) < (a + b + 2) * (d * (2 * amp - 1) + p * 3)"
  proof (cases "4 * a * b \<le> d * d")
    case True
    with k have "d \<le> p" unfolding p_def by (intro D_step_dP_large)
    with k show ?thesis by (intro D_step_le_good) auto
  next
    case False
    then have S: "a + b = d + 1 \<or> a + b = d + 2" using k above by (intro D_near_balanced) auto
    have sq: "4 * a * b < (d + 1) * (d + 1)" using k above False below_curve_sqrt [of amp a b "d + 1"]
      by (auto simp: D_above_iff_below_curve)
    have "d * d < d + p * (d + 9) \<and> d * d < p * (d + 12)" unfolding p_def using k False sq S by (intro D_step_le_bad) auto
    moreover have "2 * d \<le> 2 * amp * d" using k by (intro mult_right_mono) auto
    ultimately show ?thesis using S p by (elim disjE) (simp_all add: algebra_simps)
  qed
  moreover have "0 < d * (2 * amp - 1) + p * 3" using k p by (intro add_pos_nonneg) auto
  ultimately show ?thesis using div_less_iff_pos [of "d * (2 * amp - 1) + p * 3"] by (smt (verit))
qed

lemma computeD_loop_le:
  assumes ab: "1 \<le> a" "1 \<le> b" "1 \<le> amp" "D_range (2 * amp) (a + b) d" "d \<le> a + b + 1"
    and "D_above (4 * a * b) (2 * amp) (a + b) d \<or> 4 * a * b \<le> d * d"
    and "computeD_loop n (2 * amp) (a + b) a b dPrev d = Inr D"
  shows "D \<le> a + b + 1"
  using assms(4-)
proof (induction n arbitrary: dPrev d)
  case (Suc n)
  show ?case
  proof (cases "1 < \<bar>d - dPrev\<bar>")
    case True
    let ?p = "(d * d div (a * 2)) * d div (b * 2)"
    let ?d' = "d * (2 * amp * (a + b) + ?p * 2) div (d * (2 * amp - 1) + ?p * 3)"
    have d1: "1 \<le> d" using Suc.prems(1) by (simp add: D_range_def)
    have p: "0 \<le> ?p" using ab d1 by simp
    have Q: "0 < d * (2 * amp - 1) + ?p * 3" using d1 p ab(3) by (intro add_pos_nonneg) auto
    have N: "0 \<le> d * (2 * amp * (a + b) + ?p * 2)" using d1 p ab by simp
    have eq: "computeD_loop (Suc n) (2 * amp) (a + b) a b dPrev d = computeD_loop n (2 * amp) (a + b) a b d ?d'"
      using True ab d1 p Q N by (simp add: N_COINS_def)
    have S2: "2 \<le> a + b" "2 \<le> 2 * amp" using ab by auto
    have st: "D_range (2 * amp) (a + b) ?d'" "D_above (4 * a * b) (2 * amp) (a + b) ?d'"
      using D_step [OF ab(1,2) S2(2,1) Suc.prems(1)] by auto
    have "?d' \<le> a + b + 1" using D_step_le [OF ab(1,2) d1 Suc.prems(2) ab(3) Suc.prems(3)] .
    with Suc.IH st eq Suc.prems(4) show ?thesis by auto
  qed (use Suc.prems in auto)
qed simp

lemma computeD_le:
  assumes "1 \<le> amp" "1 \<le> a" "1 \<le> b" "computeD amp a b = Inr D"
  shows "D \<le> a + b + 1"
proof (rule computeD_loop_le [OF assms(2,3,1)])
  show "computeD_loop MAX_ITERS (2 * amp) (a + b) a b 0 (a + b) = Inr D"
    using assms by (simp add: computeD_def N_COINS_def mult.commute Let_def)
  show "D_range (2 * amp) (a + b) (a + b)" using assms by (simp add: D_range_def mult_right_mono)
  show "D_above (4 * a * b) (2 * amp) (a + b) (a + b) \<or> 4 * a * b \<le> (a + b) * (a + b)"
    using zero_le_square [of "a - b"] by (simp add: algebra_simps)
qed (use assms in auto)

section \<open>Properties\<close>

text \<open>
  C1. For a positive amplification and positive balances the bounded Newton loop of
  \<^verbatim>\<open>computeD\<close> returns, and what it returns is never short of the exact invariant by a whole
  unit: the balances lie strictly below the curve of D + 1. It is at least the invariant of the
  constant product curve, rounded down, and at most one above the sum of the balances and Ann /
  (Ann - 1) times that sum.
\<close>

theorem computeD_correct:
  assumes "1 \<le> ampFactor" "1 \<le> amountA" "1 \<le> amountB"
  shows "\<exists>D. computeD ampFactor amountA amountB = Inr D \<and> 2 \<le> D \<and>
    below_curve ampFactor (D + 1) amountA amountB \<and> 4 * amountA * amountB < (D + 1) * (D + 1) \<and>
    (2 * ampFactor - 1) * D \<le> 2 * ampFactor * (amountA + amountB) \<and> D \<le> amountA + amountB + 1"
  using computeD_spec [OF assms] computeD_ge_2 [OF assms] computeD_le [OF assms] by metis

theorem computeD_correct_witness:
  "\<exists>D. computeD 100 1000000 2000000 = Inr D \<and> 2 \<le> D \<and>
    below_curve 100 (D + 1) 1000000 2000000 \<and> 4 * 1000000 * 2000000 < (D + 1) * (D + 1) \<and>
    (2 * 100 - 1) * D \<le> 2 * 100 * (1000000 + 2000000) \<and> D \<le> 1000000 + 2000000 + 1"
  using computeD_correct [of 100 1000000 2000000] by simp

text \<open>
  C2. The bounded Newton loop of \<^verbatim>\<open>computeY\<close> returns for a positive amplification, a positive
  balance x and an invariant d of at least 2, and the point (x, y + 1) is strictly above the
  curve of d. The extra unit is the one that the callers subtract from what they pay out.
\<close>

theorem computeY_correct:
  assumes "1 \<le> ampFactor" "1 \<le> x" "2 \<le> d"
  shows "\<exists>y. computeY ampFactor x d = Inr y \<and> 0 \<le> y \<and> above_curve ampFactor d x (y + 1)"
proof -
  have "0 \<le> d" using assms(3) by simp
  from computeY_spec [OF assms(1,2) this] assms(3) show ?thesis by metis
qed

theorem computeY_correct_witness:
  "\<exists>y. computeY 100 1500000 2998000 = Inr y \<and> 0 \<le> y \<and> above_curve 100 2998000 1500000 (y + 1)"
  using computeY_correct [of 100 1500000 2998000] by simp

end
