(* ===== verification/Types.thy ===== *)
theory Types
  imports Prelude "HOL-Library.Word" Complex_Main
begin

text \<open>
  The data of the client: public keys and byte buffers, the account states the AMM program
  and the vault program keep (types/index.ts, the accounts and types of idl.ts), the quote
  results, the constants of constants.ts, and the Borsh layouts the client decodes by hand.
\<close>

section \<open>Keys, bytes and decimals\<close>

text \<open>
  A \<^verbatim>\<open>PublicKey\<close> is given by its base-58 text, which identifies it; \<^verbatim>\<open>equals\<close> and maps keyed by
  \<^verbatim>\<open>toBase58()\<close> compare that text. A \<^verbatim>\<open>Buffer\<close> is a list of bytes. A value of decimal.js is a
  rational number, infinite, or not a number.
\<close>

datatype pubkey = PublicKey string

type_synonym bytes = "8 word list"

datatype decimal = Decimal rat | DecimalInfinity | DecimalNaN

section \<open>Program accounts and types\<close>

datatype tradeDirection = AToB | BToA

datatype activationType = Slot | Timestamp

datatype depegType = DepegNone | DepegMarinade | DepegLido | DepegSplStake

record depeg =
  baseVirtualPrice :: int
  baseCacheUpdated :: int
  depegType :: depegType

record tokenMultiplier =
  tokenAMultiplier :: int
  tokenBMultiplier :: int
  precisionFactor :: int

record poolFees =
  tradeFeeNumerator :: int
  tradeFeeDenominator :: int
  protocolTradeFeeNumerator :: int
  protocolTradeFeeDenominator :: int

record bootstrapping =
  activationPoint :: int
  whitelistedVault :: pubkey
  poolCreator :: pubkey
  activationType :: int

record partnerInfo =
  feeNumerator :: int
  partnerAuthority :: pubkey
  pendingFeeA :: int
  pendingFeeB :: int

record stableCurve =
  amp :: int
  curveTokenMultiplier :: tokenMultiplier
  curveDepeg :: depeg
  lastAmpUpdatedTimestamp :: int

datatype curveType = ConstantProductCurve | StableSwapCurve stableCurve

datatype poolType = Permissioned | Permissionless

record poolState =
  lpMint :: pubkey
  tokenAMint :: pubkey
  tokenBMint :: pubkey
  aVault :: pubkey
  bVault :: pubkey
  aVaultLp :: pubkey
  bVaultLp :: pubkey
  aVaultLpBump :: int
  enabled :: bool
  protocolTokenAFee :: pubkey
  protocolTokenBFee :: pubkey
  feeLastUpdatedAt :: int
  fees :: poolFees
  poolType :: poolType
  stake :: pubkey
  totalLockedLp :: int
  bootstrapping :: bootstrapping
  partnerInfo :: partnerInfo
  curveType :: curveType

record lockedProfitTracker =
  lastUpdatedLockedProfit :: int
  lastReport :: int
  lockedProfitDegradation :: int

record vaultState =
  v_totalAmount :: int
  v_tokenVault :: pubkey
  v_tokenMint :: pubkey
  v_lpMint :: pubkey
  v_lockedProfitTracker :: lockedProfitTracker

record lockEscrowAccount =
  le_pool :: pubkey
  le_owner :: pubkey
  le_escrowVault :: pubkey
  le_totalLockedAmount :: int
  le_lpPerToken :: int
  le_unclaimedFeePending :: int
  le_aFee :: int
  le_bFee :: int

record configAccount =
  c_poolFees :: poolFees
  c_activationDuration :: int
  c_vaultConfigKey :: pubkey
  c_poolCreatorAuthority :: pubkey
  c_activationType :: int
  c_partnerFeeNumerator :: int

section \<open>What the client returns\<close>

record outResult =
  outAmount :: int
  priceImpact :: decimal

record swapResult =
  sr_amountOut :: int
  sr_priceImpact :: decimal
  sr_fee :: int

record swapQuote =
  sq_swapInAmount :: int
  sq_swapOutAmount :: int
  sq_minSwapOutAmount :: int
  sq_fee :: int
  sq_priceImpact :: decimal

record depositQuote =
  dq_poolTokenAmountOut :: int
  dq_minPoolTokenAmountOut :: int
  dq_tokenAInAmount :: int
  dq_tokenBInAmount :: int

record withdrawQuote =
  wq_poolTokenAmountIn :: int
  wq_minTokenAOutAmount :: int
  wq_minTokenBOutAmount :: int
  wq_tokenAOutAmount :: int
  wq_tokenBOutAmount :: int

record poolInformation =
  tokenAAmount :: int
  tokenBAmount :: int
  virtualPrice :: decimal
  virtualPriceRaw :: int

record accountsInfo =
  vaultAReserve :: int
  vaultBReserve :: int
  vaultALpSupply :: int
  vaultBLpSupply :: int
  poolVaultALp :: int
  poolVaultBLp :: int
  poolLpSupply :: int
  currentTime :: int
  currentSlot :: int

text \<open>The entry of an account list: \<^verbatim>\<open>{ pubkey, isWritable, isSigner }\<close>.\<close>

record accountMeta =
  am_pubkey :: pubkey
  am_isWritable :: bool
  am_isSigner :: bool

section \<open>Constants\<close>

definition ERROR_POOL_NOT_LOAD :: string where "ERROR_POOL_NOT_LOAD = ''Pool not loaded''"
definition ERROR_INVALID_MINT :: string where "ERROR_INVALID_MINT = ''Invalid mint''"
definition ERROR_INVALID_ACCOUNT :: string where "ERROR_INVALID_ACCOUNT = ''Account not found''"

definition PROGRAM_ID :: string where
  "PROGRAM_ID = ''Eo7WjKq67rjJQSZxS6z3YkapzY3eMj6Xy8X5EQVn5UaB''"

definition CURVE_TYPE_ACCOUNTS_marinade :: pubkey where
  "CURVE_TYPE_ACCOUNTS_marinade = PublicKey ''8szGkuLTAux9XMgZ2vtY39jVSowEcpBfFfD8hXSEqdGC''"

definition CURVE_TYPE_ACCOUNTS_lido :: pubkey where
  "CURVE_TYPE_ACCOUNTS_lido = PublicKey ''49Yi1TKkNyYjPAFdR9LBvoHcUjuPX4Df5T5yv39w2XTn''"

definition FEE_OWNER :: pubkey where
  "FEE_OWNER = PublicKey ''6WaLrrRfReGKBYUSkmx2K6AuT21ida4j8at2SUiZdXu8''"

definition METAPLEX_PROGRAM :: pubkey where
  "METAPLEX_PROGRAM = PublicKey ''metaqbxxUerdq28cj1RbAWkYQm3ybzjb6a8bt518x1s''"

definition SEEDS_FEE :: string where "SEEDS_FEE = ''fee''"
definition SEEDS_LP_MINT :: string where "SEEDS_LP_MINT = ''lp_mint''"
definition SEEDS_LOCK_ESCROW :: string where "SEEDS_LOCK_ESCROW = ''lock_escrow''"

definition VIRTUAL_PRICE_PRECISION :: int where "VIRTUAL_PRICE_PRECISION = 100000000"
definition PERMISSIONLESS_AMP :: int where "PERMISSIONLESS_AMP = 100"
definition CONSTANT_PRODUCT_DEFAULT_TRADE_FEE_BPS :: int where
  "CONSTANT_PRODUCT_DEFAULT_TRADE_FEE_BPS = 25"
definition STABLE_SWAP_DEFAULT_TRADE_FEE_BPS :: int where
  "STABLE_SWAP_DEFAULT_TRADE_FEE_BPS = 1"
definition CONSTANT_PRODUCT_ALLOWED_TRADE_FEE_BPS :: "int list" where
  "CONSTANT_PRODUCT_ALLOWED_TRADE_FEE_BPS = [25, 100, 400, 600]"
definition STABLE_SWAP_ALLOWED_TRADE_FEE_BPS :: "int list" where
  "STABLE_SWAP_ALLOWED_TRADE_FEE_BPS = [1, 4, 10, 100]"
definition U64_MAX :: int where "U64_MAX = 18446744073709551615"

text \<open>\<^verbatim>\<open>PublicKey.default\<close>, \<^verbatim>\<open>NATIVE_MINT\<close> and the program ids the packages export.\<close>

definition PublicKey_default :: pubkey where
  "PublicKey_default = PublicKey ''11111111111111111111111111111111''"

definition NATIVE_MINT :: pubkey where
  "NATIVE_MINT = PublicKey ''So11111111111111111111111111111111111111112''"

section \<open>Byte layouts\<close>

definition le_nat :: "bytes \<Rightarrow> nat" where
  "le_nat bs = foldr (\<lambda>b n. unat b + 256 * n) bs 0"

definition readBigUInt64LE :: "bytes \<Rightarrow> nat \<Rightarrow> int res" where
  "readBigUInt64LE data offset =
     (if offset + 8 \<le> length data then Inr (int (le_nat (take 8 (drop offset data))))
      else Inl RangeError)"

definition readBigInt64LE :: "bytes \<Rightarrow> nat \<Rightarrow> int res" where
  "readBigInt64LE data offset =
     rbind (readBigUInt64LE data offset) (\<lambda>n. Inr (if n < 2 ^ 63 then n else n - 2 ^ 64))"

datatype layoutType = LU8 | LU64 | LI64 | LPublicKey

fun span :: "layoutType \<Rightarrow> nat" where
  "span LU8 = 1"
| "span LU64 = 8"
| "span LI64 = 8"
| "span LPublicKey = 32"

type_synonym layout = "(string \<times> layoutType) list"

definition layout_span :: "layout \<Rightarrow> nat" where
  "layout_span l = sum_list (map (span \<circ> snd) l)"

fun layout_offset :: "layout \<Rightarrow> string \<Rightarrow> nat option" where
  "layout_offset [] f = None"
| "layout_offset ((g, t) # l) f =
     (if f = g then Some 0 else map_option (\<lambda>n. span t + n) (layout_offset l f))"

text \<open>A struct is decoded as a whole: a buffer shorter than its span is refused.\<close>

definition layout_decode_u64 :: "layout \<Rightarrow> bytes \<Rightarrow> string \<Rightarrow> int res" where
  "layout_decode_u64 l data f =
     rbind (guard (layout_span l \<le> length data) RangeError) (\<lambda>_.
     rbind (of_option TypeError (layout_offset l f)) (\<lambda>offset.
     readBigUInt64LE data offset))"

definition layout_decode_i64 :: "layout \<Rightarrow> bytes \<Rightarrow> string \<Rightarrow> int res" where
  "layout_decode_i64 l data f =
     rbind (guard (layout_span l \<le> length data) RangeError) (\<lambda>_.
     rbind (of_option TypeError (layout_offset l f)) (\<lambda>offset.
     readBigInt64LE data offset))"

definition StakePoolLayout :: layout where
  "StakePoolLayout =
     [(''accountType'', LU8),
      (''manager'', LPublicKey),
      (''staker'', LPublicKey),
      (''stakeDepositAuthority'', LPublicKey),
      (''stakeWithdrawBumpSeed'', LU8),
      (''validatorList'', LPublicKey),
      (''reserveStake'', LPublicKey),
      (''poolMint'', LPublicKey),
      (''managerFeeAccount'', LPublicKey),
      (''tokenProgramId'', LPublicKey),
      (''totalLamports'', LU64),
      (''poolTokenSupply'', LU64),
      (''lastUpdateEpoch'', LU64)]"

definition ClockLayout :: layout where
  "ClockLayout =
     [(''slot'', LU64),
      (''epochStartTimestamp'', LI64),
      (''epoch'', LU64),
      (''leaderScheduleEpoch'', LU64),
      (''unixTimestamp'', LI64)]"

subsection \<open>Facts on layouts\<close>

lemma le_nat_Nil [simp]: "le_nat [] = 0"
  by (simp add: le_nat_def)

lemma le_nat_Cons [simp]: "le_nat (b # bs) = unat b + 256 * le_nat bs"
  by (simp add: le_nat_def)

lemma le_nat_bound: "le_nat bs < 256 ^ length bs"
proof (induction bs)
  case (Cons b bs)
  have "unat b < 256" using unsigned_less [of b] by (simp add: nat_less_iff)
  with Cons show ?case by simp
qed simp

lemma readBigUInt64LE_bounds:
  assumes "readBigUInt64LE data off = Inr n"
  shows "0 \<le> n" and "n < 2 ^ 64"
proof -
  let ?bs = "take 8 (drop off data)"
  have len: "length ?bs = 8" and n: "n = int (le_nat ?bs)"
    using assms by (auto simp: readBigUInt64LE_def split: if_splits)
  have "le_nat ?bs < 2 ^ 64" using le_nat_bound [of ?bs] len by simp
  with n show "0 \<le> n" "n < 2 ^ 64" by auto
qed

lemma StakePoolLayout_offsets [simp]:
  "layout_offset StakePoolLayout ''totalLamports'' = Some 258"
  "layout_offset StakePoolLayout ''poolTokenSupply'' = Some 266"
  "layout_span StakePoolLayout = 282"
  by (simp_all add: StakePoolLayout_def layout_span_def)

lemma ClockLayout_offsets [simp]:
  "layout_offset ClockLayout ''slot'' = Some 0"
  "layout_offset ClockLayout ''unixTimestamp'' = Some 32"
  "layout_span ClockLayout = 40"
  by (simp_all add: ClockLayout_def layout_span_def)

end
