(* ===== verification/MathLib.thy ===== *)
theory MathLib
  imports Types
begin

text \<open>
  The interface of the arithmetic packages the curves call but the repository does not hold:
  decimal.js, bn-sqrt, the \<^verbatim>\<open>Fraction\<close> of @mercurial-finance/token-math and the Borsh coder of
  the Marinade IDL. A value of \<open>mathLib\<close> is a parameter of every definition that uses one of
  them; the locale \<open>math_lib\<close> states the documented behaviour the proofs rely on, and
  \<open>referenceLib\<close> is an executable instance that meets it.
\<close>

section \<open>The parameter\<close>

record mathLib =
  decDiv :: "int \<Rightarrow> int \<Rightarrow> decimal" \<comment> \<open>\<^verbatim>\<open>new Decimal(a).div(new Decimal(b))\<close>\<close>
  decDivToNumber :: "int \<Rightarrow> int \<Rightarrow> decimal" \<comment> \<open>the same, followed by \<^verbatim>\<open>toNumber()\<close>\<close>
  decMulDown :: "int \<Rightarrow> rat \<Rightarrow> int" \<comment> \<open>\<^verbatim>\<open>new Decimal(a).mul(r).toFixed(0, ROUND_DOWN)\<close>\<close>
  bnSqrt :: "int \<Rightarrow> int res" \<comment> \<open>\<^verbatim>\<open>sqrt(n)\<close> of bn-sqrt\<close>
  toFixed0 :: "rat \<Rightarrow> int" \<comment> \<open>\<^verbatim>\<open>BigInt(q.toFixed(0))\<close> of a \<^verbatim>\<open>Fraction\<close>\<close>
  decodeMsolPrice :: "bytes \<Rightarrow> int res" \<comment> \<open>\<^verbatim>\<open>coder.accounts.decode('State', data).msolPrice\<close>\<close>

section \<open>The contract\<close>

text \<open>
  A quotient of decimal.js keeps the unit interval, a product with a ratio of the unit
  interval rounded down stays between zero and the amount, bn-sqrt is the integer square
  root, \<^verbatim>\<open>toFixed(0)\<close> rounds to a nearest integer, and an mSOL price is a u64.
\<close>

locale math_lib =
  fixes L :: mathLib
  assumes decDiv_unit:
      "0 < b \<Longrightarrow> 0 \<le> a \<Longrightarrow> a \<le> b \<Longrightarrow> \<exists>q. decDiv L a b = Decimal q \<and> 0 \<le> q \<and> q \<le> 1"
    and decMulDown_range: "0 \<le> n \<Longrightarrow> 0 \<le> r \<Longrightarrow> r \<le> 1 \<Longrightarrow> 0 \<le> decMulDown L n r \<and> decMulDown L n r \<le> n"
    and bnSqrt_floor: "0 \<le> n \<Longrightarrow> \<exists>s. bnSqrt L n = Inr s \<and> 0 \<le> s \<and> s * s \<le> n \<and> n < (s + 1) * (s + 1)"
    and toFixed0_nearest: "\<bar>of_int (toFixed0 L q) - q\<bar> \<le> 1 / 2"
    and decodeMsolPrice_u64: "decodeMsolPrice L bs = Inr p \<Longrightarrow> 0 \<le> p \<and> p < 2 ^ 64"
begin

lemma bnSqrt_unique:
  assumes "0 \<le> n" "bnSqrt L n = Inr s" "0 \<le> t" "t * t \<le> n" "n < (t + 1) * (t + 1)"
  shows "s = t"
proof -
  have "0 \<le> s" "s * s \<le> n" "n < (s + 1) * (s + 1)"
    using bnSqrt_floor [OF assms(1)] assms(2) by auto
  with assms show ?thesis
    using square_bracket_le [of t s n] square_bracket_le [of s t n] by simp
qed

lemma bnSqrt_mono:
  assumes "0 \<le> m" "m \<le> n" "bnSqrt L m = Inr s" "bnSqrt L n = Inr t"
  shows "s \<le> t"
proof (rule square_bracket_le)
  show "s * s \<le> n" using bnSqrt_floor [OF assms(1)] assms(2,3) by auto
  show "0 \<le> t" "n < (t + 1) * (t + 1)" using bnSqrt_floor [of n] assms by auto
qed

lemma toFixed0_int [simp]: "toFixed0 L (of_int n) = n"
proof -
  have "\<bar>of_int (toFixed0 L (of_int n) - n)\<bar> \<le> (1 / 2 :: rat)"
    using toFixed0_nearest [of "of_int n"] by simp
  then have "\<bar>toFixed0 L (of_int n) - n\<bar> < 1" by linarith
  then show ?thesis by simp
qed

lemma toFixed0_nonneg: "0 \<le> q \<Longrightarrow> 0 \<le> toFixed0 L q"
  using toFixed0_nearest [of q] by linarith

lemma toFixed0_le: "q \<le> of_int n \<Longrightarrow> toFixed0 L q \<le> n"
  using toFixed0_nearest [of q] by linarith

end

section \<open>An executable instance\<close>

text \<open>
  The integer square root by Newton's iteration from above, quotients rounded to the 20
  significant digits decimal.js computes with, and a Marinade state whose price follows the
  account discriminator.
\<close>

function isqrt_iter :: "int \<Rightarrow> int \<Rightarrow> int" where
  "isqrt_iter n x =
     (if 0 < x \<and> n < x * x then isqrt_iter n ((x + n div x) div 2) else x)"
  by pat_completeness auto
termination
proof (relation "measure (\<lambda>(n, x). nat x)", simp_all)
  fix n x :: int
  assume "0 < x \<and> n < x * x"
  then show "(x + n div x) div 2 < x" using div_less_self_square [of x n] by linarith
qed

declare isqrt_iter.simps [simp del]

lemma isqrt_step:
  fixes n x :: int
  assumes "0 < x" "0 \<le> n"
  defines "y \<equiv> (x + n div x) div 2"
  shows "0 \<le> y" and "n < (y + 1) * (y + 1)"
proof -
  let ?q = "n div x"
  have q: "0 \<le> ?q" using assms by simp
  then show y: "0 \<le> y" using assms by (simp add: y_def)
  have "0 \<le> (x - (?q + 1)) * (x - (?q + 1))" by simp
  also have "\<dots> = (x + ?q + 1) * (x + ?q + 1) - 4 * ((?q + 1) * x)" by (simp add: algebra_simps)
  finally have "4 * n < (x + ?q + 1) * (x + ?q + 1)"
    using div_Suc_mult_gt [of x n] assms(1) by linarith
  also have "\<dots> \<le> (2 * (y + 1)) * (2 * (y + 1))"
    using q assms(1) by (intro mult_mono) (auto simp: y_def)
  also have "\<dots> = 4 * ((y + 1) * (y + 1))" by (simp add: algebra_simps)
  finally show "n < (y + 1) * (y + 1)" by simp
qed

lemma isqrt_iter_spec:
  assumes "0 \<le> n" "0 \<le> x" "n < (x + 1) * (x + 1)"
  shows "0 \<le> isqrt_iter n x \<and> isqrt_iter n x * isqrt_iter n x \<le> n \<and>
    n < (isqrt_iter n x + 1) * (isqrt_iter n x + 1)"
  using assms
proof (induction n x rule: isqrt_iter.induct)
  case (1 n x)
  show ?case
  proof (cases "0 < x \<and> n < x * x")
    case True
    with "1.IH" "1.prems"(1) isqrt_step [of x n] show ?thesis
      by (simp add: isqrt_iter.simps [of n x])
  next
    case False
    with "1.prems" show ?thesis by (auto simp: isqrt_iter.simps [of n x])
  qed
qed

function dec_scale :: "int \<Rightarrow> int \<Rightarrow> nat \<Rightarrow> nat" where
  "dec_scale a b k =
     (if 0 < a \<and> 0 < b \<and> a * 10 ^ k < 10 ^ 19 * b then dec_scale a b (Suc k) else k)"
  by pat_completeness auto
termination
  by (relation "measure (\<lambda>(a, b, k). nat (10 ^ 19 * b - a * 10 ^ k))") auto

declare dec_scale.simps [simp del]

definition dec_div :: "int \<Rightarrow> int \<Rightarrow> decimal" where
  "dec_div a b =
     (if b = 0 then (if a = 0 then DecimalNaN else DecimalInfinity)
      else let k = dec_scale \<bar>a\<bar> \<bar>b\<bar> 0;
               n = (2 * \<bar>a\<bar> * 10 ^ k + \<bar>b\<bar>) div (2 * \<bar>b\<bar>)
           in Decimal (of_int (sgn a * sgn b * n) / 10 ^ k))"

definition referenceLib :: mathLib where
  "referenceLib =
     \<lparr>decDiv = dec_div,
      decDivToNumber = dec_div,
      decMulDown = (\<lambda>n r. \<lfloor>of_int n * r\<rfloor>),
      bnSqrt = (\<lambda>n. if n < 0 then Inl BnAssert else Inr (isqrt_iter n n)),
      toFixed0 = (\<lambda>q. \<lfloor>q + 1 / 2\<rfloor>),
      decodeMsolPrice = (\<lambda>bs. readBigUInt64LE bs 8)\<rparr>"

lemma dec_div_unit:
  assumes "0 < b" "0 \<le> a" "a \<le> b"
  shows "\<exists>q. dec_div a b = Decimal q \<and> 0 \<le> q \<and> q \<le> 1"
proof -
  define k where "k = dec_scale \<bar>a\<bar> \<bar>b\<bar> 0"
  define n where "n = (2 * \<bar>a\<bar> * 10 ^ k + \<bar>b\<bar>) div (2 * \<bar>b\<bar>)"
  have n0: "0 \<le> n" unfolding n_def using assms by (intro div_nonneg) auto
  have "2 * (a * 10 ^ k) \<le> 2 * (b * 10 ^ k)" using assms by (simp add: mult_right_mono)
  moreover have "(10 ^ k + 1) * (2 * b) = 2 * (b * 10 ^ k) + 2 * b" by (simp add: algebra_simps)
  ultimately have "2 * a * 10 ^ k + b < (10 ^ k + 1) * (2 * b)"
    using assms(1) by (simp only: mult.assoc)
  then have "n < 10 ^ k + 1"
    using assms div_less_iff_pos [of "2 * b" "2 * a * 10 ^ k + b" "10 ^ k + 1"] by (simp add: n_def)
  then have n1: "of_int n \<le> (10 ^ k :: rat)"
    by (metis add.commute of_int_le_iff of_int_numeral of_int_power zless_add1_eq order_le_less)
  have "dec_div a b = Decimal (of_int (sgn a * sgn b * n) / 10 ^ k)"
    using assms by (simp add: dec_div_def Let_def k_def n_def)
  moreover have "0 \<le> of_int (sgn a * sgn b * n) / (10 ^ k :: rat)"
    using assms n0 by (intro divide_nonneg_pos) (auto simp: sgn_if)
  moreover have "of_int (sgn a * sgn b * n) / (10 ^ k :: rat) \<le> 1"
    using assms n1 by (simp add: sgn_if)
  ultimately show ?thesis by blast
qed

interpretation reference: math_lib referenceLib
proof
  fix a b :: int
  assume "0 < b" "0 \<le> a" "a \<le> b"
  then show "\<exists>q. decDiv referenceLib a b = Decimal q \<and> 0 \<le> q \<and> q \<le> 1"
    using dec_div_unit by (simp add: referenceLib_def)
next
  fix n :: int and r :: rat
  assume "0 \<le> n" "0 \<le> r" "r \<le> 1"
  then have "0 \<le> of_int n * r" "of_int n * r \<le> of_int n"
    by (auto simp: mult_left_le)
  then show "0 \<le> decMulDown referenceLib n r \<and> decMulDown referenceLib n r \<le> n"
    by (simp add: referenceLib_def le_floor_iff floor_le_iff)
next
  fix n :: int
  assume "0 \<le> n"
  then show "\<exists>s. bnSqrt referenceLib n = Inr s \<and> 0 \<le> s \<and> s * s \<le> n \<and> n < (s + 1) * (s + 1)"
    using isqrt_iter_spec [of n n] mult_nonneg_nonneg [of n n] by (simp add: referenceLib_def distrib_left)
next
  fix q :: rat
  have "\<bar>of_int \<lfloor>q + 1 / 2\<rfloor> - q\<bar> \<le> 1 / 2" by linarith
  then show "\<bar>of_int (toFixed0 referenceLib q) - q\<bar> \<le> 1 / 2"
    by (simp add: referenceLib_def)
next
  fix bs p
  assume "decodeMsolPrice referenceLib bs = Inr p"
  then show "0 \<le> p \<and> p < 2 ^ 64"
    using readBigUInt64LE_bounds by (auto simp: referenceLib_def)
qed

end
