(* ===== verification/ConstantProduct.thy ===== *)
theory ConstantProduct
  imports MathLib
begin

text \<open>
  The constant-product curve (curve/constant-product.ts) and the price impact of
  curve/index.ts. All amounts are \<^verbatim>\<open>BN\<close>. The methods of \<^verbatim>\<open>ConstantProductSwap\<close> carry the prefix
  \<open>CP\<close>; the class keeps no state.
\<close>

section \<open>Definitions\<close>

definition getPriceImpact :: "mathLib \<Rightarrow> int \<Rightarrow> int \<Rightarrow> decimal" where
  "getPriceImpact L amount amountWithoutSlippage =
     (let diff = amountWithoutSlippage - amount in decDiv L diff amountWithoutSlippage)"

definition ceilDiv :: "int \<Rightarrow> int \<Rightarrow> (int \<times> int) res" where
  "ceilDiv lhs rhs =
     rbind (bn_div lhs rhs) (\<lambda>quotient.
     if quotient = 0 then Inl (Error ''ceilDiv result in zero'')
     else rbind (bn_mod lhs rhs) (\<lambda>remainder.
       if remainder > 0 then
         let quotient' = quotient + 1 in
         rbind (bn_div lhs quotient') (\<lambda>rhs'.
         rbind (bn_mod lhs quotient') (\<lambda>remainder'.
         Inr (quotient', if remainder' > 0 then rhs' + 1 else rhs')))
       else Inr (quotient, rhs)))"

definition CP_computeOutAmountWithoutSlippage :: "int \<Rightarrow> int \<Rightarrow> int \<Rightarrow> int res" where
  "CP_computeOutAmountWithoutSlippage sourceAmount swapSourceAmount swapDestinationAmount =
     bn_div (sourceAmount * swapDestinationAmount) swapSourceAmount"

definition CP_computeOutAmount :: "mathLib \<Rightarrow> int \<Rightarrow> int \<Rightarrow> int \<Rightarrow> outResult res" where
  "CP_computeOutAmount L sourceAmount swapSourceAmount swapDestinationAmount =
     (let invariant = swapSourceAmount * swapDestinationAmount in
      rbind (ceilDiv invariant (swapSourceAmount + sourceAmount)) (\<lambda>(newSwapDestinationAmount, _).
      let destinationAmountSwapped = swapDestinationAmount - newSwapDestinationAmount in
      if destinationAmountSwapped = 0 then Inl (Error ''Swap result in zero'')
      else rbind (CP_computeOutAmountWithoutSlippage sourceAmount swapSourceAmount swapDestinationAmount)
        (\<lambda>destinationAmountWithoutSlippage.
        Inr \<lparr>outAmount = destinationAmountSwapped,
             priceImpact = getPriceImpact L destinationAmountSwapped destinationAmountWithoutSlippage\<rparr>)))"

definition CP_computeD :: "mathLib \<Rightarrow> int \<Rightarrow> int \<Rightarrow> int res" where
  "CP_computeD L tokenA tokenB = bnSqrt L (tokenA * tokenB)"

definition CP_computeInAmount :: "int \<Rightarrow> int \<Rightarrow> int \<Rightarrow> int res" where
  "CP_computeInAmount destAmount swapSourceAmount swapDestinationAmount =
     (let invariant = swapSourceAmount * swapDestinationAmount in
      rbind (ceilDiv invariant (swapDestinationAmount - destAmount)) (\<lambda>(newSwapSourceAmount, _).
      let sourceAmount = newSwapSourceAmount - swapSourceAmount in
      if sourceAmount = 0 then Inl (Error ''Swap result in zero'')
      else Inr sourceAmount))"

definition CP_computeImbalanceDeposit :: "int \<Rightarrow> int \<Rightarrow> int \<Rightarrow> int \<Rightarrow> int \<Rightarrow> poolFees \<Rightarrow> int res" where
  "CP_computeImbalanceDeposit depositA depositB swapTokenA swapTokenB lpSup f =
     Inl (Error ''UnsupportedOperation'')"

definition CP_computeWithdrawOne ::
  "int \<Rightarrow> int \<Rightarrow> int \<Rightarrow> int \<Rightarrow> poolFees \<Rightarrow> tradeDirection \<Rightarrow> int res" where
  "CP_computeWithdrawOne lpAmount lpSup swapTokenA swapTokenB f dir =
     Inl (Error ''UnsupportedOperation'')"

section \<open>Ceiling division\<close>

definition ceil_div :: "int \<Rightarrow> int \<Rightarrow> int" where
  "ceil_div n k = (if n mod k = 0 then n div k else n div k + 1)"

lemma ceil_div_bounds:
  assumes "0 < k"
  shows "n \<le> ceil_div n k * k" and "(ceil_div n k - 1) * k < n"
proof -
  have eq: "n = n div k * k + n mod k" by simp
  have m: "0 \<le> n mod k" "n mod k < k" using assms by auto
  consider "n mod k = 0" "ceil_div n k * k = n div k * k"
    | "0 < n mod k" "ceil_div n k * k = n div k * k + k"
    using m by (cases "n mod k = 0") (simp_all add: ceil_div_def distrib_right)
  note c = this
  show "n \<le> ceil_div n k * k" using c by cases (use eq m in linarith)+
  have "(ceil_div n k - 1) * k = ceil_div n k * k - k" by (simp add: left_diff_distrib)
  with c show "(ceil_div n k - 1) * k < n" by cases (use eq m assms in linarith)+
qed

lemma ceil_div_leI: "0 < k \<Longrightarrow> n \<le> m * k \<Longrightarrow> ceil_div n k \<le> m"
  using ceil_div_bounds(2) [of k n] mult_less_cancel_right_pos [of k "ceil_div n k - 1" m] by linarith

lemma ceil_div_gtI: "0 < k \<Longrightarrow> m * k < n \<Longrightarrow> m < ceil_div n k"
  using ceil_div_bounds(1) [of k n] mult_less_cancel_right_pos [of k m "ceil_div n k"] by linarith

lemma ceilDiv_eq:
  assumes "0 \<le> lhs" "0 < rhs"
  shows "rhs \<le> lhs \<Longrightarrow> \<exists>r. ceilDiv lhs rhs = Inr (ceil_div lhs rhs, r)"
    and "lhs < rhs \<Longrightarrow> ceilDiv lhs rhs = Inl (Error ''ceilDiv result in zero'')"
proof -
  assume "rhs \<le> lhs"
  then have "0 < lhs div rhs" using assms by (simp add: pos_imp_zdiv_pos_iff)
  moreover have "lhs mod rhs = 0 \<or> 0 < lhs mod rhs"
    using assms pos_mod_sign [of rhs lhs] by linarith
  ultimately show "\<exists>r. ceilDiv lhs rhs = Inr (ceil_div lhs rhs, r)"
    using assms by (auto simp: ceilDiv_def ceil_div_def Let_def)
next
  assume "lhs < rhs"
  then show "ceilDiv lhs rhs = Inl (Error ''ceilDiv result in zero'')"
    using assms by (simp add: ceilDiv_def)
qed

lemma complement_ceil_div:
  assumes "0 < s + i"
  shows "d - ceil_div (s * d) (s + i) = i * d div (s + (i::int))"
proof (rule int_div_pos_eq [symmetric])
  let ?q = "ceil_div (s * d) (s + i)"
  show "i * d = (s + i) * (d - ?q) + (?q * (s + i) - s * d)" by (simp add: algebra_simps)
  show "0 \<le> ?q * (s + i) - s * d" using ceil_div_bounds(1) [OF assms, of "s * d"] by simp
  show "?q * (s + i) - s * d < s + i"
    using ceil_div_bounds(2) [OF assms, of "s * d"] by (simp add: algebra_simps)
qed

section \<open>The swap in closed form\<close>

text \<open>
  Every branch of \<^verbatim>\<open>computeOutAmount\<close> on positive reserves: the amount out is the whole part
  of i d / (s + i), and the two errors are the two ways a quotient of the source vanishes.
\<close>

lemma CP_computeOutAmount_cases:
  assumes "0 \<le> i" "0 < s" "0 < d"
  shows "CP_computeOutAmount L i s d =
    (if s * d < s + i then Inl (Error ''ceilDiv result in zero'')
     else if i * d < s + i then Inl (Error ''Swap result in zero'')
     else Inr \<lparr>outAmount = i * d div (s + i),
               priceImpact = getPriceImpact L (i * d div (s + i)) (i * d div s)\<rparr>)"
proof (cases "s * d < s + i")
  case True
  with assms show ?thesis by (simp add: CP_computeOutAmount_def ceilDiv_eq(2))
next
  case False
  then obtain r where "ceilDiv (s * d) (s + i) = Inr (ceil_div (s * d) (s + i), r)"
    using assms ceilDiv_eq(1) [of "s * d" "s + i"] by auto
  moreover have out: "d - ceil_div (s * d) (s + i) = i * d div (s + i)"
    using assms by (intro complement_ceil_div) auto
  moreover have "i * d div (s + i) = 0 \<longleftrightarrow> i * d < s + i"
    using assms by (auto simp: zdiv_eq_0_iff)
  ultimately show ?thesis
    using False assms
    by (simp del: right_minus_eq add: CP_computeOutAmount_def
        CP_computeOutAmountWithoutSlippage_def Let_def)
qed

lemma CP_out_bounds:
  assumes "0 \<le> i" "0 < s" "0 < d" and out: "CP_computeOutAmount L i s d = Inr r"
  shows "0 < outAmount r" "outAmount r < d"
    and "s * d \<le> (s + i) * (d - outAmount r)"
    and "(s + i) * (d - (outAmount r + 1)) < s * d"
proof -
  let ?o = "i * d div (s + i)"
  have r: "outAmount r = ?o" and big: "\<not> i * d < s + i"
    using out assms(1-3) by (auto simp: CP_computeOutAmount_cases split: if_splits)
  have k: "0 < s + i" using assms by simp
  show pos: "0 < outAmount r" using r big k by (simp add: pos_imp_zdiv_pos_iff)
  have "?o * (s + i) \<le> i * d" using k by (rule div_mult_le_pos)
  then show "s * d \<le> (s + i) * (d - outAmount r)" by (simp add: r algebra_simps)
  moreover have "i * d < (?o + 1) * (s + i)" using k by (rule div_Suc_mult_gt)
  then show "(s + i) * (d - (outAmount r + 1)) < s * d" by (simp add: r algebra_simps)
  ultimately have "0 < (s + i) * (d - outAmount r)" using assms mult_pos_pos [of s d] by linarith
  then show "outAmount r < d" using k by (simp add: zero_less_mult_iff)
qed

lemma CP_computeInAmount_eq:
  assumes "0 < s" "0 < out" "out < d"
  shows "CP_computeInAmount out s d = Inr (ceil_div (s * d) (d - out) - s)"
    and "s < ceil_div (s * d) (d - out)"
proof -
  have k: "0 < d - out" using assms by simp
  have "d - out \<le> s * d" using assms mult_right_mono [of 1 s d] by linarith
  then obtain r where "ceilDiv (s * d) (d - out) = Inr (ceil_div (s * d) (d - out), r)"
    using ceilDiv_eq(1) [of "s * d" "d - out"] assms by auto
  moreover show "s < ceil_div (s * d) (d - out)"
    using k assms by (intro ceil_div_gtI) (auto simp: algebra_simps)
  ultimately show "CP_computeInAmount out s d = Inr (ceil_div (s * d) (d - out) - s)"
    by (simp add: CP_computeInAmount_def Let_def)
qed

lemma CP_in_covers_out:
  assumes "0 < s" "0 < out" "out < d"
  defines "i \<equiv> ceil_div (s * d) (d - out) - s"
  shows "\<exists>r. CP_computeOutAmount L i s d = Inr r \<and> out \<le> outAmount r"
    and "(i - 1) * d div (s + (i - 1)) < out"
proof -
  let ?c = "ceil_div (s * d) (d - out)"
  have k: "0 < d - out" using assms(1-3) by simp
  have i: "0 < i" unfolding i_def using CP_computeInAmount_eq(2) [OF assms(1-3)] by simp
  have si: "s + i = ?c" by (simp add: i_def)
  have "s * d \<le> (s + i) * (d - out)" using ceil_div_bounds(1) [OF k] by (simp add: si)
  then have le: "out * (s + i) \<le> i * d" by (simp add: algebra_simps)
  moreover have "1 * (s + i) \<le> out * (s + i)"
    using assms(1,2) i by (intro mult_right_mono) auto
  ultimately have "s + i \<le> i * d" by simp
  then have "\<not> i * d < s + i" by simp
  moreover have "?c \<le> s * d"
    using k assms(1-3) mult_left_mono [of 1 "d - out" "s * d"] by (intro ceil_div_leI) auto
  ultimately have "CP_computeOutAmount L i s d = Inr \<lparr>outAmount = i * d div (s + i),
      priceImpact = getPriceImpact L (i * d div (s + i)) (i * d div s)\<rparr>"
    using assms(1-3) i si by (simp add: CP_computeOutAmount_cases)
  moreover have "out \<le> i * d div (s + i)"
    using le i assms(1) by (simp add: le_div_iff_pos)
  ultimately show "\<exists>r. CP_computeOutAmount L i s d = Inr r \<and> out \<le> outAmount r" by simp
  have "(s + i - 1) * (d - out) < s * d" using ceil_div_bounds(2) [OF k] by (simp add: si)
  then have "(i - 1) * d < out * (s + (i - 1))" by (simp add: algebra_simps)
  then show "(i - 1) * d div (s + (i - 1)) < out"
    using i assms(1) by (simp add: div_less_iff_pos)
qed

lemma CP_priceImpact_unit:
  assumes "math_lib L" "0 < s" "0 < d" "0 \<le> i" and out: "CP_computeOutAmount L i s d = Inr r"
  shows "\<exists>q. priceImpact r = Decimal q \<and> 0 \<le> q \<and> q \<le> 1"
proof -
  let ?o = "i * d div (s + i)" and ?w = "i * d div s"
  have pi: "priceImpact r = decDiv L (?w - ?o) ?w" and big: "\<not> i * d < s + i"
    using out assms(2-4)
    by (auto simp: CP_computeOutAmount_cases getPriceImpact_def Let_def split: if_splits)
  have "?o \<le> ?w" using assms by (intro zdiv_mono2) auto
  moreover have "0 < ?o" using big assms by (simp add: pos_imp_zdiv_pos_iff)
  ultimately show ?thesis
    using math_lib.decDiv_unit [OF assms(1), of ?w "?w - ?o"] by (simp add: pi)
qed

section \<open>Properties\<close>

text \<open>
  C23. \<^verbatim>\<open>computeOutAmount\<close> of the constant product curve on every branch: the detour over the
  rounded-up new reserve equals the rounded-down closed form i d / (s + i); the two errors are
  exactly the cases where the new reserve would round from a quotient below one and where the
  output would be zero.
\<close>

theorem CP_computeOutAmount_closed_form:
  assumes "0 \<le> sourceAmount" "0 < swapSourceAmount" "0 < swapDestinationAmount"
  shows "CP_computeOutAmount L sourceAmount swapSourceAmount swapDestinationAmount =
    (let out = sourceAmount * swapDestinationAmount div (swapSourceAmount + sourceAmount) in
     if swapSourceAmount * swapDestinationAmount < swapSourceAmount + sourceAmount
     then Inl (Error ''ceilDiv result in zero'')
     else if sourceAmount * swapDestinationAmount < swapSourceAmount + sourceAmount
     then Inl (Error ''Swap result in zero'')
     else Inr \<lparr>outAmount = out,
                priceImpact = getPriceImpact L out (sourceAmount * swapDestinationAmount div swapSourceAmount)\<rparr>)"
  using CP_computeOutAmount_cases [OF assms] by (simp add: Let_def)

theorem CP_computeOutAmount_closed_form_witness:
  "CP_computeOutAmount referenceLib 100 1000 2000 =
     Inr \<lparr>outAmount = 181, priceImpact = getPriceImpact referenceLib 181 200\<rparr>"
  using CP_computeOutAmount_closed_form [of 100 1000 2000 referenceLib] by simp

text \<open>
  C24. \<^verbatim>\<open>computeInAmount\<close> of the constant product curve is the least input that pays the wanted
  output: swapping it gives at least that output, and with one unit less the pool would owe less.
\<close>

theorem CP_computeInAmount_least:
  assumes "0 < swapSourceAmount" "0 < destAmount" "destAmount < swapDestinationAmount"
  shows "\<exists>i r. CP_computeInAmount destAmount swapSourceAmount swapDestinationAmount = Inr i \<and> 0 < i \<and>
    CP_computeOutAmount L i swapSourceAmount swapDestinationAmount = Inr r \<and> destAmount \<le> outAmount r \<and>
    (\<forall>r'. CP_computeOutAmount L (i - 1) swapSourceAmount swapDestinationAmount = Inr r' \<longrightarrow>
       outAmount r' < destAmount)"
proof -
  note e = CP_computeInAmount_eq [OF assms] and c = CP_in_covers_out [OF assms]
  let ?i = "ceil_div (swapSourceAmount * swapDestinationAmount) (swapDestinationAmount - destAmount) - swapSourceAmount"
  have "0 \<le> ?i - 1" "0 < swapDestinationAmount" using e(2) assms by auto
  then have "outAmount r' < destAmount" if "CP_computeOutAmount L (?i - 1) swapSourceAmount swapDestinationAmount = Inr r'" for r'
    using that c(2) CP_computeOutAmount_cases [of "?i - 1" swapSourceAmount swapDestinationAmount L] assms(1)
    by (auto split: if_splits)
  then show ?thesis using e c(1) [of L] by (intro exI [of _ ?i]) auto
qed

theorem CP_computeInAmount_least_witness:
  "\<exists>i r. CP_computeInAmount 181 1000 2000 = Inr i \<and> 0 < i \<and>
    CP_computeOutAmount referenceLib i 1000 2000 = Inr r \<and> 181 \<le> outAmount r \<and>
    (\<forall>r'. CP_computeOutAmount referenceLib (i - 1) 1000 2000 = Inr r' \<longrightarrow> outAmount r' < 181)"
  using CP_computeInAmount_least [of 1000 181 2000 referenceLib] by simp

text \<open>
  C25. Splitting a trade never pays: two successive swaps on the constant product curve give
  together no more than one swap of both inputs.
\<close>

theorem CP_no_gain_from_splitting:
  assumes "0 < s" "0 < d" "0 \<le> i" "0 \<le> j"
    and "CP_computeOutAmount L i s d = Inr r1"
    and "CP_computeOutAmount L j (s + i) (d - outAmount r1) = Inr r2"
    and "CP_computeOutAmount L (i + j) s d = Inr r"
  shows "outAmount r1 + outAmount r2 \<le> outAmount r"
proof -
  note b1 = CP_out_bounds [OF assms(3,1,2,5)]
  have p: "0 < s + i" "0 < d - outAmount r1" "0 \<le> i + j" using b1 assms by auto
  note b2 = CP_out_bounds [OF assms(4) p(1,2) assms(6)]
  note b = CP_out_bounds [OF p(3) assms(1,2,7)]
  have "(s + i + j) * (d - (outAmount r + 1)) < (s + i + j) * (d - outAmount r1 - outAmount r2)"
    using b1(3) b2(3) b(4) by (simp add: add.assoc)
  then have "d - (outAmount r + 1) < d - outAmount r1 - outAmount r2"
    using p assms(4) by (simp add: mult_less_cancel_left)
  then show ?thesis by simp
qed

theorem CP_no_gain_from_splitting_witness:
  "\<exists>r1 r2 r. CP_computeOutAmount referenceLib 50 1000 2000 = Inr r1 \<and>
     CP_computeOutAmount referenceLib 50 (1000 + 50) (2000 - outAmount r1) = Inr r2 \<and>
     CP_computeOutAmount referenceLib (50 + 50) 1000 2000 = Inr r \<and> outAmount r1 + outAmount r2 \<le> outAmount r"
proof -
  note c = CP_computeOutAmount_cases [where L = referenceLib]
  let ?r = "\<lambda>x y. \<lparr>outAmount = x, priceImpact = getPriceImpact referenceLib x y\<rparr>"
  have "CP_computeOutAmount referenceLib 50 1000 2000 = Inr (?r 95 100)"
    "CP_computeOutAmount referenceLib 50 (1000 + 50) (2000 - outAmount (?r 95 100)) = Inr (?r 86 90)"
    "CP_computeOutAmount referenceLib (50 + 50) 1000 2000 = Inr (?r 181 200)"
    using c [of 50 1000 2000] c [of 50 1050 1905] c [of 100 1000 2000] by simp_all
  then show ?thesis
    using CP_no_gain_from_splitting [of 1000 2000 50 50 referenceLib "?r 95 100" "?r 86 90" "?r 181 200"] by auto
qed

end
