(* ===== verification/StableSwap.thy ===== *)
theory StableSwap
  imports StableSwapMath ConstantProduct
begin

text \<open>
  The depeg-aware stable curve (curve/stable-swap.ts). An object of the class \<^verbatim>\<open>StableSwap\<close> is
  a record; its methods carry the prefix \<open>SS\<close>. Every quoting method first refreshes the
  cached virtual price of the staked token (\<^verbatim>\<open>updateDepegInfoIfExpired\<close>), which writes to the
  object, so the methods return the object they leave behind together with their result.
\<close>

section \<open>The object\<close>

record stableSwap =
  ss_amp :: int
  ss_tokenMultiplier :: tokenMultiplier
  ss_depeg :: depeg
  ss_extraAccounts :: "pubkey \<rightharpoonup> bytes"
  ss_onChainTime :: int
  ss_stakePoolPubkey :: pubkey

definition PRECISION :: int where "PRECISION = 1000000"

definition BASE_CACHE_EXPIRE :: int where "BASE_CACHE_EXPIRE = 60 * 10"

definition isDepeg :: "stableSwap \<Rightarrow> bool" where
  "isDepeg self \<longleftrightarrow> depegType (ss_depeg self) \<noteq> DepegNone"

definition getBasePoolVirtualPrice :: "mathLib \<Rightarrow> stableSwap \<Rightarrow> depegType \<Rightarrow> int res" where
  "getBasePoolVirtualPrice L self dType =
     (case dType of
        DepegMarinade \<Rightarrow>
          rbind (of_option TypeError (ss_extraAccounts self CURVE_TYPE_ACCOUNTS_marinade)) (\<lambda>account.
          rbind (decodeMsolPrice L account) (\<lambda>msolPrice.
          bn_div (msolPrice * PRECISION) 0x100000000))
      | DepegLido \<Rightarrow>
          rbind (of_option TypeError (ss_extraAccounts self CURVE_TYPE_ACCOUNTS_lido)) (\<lambda>account.
          rbind (readBigInt64LE account 73) (\<lambda>stSolSupply.
          rbind (readBigInt64LE account 81) (\<lambda>stSolBalance.
          bn_div (stSolBalance * PRECISION) stSolSupply)))
      | DepegSplStake \<Rightarrow>
          rbind (of_option TypeError (ss_extraAccounts self (ss_stakePoolPubkey self))) (\<lambda>account.
          rbind (layout_decode_u64 StakePoolLayout account ''totalLamports'') (\<lambda>totalLamports.
          rbind (layout_decode_u64 StakePoolLayout account ''poolTokenSupply'') (\<lambda>poolTokenSupply.
          bn_div (totalLamports * PRECISION) poolTokenSupply)))
      | DepegNone \<Rightarrow> Inl (Error ''UnsupportedBasePool''))"

definition updateDepegInfoIfExpired :: "mathLib \<Rightarrow> stableSwap \<Rightarrow> stableSwap res" where
  "updateDepegInfoIfExpired L self =
     (if isDepeg self then
        rbind (bn_toNumber (ss_onChainTime self)) (\<lambda>now.
        rbind (bn_toNumber (baseCacheUpdated (ss_depeg self) + BASE_CACHE_EXPIRE)) (\<lambda>expiry.
        if now > expiry then
          rbind (getBasePoolVirtualPrice L self (depegType (ss_depeg self))) (\<lambda>price.
          Inr (self\<lparr>ss_depeg := (ss_depeg self)\<lparr>baseVirtualPrice := price,
                                               baseCacheUpdated := ss_onChainTime self\<rparr>\<rparr>))
        else Inr self))
      else Inr self)"

section \<open>Scaling\<close>

definition upscaleTokenA :: "stableSwap \<Rightarrow> int \<Rightarrow> int" where
  "upscaleTokenA self amt =
     (let normalized = amt * tokenAMultiplier (ss_tokenMultiplier self) in
      if isDepeg self then normalized * PRECISION else normalized)"

definition downscaleTokenA :: "stableSwap \<Rightarrow> int \<Rightarrow> int res" where
  "downscaleTokenA self amt =
     rbind (bn_div amt (tokenAMultiplier (ss_tokenMultiplier self))) (\<lambda>denormalized.
     if isDepeg self then bn_div denormalized PRECISION else Inr denormalized)"

definition upscaleTokenB :: "stableSwap \<Rightarrow> int \<Rightarrow> int" where
  "upscaleTokenB self amt =
     (let normalized = amt * tokenBMultiplier (ss_tokenMultiplier self) in
      if isDepeg self then normalized * baseVirtualPrice (ss_depeg self) else normalized)"

definition downscaleTokenB :: "stableSwap \<Rightarrow> int \<Rightarrow> int res" where
  "downscaleTokenB self amt =
     rbind (bn_div amt (tokenBMultiplier (ss_tokenMultiplier self))) (\<lambda>denormalized.
     if isDepeg self then bn_div denormalized (baseVirtualPrice (ss_depeg self))
     else Inr denormalized)"

section \<open>Swaps\<close>

definition SS_computeOutAmountWithoutSlippage :: "stableSwap \<Rightarrow> int \<Rightarrow> int \<Rightarrow> int \<Rightarrow> int \<Rightarrow> int res" where
  "SS_computeOutAmountWithoutSlippage self sourceAmount swapSourceAmount swapDestinationAmount invariantD =
     (let a = ss_amp self * 16;
          b = a;
          c = invariantD * 4 - invariantD * ss_amp self * 16;
          numerator = (2 * a * swapSourceAmount + b * swapDestinationAmount + c) * swapDestinationAmount;
          denominator = (a * swapSourceAmount + (2 * b * swapDestinationAmount + c)) * swapSourceAmount
      in bn_div (sourceAmount * numerator) denominator)"

definition SS_computeOutAmount ::
  "mathLib \<Rightarrow> stableSwap \<Rightarrow> int \<Rightarrow> int \<Rightarrow> int \<Rightarrow> tradeDirection \<Rightarrow> (stableSwap \<times> outResult) res" where
  "SS_computeOutAmount L self0 sourceAmount swapSourceAmount swapDestinationAmount dir =
     rbind (updateDepegInfoIfExpired L self0) (\<lambda>self.
     let (upscaledSourceAmount, upscaledSwapSourceAmount, upscaledSwapDestinationAmount) =
           (if dir = AToB
            then (upscaleTokenA self sourceAmount, upscaleTokenA self swapSourceAmount,
                  upscaleTokenB self swapDestinationAmount)
            else (upscaleTokenB self sourceAmount, upscaleTokenB self swapSourceAmount,
                  upscaleTokenA self swapDestinationAmount))
     in rbind (computeD (ss_amp self) upscaledSwapSourceAmount upscaledSwapDestinationAmount) (\<lambda>invariantD.
        let newSwapSourceAmount = upscaledSwapSourceAmount + upscaledSourceAmount in
        rbind (computeY (ss_amp self) newSwapSourceAmount invariantD) (\<lambda>newSwapDestinationAmount.
        let out = upscaledSwapDestinationAmount - newSwapDestinationAmount - 1 in
        rbind (SS_computeOutAmountWithoutSlippage self upscaledSourceAmount upscaledSwapSourceAmount
                 upscaledSwapDestinationAmount invariantD) (\<lambda>outWithoutSlippage.
        let downscale = (if dir = AToB then downscaleTokenB self else downscaleTokenA self) in
        rbind (downscale out) (\<lambda>outDown.
        rbind (downscale outWithoutSlippage) (\<lambda>outWithoutSlippageDown.
        Inr (self, \<lparr>outAmount = outDown,
                    priceImpact = getPriceImpact L outDown outWithoutSlippageDown\<rparr>)))))))"

definition SS_computeD :: "mathLib \<Rightarrow> stableSwap \<Rightarrow> int \<Rightarrow> int \<Rightarrow> (stableSwap \<times> int) res" where
  "SS_computeD L self0 tokenA tokenB =
     rbind (updateDepegInfoIfExpired L self0) (\<lambda>self.
     rbind (computeD (ss_amp self) (upscaleTokenA self tokenA) (upscaleTokenB self tokenB)) (\<lambda>invariantD.
     if isDepeg self then rbind (bn_div invariantD PRECISION) (\<lambda>d. Inr (self, d))
     else Inr (self, invariantD)))"

text \<open>
  \<^verbatim>\<open>computeInAmount\<close> subtracts the reserve as it was passed in, not the upscaled reserve, from
  the upscaled balance on the curve.
\<close>

definition SS_computeInAmount ::
  "mathLib \<Rightarrow> stableSwap \<Rightarrow> int \<Rightarrow> int \<Rightarrow> int \<Rightarrow> tradeDirection \<Rightarrow> (stableSwap \<times> int) res" where
  "SS_computeInAmount L self0 destAmount swapSourceAmount swapDestinationAmount dir =
     rbind (updateDepegInfoIfExpired L self0) (\<lambda>self.
     let (upscaledDestAmount, upscaledSwapSourceAmount, upscaledSwapDestinationAmount) =
           (if dir = AToB
            then (upscaleTokenB self destAmount, upscaleTokenA self swapSourceAmount,
                  upscaleTokenB self swapDestinationAmount)
            else (upscaleTokenA self destAmount, upscaleTokenB self swapSourceAmount,
                  upscaleTokenA self swapDestinationAmount))
     in rbind (computeD (ss_amp self) upscaledSwapSourceAmount upscaledSwapDestinationAmount) (\<lambda>invariantD.
        let newSwapDestAmount = upscaledSwapDestinationAmount - upscaledDestAmount in
        rbind (computeY (ss_amp self) newSwapDestAmount invariantD) (\<lambda>newSwapSourceAmount.
        let inAmount = newSwapSourceAmount - swapSourceAmount in
        rbind (if dir = AToB then downscaleTokenA self inAmount else downscaleTokenB self inAmount)
          (\<lambda>r. Inr (self, r)))))"

section \<open>Deposits and withdrawals\<close>

definition toFees :: "poolFees \<Rightarrow> saberFees" where
  "toFees f =
     \<lparr>f_trade = (tradeFeeNumerator f, tradeFeeDenominator f),
      f_withdraw = (0, 100),
      f_adminTrade = (protocolTradeFeeNumerator f, protocolTradeFeeDenominator f),
      f_adminWithdraw = (0, 100)\<rparr>"

record withdrawOneResult =
  wo_withdrawAmount :: int
  wo_withdrawAmountBeforeFees :: int
  wo_swapFee :: int
  wo_withdrawFee :: int
  wo_lpSwapFee :: int
  wo_lpWithdrawFee :: int
  wo_adminSwapFee :: int
  wo_adminWithdrawFee :: int

definition calculateEstimatedWithdrawOneAmount ::
  "mathLib \<Rightarrow> int \<Rightarrow> saberFees \<Rightarrow> int \<Rightarrow> int \<times> int \<Rightarrow> int \<Rightarrow> tradeDirection \<Rightarrow> withdrawOneResult res" where
  "calculateEstimatedWithdrawOneAmount L ampFactor feeInfo lpTotalSupply reserves poolTokenAmount dir =
     (if poolTokenAmount = 0 then
        Inr \<lparr>wo_withdrawAmount = 0, wo_withdrawAmountBeforeFees = 0, wo_swapFee = 0,
             wo_withdrawFee = 0, wo_lpSwapFee = 0, wo_lpWithdrawFee = 0,
             wo_adminSwapFee = 0, wo_adminWithdrawFee = 0\<rparr>
      else
        let (baseReserves, quoteReserves) =
              (if dir = BToA then (fst reserves, snd reserves) else (snd reserves, fst reserves))
        in
        rbind (computeD ampFactor baseReserves quoteReserves) (\<lambda>d_0.
        rbind (bigint_div (poolTokenAmount * d_0) lpTotalSupply) (\<lambda>burnt.
        let d_1 = d_0 - burnt in
        rbind (computeY ampFactor quoteReserves d_1) (\<lambda>new_y.
        rbind (bigint_div (baseReserves * d_1) d_0) (\<lambda>baseShare.
        let expected_base_amount = baseShare - new_y in
        rbind (bigint_div (quoteReserves * d_1) d_0) (\<lambda>quoteShare.
        let expected_quote_amount = quoteReserves - quoteShare in
        rbind (normalizedTradeFee feeInfo N_COINS expected_base_amount) (\<lambda>baseFee.
        let new_base_amount = of_int baseReserves - baseFee in
        rbind (normalizedTradeFee feeInfo N_COINS expected_quote_amount) (\<lambda>quoteFee.
        let new_quote_amount = of_int quoteReserves - quoteFee in
        rbind (computeY ampFactor (toFixed0 L new_quote_amount) d_1) (\<lambda>y2.
        let dy = new_base_amount - of_int y2;
            dy_0 = baseReserves - new_y;
            swapFee = of_int dy_0 - dy in
        rbind (asFraction (f_withdraw feeInfo)) (\<lambda>withdraw.
        let withdrawFee = dy * withdraw in
        rbind (asFraction (f_adminTrade feeInfo)) (\<lambda>adminTrade.
        rbind (asFraction (f_adminWithdraw feeInfo)) (\<lambda>adminWithdraw.
        let adminSwapFee = swapFee * adminTrade;
            adminWithdrawFee = withdrawFee * adminWithdraw;
            lpSwapFee = swapFee - adminSwapFee;
            lpWithdrawFee = withdrawFee - adminWithdrawFee;
            withdrawAmount = dy - withdrawFee - swapFee in
        Inr \<lparr>wo_withdrawAmount = toFixed0 L withdrawAmount,
             wo_withdrawAmountBeforeFees = toFixed0 L dy,
             wo_swapFee = toFixed0 L swapFee,
             wo_withdrawFee = toFixed0 L withdrawFee,
             wo_lpSwapFee = toFixed0 L lpSwapFee,
             wo_lpWithdrawFee = toFixed0 L lpWithdrawFee,
             wo_adminSwapFee = toFixed0 L adminSwapFee,
             wo_adminWithdrawFee = toFixed0 L adminWithdrawFee\<rparr>))))))))))))"

record mintResult =
  mr_mintAmountBeforeFees :: int
  mr_mintAmount :: int
  mr_fees :: int

text \<open>The balance one side is charged down to, by its distance from the ideal balance.\<close>

definition adjustedBalance :: "mathLib \<Rightarrow> saberFees \<Rightarrow> int \<Rightarrow> int \<Rightarrow> int \<Rightarrow> int \<Rightarrow> int res" where
  "adjustedBalance L feeInfo d0 d1 oldBalance newBalance =
     rbind (Fraction d1 d0) (\<lambda>ratio.
     let idealBalance = ratio * of_int oldBalance;
         difference = idealBalance - of_int newBalance;
         diffAbs = (if difference > 0 then difference else difference * (-1)) in
     rbind (normalizedTradeFee feeInfo N_COINS (toFixed0 L diffAbs)) (\<lambda>fee.
     Inr (newBalance - toFixed0 L fee)))"

definition calculateEstimatedMintAmount ::
  "mathLib \<Rightarrow> int \<Rightarrow> saberFees \<Rightarrow> int \<Rightarrow> int \<times> int \<Rightarrow> int \<Rightarrow> int \<Rightarrow> mintResult res" where
  "calculateEstimatedMintAmount L ampFactor feeInfo lpTotalSupply reserves depositAmountA depositAmountB =
     (if depositAmountA = 0 \<and> depositAmountB = 0 then
        Inr \<lparr>mr_mintAmountBeforeFees = 0, mr_mintAmount = 0, mr_fees = 0\<rparr>
      else
        let (reserveA, reserveB) = reserves in
        rbind (computeD ampFactor reserveA reserveB) (\<lambda>d0.
        rbind (computeD ampFactor (reserveA + depositAmountA) (reserveB + depositAmountB)) (\<lambda>d1.
        if d1 < d0 then Inl (Error ''New D cannot be less than previous D'')
        else
          rbind (adjustedBalance L feeInfo d0 d1 reserveA (reserveA + depositAmountA)) (\<lambda>adjustedA.
          rbind (adjustedBalance L feeInfo d0 d1 reserveB (reserveB + depositAmountB)) (\<lambda>adjustedB.
          rbind (computeD ampFactor adjustedA adjustedB) (\<lambda>d2.
          rbind (bigint_div (lpTotalSupply * (d2 - d0)) d0) (\<lambda>mintAmountRaw.
          rbind (bigint_div (lpTotalSupply * (d1 - d0)) d0) (\<lambda>mintAmountRawBeforeFees.
          Inr \<lparr>mr_mintAmountBeforeFees = mintAmountRawBeforeFees,
               mr_mintAmount = mintAmountRaw,
               mr_fees = mintAmountRawBeforeFees - mintAmountRaw\<rparr>)))))))) "

definition SS_computeImbalanceDeposit ::
  "mathLib \<Rightarrow> stableSwap \<Rightarrow> int \<Rightarrow> int \<Rightarrow> int \<Rightarrow> int \<Rightarrow> int \<Rightarrow> poolFees \<Rightarrow> (stableSwap \<times> int) res" where
  "SS_computeImbalanceDeposit L self0 depositA depositB swapTokenA swapTokenB lpSup f =
     rbind (updateDepegInfoIfExpired L self0) (\<lambda>self.
     rbind (calculateEstimatedMintAmount L (ss_amp self) (toFees f) lpSup
              (upscaleTokenA self swapTokenA, upscaleTokenB self swapTokenB)
              (upscaleTokenA self depositA) (upscaleTokenB self depositB)) (\<lambda>m.
     Inr (self, mr_mintAmount m)))"

definition SS_computeWithdrawOne ::
  "mathLib \<Rightarrow> stableSwap \<Rightarrow> int \<Rightarrow> int \<Rightarrow> int \<Rightarrow> int \<Rightarrow> poolFees \<Rightarrow> tradeDirection \<Rightarrow> (stableSwap \<times> int) res" where
  "SS_computeWithdrawOne L self0 lpAmount lpSup swapTokenA swapTokenB f dir =
     rbind (updateDepegInfoIfExpired L self0) (\<lambda>self.
     rbind (calculateEstimatedWithdrawOneAmount L (ss_amp self) (toFees f) lpSup
              (upscaleTokenA self swapTokenA, upscaleTokenB self swapTokenB) lpAmount dir) (\<lambda>w.
     rbind (if dir = AToB then downscaleTokenB self (wo_withdrawAmountBeforeFees w)
            else downscaleTokenA self (wo_withdrawAmountBeforeFees w)) (\<lambda>r.
     Inr (self, r))))"

section \<open>Remaining accounts\<close>

definition readonly :: "pubkey \<Rightarrow> accountMeta" where
  "readonly k = \<lparr>am_pubkey = k, am_isWritable = False, am_isSigner = False\<rparr>"

definition SS_getRemainingAccounts :: "stableSwap \<Rightarrow> accountMeta list" where
  "SS_getRemainingAccounts self =
     (if depegType (ss_depeg self) = DepegMarinade then [readonly CURVE_TYPE_ACCOUNTS_marinade] else [])
     @ (if depegType (ss_depeg self) = DepegLido then [readonly CURVE_TYPE_ACCOUNTS_lido] else [])
     @ (if ss_stakePoolPubkey self \<noteq> PublicKey_default then [readonly (ss_stakePoolPubkey self)] else [])"

definition CP_getRemainingAccounts :: "accountMeta list" where
  "CP_getRemainingAccounts = []"

section \<open>Scales\<close>

definition scaleA :: "stableSwap \<Rightarrow> int" where
  "scaleA self = tokenAMultiplier (ss_tokenMultiplier self) * (if isDepeg self then PRECISION else 1)"

definition scaleB :: "stableSwap \<Rightarrow> int" where
  "scaleB self = tokenBMultiplier (ss_tokenMultiplier self) *
     (if isDepeg self then baseVirtualPrice (ss_depeg self) else 1)"

lemma upscale_scale [simp]:
  "upscaleTokenA self x = x * scaleA self"
  "upscaleTokenB self x = x * scaleB self"
  by (simp_all add: upscaleTokenA_def upscaleTokenB_def scaleA_def scaleB_def Let_def)

text \<open>A refreshed or fresh object: positive multipliers and a price that is not negative.\<close>

definition SS_invar :: "mathLib \<Rightarrow> stableSwap \<Rightarrow> bool" where
  "SS_invar L self \<longleftrightarrow>
     1 \<le> ss_amp self \<and>
     1 \<le> tokenAMultiplier (ss_tokenMultiplier self) \<and>
     1 \<le> tokenBMultiplier (ss_tokenMultiplier self) \<and>
     0 \<le> baseVirtualPrice (ss_depeg self) \<and>
     (case getBasePoolVirtualPrice L self (depegType (ss_depeg self)) of
        Inl e \<Rightarrow> True | Inr p \<Rightarrow> 0 \<le> p)"

lemma scaleA_pos: "SS_invar L self \<Longrightarrow> 1 \<le> scaleA self"
  by (auto simp: SS_invar_def scaleA_def PRECISION_def)

lemma scaleB_nonneg: "SS_invar L self \<Longrightarrow> 0 \<le> scaleB self"
  by (auto simp: SS_invar_def scaleB_def)

lemma sdiv_neg: "x < 0 \<Longrightarrow> 0 < m \<Longrightarrow> x sdiv m \<le> (0::int)"
  by (simp add: signed_divide_int_def sgn_if pos_imp_zdiv_nonneg_iff)

lemma sdiv_nonpos: "x \<le> 0 \<Longrightarrow> 0 < m \<Longrightarrow> x sdiv m \<le> (0::int)"
  using sdiv_neg [of x m] by (cases "x = 0") auto

lemma sdiv_twice_nonpos: "x < 0 \<Longrightarrow> 0 < m \<Longrightarrow> 0 < p \<Longrightarrow> (x sdiv m) sdiv p \<le> (0::int)"
  using sdiv_neg [of x m] sdiv_neg [of "x sdiv m" p] by (cases "x sdiv m = 0") auto

lemma downscaleA_cases:
  assumes "SS_invar L self" "downscaleTokenA self x = Inr y"
  shows "0 \<le> x \<Longrightarrow> y = x div scaleA self" and "x < 0 \<Longrightarrow> y \<le> 0"
proof -
  have m: "1 \<le> tokenAMultiplier (ss_tokenMultiplier self)" using assms by (simp add: SS_invar_def)
  show "y = x div scaleA self" if "0 \<le> x"
    using assms m that
    by (auto simp: downscaleTokenA_def scaleA_def PRECISION_def zdiv_zmult2_eq split: if_splits)
  show "y \<le> 0" if "x < 0"
    using assms m that sdiv_twice_nonpos [of x "tokenAMultiplier (ss_tokenMultiplier self)" PRECISION]
    by (auto simp: downscaleTokenA_def bn_div_def PRECISION_def sdiv_neg split: if_splits)
qed

lemma downscaleB_cases:
  assumes "SS_invar L self" "downscaleTokenB self x = Inr y"
  shows "1 \<le> scaleB self" and "0 \<le> x \<Longrightarrow> y = x div scaleB self" and "x < 0 \<Longrightarrow> y \<le> 0"
proof -
  let ?m = "tokenBMultiplier (ss_tokenMultiplier self)" and ?p = "baseVirtualPrice (ss_depeg self)"
  have m: "1 \<le> ?m" and p: "isDepeg self \<Longrightarrow> 1 \<le> ?p"
    using assms by (auto simp: SS_invar_def downscaleTokenB_def bn_div_def split: if_splits)
  then show "1 \<le> scaleB self"
    using mult_mono [of 1 ?m 1 ?p] by (auto simp: scaleB_def)
  show "y = x div scaleB self" if "0 \<le> x"
    using assms m p that by (auto simp: downscaleTokenB_def scaleB_def zdiv_zmult2_eq split: if_splits)
  show "y \<le> 0" if "x < 0"
    using assms m p that sdiv_twice_nonpos [of x ?m ?p]
    by (auto simp: downscaleTokenB_def bn_div_def sdiv_neg split: if_splits)
qed

section \<open>Refreshing the price\<close>

lemma getBasePoolVirtualPrice_depeg [simp]:
  "getBasePoolVirtualPrice L (self\<lparr>ss_depeg := x\<rparr>) t = getBasePoolVirtualPrice L self t"
  by (simp add: getBasePoolVirtualPrice_def cong: depegType.case_cong)

lemma update_invar:
  "SS_invar L self \<Longrightarrow> updateDepegInfoIfExpired L self = Inr self' \<Longrightarrow> SS_invar L self'"
  by (auto simp: updateDepegInfoIfExpired_def SS_invar_def split: if_splits sum.splits)

lemma update_frame:
  assumes "updateDepegInfoIfExpired L self = Inr self'"
  shows "ss_amp self' = ss_amp self" "ss_tokenMultiplier self' = ss_tokenMultiplier self"
    "depegType (ss_depeg self') = depegType (ss_depeg self)" "isDepeg self' = isDepeg self"
    "ss_onChainTime self' = ss_onChainTime self" "scaleA self' = scaleA self"
  using assms
  by (auto simp: updateDepegInfoIfExpired_def isDepeg_def scaleA_def split: if_splits)

lemma update_idem:
  assumes "updateDepegInfoIfExpired L self = Inr self'" "0 \<le> ss_onChainTime self"
    "ss_onChainTime self + BASE_CACHE_EXPIRE < 2 ^ 53"
  shows "updateDepegInfoIfExpired L self' = Inr self'"
  using assms
  by (auto simp: updateDepegInfoIfExpired_def isDepeg_def bn_toNumber_def BASE_CACHE_EXPIRE_def
      split: if_splits)

section \<open>The swap\<close>

text \<open>What a successful quote computed, in terms of the object it left behind.\<close>

definition src_scale :: "stableSwap \<Rightarrow> tradeDirection \<Rightarrow> int" where
  "src_scale self dir = (if dir = AToB then scaleA self else scaleB self)"

definition dst_scale :: "stableSwap \<Rightarrow> tradeDirection \<Rightarrow> int" where
  "dst_scale self dir = (if dir = AToB then scaleB self else scaleA self)"

lemma SS_computeOutAmount_D:
  assumes out: "SS_computeOutAmount L self0 i s d dir = Inr (self, r)" and inv: "SS_invar L self0"
  obtains D y where "updateDepegInfoIfExpired L self0 = Inr self" "SS_invar L self"
    "computeD (ss_amp self) (s * src_scale self dir) (d * dst_scale self dir) = Inr D"
    "computeY (ss_amp self) (s * src_scale self dir + i * src_scale self dir) D = Inr y"
    "0 \<le> dst_scale self dir"
    "(if dir = AToB then downscaleTokenB self else downscaleTokenA self)
        (d * dst_scale self dir - y - 1) = Inr (outAmount r)"
proof -
  obtain self1 where u: "updateDepegInfoIfExpired L self0 = Inr self1"
    using out by (auto simp: SS_computeOutAmount_def)
  have inv1: "SS_invar L self1" using inv u by (rule update_invar)
  have "\<exists>D y. self1 = self \<and>
    computeD (ss_amp self) (s * src_scale self dir) (d * dst_scale self dir) = Inr D \<and>
    computeY (ss_amp self) (s * src_scale self dir + i * src_scale self dir) D = Inr y \<and>
    (if dir = AToB then downscaleTokenB self else downscaleTokenA self)
        (d * dst_scale self dir - y - 1) = Inr (outAmount r)"
    using out u
    by (cases dir) (auto simp: SS_computeOutAmount_def src_scale_def dst_scale_def Let_def)
  moreover have "0 \<le> dst_scale self1 dir"
    using scaleA_pos [OF inv1] scaleB_nonneg [OF inv1] by (simp add: dst_scale_def)
  ultimately show thesis using that u inv1 by blast
qed

lemma SS_downscale_cases:
  assumes "SS_invar L self"
    and "(if dir = AToB then downscaleTokenB self else downscaleTokenA self) x = Inr y"
  shows "1 \<le> dst_scale self dir" and "0 \<le> x \<Longrightarrow> y = x div dst_scale self dir" and "x < 0 \<Longrightarrow> y \<le> 0"
  using assms scaleA_pos downscaleA_cases downscaleB_cases
  by (cases dir; fastforce simp: dst_scale_def)+

lemma SS_swap_facts:
  assumes out: "SS_computeOutAmount L self0 i s d dir = Inr (self, r)" and inv: "SS_invar L self0"
    and "0 < d" "0 < s" "0 \<le> i"
  obtains D y where "1 \<le> ss_amp self" "1 \<le> src_scale self dir" "1 \<le> dst_scale self dir" "0 \<le> y" "0 \<le> D"
    "computeD (ss_amp self) (s * src_scale self dir) (d * dst_scale self dir) = Inr D"
    "above_curve (ss_amp self) D ((s + i) * src_scale self dir) (y + 1)"
    "0 \<le> d * dst_scale self dir - y - 1 \<Longrightarrow>
       outAmount r = (d * dst_scale self dir - y - 1) div dst_scale self dir"
    "d * dst_scale self dir - y - 1 < 0 \<Longrightarrow> outAmount r \<le> 0"
proof -
  obtain D y where inv': "SS_invar L self"
    and D: "computeD (ss_amp self) (s * src_scale self dir) (d * dst_scale self dir) = Inr D"
    and y: "computeY (ss_amp self) (s * src_scale self dir + i * src_scale self dir) D = Inr y"
    and dn: "(if dir = AToB then downscaleTokenB self else downscaleTokenA self)
        (d * dst_scale self dir - y - 1) = Inr (outAmount r)"
    using out inv by (rule SS_computeOutAmount_D)
  note dc = SS_downscale_cases [OF inv' dn]
  have amp: "1 \<le> ss_amp self" using inv' by (simp add: SS_invar_def)
  have src0: "0 \<le> src_scale self dir"
    using scaleA_pos [OF inv'] scaleB_nonneg [OF inv'] by (simp add: src_scale_def)
  then have src: "1 \<le> src_scale self dir" using y computeY_zero by (cases "src_scale self dir = 0") auto
  have X: "1 \<le> s * src_scale self dir" "1 \<le> d * dst_scale self dir"
    using src dc(1) assms mult_mono [of 1 s 1 "src_scale self dir"]
      mult_mono [of 1 d 1 "dst_scale self dir"] by auto
  have "0 \<le> y" "above_curve (ss_amp self) D ((s + i) * src_scale self dir) (y + 1)"
    using swap_above_curve [OF amp X _ D y] assms src0 by (auto simp: distrib_right)
  moreover have "0 \<le> D" using computeD_ge_2(1) [OF amp X D] by simp
  ultimately show thesis using that amp src dc D by blast
qed

lemma SS_out_lt_reserve:
  assumes "SS_computeOutAmount L self0 i s d dir = Inr (self, r)" "SS_invar L self0"
    "0 < d" "0 < s" "0 \<le> i"
  shows "outAmount r < d"
proof -
  obtain y where "1 \<le> dst_scale self dir" "0 \<le> y"
    and nonneg: "0 \<le> d * dst_scale self dir - y - 1 \<Longrightarrow>
       outAmount r = (d * dst_scale self dir - y - 1) div dst_scale self dir"
    and neg: "d * dst_scale self dir - y - 1 < 0 \<Longrightarrow> outAmount r \<le> 0"
    using assms by (rule SS_swap_facts) blast
  then have "(d * dst_scale self dir - y - 1) div dst_scale self dir < d"
    by (subst div_less_iff_pos) auto
  with nonneg neg assms(3) show ?thesis by linarith
qed

lemma SS_swap_above_curve:
  assumes "SS_computeOutAmount L self0 i s d dir = Inr (self, r)" "SS_invar L self0"
    "0 < d" "0 < s" "0 \<le> i" and pos: "0 < outAmount r"
  shows "\<exists>D. computeD (ss_amp self) (s * src_scale self dir) (d * dst_scale self dir) = Inr D \<and>
    above_curve (ss_amp self) D ((s + i) * src_scale self dir) ((d - outAmount r) * dst_scale self dir)"
proof -
  obtain D y where *: "1 \<le> ss_amp self" "1 \<le> src_scale self dir" "1 \<le> dst_scale self dir" "0 \<le> y" "0 \<le> D"
    and D: "computeD (ss_amp self) (s * src_scale self dir) (d * dst_scale self dir) = Inr D"
    and ac: "above_curve (ss_amp self) D ((s + i) * src_scale self dir) (y + 1)"
    and nonneg: "0 \<le> d * dst_scale self dir - y - 1 \<Longrightarrow>
       outAmount r = (d * dst_scale self dir - y - 1) div dst_scale self dir"
    and neg: "d * dst_scale self dir - y - 1 < 0 \<Longrightarrow> outAmount r \<le> 0"
    using assms(1-5) by (rule SS_swap_facts) blast
  have "0 \<le> d * dst_scale self dir - y - 1" using neg pos by linarith
  then have "outAmount r * dst_scale self dir \<le> d * dst_scale self dir - y - 1"
    using nonneg * div_mult_le_pos [of "dst_scale self dir" "d * dst_scale self dir - y - 1"] by simp
  then have "y + 1 \<le> (d - outAmount r) * dst_scale self dir" by (simp add: left_diff_distrib)
  then have "above_curve (ss_amp self) D ((s + i) * src_scale self dir) ((d - outAmount r) * dst_scale self dir)"
    using * assms by (intro above_curve_mono [OF _ _ _ _ _ ac]) auto
  with D show ?thesis by blast
qed

lemma SS_computeOutAmount_repeat:
  assumes "SS_computeOutAmount L self0 i s d dir = Inr (self, r)"
    "0 \<le> ss_onChainTime self0" "ss_onChainTime self0 + BASE_CACHE_EXPIRE < 2 ^ 53"
  shows "SS_computeOutAmount L self i s d dir = Inr (self, r)"
proof -
  obtain self1 where u: "updateDepegInfoIfExpired L self0 = Inr self1"
    using assms(1) by (auto simp: SS_computeOutAmount_def)
  have "updateDepegInfoIfExpired L self1 = Inr self1" using u assms(2,3) by (rule update_idem)
  then have "SS_computeOutAmount L self1 i s d dir = SS_computeOutAmount L self0 i s d dir"
    using u by (simp add: SS_computeOutAmount_def)
  moreover have "self1 = self" using assms(1) u by (auto simp: SS_computeOutAmount_def Let_def split: prod.splits)
  ultimately show ?thesis using assms(1) by simp
qed

section \<open>Concrete objects\<close>

text \<open>
  A stable pool whose token A has nine decimals and token B six, and a pool of a token and its
  staked form at a cached price of 1.2.
\<close>

definition sampleStable :: stableSwap where
  "sampleStable = \<lparr>ss_amp = 100,
     ss_tokenMultiplier = \<lparr>tokenAMultiplier = 1, tokenBMultiplier = 1000, precisionFactor = 9\<rparr>,
     ss_depeg = \<lparr>baseVirtualPrice = 0, baseCacheUpdated = 0, depegType = DepegNone\<rparr>,
     ss_extraAccounts = (\<lambda>_. None), ss_onChainTime = 1700000000, ss_stakePoolPubkey = PublicKey ''stake''\<rparr>"

definition sampleDepeg :: stableSwap where
  "sampleDepeg = \<lparr>ss_amp = 100,
     ss_tokenMultiplier = \<lparr>tokenAMultiplier = 1, tokenBMultiplier = 1, precisionFactor = 9\<rparr>,
     ss_depeg = \<lparr>baseVirtualPrice = 1200000, baseCacheUpdated = 1699999999, depegType = DepegLido\<rparr>,
     ss_extraAccounts = (\<lambda>_. None), ss_onChainTime = 1700000000, ss_stakePoolPubkey = PublicKey ''stake''\<rparr>"

lemma sample_invar: "SS_invar referenceLib sampleStable" "SS_invar referenceLib sampleDepeg"
  by (simp_all add: SS_invar_def sampleStable_def sampleDepeg_def getBasePoolVirtualPrice_def)

lemma sampleStable_out:
  "case SS_computeOutAmount referenceLib sampleStable 1000000000 5000000000000 6000000000 AToB of
     Inl e \<Rightarrow> False | Inr (self, r) \<Rightarrow> 0 < outAmount r \<and> outAmount r < 1000000000"
  by code_simp

lemma sampleDepeg_out:
  "case SS_computeOutAmount referenceLib sampleDepeg 1000000 5000000000 6000000000 BToA of
     Inl e \<Rightarrow> False | Inr (self, r) \<Rightarrow> 0 < outAmount r \<and> outAmount r < 2000000"
  by code_simp

section \<open>Properties\<close>

text \<open>
  C22. A swap quoted by the stable curve never takes the pool below the invariant it had: after
  the trade the upscaled balances lie strictly above the curve of the D computed before it, in
  both directions and with or without a depeg price.
\<close>

theorem SS_swap_stays_above_curve:
  assumes "SS_computeOutAmount L self0 sourceAmount swapSourceAmount swapDestinationAmount dir = Inr (self, r)"
    and "SS_invar L self0" "0 < swapDestinationAmount" "0 < swapSourceAmount" "0 \<le> sourceAmount"
    and "0 < outAmount r"
  shows "outAmount r < swapDestinationAmount \<and>
    (\<exists>D. computeD (ss_amp self) (swapSourceAmount * src_scale self dir)
           (swapDestinationAmount * dst_scale self dir) = Inr D \<and>
       above_curve (ss_amp self) D ((swapSourceAmount + sourceAmount) * src_scale self dir)
         ((swapDestinationAmount - outAmount r) * dst_scale self dir))"
  using SS_swap_above_curve [OF assms] SS_out_lt_reserve [OF assms(1-5)] by blast

theorem SS_swap_stays_above_curve_witness:
  "\<exists>self r D. SS_computeOutAmount referenceLib sampleStable 1000000000 5000000000000 6000000000 AToB = Inr (self, r) \<and>
     0 < outAmount r \<and> outAmount r < 6000000000 \<and>
     computeD (ss_amp self) (5000000000000 * src_scale self AToB) (6000000000 * dst_scale self AToB) = Inr D \<and>
     above_curve (ss_amp self) D ((5000000000000 + 1000000000) * src_scale self AToB)
       ((6000000000 - outAmount r) * dst_scale self AToB)"
proof -
  obtain self r where
    "SS_computeOutAmount referenceLib sampleStable 1000000000 5000000000000 6000000000 AToB = Inr (self, r)"
    "0 < outAmount r"
    using sampleStable_out by (auto split: sum.splits prod.splits)
  with SS_swap_stays_above_curve [OF this(1) sample_invar(1) _ _ _ this(2)] show ?thesis by auto
qed

text \<open>
  Quoting is repeatable: the first quote may refresh the cached price and write it to the
  curve object, and the same quote on the object it leaves behind gives the same result and
  leaves the object as it is.
\<close>

lemma SS_quote_repeatable:
  assumes "SS_computeOutAmount L self0 sourceAmount swapSourceAmount swapDestinationAmount dir = Inr (self, r)"
    and "0 \<le> ss_onChainTime self0" "ss_onChainTime self0 + BASE_CACHE_EXPIRE < 2 ^ 53"
  shows "SS_computeOutAmount L self sourceAmount swapSourceAmount swapDestinationAmount dir = Inr (self, r)"
  by (rule SS_computeOutAmount_repeat [OF assms])

text \<open>
  \<^verbatim>\<open>computeInAmount\<close> of the stable curve over-asks when the source token is upscaled: it
  subtracts the raw source reserve from the upscaled balance. For a pool of 6000 token B (six
  decimals) and 5000 token A (nine decimals) it asks for over 5995 token B to buy one token A,
  although one and one hundredth of a token B already buys it.
\<close>

lemma SS_computeInAmount_over_asks:
  "(case SS_computeInAmount referenceLib sampleStable 1000000000 6000000000 5000000000000 BToA of
      Inl e \<Rightarrow> False | Inr (self, i) \<Rightarrow> i = 5995001833) \<and>
   (case SS_computeOutAmount referenceLib sampleStable 1010000 6000000000 5000000000000 BToA of
      Inl e \<Rightarrow> False | Inr (self, r) \<Rightarrow> 1000000000 \<le> outAmount r)"
  by code_simp

text \<open>
  The price impact of a stable quote can be negative: the spot price that
  \<^verbatim>\<open>computeOutAmountWithoutSlippage\<close> derives is that of a curve with Ann = 4 amp, while the
  calculator trades on the curve with Ann = 2 amp.
\<close>

lemma SS_priceImpact_negative:
  "case SS_computeOutAmount referenceLib sampleStable 1000000000 5000000000000 6000000000 AToB of
     Inl e \<Rightarrow> False
   | Inr (self, r) \<Rightarrow> (case priceImpact r of Decimal q \<Rightarrow> q < 0 | _ \<Rightarrow> False)"
  by code_simp

end
