(* ===== verification/SwapCurve.thy ===== *)
theory SwapCurve
  imports StableSwap
begin

text \<open>
  The interface \<^verbatim>\<open>SwapCurve\<close> of curve/index.ts: a value is one of its two implementations and
  every method dispatches on it. A method returns the curve object it leaves behind, since the
  stable curve refreshes its cached price. The locale \<open>swap_curve\<close> states what the quoting
  code relies on; both implementations and the dispatch interpret it.
\<close>

section \<open>Dispatch\<close>

datatype swapCurve = ConstantProductSwap | StableSwap stableSwap

definition curve_computeOutAmount ::
  "mathLib \<Rightarrow> swapCurve \<Rightarrow> int \<Rightarrow> int \<Rightarrow> int \<Rightarrow> tradeDirection \<Rightarrow> (swapCurve \<times> outResult) res" where
  "curve_computeOutAmount L curve sourceAmount swapSourceAmount swapDestinationAmount dir =
     (case curve of
        ConstantProductSwap \<Rightarrow>
          rbind (CP_computeOutAmount L sourceAmount swapSourceAmount swapDestinationAmount)
            (\<lambda>r. Inr (ConstantProductSwap, r))
      | StableSwap self \<Rightarrow>
          rbind (SS_computeOutAmount L self sourceAmount swapSourceAmount swapDestinationAmount dir)
            (\<lambda>(self', r). Inr (StableSwap self', r)))"

definition curve_computeD :: "mathLib \<Rightarrow> swapCurve \<Rightarrow> int \<Rightarrow> int \<Rightarrow> (swapCurve \<times> int) res" where
  "curve_computeD L curve tokenA tokenB =
     (case curve of
        ConstantProductSwap \<Rightarrow> rbind (CP_computeD L tokenA tokenB) (\<lambda>d. Inr (ConstantProductSwap, d))
      | StableSwap self \<Rightarrow>
          rbind (SS_computeD L self tokenA tokenB) (\<lambda>(self', d). Inr (StableSwap self', d)))"

definition curve_computeInAmount ::
  "mathLib \<Rightarrow> swapCurve \<Rightarrow> int \<Rightarrow> int \<Rightarrow> int \<Rightarrow> tradeDirection \<Rightarrow> (swapCurve \<times> int) res" where
  "curve_computeInAmount L curve destAmount swapSourceAmount swapDestinationAmount dir =
     (case curve of
        ConstantProductSwap \<Rightarrow>
          rbind (CP_computeInAmount destAmount swapSourceAmount swapDestinationAmount)
            (\<lambda>i. Inr (ConstantProductSwap, i))
      | StableSwap self \<Rightarrow>
          rbind (SS_computeInAmount L self destAmount swapSourceAmount swapDestinationAmount dir)
            (\<lambda>(self', i). Inr (StableSwap self', i)))"

definition curve_computeImbalanceDeposit ::
  "mathLib \<Rightarrow> swapCurve \<Rightarrow> int \<Rightarrow> int \<Rightarrow> int \<Rightarrow> int \<Rightarrow> int \<Rightarrow> poolFees \<Rightarrow> (swapCurve \<times> int) res" where
  "curve_computeImbalanceDeposit L curve depositA depositB swapTokenA swapTokenB lpSup f =
     (case curve of
        ConstantProductSwap \<Rightarrow>
          rbind (CP_computeImbalanceDeposit depositA depositB swapTokenA swapTokenB lpSup f)
            (\<lambda>m. Inr (ConstantProductSwap, m))
      | StableSwap self \<Rightarrow>
          rbind (SS_computeImbalanceDeposit L self depositA depositB swapTokenA swapTokenB lpSup f)
            (\<lambda>(self', m). Inr (StableSwap self', m)))"

definition curve_computeWithdrawOne ::
  "mathLib \<Rightarrow> swapCurve \<Rightarrow> int \<Rightarrow> int \<Rightarrow> int \<Rightarrow> int \<Rightarrow> poolFees \<Rightarrow> tradeDirection \<Rightarrow> (swapCurve \<times> int) res" where
  "curve_computeWithdrawOne L curve lpAmount lpSup swapTokenA swapTokenB f dir =
     (case curve of
        ConstantProductSwap \<Rightarrow>
          rbind (CP_computeWithdrawOne lpAmount lpSup swapTokenA swapTokenB f dir)
            (\<lambda>w. Inr (ConstantProductSwap, w))
      | StableSwap self \<Rightarrow>
          rbind (SS_computeWithdrawOne L self lpAmount lpSup swapTokenA swapTokenB f dir)
            (\<lambda>(self', w). Inr (StableSwap self', w)))"

definition curve_getRemainingAccounts :: "swapCurve \<Rightarrow> accountMeta list" where
  "curve_getRemainingAccounts curve =
     (case curve of
        ConstantProductSwap \<Rightarrow> CP_getRemainingAccounts
      | StableSwap self \<Rightarrow> SS_getRemainingAccounts self)"

definition curve_invar :: "mathLib \<Rightarrow> swapCurve \<Rightarrow> bool" where
  "curve_invar L curve \<longleftrightarrow>
     (case curve of ConstantProductSwap \<Rightarrow> True | StableSwap self \<Rightarrow> SS_invar L self)"

section \<open>Swaps as steps\<close>

text \<open>
  A trade against reserves (a, b) adds the amount in to one side and takes the amount out from
  the other. The relation is generic in the curve, so that its invariants are proved once.
\<close>

inductive swap_step ::
  "('c \<Rightarrow> int \<Rightarrow> int \<Rightarrow> int \<Rightarrow> tradeDirection \<Rightarrow> ('c \<times> outResult) res) \<Rightarrow>
    'c \<times> int \<times> int \<Rightarrow> 'c \<times> int \<times> int \<Rightarrow> bool"
  for f where
  aToB: "0 \<le> i \<Longrightarrow> f c i a b AToB = Inr (c', r) \<Longrightarrow>
    swap_step f (c, a, b) (c', a + i, b - outAmount r)"
| bToA: "0 \<le> i \<Longrightarrow> f c i b a BToA = Inr (c', r) \<Longrightarrow>
    swap_step f (c, a, b) (c', a - outAmount r, b + i)"

inductive_cases swap_stepE: "swap_step f (c, a, b) (c', a', b')"

section \<open>The contract of a curve\<close>

locale swap_curve =
  fixes invar :: "'c \<Rightarrow> bool"
    and computeOut :: "'c \<Rightarrow> int \<Rightarrow> int \<Rightarrow> int \<Rightarrow> tradeDirection \<Rightarrow> ('c \<times> outResult) res"
  assumes out_invar: "invar c \<Longrightarrow> computeOut c i s d t = Inr (c', r) \<Longrightarrow> invar c'"
    and out_lt_reserve: "invar c \<Longrightarrow> 0 \<le> i \<Longrightarrow> 0 < s \<Longrightarrow> 0 < d \<Longrightarrow>
      computeOut c i s d t = Inr (c', r) \<Longrightarrow> outAmount r < d"
begin

lemma step_positive:
  assumes "swap_step computeOut (c, a, b) (c', a', b')" "invar c" "0 < a" "0 < b"
  shows "invar c' \<and> 0 < a' \<and> 0 < b'"
  using assms out_invar out_lt_reserve
  by (elim swap_stepE) (fastforce intro: add_pos_nonneg)+

lemma steps_positive:
  assumes "(swap_step computeOut)\<^sup>*\<^sup>* (c, a, b) (c', a', b')" "invar c" "0 < a" "0 < b"
  shows "invar c' \<and> 0 < a' \<and> 0 < b'"
  using assms
proof (induction "(c, a, b)" "(c', a', b')" arbitrary: c' a' b' rule: rtranclp.induct)
  case (rtrancl_into_rtrancl m)
  obtain cm am bm where m: "m = (cm, am, bm)" by (cases m)
  with rtrancl_into_rtrancl have "invar cm \<and> 0 < am \<and> 0 < bm" by blast
  then show ?case
    using rtrancl_into_rtrancl(3) m step_positive by blast
qed auto

end

text \<open>A curve that also never lowers the product of the reserves.\<close>

locale product_curve = swap_curve +
  assumes out_product: "invar c \<Longrightarrow> 0 \<le> i \<Longrightarrow> 0 < s \<Longrightarrow> 0 < d \<Longrightarrow>
      computeOut c i s d t = Inr (c', r) \<Longrightarrow> s * d \<le> (s + i) * (d - outAmount r)"
begin

lemma step_product:
  assumes "swap_step computeOut (c, a, b) (c', a', b')" "invar c" "0 < a" "0 < b"
  shows "a * b \<le> a' * b'"
  using assms out_product by (elim swap_stepE) (fastforce simp: mult.commute)+

lemma steps_product:
  assumes "(swap_step computeOut)\<^sup>*\<^sup>* (c, a, b) (c', a', b')" "invar c" "0 < a" "0 < b"
  shows "a * b \<le> a' * b'"
  using assms
proof (induction "(c, a, b)" "(c', a', b')" arbitrary: c' a' b' rule: rtranclp.induct)
  case (rtrancl_into_rtrancl m)
  obtain cm am bm where m: "m = (cm, am, bm)" by (cases m)
  with rtrancl_into_rtrancl have "a * b \<le> am * bm" by blast
  moreover have "invar cm \<and> 0 < am \<and> 0 < bm"
    using rtrancl_into_rtrancl m steps_positive by blast
  then have "am * bm \<le> a' * b'"
    using rtrancl_into_rtrancl(3) m step_product by blast
  ultimately show ?case by linarith
qed auto

end

section \<open>The implementations meet the contract\<close>

interpretation cp: product_curve "\<lambda>c. c = ConstantProductSwap" "curve_computeOutAmount L" for L
  by unfold_locales (auto simp: curve_computeOutAmount_def CP_out_bounds)

interpretation ss: swap_curve "SS_invar L" "SS_computeOutAmount L" for L
proof
  show "SS_invar L c'" if "SS_invar L c" "SS_computeOutAmount L c i s d t = Inr (c', r)" for c c' i s d t r
    using that(2,1) by (rule SS_computeOutAmount_D)
  show "outAmount r < d" if "SS_invar L c" "0 \<le> i" "0 < s" "0 < d"
      "SS_computeOutAmount L c i s d t = Inr (c', r)" for c c' i s d t r
    using that by (intro SS_out_lt_reserve)
qed

interpretation curve: swap_curve "curve_invar L" "curve_computeOutAmount L" for L
proof
  show "curve_invar L c'" if "curve_invar L c" "curve_computeOutAmount L c i s d t = Inr (c', r)" for c c' i s d t r
    using that ss.out_invar
    by (auto simp: curve_invar_def curve_computeOutAmount_def split: swapCurve.splits)
  show "outAmount r < d" if "curve_invar L c" "0 \<le> i" "0 < s" "0 < d"
      "curve_computeOutAmount L c i s d t = Inr (c', r)" for c c' i s d t r
    using that CP_out_bounds(2) ss.out_lt_reserve
    by (auto simp: curve_invar_def curve_computeOutAmount_def split: swapCurve.splits)
qed

section \<open>Concrete runs\<close>

lemma sample_run:
  "(swap_step (curve_computeOutAmount referenceLib))\<^sup>*\<^sup>* (ConstantProductSwap, 1000, 2000) (ConstantProductSwap, 1043, 1919)"
proof -
  let ?f = "curve_computeOutAmount referenceLib" and ?c = ConstantProductSwap
  let ?r = "\<lambda>x y. \<lparr>outAmount = x, priceImpact = getPriceImpact referenceLib x y\<rparr>"
  note c = CP_computeOutAmount_cases [where L = referenceLib]
  have 1: "swap_step ?f (?c, 1000, 2000) (?c, 1100, 1819)"
    using swap_step.aToB [of 100 ?f ?c 1000 2000 ?c "?r 181 200"] c [of 100 1000 2000]
    by (simp add: curve_computeOutAmount_def)
  have 2: "swap_step ?f (?c, 1100, 1819) (?c, 1043, 1919)"
    using swap_step.bToA [of 100 ?f ?c 1819 1100 ?c "?r 57 60"] c [of 100 1819 1100]
    by (simp add: curve_computeOutAmount_def)
  from 1 2 show ?thesis by (rule converse_rtranclp_into_rtranclp [OF _ r_into_rtranclp])
qed

lemma sample_stable_step:
  "\<exists>c a b. (swap_step (curve_computeOutAmount referenceLib))\<^sup>*\<^sup>*
     (StableSwap sampleStable, 5000000000000, 6000000000) (c, a, b) \<and> b < 6000000000"
proof -
  obtain self r where
    "SS_computeOutAmount referenceLib sampleStable 1000000000 5000000000000 6000000000 AToB = Inr (self, r)"
    "0 < outAmount r"
    using sampleStable_out by (auto split: sum.splits prod.splits)
  moreover from this(1) have "swap_step (curve_computeOutAmount referenceLib)
      (StableSwap sampleStable, 5000000000000, 6000000000)
      (StableSwap self, 5000000000000 + 1000000000, 6000000000 - outAmount r)"
    by (intro swap_step.aToB) (auto simp: curve_computeOutAmount_def)
  ultimately show ?thesis by (intro exI conjI r_into_rtranclp) auto
qed

section \<open>Properties\<close>

text \<open>
  C5. A pool cannot be drained: whatever swaps are made in whatever order against either curve,
  both reserves stay positive and the curve object keeps its invariant.
\<close>

theorem swaps_keep_reserves_positive:
  assumes "(swap_step (curve_computeOutAmount L))\<^sup>*\<^sup>* (c, a, b) (c', a', b')" "curve_invar L c" "0 < a" "0 < b"
  shows "curve_invar L c' \<and> 0 < a' \<and> 0 < b'"
  by (rule curve.steps_positive [OF assms])

theorem swaps_keep_reserves_positive_witness:
  "\<exists>c a b. (swap_step (curve_computeOutAmount referenceLib))\<^sup>*\<^sup>*
     (StableSwap sampleStable, 5000000000000, 6000000000) (c, a, b) \<and> b < 6000000000 \<and> 0 < a \<and> 0 < b"
proof -
  obtain c a b where run: "(swap_step (curve_computeOutAmount referenceLib))\<^sup>*\<^sup>*
     (StableSwap sampleStable, 5000000000000, 6000000000) (c, a, b)" "b < 6000000000"
    using sample_stable_step by blast
  have "curve_invar referenceLib (StableSwap sampleStable)" using sample_invar by (simp add: curve_invar_def)
  from swaps_keep_reserves_positive [OF run(1) this] run show ?thesis by auto
qed

text \<open>
  C26. On the constant product curve no sequence of swaps in either direction lowers the product
  of the reserves.
\<close>

theorem swaps_never_lower_product:
  assumes "(swap_step (curve_computeOutAmount L))\<^sup>*\<^sup>* (ConstantProductSwap, a, b) (c', a', b')" "0 < a" "0 < b"
  shows "a * b \<le> a' * b'"
  using cp.steps_product [OF assms(1) refl assms(2,3)] .

theorem swaps_never_lower_product_witness:
  "\<exists>c. (swap_step (curve_computeOutAmount referenceLib))\<^sup>*\<^sup>* (ConstantProductSwap, 1000, 2000) (c, 1043, 1919)
    \<and> 1000 * 2000 \<le> 1043 * (1919::int)"
  using sample_run swaps_never_lower_product [OF sample_run] by auto

end
