(* ===== verification/Vault.thy ===== *)
theory Vault
  imports Types
begin

text \<open>
  The vaults a pool keeps its tokens in. The client computes with the functions of
  @meteora-ag/vault-sdk, which the repository does not hold: they are the parameter
  \<open>vaultSdk\<close>, with the locale \<open>vault_sdk\<close> for what the quotes rely on. The on-chain
  vault (programs/dynamic-vault/src/state.rs) is in the repository and is modelled below with
  its checked 64- and 128-bit arithmetic; the package documents the same shares, and
  \<open>programSdk\<close> is the instance of the parameter read off that program.
\<close>

section \<open>The parameter\<close>

record vaultSdk =
  calculateWithdrawableAmount :: "int \<Rightarrow> vaultState \<Rightarrow> int"
  sdk_getAmountByShare :: "int \<Rightarrow> int \<Rightarrow> int \<Rightarrow> int res" \<comment> \<open>share, withdrawable amount, supply\<close>
  getUnmintAmount :: "int \<Rightarrow> int \<Rightarrow> int \<Rightarrow> int res" \<comment> \<open>amount, withdrawable amount, supply\<close>

locale vault_sdk =
  fixes V :: vaultSdk
  assumes amount_by_share: "tot \<noteq> 0 \<Longrightarrow> sdk_getAmountByShare V sh w tot = bn_div (sh * w) tot"
    and unmint_amount: "w \<noteq> 0 \<Longrightarrow> getUnmintAmount V amt w tot = bn_div (amt * tot) w"
begin

lemma amount_by_share_nonneg:
  "0 \<le> sh \<Longrightarrow> 0 \<le> w \<Longrightarrow> 0 < tot \<Longrightarrow> sdk_getAmountByShare V sh w tot = Inr (sh * w div tot)"
  by (simp add: amount_by_share)

lemma unmint_amount_nonneg:
  "0 \<le> amt \<Longrightarrow> 0 < w \<Longrightarrow> 0 \<le> tot \<Longrightarrow> getUnmintAmount V amt w tot = Inr (amt * tot div w)"
  by (simp add: unmint_amount)

text \<open>Minting shares for an amount and valuing them again never gains.\<close>

lemma unmint_then_value:
  assumes "0 \<le> amt" "0 < w" "0 < tot"
    and "getUnmintAmount V amt w tot = Inr sh" "sdk_getAmountByShare V sh w tot = Inr v"
  shows "0 \<le> v" "v \<le> amt"
proof -
  have sh: "sh = amt * tot div w" using assms unmint_amount_nonneg [of amt w tot] by simp
  then have "0 \<le> sh" using assms by simp
  then have v: "v = (amt * tot div w) * w div tot" using assms sh amount_by_share_nonneg [of sh w tot] by simp
  then show "v \<le> amt" using assms floor_share_roundtrip [of amt w tot] by simp
  show "0 \<le> v" using v \<open>0 \<le> sh\<close> sh assms by simp
qed

text \<open>A depositor's shares never lose to a deposit of another, nor a holder's own to it.\<close>

lemma deposit_value_mono:
  assumes "0 \<le> amt" "0 < w" "0 < tot" "0 \<le> lp"
    and mint: "getUnmintAmount V amt w tot = Inr sh"
    and before: "sdk_getAmountByShare V lp w tot = Inr v"
    and after: "sdk_getAmountByShare V (sh + lp) (w + amt) (tot + sh) = Inr v'"
  shows "v \<le> v'"
proof -
  have sh: "sh = amt * tot div w" using mint assms unmint_amount_nonneg [of amt w tot] by simp
  have sh0: "0 \<le> sh" using sh assms by simp
  have v: "v = lp * w div tot" using before assms amount_by_share_nonneg [of lp w tot] by simp
  have v': "v' = (sh + lp) * (w + amt) div (tot + sh)"
    using after assms sh0 amount_by_share_nonneg [of "sh + lp" "w + amt" "tot + sh"] by simp
  have "sh * w \<le> amt * tot" using assms sh by (simp add: div_mult_le_pos)
  have vs: "v * tot \<le> lp * w" using v assms by (simp add: div_mult_le_pos)
  have "v * (tot + sh) * tot \<le> lp * w * (tot + sh)"
    using mult_right_mono [OF vs, of "tot + sh"] assms sh0 by (simp add: algebra_simps)
  also have "\<dots> = lp * w * tot + lp * (sh * w)" by (simp add: algebra_simps)
  also have "\<dots> \<le> lp * w * tot + lp * (amt * tot)"
    using mult_left_mono [OF \<open>sh * w \<le> amt * tot\<close>, of lp] assms by simp
  also have "\<dots> = lp * (w + amt) * tot" by (simp add: algebra_simps)
  also have "\<dots> \<le> (sh + lp) * (w + amt) * tot"
    using assms sh0 by (intro mult_right_mono) auto
  finally have "v * (tot + sh) \<le> (sh + lp) * (w + amt)" using assms(3) by simp
  then show ?thesis using v' assms sh0 by (simp add: le_div_iff_pos)
qed

text \<open>Nor does a holder of at most all the shares gain more than was deposited.\<close>

lemma deposit_value_le:
  assumes "0 \<le> amt" "0 < w" "0 < tot" "0 \<le> lp" "lp \<le> tot"
    and mint: "getUnmintAmount V amt w tot = Inr sh"
    and before: "sdk_getAmountByShare V lp w tot = Inr v"
    and after: "sdk_getAmountByShare V (sh + lp) (w + amt) (tot + sh) = Inr v'"
  shows "v' \<le> v + amt"
proof -
  have sh: "sh = amt * tot div w" using mint assms unmint_amount_nonneg [of amt w tot] by simp
  have sh0: "0 \<le> sh" using sh assms by simp
  have v: "v = lp * w div tot" using before assms amount_by_share_nonneg [of lp w tot] by simp
  have v': "v' = (sh + lp) * (w + amt) div (tot + sh)"
    using after assms sh0 amount_by_share_nonneg [of "sh + lp" "w + amt" "tot + sh"] by simp
  have "sh * w \<le> amt * tot" using assms sh by (simp add: div_mult_le_pos)
  then have "0 \<le> (tot - lp) * (amt * tot - sh * w)" using assms by simp
  also have "\<dots> = (lp * w + amt * tot) * (tot + sh) - (sh + lp) * (w + amt) * tot"
    by (simp add: algebra_simps)
  finally have "(sh + lp) * (w + amt) * tot \<le> (lp * w + amt * tot) * (tot + sh)" by simp
  also have "\<dots> < ((v + amt + 1) * tot) * (tot + sh)"
    using div_Suc_mult_gt [of tot "lp * w"] v assms sh0
    by (intro mult_strict_right_mono) (auto simp: distrib_right)
  also have "\<dots> = ((v + amt + 1) * (tot + sh)) * tot" by (simp add: algebra_simps)
  finally have "(sh + lp) * (w + amt) < (v + amt + 1) * (tot + sh)" using assms(3) by simp
  then show ?thesis
    using v' assms(3) sh0 div_less_iff_pos [of "tot + sh" "(sh + lp) * (w + amt)" "v + amt + 1"] by simp
qed

end

section \<open>The on-chain vault\<close>

definition LOCKED_PROFIT_DEGRADATION_DENOMINATOR :: int where
  "LOCKED_PROFIT_DEGRADATION_DENOMINATOR = 1000000000000"

definition checked :: "nat \<Rightarrow> int \<Rightarrow> int option" where
  "checked w n = (if 0 \<le> n \<and> n < 2 ^ w then Some n else None)"

definition checked_div :: "int \<Rightarrow> int \<Rightarrow> int option" where
  "checked_div a b = (if b = 0 then None else Some (a div b))"

definition calculate_locked_profit :: "lockedProfitTracker \<Rightarrow> int \<Rightarrow> int option" where
  "calculate_locked_profit self current_time =
     Option.bind (checked 64 (current_time - lastReport self)) (\<lambda>duration.
     Option.bind (checked 128 (duration * lockedProfitDegradation self)) (\<lambda>locked_fund_ratio.
     if locked_fund_ratio > LOCKED_PROFIT_DEGRADATION_DENOMINATOR then Some 0
     else
       Option.bind (checked 128 (lastUpdatedLockedProfit self *
           (LOCKED_PROFIT_DEGRADATION_DENOMINATOR - locked_fund_ratio))) (\<lambda>p.
       Option.bind (checked_div p LOCKED_PROFIT_DEGRADATION_DENOMINATOR) (\<lambda>locked_profit.
       checked 64 locked_profit))))"

definition get_unlocked_amount :: "vaultState \<Rightarrow> int \<Rightarrow> int option" where
  "get_unlocked_amount self current_time =
     Option.bind (calculate_locked_profit (v_lockedProfitTracker self) current_time) (\<lambda>locked.
     checked 64 (v_totalAmount self - locked))"

definition get_amount_by_share :: "vaultState \<Rightarrow> int \<Rightarrow> int \<Rightarrow> int \<Rightarrow> int option" where
  "get_amount_by_share self current_time share total_supply =
     Option.bind (get_unlocked_amount self current_time) (\<lambda>total_amount.
     Option.bind (checked 128 (share * total_amount)) (\<lambda>p.
     Option.bind (checked_div p total_supply) (\<lambda>q. checked 64 q)))"

definition get_unmint_amount :: "vaultState \<Rightarrow> int \<Rightarrow> int \<Rightarrow> int \<Rightarrow> int option" where
  "get_unmint_amount self current_time out_token total_supply =
     Option.bind (get_unlocked_amount self current_time) (\<lambda>total_amount.
     Option.bind (checked 128 (out_token * total_supply)) (\<lambda>p.
     Option.bind (checked_div p total_amount) (\<lambda>q. checked 64 q)))"

section \<open>The instance read off the program\<close>

definition programSdk :: vaultSdk where
  "programSdk =
     \<lparr>calculateWithdrawableAmount =
        (\<lambda>now vault. case get_unlocked_amount vault now of Some a \<Rightarrow> a | None \<Rightarrow> 0),
      sdk_getAmountByShare = (\<lambda>share amount supply. if supply = 0 then Inr 0 else bn_div (share * amount) supply),
      getUnmintAmount = (\<lambda>amount total supply. bn_div (amount * supply) total)\<rparr>"

interpretation program: vault_sdk programSdk
  by unfold_locales (simp_all add: programSdk_def)

lemma checked_eq_Some_iff [simp]: "checked w n = Some m \<longleftrightarrow> m = n \<and> 0 \<le> n \<and> n < 2 ^ w"
  by (auto simp: checked_def)

lemma checked_div_eq_Some_iff [simp]: "checked_div a b = Some m \<longleftrightarrow> b \<noteq> 0 \<and> m = a div b"
  by (auto simp: checked_div_def)

lemma unlocked_nonneg: "get_unlocked_amount v t = Some a \<Longrightarrow> 0 \<le> a"
  by (auto simp: get_unlocked_amount_def bind_eq_Some_conv)

text \<open>Where the on-chain arithmetic does not overflow, the instance computes the same shares.\<close>

lemma program_amount_by_share:
  assumes "get_amount_by_share v t sh tot = Some a" "0 \<le> sh" "0 < tot"
  shows "sdk_getAmountByShare programSdk sh (calculateWithdrawableAmount programSdk t v) tot = Inr a"
  using assms by (auto simp: get_amount_by_share_def programSdk_def bind_eq_Some_conv dest: unlocked_nonneg)

lemma program_unmint_amount:
  assumes "get_unmint_amount v t amt tot = Some a" "0 \<le> amt" "0 \<le> tot"
  shows "getUnmintAmount programSdk amt (calculateWithdrawableAmount programSdk t v) tot = Inr a"
  using assms unlocked_nonneg [of v t]
  by (fastforce simp: get_unmint_amount_def programSdk_def bind_eq_Some_conv bn_div_def sdiv_nonneg_eq_div)

lemma locked_profit_le:
  assumes "calculate_locked_profit tr t = Some p" "0 \<le> lastUpdatedLockedProfit tr"
  shows "0 \<le> p" "p \<le> lastUpdatedLockedProfit tr"
  using assms mult_div_le_self [of "lastUpdatedLockedProfit tr"
      "LOCKED_PROFIT_DEGRADATION_DENOMINATOR - (t - lastReport tr) * lockedProfitDegradation tr"
      LOCKED_PROFIT_DEGRADATION_DENOMINATOR]
  by (auto simp: calculate_locked_profit_def bind_eq_Some_conv LOCKED_PROFIT_DEGRADATION_DENOMINATOR_def
      split: if_splits)

text \<open>A vault with 4,000 tokens, of which 100 are locked profit unlocking over ten thousand seconds.\<close>

definition unlockingVault :: vaultState where
  "unlockingVault =
     \<lparr>v_totalAmount = 4000, v_tokenVault = PublicKey ''tokenVault'', v_tokenMint = PublicKey ''token'', v_lpMint = PublicKey ''vaultLp'',
      v_lockedProfitTracker = \<lparr>lastUpdatedLockedProfit = 100, lastReport = 1000, lockedProfitDegradation = 100000000\<rparr>\<rparr>"

section \<open>Properties\<close>



end
