(* ===== verification/JsNumber.thy ===== *)
theory JsNumber
  imports Prelude Complex_Main "HOL-Library.Log_Nat"
begin

text \<open>
  The JavaScript \<^verbatim>\<open>number\<close>s that enter the arithmetic: a slippage rate and what is computed from
  it before it becomes a \<^verbatim>\<open>BN\<close>. A finite number is the rational it denotes, and every operation
  rounds its exact result to 53 significant bits, ties to even. Magnitudes outside the
  normal range of a double (overflow, subnormals) do not occur in these computations and are
  not modelled.
\<close>

section \<open>Definitions\<close>

text \<open>The exponent of the leading bit, computed from the bit lengths of the fraction.\<close>

definition js_exp :: "rat \<Rightarrow> int" where
  "js_exp x =
     (let (p, q) = quotient_of \<bar>x\<bar>; k = bitlen p - bitlen q
      in if 2 powi k \<le> \<bar>x\<bar> then k else k - 1)"

definition round_half_even :: "rat \<Rightarrow> int" where
  "round_half_even y =
     (let f = \<lfloor>y\<rfloor>; r = y - of_int f
      in if r < 1 / 2 then f else if 1 / 2 < r then f + 1 else if even f then f else f + 1)"

definition js_round :: "rat \<Rightarrow> rat" where
  "js_round x =
     (if x = 0 then 0
      else let u = 2 powi (js_exp x - 52) in of_int (round_half_even (x / u)) * u)"

definition js_add :: "rat \<Rightarrow> rat \<Rightarrow> rat" where "js_add a b = js_round (a + b)"
definition js_sub :: "rat \<Rightarrow> rat \<Rightarrow> rat" where "js_sub a b = js_round (a - b)"
definition js_mul :: "rat \<Rightarrow> rat \<Rightarrow> rat" where "js_mul a b = js_round (a * b)"
definition js_div :: "rat \<Rightarrow> rat \<Rightarrow> rat" where "js_div a b = js_round (a / b)"

text \<open>\<^verbatim>\<open>new BN(x)\<close> of a number keeps its whole part and refuses 53 bits and more.\<close>

definition BN_of_number :: "rat \<Rightarrow> int res" where
  "BN_of_number x =
     (if \<bar>x\<bar> < 2 ^ 53 then Inr (if 0 \<le> x then \<lfloor>x\<rfloor> else - \<lfloor>- x\<rfloor>) else Inl BnAssert)"

section \<open>Rounding\<close>

lemma round_half_even_bounds: "y - 1 / 2 \<le> of_int (round_half_even y)" "of_int (round_half_even y) \<le> y + 1 / 2"
  by (simp_all add: round_half_even_def Let_def) linarith+

lemma round_half_even_int [simp]: "round_half_even (of_int n) = n"
  by (simp add: round_half_even_def)

lemma round_half_even_mono:
  assumes "x \<le> y"
  shows "round_half_even x \<le> round_half_even y"
proof (cases "\<lfloor>x\<rfloor> = \<lfloor>y\<rfloor>")
  case True
  with assms show ?thesis by (auto simp: round_half_even_def Let_def)
next
  case False
  with assms have "\<lfloor>x\<rfloor> + 1 \<le> \<lfloor>y\<rfloor>" using floor_mono [OF assms] by linarith
  moreover have "round_half_even x \<le> \<lfloor>x\<rfloor> + 1" "\<lfloor>y\<rfloor> \<le> round_half_even y"
    by (simp_all add: round_half_even_def Let_def)
  ultimately show ?thesis by linarith
qed

lemma powi2_pos: "0 < (2::rat) powi k"
  by simp

lemma powi2_less_imp: "(2::rat) powi a < 2 powi b \<Longrightarrow> a < b"
  using power_int_increasing [of b a "2::rat"] by linarith

lemma bitlen_powi:
  assumes "0 < (p::int)"
  shows "(2::rat) powi (bitlen p - 1) \<le> of_int p" "of_int p < (2::rat) powi bitlen p"
proof -
  have b: "2 ^ nat (bitlen p - 1) \<le> p" "p < 2 ^ nat (bitlen p)"
    using bitlen_bounds [OF assms] by auto
  have pos: "0 < bitlen p" using assms by (simp add: bitlen_alt_def)
  have "(2::rat) powi (bitlen p - 1) = of_int (2 ^ nat (bitlen p - 1))"
    "(2::rat) powi bitlen p = of_int (2 ^ nat (bitlen p))"
    using pos by (simp_all add: power_int_def)
  with b show "(2::rat) powi (bitlen p - 1) \<le> of_int p" "of_int p < (2::rat) powi bitlen p"
    by (simp_all only: of_int_le_iff of_int_less_iff)
qed

lemma js_exp_bounds:
  assumes "0 < x"
  shows "2 powi js_exp x \<le> x" "x < 2 powi (js_exp x + 1)"
proof -
  obtain p q where pq: "quotient_of x = (p, q)" by (cases "quotient_of x")
  have q: "0 < q" using quotient_of_denom_pos [OF pq] .
  have x: "x = of_int p / of_int q" using quotient_of_div [OF pq] .
  have p: "0 < p" using assms q x by (simp add: zero_less_divide_iff)
  define k where "k = bitlen p - bitlen q"
  have e: "js_exp x = (if 2 powi k \<le> x then k else k - 1)"
    using assms pq by (simp add: js_exp_def k_def)
  have "of_int p / of_int q < (2 powi bitlen p) / (2 powi (bitlen q - 1) :: rat)"
    using bitlen_powi [OF p] bitlen_powi [OF q] q p by (intro frac_less) auto
  also have "\<dots> = 2 powi (k + 1)" by (simp add: k_def algebra_simps flip: power_int_diff)
  finally have up: "x < 2 powi (k + 1)" by (simp add: x)
  have "(2 powi (bitlen p - 1)) / (2 powi bitlen q :: rat) \<le> of_int p / of_int q"
    using bitlen_powi [OF p] bitlen_powi [OF q] q p by (intro frac_le) auto
  moreover have "(2 powi (bitlen p - 1)) / (2 powi bitlen q :: rat) = 2 powi (k - 1)"
    by (simp add: k_def algebra_simps flip: power_int_diff)
  ultimately have lo: "2 powi (k - 1) \<le> x" by (simp add: x)
  show "2 powi js_exp x \<le> x" "x < 2 powi (js_exp x + 1)" using e up lo by (auto split: if_splits)
qed

lemma js_round_bounds:
  assumes "0 < x"
  shows "2 powi js_exp x \<le> js_round x" "js_round x \<le> 2 powi (js_exp x + 1)"
proof -
  let ?u = "2 powi (js_exp x - 52) :: rat"
  have u: "0 < ?u" by simp
  have lo: "of_int (2 ^ 52) * ?u = 2 powi js_exp x" and hi: "of_int (2 ^ 53) * ?u = 2 powi (js_exp x + 1)"
    by (simp_all add: power_int_diff power_int_add)
  have "of_int (2 ^ 52) \<le> x / ?u" "x / ?u \<le> of_int (2 ^ 53)"
    using js_exp_bounds [OF assms] u lo hi by (auto simp: pos_le_divide_eq pos_divide_le_eq)
  then have "2 ^ 52 \<le> round_half_even (x / ?u)" "round_half_even (x / ?u) \<le> 2 ^ 53"
    using round_half_even_mono round_half_even_int by metis+
  then have "of_int (2 ^ 52) * ?u \<le> of_int (round_half_even (x / ?u)) * ?u"
    "of_int (round_half_even (x / ?u)) * ?u \<le> of_int (2 ^ 53) * ?u"
    using u by (simp_all only: of_int_le_iff mult_le_cancel_right_pos)
  moreover have "js_round x = of_int (round_half_even (x / ?u)) * ?u"
    using assms by (simp add: js_round_def Let_def)
  ultimately show "2 powi js_exp x \<le> js_round x" "js_round x \<le> 2 powi (js_exp x + 1)"
    by (simp_all only: lo hi)
qed

lemma js_round_mono:
  assumes "0 < x" "x \<le> y"
  shows "js_round x \<le> js_round y"
proof -
  have y: "0 < y" using assms by linarith
  have "2 powi js_exp x < (2 powi (js_exp y + 1) :: rat)"
    using js_exp_bounds [OF assms(1)] js_exp_bounds [OF y] assms(2) by linarith
  then have le: "js_exp x \<le> js_exp y" using powi2_less_imp by fastforce
  show ?thesis
  proof (cases "js_exp x = js_exp y")
    case True
    let ?u = "2 powi (js_exp y - 52) :: rat"
    have "round_half_even (x / ?u) \<le> round_half_even (y / ?u)"
      using assms by (intro round_half_even_mono divide_right_mono) auto
    then show ?thesis using True assms y by (simp add: js_round_def Let_def)
  next
    case False
    then have "2 powi (js_exp x + 1) \<le> (2 powi js_exp y :: rat)"
      using le by (intro power_int_increasing) auto
    then show ?thesis using js_round_bounds [OF assms(1)] js_round_bounds [OF y] by linarith
  qed
qed

lemma js_round_int:
  assumes "0 \<le> n" "n < 2 ^ 53"
  shows "js_round (of_int n) = of_int n"
proof (cases "n = 0")
  case False
  then have n: "0 < (of_int n :: rat)" using assms by simp
  have "2 powi js_exp (of_int n) \<le> (of_int n :: rat)" using js_exp_bounds [OF n] by simp
  also have "\<dots> < of_int (2 ^ 53)" using assms by (simp only: of_int_less_iff)
  also have "\<dots> = 2 powi 53" by simp
  finally have e: "js_exp (of_int n) \<le> 52" using powi2_less_imp by fastforce
  let ?e = "js_exp (of_int n)"
  have u: "1 / (2 powi (?e - 52) :: rat) = of_int (2 ^ nat (52 - ?e))"
    using e by (simp add: power_int_def field_simps)
  have "of_int n / (2 powi (?e - 52) :: rat) = of_int (n * 2 ^ nat (52 - ?e))"
    using u by (metis of_int_mult times_divide_eq_right mult.right_neutral)
  then have "round_half_even (of_int n / (2 powi (?e - 52))) = n * 2 ^ nat (52 - ?e)"
    by (metis round_half_even_int)
  then have "js_round (of_int n) = of_int (n * 2 ^ nat (52 - ?e)) * 2 powi (?e - 52)"
    using n by (simp add: js_round_def Let_def)
  also have "\<dots> = of_int n"
    by (metis \<open>of_int n / (2 powi (?e - 52)) = of_int (n * 2 ^ nat (52 - ?e))\<close> nonzero_eq_divide_eq
        less_irrefl powi2_pos)
  finally show ?thesis .
qed (simp add: js_round_def)

lemma js_round_le_int: "0 \<le> x \<Longrightarrow> x \<le> of_int n \<Longrightarrow> n < 2 ^ 53 \<Longrightarrow> js_round x \<le> of_int n"
proof (cases "x = 0")
  case False
  assume "0 \<le> x" "x \<le> of_int n" "n < 2 ^ 53"
  moreover from this have "0 \<le> n" by linarith
  ultimately show ?thesis using js_round_mono [of x "of_int n"] js_round_int [of n] False by simp
qed (simp add: js_round_def)

lemma js_round_ge_int: "0 \<le> n \<Longrightarrow> of_int n \<le> x \<Longrightarrow> n < 2 ^ 53 \<Longrightarrow> of_int n \<le> js_round x"
proof -
  assume *: "0 \<le> n" "of_int n \<le> x" "n < 2 ^ 53"
  show ?thesis
  proof (cases "n = 0")
    case True
    with * show ?thesis
      using js_round_bounds(1) [of x] powi2_pos [of "js_exp x"]
      by (cases "x = 0") (auto simp: js_round_def simp del: zero_less_power_int)
  next
    case False
    with * show ?thesis using js_round_mono [of "of_int n" x] js_round_int [of n] by simp
  qed
qed

lemma BN_of_number_nonneg: "0 \<le> x \<Longrightarrow> x < 2 ^ 53 \<Longrightarrow> BN_of_number x = Inr \<lfloor>x\<rfloor>"
  by (simp add: BN_of_number_def)

end
