(* ===== verification/AmmUtils.thy ===== *)
theory AmmUtils
  imports SwapCurve Vault JsNumber
begin

text \<open>
  The arithmetic of ts-client/src/amm/utils.ts: slippage, fees, lock amounts, token multipliers
  and pool information. The vault
  package and the arithmetic packages are the parameters \<open>V\<close> and \<open>L\<close>. A function that
  writes to an object it was given returns that object with its result.
\<close>

section \<open>Slippage, fees, locks\<close>

definition getMaxAmountWithSlippage :: "int \<Rightarrow> rat \<Rightarrow> int res" where
  "getMaxAmountWithSlippage amount slippageRate =
     (let slippage = js_mul (js_div (js_add 100 slippageRate) 100) 10000 in
      rbind (BN_of_number slippage) (\<lambda>s. bn_div (amount * s) 10000))"

definition getMinAmountWithSlippage :: "int \<Rightarrow> rat \<Rightarrow> int res" where
  "getMinAmountWithSlippage amount slippageRate =
     (let slippage = js_mul (js_div (js_sub 100 slippageRate) 100) 10000 in
      rbind (BN_of_number slippage) (\<lambda>s. bn_div (amount * s) 10000))"

definition computeActualDepositAmount :: "int \<Rightarrow> int \<Rightarrow> int \<Rightarrow> int \<Rightarrow> int \<Rightarrow> int res" where
  "computeActualDepositAmount depositAmount beforeAmount vaultLpBalance vaultLpSupply vaultTotalAmount =
     (if depositAmount = 0 then Inr depositAmount
      else
        rbind (bn_div (depositAmount * vaultLpSupply) vaultTotalAmount) (\<lambda>vaultLpMinted.
        let vaultLpSupply' = vaultLpSupply + vaultLpMinted;
            vaultTotalAmount' = vaultTotalAmount + depositAmount;
            vaultLpBalance' = vaultLpBalance + vaultLpMinted in
        rbind (bn_div (vaultLpBalance' * vaultTotalAmount') vaultLpSupply') (\<lambda>afterAmount.
        Inr (afterAmount - beforeAmount))))"

definition calculateProtocolTradingFee :: "int \<Rightarrow> poolFees \<Rightarrow> int res" where
  "calculateProtocolTradingFee amount f =
     bn_div (amount * protocolTradeFeeNumerator f) (protocolTradeFeeDenominator f)"

definition calculateTradingFee :: "int \<Rightarrow> poolFees \<Rightarrow> int res" where
  "calculateTradingFee amount f = bn_div (amount * tradeFeeNumerator f) (tradeFeeDenominator f)"

definition calculateUnclaimedLockEscrowFee :: "int \<Rightarrow> int \<Rightarrow> int \<Rightarrow> int \<Rightarrow> int res" where
  "calculateUnclaimedLockEscrowFee totalLockedAmount lpPerToken unclaimedFeePending currentVirtualPrice =
     (if currentVirtualPrice = 0 then Inr 0
      else
        rbind (bn_div (totalLockedAmount * (currentVirtualPrice - lpPerToken)) currentVirtualPrice)
          (\<lambda>newFee. Inr (newFee + unclaimedFeePending)))"

definition calculateMaxSwapOutAmount ::
  "pubkey \<Rightarrow> pubkey \<Rightarrow> pubkey \<Rightarrow> int \<Rightarrow> int \<Rightarrow> int \<Rightarrow> int \<Rightarrow> int res" where
  "calculateMaxSwapOutAmount mint mintA mintB amountA amountB reserveA reserveB =
     rbind (invariant (mint = mintA \<or> mint = mintB) ERROR_INVALID_MINT) (\<lambda>_.
     let (outTotalAmount, outReserveBalance) =
           (if mint = mintA then (amountA, reserveA) else (amountB, reserveB))
     in Inr (if outTotalAmount > outReserveBalance then outReserveBalance else outTotalAmount))"

definition getStakePubkey :: "poolState \<Rightarrow> pubkey option" where
  "getStakePubkey ps =
     (case curveType ps of
        StableSwapCurve c \<Rightarrow>
          (case depegType (curveDepeg c) of
             DepegNone \<Rightarrow> None
           | DepegMarinade \<Rightarrow> Some CURVE_TYPE_ACCOUNTS_marinade
           | DepegLido \<Rightarrow> Some CURVE_TYPE_ACCOUNTS_lido
           | DepegSplStake \<Rightarrow> Some (stake ps))
      | ConstantProductCurve \<Rightarrow> None)"

definition calculateLockAmounts :: "mathLib \<Rightarrow> int \<Rightarrow> rat \<Rightarrow> (int \<times> int) res" where
  "calculateLockAmounts L amount feeWrapperRatio =
     (if feeWrapperRatio < 0 \<or> feeWrapperRatio > 1
      then Inl (Error ''Fee wrapper ratio should be between 0 and 1'')
      else let feeWrapperLockAmount = decMulDown L amount feeWrapperRatio;
               userLockAmount = amount - feeWrapperLockAmount
           in Inr (feeWrapperLockAmount, userLockAmount))"

definition computeTokenMultiplier :: "nat \<Rightarrow> nat \<Rightarrow> tokenMultiplier res" where
  "computeTokenMultiplier decimalA decimalB =
     (let precision = max decimalA decimalB in
      rbind (BN_of_number (10 ^ (precision - decimalA))) (\<lambda>a.
      rbind (BN_of_number (10 ^ (precision - decimalB))) (\<lambda>b.
      Inr \<lparr>tokenAMultiplier = a, tokenBMultiplier = b, precisionFactor = int precision\<rparr>)))"

section \<open>Pool information\<close>

definition calculatePoolInfo ::
  "vaultSdk \<Rightarrow> mathLib \<Rightarrow> int \<Rightarrow> int \<Rightarrow> int \<Rightarrow> int \<Rightarrow> int \<Rightarrow> int \<Rightarrow> swapCurve \<Rightarrow> vaultState \<Rightarrow> vaultState
    \<Rightarrow> (swapCurve \<times> poolInformation) res" where
  "calculatePoolInfo V L currentTimestamp poolALp poolBLp vaultASupply vaultBSupply poolSupply curve vaultA vaultB =
     rbind (bn_toNumber currentTimestamp) (\<lambda>now.
     let vaultAWithdrawableAmount = calculateWithdrawableAmount V now vaultA;
         vaultBWithdrawableAmount = calculateWithdrawableAmount V now vaultB in
     rbind (sdk_getAmountByShare V poolALp vaultAWithdrawableAmount vaultASupply) (\<lambda>tokenA.
     rbind (sdk_getAmountByShare V poolBLp vaultBWithdrawableAmount vaultBSupply) (\<lambda>tokenB.
     rbind (curve_computeD L curve tokenA tokenB) (\<lambda>(curve', d).
     rbind (if poolSupply = 0 then Inr 0 else bn_div (d * VIRTUAL_PRICE_PRECISION) poolSupply) (\<lambda>virtualPriceBigNum.
     let price = decDivToNumber L virtualPriceBigNum VIRTUAL_PRICE_PRECISION in
     rbind (if poolSupply = 0 then Inr 0 else bn_div (2 ^ 64 * d) poolSupply) (\<lambda>priceRaw.
     Inr (curve', \<lparr>tokenAAmount = tokenA, tokenBAmount = tokenB,
                   virtualPrice = price, virtualPriceRaw = priceRaw\<rparr>)))))))"

section \<open>Slippage\<close>

lemma slippage_bps_min:
  assumes "0 \<le> s" "s \<le> 100"
  shows "\<exists>b. BN_of_number (js_mul (js_div (js_sub 100 s) 100) 10000) = Inr b \<and> 0 \<le> b \<and> b \<le> 10000"
proof -
  let ?x = "js_sub 100 s" let ?y = "js_div ?x 100" let ?z = "js_mul ?y 10000"
  have x: "0 \<le> ?x" "?x \<le> 100"
    using assms js_round_ge_int [of 0 "100 - s"] js_round_le_int [of "100 - s" 100]
    by (simp_all add: js_sub_def)
  have y: "0 \<le> ?y" "?y \<le> 1"
    using x js_round_ge_int [of 0 "?x / 100"] js_round_le_int [of "?x / 100" 1]
    by (simp_all add: js_div_def)
  have z: "0 \<le> ?z" "?z \<le> 10000"
    using y js_round_ge_int [of 0 "?y * 10000"] js_round_le_int [of "?y * 10000" 10000]
    by (simp_all add: js_mul_def)
  then have "BN_of_number ?z = Inr \<lfloor>?z\<rfloor>" by (intro BN_of_number_nonneg) auto
  moreover have "0 \<le> \<lfloor>?z\<rfloor>" "\<lfloor>?z\<rfloor> \<le> 10000" using z by (simp_all add: floor_le_iff)
  ultimately show ?thesis by blast
qed

lemma slippage_bps_max:
  assumes "0 \<le> s" "s \<le> 2 ^ 30"
  shows "\<exists>b. BN_of_number (js_mul (js_div (js_add 100 s) 100) 10000) = Inr b \<and> 10000 \<le> b"
proof -
  let ?x = "js_add 100 s" let ?y = "js_div ?x 100" let ?z = "js_mul ?y 10000"
  have x: "100 \<le> ?x" "?x \<le> of_int (2 ^ 31)"
    using assms js_round_ge_int [of 100 "100 + s"] js_round_le_int [of "100 + s" "2 ^ 31"]
    by (simp_all add: js_add_def)
  have y: "1 \<le> ?y" "?y \<le> of_int (2 ^ 31)"
    using x js_round_ge_int [of 1 "?x / 100"] js_round_le_int [of "?x / 100" "2 ^ 31"]
    by (simp_all add: js_div_def)
  have z: "10000 \<le> ?z" "?z \<le> of_int (2 ^ 31 * 10000)"
    using y js_round_ge_int [of 10000 "?y * 10000"] js_round_le_int [of "?y * 10000" "2 ^ 31 * 10000"]
    by (simp_all add: js_mul_def)
  then have "BN_of_number ?z = Inr \<lfloor>?z\<rfloor>" by (intro BN_of_number_nonneg) auto
  moreover have "10000 \<le> \<lfloor>?z\<rfloor>" using z by (simp add: le_floor_iff)
  ultimately show ?thesis by blast
qed

lemma getMinAmountWithSlippage_bounds:
  assumes "0 \<le> amount" "0 \<le> s" "s \<le> 100"
  shows "\<exists>m. getMinAmountWithSlippage amount s = Inr m \<and> 0 \<le> m \<and> m \<le> amount"
proof -
  obtain b where b: "BN_of_number (js_mul (js_div (js_sub 100 s) 100) 10000) = Inr b" "0 \<le> b" "b \<le> 10000"
    using slippage_bps_min [OF assms(2,3)] by blast
  then have "getMinAmountWithSlippage amount s = Inr (amount * b div 10000)"
    using assms by (simp add: getMinAmountWithSlippage_def)
  then show ?thesis using b assms mult_div_le_self [of amount b 10000] by simp
qed

lemma getMaxAmountWithSlippage_bounds:
  assumes "0 \<le> amount" "0 \<le> s" "s \<le> 2 ^ 30"
  shows "\<exists>m. getMaxAmountWithSlippage amount s = Inr m \<and> amount \<le> m"
proof -
  obtain b where b: "BN_of_number (js_mul (js_div (js_add 100 s) 100) 10000) = Inr b" "10000 \<le> b"
    using slippage_bps_max [OF assms(2,3)] by blast
  then have "getMaxAmountWithSlippage amount s = Inr (amount * b div 10000)"
    using assms by (simp add: getMaxAmountWithSlippage_def)
  moreover have "amount * 10000 \<le> amount * b" using b assms by (intro mult_left_mono) auto
  ultimately show ?thesis by (simp add: le_div_iff_pos)
qed

section \<open>Fees\<close>

definition fees_ok :: "poolFees \<Rightarrow> bool" where
  "fees_ok f \<longleftrightarrow>
     0 \<le> tradeFeeNumerator f \<and> tradeFeeNumerator f \<le> tradeFeeDenominator f \<and> 0 < tradeFeeDenominator f \<and>
     0 \<le> protocolTradeFeeNumerator f \<and> protocolTradeFeeNumerator f \<le> protocolTradeFeeDenominator f \<and>
     0 < protocolTradeFeeDenominator f"

lemma trading_fee_bounds:
  assumes "fees_ok f" "0 \<le> amt" "calculateTradingFee amt f = Inr t"
  shows "0 \<le> t" "t \<le> amt"
  using assms mult_div_le_self [of amt "tradeFeeNumerator f" "tradeFeeDenominator f"]
  by (auto simp: fees_ok_def calculateTradingFee_def)

lemma protocol_fee_bounds:
  assumes "fees_ok f" "0 \<le> amt" "calculateProtocolTradingFee amt f = Inr t"
  shows "0 \<le> t" "t \<le> amt"
  using assms mult_div_le_self [of amt "protocolTradeFeeNumerator f" "protocolTradeFeeDenominator f"]
  by (auto simp: fees_ok_def calculateProtocolTradingFee_def)

section \<open>Token multipliers\<close>

lemma BN_of_pow10: "BN_of_number (10 ^ n) = (if n \<le> 15 then Inr (10 ^ n) else Inl BnAssert)"
proof (cases "n \<le> 15")
  case True
  have "(10::rat) ^ n \<le> 10 ^ 15" using True by (intro power_increasing) auto
  then have "(10::rat) ^ n < 2 ^ 53" by (rule le_less_trans) simp
  moreover have "\<lfloor>(10::rat) ^ n\<rfloor> = 10 ^ n" by (metis floor_of_int of_int_numeral of_int_power)
  ultimately show ?thesis using True by (simp add: BN_of_number_def)
next
  case False
  have "(10::rat) ^ 16 \<le> 10 ^ n" using False by (intro power_increasing) auto
  then have "(2::rat) ^ 53 \<le> 10 ^ n" by (rule order_trans [rotated]) simp
  then show ?thesis using False by (simp add: BN_of_number_def)
qed

section \<open>Properties\<close>

text \<open>
  The rates are meant to be exact to two decimals of a percent, but the binary product is
  truncated: at 13 percent the maximum is computed with 11299 basis points instead of 11300, and
  at 31 percent the minimum with 6899 instead of 6900.
\<close>

lemma slippage_loses_a_basis_point:
  "getMaxAmountWithSlippage 10000 13 = Inr 11299 \<and> getMinAmountWithSlippage 10000 31 = Inr 6899"
  by code_simp

text \<open>
  The token multipliers bring both tokens to the same precision whenever their decimals
  differ by at most 15, and a greater difference is refused by \<^verbatim>\<open>BN\<close>, whose constructor takes no
  number above 53 bits.
\<close>

lemma token_multipliers_align_decimals:
  "(max decimalA decimalB - min decimalA decimalB \<le> 15 \<longrightarrow>
     (\<exists>m. computeTokenMultiplier decimalA decimalB = Inr m \<and>
        precisionFactor m = int (max decimalA decimalB) \<and>
        tokenAMultiplier m * 10 ^ decimalA = 10 ^ max decimalA decimalB \<and>
        tokenBMultiplier m * 10 ^ decimalB = 10 ^ max decimalA decimalB)) \<and>
   (15 < max decimalA decimalB - min decimalA decimalB \<longrightarrow>
      computeTokenMultiplier decimalA decimalB = Inl BnAssert)"
proof -
  have "decimalA \<le> decimalB \<or> decimalB \<le> decimalA" by linarith
  then show ?thesis
    by (auto simp: computeTokenMultiplier_def BN_of_pow10 Let_def max_def min_def simp flip: power_add)
qed

end
