(* ===== verification/Chain.thy ===== *)
theory Chain
  imports AmmUtils
begin

text \<open>
  What the client reads and what it produces. Instructions and transactions are data: an
  instruction of a program is its name, its arguments, its named accounts and the accounts
  appended to them; the instructions that packages build are kept as the calls that build
  them. The record \<open>chain\<close> holds what lies outside the repository: the connection, read at one
  moment, and the functions of the packages. The locale \<open>chain_laws\<close> states what the client
  relies on of it. The functions are those of utils.ts that only move data: token accounts,
  wrapping, chunked reads and the assembly of transactions.
\<close>

section \<open>Instructions and transactions\<close>

text \<open>The parameters of the instruction \<^verbatim>\<open>createConfig\<close>, and \<^verbatim>\<open>CustomizableParams\<close>.\<close>

record configParameters =
  cp_tradeFeeNumerator :: int
  cp_protocolTradeFeeNumerator :: int
  cp_vaultConfigKey :: pubkey
  cp_activationDuration :: int
  cp_poolCreatorAuthority :: pubkey
  cp_index :: int
  cp_activationType :: activationType
  cp_partnerFeeNumerator :: int

record customizableParams =
  cz_tradeFeeNumerator :: int
  cz_activationPoint :: "int option"
  cz_hasAlphaVault :: bool
  cz_activationType :: int

datatype ixArg =
    BNArg int
  | OptionBNArg "int option"
  | CurveTypeArg curveType
  | ConfigParametersArg configParameters
  | CustomizableParamsArg customizableParams

type_synonym namedAccounts = "(string \<times> pubkey) list"

datatype instruction =
    ProgramIx pubkey string "ixArg list" namedAccounts "accountMeta list"
  | CreateAssociatedTokenAccount pubkey pubkey pubkey pubkey \<comment> \<open>payer, token account, owner, mint\<close>
  | SystemTransfer pubkey pubkey int \<comment> \<open>from, to, lamports\<close>
  | SystemCreateAccount pubkey pubkey int pubkey \<comment> \<open>from, new account, lamports, program\<close>
  | RawInstruction "accountMeta list" "nat list" pubkey \<comment> \<open>keys, data, program\<close>
  | CloseAccount pubkey pubkey pubkey \<comment> \<open>account, destination, authority\<close>
  | InitializeMint pubkey nat pubkey "pubkey option" pubkey \<comment> \<open>mint, decimals, mint and freeze authority, program\<close>
  | CreateMetadataAccountV3 pubkey pubkey pubkey pubkey pubkey string \<comment> \<open>metadata, mint, mint authority, payer, update authority, data\<close>
  | MintTo pubkey pubkey pubkey int \<comment> \<open>mint, destination, authority, amount\<close>
  | SetAuthority pubkey pubkey nat "pubkey option" \<comment> \<open>account, current authority, authority type, new authority\<close>
  | SetComputeUnitLimit int
  | PackageIx string "pubkey list" \<comment> \<open>an instruction that a package builds\<close>

record transaction =
  tx_feePayer :: pubkey
  tx_blockhash :: string
  tx_instructions :: "instruction list"

text \<open>\<^verbatim>\<open>createX && instructions.push(createX)\<close> for an optional instruction.\<close>

definition push_opt :: "instruction list \<Rightarrow> instruction option \<Rightarrow> instruction list" where
  "push_opt ixs i = ixs @ (case i of None \<Rightarrow> [] | Some x \<Rightarrow> [x])"

text \<open>The transaction of an Anchor method builder: the instruction between its pre- and post-instructions.\<close>

definition methodTx :: "instruction \<Rightarrow> instruction list \<Rightarrow> instruction list \<Rightarrow> instruction list" where
  "methodTx ix preIxs postIxs = preIxs @ [ix] @ postIxs"

section \<open>Outside the repository\<close>

text \<open>Addresses that the Solana packages export.\<close>

definition TOKEN_PROGRAM_ID :: pubkey where
  "TOKEN_PROGRAM_ID = PublicKey ''TokenkegQfeZyiNwAJbNbGKPFXCWuBvf9Ss623VQ5DA''"
definition ASSOCIATED_TOKEN_PROGRAM_ID :: pubkey where
  "ASSOCIATED_TOKEN_PROGRAM_ID = PublicKey ''ATokenGPvbdGVxr1b2hvZbsiqW5xWH25efTNsLJA8knL''"
definition SystemProgram_programId :: pubkey where
  "SystemProgram_programId = PublicKey ''11111111111111111111111111111111''"
definition SYSVAR_RENT_PUBKEY :: pubkey where
  "SYSVAR_RENT_PUBKEY = PublicKey ''SysvarRent111111111111111111111111111111111''"
definition SYSVAR_CLOCK_PUBKEY :: pubkey where
  "SYSVAR_CLOCK_PUBKEY = PublicKey ''SysvarC1ock11111111111111111111111111111111''"

record mint =
  mint_address :: pubkey
  mint_decimals :: nat

record vaultPdas =
  vaultPda :: pubkey
  tokenVaultPda :: pubkey
  lpMintPda :: pubkey

record vaultImpl =
  vi_vaultPda :: pubkey
  vi_tokenMint :: mint
  vi_vaultState :: vaultState

record feeVaultParams =
  fv_unstakeLockDuration :: int
  fv_secondsToFullUnlock :: int
  fv_topListLength :: int
  fv_startFeeDistributeTimestamp :: "int option"

record chain =
  \<comment> \<open>@solana/web3.js and @solana/spl-token: addresses\<close>
  isPublicKey :: "pubkey \<Rightarrow> bool" \<comment> \<open>the text is the base58 form of a key\<close>
  toBuffer :: "pubkey \<Rightarrow> bytes"
  findProgramAddressSync :: "bytes list \<Rightarrow> pubkey \<Rightarrow> pubkey"
  isOnCurve :: "pubkey \<Rightarrow> bool"
  getAssociatedTokenAddressSync :: "pubkey \<Rightarrow> pubkey \<Rightarrow> bool \<Rightarrow> pubkey res" \<comment> \<open>mint, owner, allowOwnerOffCurve\<close>
  \<comment> \<open>the connection\<close>
  getAccountInfo :: "pubkey \<Rightarrow> bytes option"
  getMultipleAccountsInfo :: "pubkey list \<Rightarrow> bytes option list res"
  getTokenSupply :: "pubkey \<Rightarrow> int option"
  getTokenAccountBalance :: "pubkey \<Rightarrow> int res"
  getParsedTokenAmount :: "pubkey \<Rightarrow> int option"
  getParsedClock :: int
  getLatestBlockhash :: string
  getMinimumBalanceForRentExemptMint :: int
  \<comment> \<open>account clients of Anchor and of the packages\<close>
  fetchPool :: "pubkey \<Rightarrow> poolState option"
  fetchMultiplePool :: "pubkey list \<Rightarrow> poolState option list res"
  allPools :: "(nat \<times> bytes) list \<Rightarrow> (pubkey \<times> poolState) list"
  fetchLockEscrow :: "pubkey \<Rightarrow> lockEscrowAccount option"
  allLockEscrows :: "(nat \<times> bytes) list \<Rightarrow> (pubkey \<times> lockEscrowAccount) list"
  allConfigs :: "(nat \<times> bytes) list \<Rightarrow> (pubkey \<times> configAccount) list"
  fetchConfig :: "pubkey \<Rightarrow> configAccount option"
  fetchVault :: "pubkey \<Rightarrow> vaultState option"
  fetchFeeVault :: "pubkey \<Rightarrow> bool"
  getMint :: "pubkey \<Rightarrow> mint res"
  accountAmount :: "bytes \<Rightarrow> int res" \<comment> \<open>AccountLayout.decode(data).amount\<close>
  mintSupply :: "bytes \<Rightarrow> int res" \<comment> \<open>MintLayout.decode(data).supply\<close>
  \<comment> \<open>@meteora-ag/vault-sdk and @meteora-ag/m3m3\<close>
  VAULT_PROGRAM_ID :: pubkey
  STAKE_FOR_FEE_PROGRAM_ID :: pubkey
  PROGRAM_ID_META :: pubkey \<comment> \<open>@metaplex-foundation/mpl-token-metadata\<close>
  getVaultPdas :: "pubkey \<Rightarrow> pubkey \<Rightarrow> vaultPdas"
  createPermissionlessVaultInstruction :: "pubkey \<Rightarrow> pubkey \<Rightarrow> instruction option"
  createMultipleWithPda :: "pubkey list \<Rightarrow> pubkey option \<Rightarrow> vaultImpl list res" \<comment> \<open>PDAs, seedBaseKey\<close>
  refreshVaultState :: "vaultImpl \<Rightarrow> vaultImpl res"
  deriveFeeVault :: "pubkey \<Rightarrow> pubkey \<Rightarrow> pubkey"
  createFeeVaultInstructions :: "pubkey \<Rightarrow> pubkey \<Rightarrow> pubkey \<Rightarrow> pubkey \<Rightarrow> feeVaultParams option \<Rightarrow> instruction list"

text \<open>\<^verbatim>\<open>Buffer.from\<close> of a string of ASCII characters.\<close>

definition Buffer_from :: "string \<Rightarrow> bytes" where
  "Buffer_from s = map (\<lambda>c. word_of_nat (of_char c)) s"

section \<open>Programs\<close>

record programs =
  ammProgramId :: pubkey
  vaultProgramId :: pubkey
  stakeForFeeProgramId :: pubkey

definition createProgram :: "chain \<Rightarrow> string option \<Rightarrow> programs" where
  "createProgram ch programId =
     \<lparr>ammProgramId = PublicKey (case programId of None \<Rightarrow> PROGRAM_ID | Some p \<Rightarrow> p),
      vaultProgramId = VAULT_PROGRAM_ID ch,
      stakeForFeeProgramId = STAKE_FOR_FEE_PROGRAM_ID ch\<rparr>"

section \<open>Token accounts and wrapping\<close>

definition getAssociatedTokenAccount :: "chain \<Rightarrow> pubkey \<Rightarrow> pubkey \<Rightarrow> pubkey res" where
  "getAssociatedTokenAccount ch tokenMint owner = getAssociatedTokenAddressSync ch tokenMint owner True"

definition getOrCreateATAInstruction ::
  "chain \<Rightarrow> pubkey \<Rightarrow> pubkey \<Rightarrow> pubkey option \<Rightarrow> (pubkey \<times> instruction option) res" where
  "getOrCreateATAInstruction ch tokenMint owner payer =
     rbind (getAssociatedTokenAccount ch tokenMint owner) (\<lambda>toAccount.
     case getAccountInfo ch toAccount of
       None \<Rightarrow> Inr (toAccount, Some (CreateAssociatedTokenAccount
                 (case payer of Some p \<Rightarrow> p | None \<Rightarrow> owner) toAccount owner tokenMint))
     | Some _ \<Rightarrow> Inr (toAccount, None))"

definition wrapSOLInstruction :: "pubkey \<Rightarrow> pubkey \<Rightarrow> int \<Rightarrow> instruction list" where
  "wrapSOLInstruction fromKey toKey amount =
     [SystemTransfer fromKey toKey amount,
      RawInstruction [\<lparr>am_pubkey = toKey, am_isWritable = True, am_isSigner = False\<rparr>] [17] TOKEN_PROGRAM_ID]"

definition unwrapSOLInstruction :: "chain \<Rightarrow> pubkey \<Rightarrow> pubkey \<Rightarrow> instruction res" where
  "unwrapSOLInstruction ch owner receiver =
     rbind (getAssociatedTokenAccount ch NATIVE_MINT owner) (\<lambda>wSolATAAccount.
     Inr (CloseAccount wSolATAAccount receiver owner))"

definition deserializeAccount :: "chain \<Rightarrow> bytes option \<Rightarrow> int option res" where
  "deserializeAccount ch data =
     (case data of
        None \<Rightarrow> Inr None
      | Some d \<Rightarrow> if d = [] then Inr None else rbind (accountAmount ch d) (\<lambda>a. Inr (Some a)))"

definition getOnchainTime :: "chain \<Rightarrow> int" where
  "getOnchainTime ch = getParsedClock ch"

section \<open>Chunked reads\<close>

text \<open>
  \<^verbatim>\<open>Array.apply(0, new Array(ceil(n / size))).map((_, i) => array.slice(i * size, (i + 1) * size))\<close>;
  a size of zero makes the length infinite or not a number, which the Array constructor refuses
  unless the array is empty, in which case it is not a number as well.
\<close>

definition chunks :: "'a list \<Rightarrow> nat \<Rightarrow> 'a list list res" where
  "chunks array sz =
     (if sz = 0 then Inl RangeError
      else Inr (map (\<lambda>index. take ((index + 1) * sz - index * sz) (drop (index * sz) array))
             [0 ..< (length array + sz - 1) div sz]))"

definition chunkedFetchMultiplePoolAccount :: "chain \<Rightarrow> pubkey list \<Rightarrow> nat \<Rightarrow> poolState list res" where
  "chunkedFetchMultiplePoolAccount ch pks chunkSize =
     rbind (chunks pks chunkSize) (\<lambda>cs.
     rbind (rmap (fetchMultiplePool ch) cs) (\<lambda>accounts.
     Inr (List.map_filter id (concat accounts))))"

definition chunkedGetMultipleAccountInfos :: "chain \<Rightarrow> pubkey list \<Rightarrow> nat \<Rightarrow> bytes option list res" where
  "chunkedGetMultipleAccountInfos ch pks chunkSize =
     rbind (chunks pks chunkSize) (\<lambda>cs.
     rbind (rmap (getMultipleAccountsInfo ch) cs) (\<lambda>infos.
     Inr (concat infos)))"

text \<open>
  The set of the source holds key objects; the map is keyed by their base58 text, so keeping a
  key twice changes nothing in the map.
\<close>

definition getDepegAccounts :: "chain \<Rightarrow> poolState list \<Rightarrow> (pubkey \<rightharpoonup> bytes) res" where
  "getDepegAccounts ch poolsState =
     (let stakePoolKeys = List.map_filter getStakePubkey poolsState in
      rbind (chunkedGetMultipleAccountInfos ch stakePoolKeys 100) (\<lambda>accountBuffers.
      Inr (foldl (\<lambda>m (key, account). case account of None \<Rightarrow> m | Some a \<Rightarrow> m(key \<mapsto> a))
             (\<lambda>_. None) (zip stakePoolKeys accountBuffers))))"

definition getTokensMintFromPoolAddress :: "chain \<Rightarrow> string \<Rightarrow> (pubkey \<times> pubkey) option" where
  "getTokensMintFromPoolAddress ch poolAddress =
     map_option (\<lambda>ps. (tokenAMint ps, tokenBMint ps)) (fetchPool ch (PublicKey poolAddress))"

section \<open>Assembling transactions\<close>

definition newTransaction :: "chain \<Rightarrow> pubkey \<Rightarrow> instruction list \<Rightarrow> transaction" where
  "newTransaction ch payer ixs =
     \<lparr>tx_feePayer = payer, tx_blockhash = getLatestBlockhash ch, tx_instructions = ixs\<rparr>"

text \<open>\<^verbatim>\<open>Transaction.add(...items)\<close> of web3.js, which refuses to be called without an item.\<close>

definition addAll :: "chain \<Rightarrow> pubkey \<Rightarrow> instruction list \<Rightarrow> transaction res" where
  "addAll ch payer items =
     (if items = [] then Inl (Error ''No instructions'') else Inr (newTransaction ch payer items))"

text \<open>An entry of \<^verbatim>\<open>ixs\<close>: a transaction, an instruction or a list of them, by its instructions.\<close>

definition createTransactions :: "chain \<Rightarrow> instruction list list \<Rightarrow> pubkey \<Rightarrow> transaction list res" where
  "createTransactions ch ixs payer = rmap (addAll ch payer) ixs"

definition createMint ::
  "chain \<Rightarrow> pubkey \<Rightarrow> pubkey \<Rightarrow> string \<Rightarrow> pubkey \<Rightarrow> pubkey option \<Rightarrow> nat \<Rightarrow> pubkey \<Rightarrow> instruction list" where
  "createMint ch mintAccount payer assetData mintAuthority freezeAuthority decimals programId =
     (let balanceNeeded = getMinimumBalanceForRentExemptMint ch;
          metadata = findProgramAddressSync ch
            [Buffer_from ''metadata'', toBuffer ch (PROGRAM_ID_META ch), toBuffer ch mintAccount]
            (PROGRAM_ID_META ch) in
      [SystemCreateAccount payer mintAccount balanceNeeded programId,
       InitializeMint mintAccount decimals mintAuthority freezeAuthority programId,
       CreateMetadataAccountV3 metadata mintAccount payer payer payer assetData])"

section \<open>What the client relies on\<close>

text \<open>
  The laws of the environment: keys are 32 bytes and determined by them, a derived address is
  off the curve, the token account of an owner off the curve is refused unless allowed, a mint is
  read from its address, reads of
  up to a hundred accounts return them in order, pools are fetched in order, and what a package
  builds is an instruction of another program.
\<close>

locale chain_laws =
  fixes ch :: chain
  assumes toBuffer_length: "length (toBuffer ch k) = 32"
    and toBuffer_inj: "isPublicKey ch k \<Longrightarrow> isPublicKey ch k' \<Longrightarrow> toBuffer ch k = toBuffer ch k' \<Longrightarrow> k = k'"
    and program_address_off_curve: "\<not> isOnCurve ch (findProgramAddressSync ch seeds program)"
    and ata_allowed: "\<exists>a. getAssociatedTokenAddressSync ch m owner True = Inr a"
    and ata_off_curve: "\<not> isOnCurve ch owner \<Longrightarrow>
      getAssociatedTokenAddressSync ch m owner False = Inl (Error ''TokenOwnerOffCurveError'')"
    and mint_of: "getMint ch m = Inr t \<Longrightarrow> mint_address t = m"
    and multiple_accounts: "length ks \<le> 100 \<Longrightarrow> getMultipleAccountsInfo ch ks = Inr (map (getAccountInfo ch) ks)"
    and multiple_pools: "fetchMultiplePool ch ks = Inr (map (fetchPool ch) ks)"
    and vault_ix: "createPermissionlessVaultInstruction ch payer m = Some ix \<Longrightarrow> \<exists>n ks. ix = PackageIx n ks"
    and fee_vault_ix: "ix \<in> set (createFeeVaultInstructions ch pool payer a b params) \<Longrightarrow> \<exists>n ks. ix = PackageIx n ks"

text \<open>
  What loading and refreshing a pool relies on: the vault package loads the vaults of a list of
  addresses in order, a loaded vault is the vault of its address, refreshing a vault reads it
  again, and the supply the connection reports for a mint is the one in its account.
\<close>

locale vault_package = chain_laws +
  fixes loadVault :: "pubkey \<Rightarrow> vaultImpl res"
  assumes create_multiple: "createMultipleWithPda ch ps None = rmap loadVault ps"
    and loaded_pda: "loadVault p = Inr v \<Longrightarrow> vi_vaultPda v = p"
    and refreshed: "loadVault (vi_vaultPda u) = Inr v \<Longrightarrow> vi_tokenMint u = vi_tokenMint v \<Longrightarrow> refreshVaultState ch u = Inr v"
    and token_supply: "getAccountInfo ch m = Some data \<Longrightarrow> mintSupply ch data = Inr n \<Longrightarrow> getTokenSupply ch m = Some n"

section \<open>Chunks\<close>

lemma concat_chunks:
  assumes "0 < sz"
  shows "concat (map (\<lambda>i. take sz (drop (i * sz) xs)) [0..<n]) = take (n * sz) xs"
proof (induction n)
  case (Suc n)
  have "take (n * sz) xs @ take sz (drop (n * sz) xs) = take (n * sz + sz) xs"
    by (simp add: take_add)
  then show ?case using Suc by (simp add: add.commute)
qed simp

lemma chunks_Inr:
  assumes "0 < sz"
  shows "\<exists>cs. chunks xs sz = Inr cs \<and> concat cs = xs \<and> (\<forall>c \<in> set cs. length c \<le> sz) \<and>
    length cs = (length xs + sz - 1) div sz"
proof -
  let ?n = "(length xs + sz - 1) div sz"
  let ?cs = "map (\<lambda>i. take sz (drop (i * sz) xs)) [0..<?n]"
  have "length xs \<le> ?n * sz"
    using assms div_mult_mod_eq [of "length xs + sz - 1" sz] mod_less_divisor [of sz "length xs + sz - 1"] by linarith
  then have "concat ?cs = xs" by (simp add: concat_chunks [OF assms])
  moreover have "chunks xs sz = Inr ?cs" using assms by (simp add: chunks_def)
  ultimately show ?thesis by (intro exI [of _ ?cs]) auto
qed

lemma rmap_Inr_map: "(\<And>x. x \<in> set xs \<Longrightarrow> f x = Inr (g x)) \<Longrightarrow> rmap f xs = Inr (map g xs)"
  by (induction xs) auto

context chain_laws
begin

lemma chunked_infos: "chunkedGetMultipleAccountInfos ch ks 100 = Inr (map (getAccountInfo ch) ks)"
proof -
  obtain cs where cs: "chunks ks 100 = Inr cs" "concat cs = ks" "\<forall>c \<in> set cs. length c \<le> 100"
    using chunks_Inr [of 100 ks] by auto
  then have "rmap (getMultipleAccountsInfo ch) cs = Inr (map (map (getAccountInfo ch)) cs)"
    using multiple_accounts by (intro rmap_Inr_map) auto
  with cs show ?thesis by (simp add: chunkedGetMultipleAccountInfos_def flip: map_concat)
qed

lemma chunked_pools: "chunkedFetchMultiplePoolAccount ch ks 100 = Inr (List.map_filter (fetchPool ch) ks)"
proof -
  obtain cs where cs: "chunks ks 100 = Inr cs" "concat cs = ks" using chunks_Inr [of 100 ks] by auto
  have "rmap (fetchMultiplePool ch) cs = Inr (map (map (fetchPool ch)) cs)"
    using multiple_pools by (intro rmap_Inr_map) auto
  with cs show ?thesis
    by (simp add: chunkedFetchMultiplePoolAccount_def List.map_filter_def comp_def filter_map flip: map_concat)
qed

text \<open>The stake accounts of depeg pools are read as they are on the chain.\<close>

lemma zip_fold_lookup:
  "foldl (\<lambda>m (key, account). case account of None \<Rightarrow> m | Some a \<Rightarrow> m(key \<mapsto> a)) m0 (zip ks (map f ks)) k =
     (if k \<in> set ks \<and> f k \<noteq> None then f k else m0 k)"
  by (induction ks arbitrary: m0) (auto split: option.splits)

lemma depeg_accounts:
  "getDepegAccounts ch pools = Inr (\<lambda>k. if k \<in> set (List.map_filter getStakePubkey pools) then getAccountInfo ch k else None)"
  by (auto simp: getDepegAccounts_def chunked_infos zip_fold_lookup fun_eq_iff Let_def)

end

end
