(* ===== verification/Addresses.thy ===== *)
theory Addresses
  imports Chain
begin

text \<open>
  The addresses the client derives (utils.ts): every program address is a hash of its seeds,
  which \<^verbatim>\<open>findProgramAddressSync\<close> computes outside the repository; what the client chooses are
  the seeds. The properties are that the order of the two mints does not matter and that
  different pools have different seeds even after the seeds are joined, which is what is hashed.
\<close>

section \<open>Seeds\<close>

text \<open>\<^verbatim>\<open>Buffer.compare\<close>, \<^verbatim>\<open>getFirstKey\<close> (the greater key) and \<^verbatim>\<open>getSecondKey\<close>.\<close>

fun Buffer_compare :: "bytes \<Rightarrow> bytes \<Rightarrow> int" where
  "Buffer_compare [] [] = 0"
| "Buffer_compare [] (y # ys) = -1"
| "Buffer_compare (x # xs) [] = 1"
| "Buffer_compare (x # xs) (y # ys) =
     (if x < y then -1 else if y < x then 1 else Buffer_compare xs ys)"

definition getSecondKey :: "chain \<Rightarrow> pubkey \<Rightarrow> pubkey \<Rightarrow> bytes" where
  "getSecondKey ch key1 key2 =
     (let buf1 = toBuffer ch key1; buf2 = toBuffer ch key2 in
      if Buffer_compare buf1 buf2 = 1 then buf2 else buf1)"

definition getFirstKey :: "chain \<Rightarrow> pubkey \<Rightarrow> pubkey \<Rightarrow> bytes" where
  "getFirstKey ch key1 key2 =
     (let buf1 = toBuffer ch key1; buf2 = toBuffer ch key2 in
      if Buffer_compare buf1 buf2 = 1 then buf1 else buf2)"

text \<open>
  \<^verbatim>\<open>toBuffer('le', 8)\<close> of a BN: the magnitude in eight bytes, refused if it does not fit.
\<close>

fun le_bytes :: "nat \<Rightarrow> nat \<Rightarrow> bytes" where
  "le_bytes 0 n = []"
| "le_bytes (Suc k) n = word_of_nat (n mod 256) # le_bytes k (n div 256)"

definition bn_toBuffer_le8 :: "int \<Rightarrow> bytes res" where
  "bn_toBuffer_le8 n = (if \<bar>n\<bar> < 2 ^ 64 then Inr (le_bytes 8 (nat \<bar>n\<bar>)) else Inl BnAssert)"

definition encodeCurveType :: "curveType \<Rightarrow> nat" where
  "encodeCurveType curve = (case curve of ConstantProductCurve \<Rightarrow> 0 | StableSwapCurve _ \<Rightarrow> 1)"

definition getTradeFeeBpsBuffer :: "curveType \<Rightarrow> int \<Rightarrow> bytes res" where
  "getTradeFeeBpsBuffer curve tradeFeeBps =
     (let defaultFeeBps = (case curve of
            StableSwapCurve _ \<Rightarrow> STABLE_SWAP_DEFAULT_TRADE_FEE_BPS
          | ConstantProductCurve \<Rightarrow> CONSTANT_PRODUCT_DEFAULT_TRADE_FEE_BPS) in
      if tradeFeeBps = defaultFeeBps then Inr [] else bn_toBuffer_le8 tradeFeeBps)"

definition generateCurveType :: "nat \<Rightarrow> nat \<Rightarrow> bool \<Rightarrow> curveType res" where
  "generateCurveType mintADecimal mintBDecimal isStable =
     (if isStable
      then rbind (computeTokenMultiplier mintADecimal mintBDecimal) (\<lambda>m.
           Inr (StableSwapCurve \<lparr>amp = PERMISSIONLESS_AMP, curveTokenMultiplier = m,
             curveDepeg = \<lparr>baseVirtualPrice = 0, baseCacheUpdated = 0, depegType = DepegNone\<rparr>,
             lastAmpUpdatedTimestamp = 0\<rparr>))
      else Inr ConstantProductCurve)"

section \<open>Addresses\<close>

definition deriveLockEscrowPda :: "chain \<Rightarrow> pubkey \<Rightarrow> pubkey \<Rightarrow> pubkey \<Rightarrow> pubkey" where
  "deriveLockEscrowPda ch pool owner ammProgram =
     findProgramAddressSync ch [Buffer_from SEEDS_LOCK_ESCROW, toBuffer ch pool, toBuffer ch owner] ammProgram"

definition deriveMintMetadata :: "chain \<Rightarrow> pubkey \<Rightarrow> pubkey" where
  "deriveMintMetadata ch lpM =
     findProgramAddressSync ch [Buffer_from ''metadata'', toBuffer ch METAPLEX_PROGRAM, toBuffer ch lpM] METAPLEX_PROGRAM"

definition customizableSeeds :: "chain \<Rightarrow> pubkey \<Rightarrow> pubkey \<Rightarrow> bytes list" where
  "customizableSeeds ch tokenA tokenB =
     [Buffer_from ''pool'', getFirstKey ch tokenA tokenB, getSecondKey ch tokenA tokenB]"

definition deriveCustomizablePermissionlessConstantProductPoolAddress ::
  "chain \<Rightarrow> pubkey \<Rightarrow> pubkey \<Rightarrow> pubkey \<Rightarrow> pubkey" where
  "deriveCustomizablePermissionlessConstantProductPoolAddress ch tokenA tokenB programId =
     findProgramAddressSync ch (customizableSeeds ch tokenA tokenB) programId"

definition configSeeds :: "chain \<Rightarrow> pubkey \<Rightarrow> pubkey \<Rightarrow> pubkey \<Rightarrow> bytes list" where
  "configSeeds ch tokenA tokenB config =
     [getFirstKey ch tokenA tokenB, getSecondKey ch tokenA tokenB, toBuffer ch config]"

definition derivePoolAddressWithConfig :: "chain \<Rightarrow> pubkey \<Rightarrow> pubkey \<Rightarrow> pubkey \<Rightarrow> pubkey \<Rightarrow> pubkey" where
  "derivePoolAddressWithConfig ch tokenA tokenB config programId =
     findProgramAddressSync ch (configSeeds ch tokenA tokenB config) programId"

definition deriveConfigPda :: "chain \<Rightarrow> int \<Rightarrow> pubkey \<Rightarrow> pubkey res" where
  "deriveConfigPda ch index programId =
     rbind (bn_toBuffer_le8 index) (\<lambda>b.
     Inr (findProgramAddressSync ch [Buffer_from ''config'', b] programId))"

definition deriveProtocolTokenFee :: "chain \<Rightarrow> pubkey \<Rightarrow> pubkey \<Rightarrow> pubkey \<Rightarrow> pubkey" where
  "deriveProtocolTokenFee ch poolAddress tokenMint programId =
     findProgramAddressSync ch [Buffer_from ''fee'', toBuffer ch tokenMint, toBuffer ch poolAddress] programId"

definition poolSeeds :: "chain \<Rightarrow> pubkey \<Rightarrow> pubkey \<Rightarrow> curveType \<Rightarrow> int \<Rightarrow> bytes list res" where
  "poolSeeds ch tokenA tokenB curve tradeFeeBps =
     rbind (getTradeFeeBpsBuffer curve tradeFeeBps) (\<lambda>feeBuffer.
     Inr [[word_of_nat (encodeCurveType curve)], getFirstKey ch tokenA tokenB, getSecondKey ch tokenA tokenB, feeBuffer])"

definition derivePoolAddress ::
  "chain \<Rightarrow> pubkey \<Rightarrow> pubkey \<Rightarrow> nat \<Rightarrow> nat \<Rightarrow> bool \<Rightarrow> int \<Rightarrow> string option \<Rightarrow> pubkey res" where
  "derivePoolAddress ch tokenA tokenB tokenADecimal tokenBDecimal isStable tradeFeeBps programId =
     (let prog = createProgram ch programId in
      rbind (generateCurveType tokenADecimal tokenBDecimal isStable) (\<lambda>curve.
      rbind (poolSeeds ch tokenA tokenB curve tradeFeeBps) (\<lambda>seeds.
      Inr (findProgramAddressSync ch seeds (ammProgramId prog)))))"

definition checkPoolExists ::
  "chain \<Rightarrow> pubkey \<Rightarrow> pubkey \<Rightarrow> nat \<Rightarrow> nat \<Rightarrow> bool \<Rightarrow> int \<Rightarrow> string option \<Rightarrow> pubkey option res" where
  "checkPoolExists ch mintA mintB mintADecimal mintBDecimal isStable tradeFeeBps programId =
     rbind (derivePoolAddress ch mintA mintB mintADecimal mintBDecimal isStable tradeFeeBps programId) (\<lambda>poolPubkey.
     case fetchPool ch poolPubkey of
       None \<Rightarrow> Inr None
     | Some _ \<Rightarrow> Inr (Some poolPubkey))"

text \<open>\<^verbatim>\<open>findIndex\<close>, with None for -1.\<close>

fun findIndex :: "('a \<Rightarrow> bool) \<Rightarrow> 'a list \<Rightarrow> nat option" where
  "findIndex p [] = None"
| "findIndex p (x # xs) = (if p x then Some 0 else map_option Suc (findIndex p xs))"

definition checkPoolWithConfigsExists ::
  "chain \<Rightarrow> pubkey \<Rightarrow> pubkey \<Rightarrow> pubkey list \<Rightarrow> string option \<Rightarrow> pubkey option res" where
  "checkPoolWithConfigsExists ch tokenA tokenB configs programId =
     (let prog = createProgram ch programId;
          poolsPubkey = map (\<lambda>config. derivePoolAddressWithConfig ch tokenA tokenB config (ammProgramId prog)) configs in
      rbind (fetchMultiplePool ch poolsPubkey) (\<lambda>poolsAccount.
      if list_all (\<lambda>account. account = None) poolsAccount then Inr None
      else case findIndex (\<lambda>account. account \<noteq> None) poolsAccount of
             None \<Rightarrow> Inr None
           | Some i \<Rightarrow> Inr (if i < length poolsPubkey then Some (poolsPubkey ! i) else None)))"

section \<open>Ordered keys\<close>

lemma Buffer_compare_range: "Buffer_compare xs ys \<in> {-1, 0, 1}"
  by (induction xs ys rule: Buffer_compare.induct) auto

lemma Buffer_compare_eq_0 [simp]: "Buffer_compare xs ys = 0 \<longleftrightarrow> xs = ys"
  by (induction xs ys rule: Buffer_compare.induct) auto

lemma Buffer_compare_flip: "Buffer_compare xs ys = 1 \<longleftrightarrow> Buffer_compare ys xs = -1"
  by (induction xs ys rule: Buffer_compare.induct) auto

lemma keys_commute:
  "getFirstKey ch a b = getFirstKey ch b a" "getSecondKey ch a b = getSecondKey ch b a"
proof -
  let ?c = "Buffer_compare (toBuffer ch a) (toBuffer ch b)"
  note flip = Buffer_compare_flip [of "toBuffer ch a" "toBuffer ch b"] Buffer_compare_flip [of "toBuffer ch b" "toBuffer ch a"]
  consider "?c = 1" | "?c = 0" | "?c = -1" using Buffer_compare_range [of "toBuffer ch a" "toBuffer ch b"] by auto
  then have "getFirstKey ch a b = getFirstKey ch b a \<and> getSecondKey ch a b = getSecondKey ch b a"
    by cases (use flip in \<open>auto simp: getFirstKey_def getSecondKey_def Let_def\<close>)
  then show "getFirstKey ch a b = getFirstKey ch b a" "getSecondKey ch a b = getSecondKey ch b a" by auto
qed

lemma keys_set: "{getFirstKey ch a b, getSecondKey ch a b} = {toBuffer ch a, toBuffer ch b}"
  by (auto simp: getFirstKey_def getSecondKey_def Let_def)

lemma le_bytes_length [simp]: "length (le_bytes k n) = k"
  by (induction k n rule: le_bytes.induct) auto

lemma le_nat_le_bytes: "n < 256 ^ k \<Longrightarrow> le_nat (le_bytes k n) = n"
proof (induction k n rule: le_bytes.induct)
  case (2 k n)
  have "n div 256 < 256 ^ k" using 2(2) by (simp add: less_mult_imp_div_less mult.commute)
  moreover have "unat (word_of_nat (n mod 256) :: 8 word) = n mod 256"
    by (simp add: unat_of_nat take_bit_eq_mod)
  ultimately show ?case using 2(1) by simp
qed simp

lemma bn_toBuffer_inj:
  assumes "bn_toBuffer_le8 m = Inr b" "bn_toBuffer_le8 n = Inr b"
  shows "\<bar>m\<bar> = \<bar>n\<bar>"
proof -
  have "nat \<bar>m\<bar> < 256 ^ 8" "nat \<bar>n\<bar> < 256 ^ 8" "le_bytes 8 (nat \<bar>m\<bar>) = le_bytes 8 (nat \<bar>n\<bar>)"
    using assms by (auto simp: bn_toBuffer_le8_def split: if_splits)
  then have "nat \<bar>m\<bar> = nat \<bar>n\<bar>" by (metis le_nat_le_bytes)
  then show ?thesis by simp
qed

lemma bn_toBuffer_length: "bn_toBuffer_le8 n = Inr b \<Longrightarrow> length b = 8"
  by (auto simp: bn_toBuffer_le8_def split: if_splits)

section \<open>Joined seeds\<close>

context chain_laws
begin

lemma keys_length [simp]: "length (getFirstKey ch a b) = 32" "length (getSecondKey ch a b) = 32"
  using toBuffer_length by (auto simp: getFirstKey_def getSecondKey_def Let_def)

lemma keys_determine_pair:
  assumes "isPublicKey ch a" "isPublicKey ch b" "isPublicKey ch a'" "isPublicKey ch b'"
    and "getFirstKey ch a b = getFirstKey ch a' b'" "getSecondKey ch a b = getSecondKey ch a' b'"
  shows "{a, b} = {a', b'}"
proof -
  have "{toBuffer ch a, toBuffer ch b} = {toBuffer ch a', toBuffer ch b'}"
    using keys_set [of ch a b] keys_set [of ch a' b'] assms(5,6) by simp
  then show ?thesis using toBuffer_inj assms(1-4) by (auto simp: doubleton_eq_iff)
qed

lemma poolSeeds_length:
  "poolSeeds ch a b c f = Inr s \<Longrightarrow> length (concat s) \<in> {65, 73}"
  by (auto simp: poolSeeds_def getTradeFeeBpsBuffer_def Let_def dest: bn_toBuffer_length split: if_splits)

lemma configSeeds_length: "length (concat (configSeeds ch a b c)) = 96"
  by (simp add: configSeeds_def toBuffer_length)

lemma customizableSeeds_length: "length (concat (customizableSeeds ch a b)) = 68"
  by (simp add: customizableSeeds_def Buffer_from_def)

lemma poolSeeds_inj:
  assumes "poolSeeds ch a b c f = Inr s" "poolSeeds ch a' b' c' f' = Inr s'" "concat s = concat s'"
    and "isPublicKey ch a" "isPublicKey ch b" "isPublicKey ch a'" "isPublicKey ch b'" "0 \<le> f" "0 \<le> f'"
  shows "{a, b} = {a', b'}" "encodeCurveType c = encodeCurveType c'" "f = f'"
proof -
  obtain x x' where x: "getTradeFeeBpsBuffer c f = Inr x" "getTradeFeeBpsBuffer c' f' = Inr x'"
    and s: "s = [[word_of_nat (encodeCurveType c)], getFirstKey ch a b, getSecondKey ch a b, x]"
      "s' = [[word_of_nat (encodeCurveType c')], getFirstKey ch a' b', getSecondKey ch a' b', x']"
    using assms(1,2) by (auto simp: poolSeeds_def)
  have e: "word_of_nat (encodeCurveType c) = (word_of_nat (encodeCurveType c') :: 8 word)"
    "getFirstKey ch a b = getFirstKey ch a' b'" "getSecondKey ch a b = getSecondKey ch a' b'" "x = x'"
    using assms(3) s by auto
  then show "{a, b} = {a', b'}" using keys_determine_pair assms by blast
  show c: "encodeCurveType c = encodeCurveType c'"
    using e(1) by (auto simp: encodeCurveType_def split: curveType.splits)
  show "f = f'"
    using x e(4) c assms(8,9) bn_toBuffer_inj [of f x f']
    by (auto simp: getTradeFeeBpsBuffer_def encodeCurveType_def Let_def split: curveType.splits if_splits
        dest: bn_toBuffer_length)
qed

end

section \<open>Finding a pool by its configurations\<close>

lemma findIndex_Some_iff:
  "findIndex p xs = Some i \<longleftrightarrow> i < length xs \<and> p (xs ! i) \<and> (\<forall>j < i. \<not> p (xs ! j))"
proof (induction xs arbitrary: i)
  case (Cons x xs)
  show ?case
    by (cases i) (auto simp: Cons less_Suc_eq_0_disj)
qed simp

lemma findIndex_None_iff: "findIndex p xs = None \<longleftrightarrow> (\<forall>x \<in> set xs. \<not> p x)"
  by (induction xs) auto

lemma find_findIndex:
  "List.find p xs = map_option (\<lambda>i. xs ! i) (findIndex p xs)"
  by (induction xs) (auto simp: option.map_comp comp_def)

lemma findIndex_map: "findIndex p (map f xs) = findIndex (p \<circ> f) xs"
  by (induction xs) auto

context chain_laws
begin

lemma check_configs_first:
  fixes configs programId a b
  defines "addr \<equiv> \<lambda>c. derivePoolAddressWithConfig ch a b c (ammProgramId (createProgram ch programId))"
  shows "checkPoolWithConfigsExists ch a b configs programId =
    Inr (map_option addr (List.find (\<lambda>c. fetchPool ch (addr c) \<noteq> None) configs))"
proof -
  let ?p = "\<lambda>c. fetchPool ch (addr c) \<noteq> None" and ?accounts = "map (fetchPool ch) (map addr configs)"
  have unfold: "checkPoolWithConfigsExists ch a b configs programId =
    (if list_all (\<lambda>account. account = None) ?accounts then Inr None
     else case findIndex (\<lambda>account. account \<noteq> None) ?accounts of
       None \<Rightarrow> Inr None
     | Some i \<Rightarrow> Inr (if i < length (map addr configs) then Some (map addr configs ! i) else None))"
    by (simp only: checkPoolWithConfigsExists_def Let_def multiple_pools addr_def rbind_simps)
  have idx: "findIndex (\<lambda>account. account \<noteq> None) ?accounts = findIndex ?p configs"
    by (simp add: findIndex_map comp_def)
  show ?thesis
  proof (cases "findIndex ?p configs")
    case None
    then have "list_all (\<lambda>account. account = None) ?accounts" by (auto simp: findIndex_None_iff list_all_iff)
    with None show ?thesis unfolding unfold find_findIndex by simp
  next
    case (Some i)
    then have "i < length configs" "\<not> list_all (\<lambda>account. account = None) ?accounts"
      by (auto simp: findIndex_Some_iff list_all_length)
    with Some show ?thesis unfolding unfold idx find_findIndex by simp
  qed
qed

end

section \<open>Properties\<close>

text \<open>
  The order in which a caller names the two mints does not matter: every pool address is the
  same for the swapped pair, errors included.
\<close>

lemma pool_addresses_symmetric:
  "derivePoolAddress ch a b decimalA decimalB isStable fee programId =
     derivePoolAddress ch b a decimalB decimalA isStable fee programId \<and>
   derivePoolAddressWithConfig ch a b config program = derivePoolAddressWithConfig ch b a config program \<and>
   deriveCustomizablePermissionlessConstantProductPoolAddress ch a b program =
     deriveCustomizablePermissionlessConstantProductPoolAddress ch b a program"
proof -
  have "decimalA \<le> decimalB \<or> decimalB \<le> decimalA" by linarith
  then have "derivePoolAddress ch a b decimalA decimalB isStable fee programId =
     derivePoolAddress ch b a decimalB decimalA isStable fee programId"
    by (auto simp: derivePoolAddress_def generateCurveType_def computeTokenMultiplier_def BN_of_pow10 Let_def
        max_def poolSeeds_def getTradeFeeBpsBuffer_def encodeCurveType_def keys_commute [of ch a b])
  then show ?thesis
    by (simp add: derivePoolAddressWithConfig_def deriveCustomizablePermissionlessConstantProductPoolAddress_def
        configSeeds_def customizableSeeds_def keys_commute [of ch a b])
qed

end
