(* ===== verification/Base58.thy ===== *)
theory Base58
  imports Addresses
begin

text \<open>
  An environment that meets the laws: keys are base58 texts of 32 bytes, derived addresses are a
  polynomial fingerprint of the program and the joined seeds in a region set apart for them, and the accounts are
  given by maps. It shows that the laws can hold together and serves the concrete instances of
  the properties.
\<close>

section \<open>Base58\<close>

definition b58_alphabet :: string where
  "b58_alphabet = ''123456789ABCDEFGHJKLMNPQRSTUVWXYZabcdefghijkmnopqrstuvwxyz''"

definition b58_digit :: "char \<Rightarrow> nat" where
  "b58_digit c = length (takeWhile (\<lambda>d. d \<noteq> c) b58_alphabet)"

definition b58_value :: "string \<Rightarrow> nat" where
  "b58_value s = foldl (\<lambda>n c. 58 * n + b58_digit c) 0 s"

function b58_text :: "nat \<Rightarrow> string" where
  "b58_text n = (if n = 0 then [] else b58_text (n div 58) @ [b58_alphabet ! (n mod 58)])"
  by auto
termination by (relation "measure id") auto

declare b58_text.simps [simp del]

definition key_bytes :: "pubkey \<Rightarrow> bytes" where
  "key_bytes k = (case k of PublicKey s \<Rightarrow> rev (le_bytes 32 (b58_value s mod 2 ^ 256)))"

definition key_of_bytes :: "bytes \<Rightarrow> pubkey" where
  "key_of_bytes bs = PublicKey (replicate (length (takeWhile (\<lambda>b. b = 0) bs)) (CHR ''1'') @ b58_text (le_nat (rev bs)))"

lemma b58_alphabet_facts: "distinct b58_alphabet" "length b58_alphabet = 58"
  by (code_simp, code_simp)

lemma b58_digit_alphabet:
  assumes "i < 58"
  shows "b58_digit (b58_alphabet ! i) = i"
proof -
  have "takeWhile (\<lambda>d. d \<noteq> b58_alphabet ! i) b58_alphabet = take i b58_alphabet"
    using b58_alphabet_facts assms by (intro takeWhile_eq_take_P_nth) (auto simp: nth_eq_iff_index_eq)
  then show ?thesis using assms b58_alphabet_facts by (simp add: b58_digit_def)
qed

lemma b58_value_append [simp]: "b58_value (s @ [c]) = 58 * b58_value s + b58_digit c"
  by (simp add: b58_value_def)

lemma b58_value_text: "b58_value (b58_text n) = n"
proof (induction n rule: b58_text.induct)
  case (1 n)
  show ?case
  proof (cases "n = 0")
    case True
    then show ?thesis by (simp add: b58_text.simps b58_value_def)
  next
    case False
    then show ?thesis using 1 by (simp add: b58_text.simps [of n] b58_digit_alphabet)
  qed
qed

lemma b58_value_ones: "b58_value (replicate k (CHR ''1'') @ s) = b58_value s"
proof -
  have "foldl (\<lambda>n c. 58 * n + b58_digit c) 0 (replicate k (CHR ''1'')) = 0"
    by (induction k) (simp_all add: b58_digit_def b58_alphabet_def)
  then show ?thesis by (simp add: b58_value_def)
qed

lemma le_bytes_le_nat: "le_bytes (length bs) (le_nat bs) = bs"
proof (induction bs)
  case (Cons b bs)
  have b: "unat b < 256" using unsigned_less [of b] by (simp add: nat_less_iff)
  then have "(unat b + 256 * le_nat bs) mod 256 = unat b" "(unat b + 256 * le_nat bs) div 256 = le_nat bs" by simp_all
  with Cons show ?case by (simp add: word_of_nat_eq_iff)
qed simp

lemma key_bytes_of_bytes:
  assumes "length bs = 32"
  shows "key_bytes (key_of_bytes bs) = bs"
proof -
  have "le_nat (rev bs) < 2 ^ 256" using le_nat_bound [of "rev bs"] assms by simp
  moreover have "rev (le_bytes 32 (le_nat (rev bs))) = bs"
    using le_bytes_le_nat [of "rev bs"] assms by simp
  ultimately show ?thesis by (simp add: key_bytes_def key_of_bytes_def b58_value_ones b58_value_text)
qed

section \<open>The environment\<close>

text \<open>The last byte of a derived address is one; the key of a wallet ends in another byte.\<close>

definition fingerprint :: "bytes \<Rightarrow> nat" where
  "fingerprint bs = foldl (\<lambda>n b. (257 * n + unat b + 1) mod (2 ^ 248)) 7 bs"

definition program_address :: "bytes list \<Rightarrow> pubkey \<Rightarrow> pubkey" where
  "program_address seeds program =
     key_of_bytes (le_bytes 31 (fingerprint (concat seeds @ key_bytes program)) @ [1])"

definition on_curve :: "pubkey \<Rightarrow> bool" where
  "on_curve k \<longleftrightarrow> last (key_bytes k) \<noteq> 1"

definition token_address :: "pubkey \<Rightarrow> pubkey \<Rightarrow> bool \<Rightarrow> pubkey res" where
  "token_address m owner allowOwnerOffCurve =
     (if \<not> allowOwnerOffCurve \<and> \<not> on_curve owner then Inl (Error ''TokenOwnerOffCurveError'')
      else Inr (program_address [key_bytes owner, key_bytes TOKEN_PROGRAM_ID, key_bytes m] ASSOCIATED_TOKEN_PROGRAM_ID))"

definition sampleVaultImpl :: "(pubkey \<rightharpoonup> vaultState) \<Rightarrow> pubkey \<Rightarrow> vaultImpl res" where
  "sampleVaultImpl vaults k =
     of_option (Error ''vault not found'')
       (map_option (\<lambda>v. \<lparr>vi_vaultPda = k, vi_tokenMint = \<lparr>mint_address = v_tokenMint v, mint_decimals = 9\<rparr>,
          vi_vaultState = v\<rparr>) (vaults k))"

definition sampleVaultPdas :: "pubkey \<Rightarrow> pubkey \<Rightarrow> vaultPdas" where
  "sampleVaultPdas m program =
     (let vault = program_address [Buffer_from ''vault'', key_bytes m,
            key_bytes (PublicKey ''HWzXGcGHy4tcpYfaRDCyLNzXqBTv3E6BttpCH2vJxArv'')] program in
      \<lparr>vaultPda = vault,
       tokenVaultPda = program_address [Buffer_from ''token_vault'', key_bytes vault] program,
       lpMintPda = program_address [Buffer_from ''lp_mint'', key_bytes vault] program\<rparr>)"

definition sampleChain ::
  "(pubkey \<rightharpoonup> bytes) \<Rightarrow> (pubkey \<rightharpoonup> poolState) \<Rightarrow> (pubkey \<rightharpoonup> vaultState) \<Rightarrow> (pubkey \<rightharpoonup> lockEscrowAccount) \<Rightarrow>
    (pubkey \<times> configAccount) list \<Rightarrow> chain" where
  "sampleChain accounts pools vaults escrows configs =
     \<lparr>isPublicKey = (\<lambda>k. key_of_bytes (key_bytes k) = k),
      toBuffer = key_bytes,
      findProgramAddressSync = program_address,
      isOnCurve = on_curve,
      getAssociatedTokenAddressSync = token_address,
      getAccountInfo = accounts,
      getMultipleAccountsInfo = (\<lambda>ks. if length ks \<le> 100 then Inr (map accounts ks) else Inl (Error ''Too many inputs provided'')),
      getTokenSupply = (\<lambda>k. Option.bind (accounts k) (\<lambda>d. case readBigUInt64LE d 36 of Inr n \<Rightarrow> Some n | Inl _ \<Rightarrow> None)),
      getTokenAccountBalance = (\<lambda>_. Inr 1000000),
      getParsedTokenAmount = (\<lambda>_. None),
      getParsedClock = 1700000000,
      getLatestBlockhash = ''blockhash'',
      getMinimumBalanceForRentExemptMint = 1461600,
      fetchPool = pools,
      fetchMultiplePool = (\<lambda>ks. Inr (map pools ks)),
      allPools = (\<lambda>_. []),
      fetchLockEscrow = escrows,
      allLockEscrows = (\<lambda>_. []),
      allConfigs = (\<lambda>_. configs),
      fetchConfig = map_of configs,
      fetchVault = vaults,
      fetchFeeVault = (\<lambda>_. True),
      getMint = (\<lambda>k. Inr \<lparr>mint_address = k, mint_decimals = 9\<rparr>),
      accountAmount = (\<lambda>bs. readBigUInt64LE bs 64),
      mintSupply = (\<lambda>bs. readBigUInt64LE bs 36),
      VAULT_PROGRAM_ID = PublicKey ''24Uqj9JCLxUeoC3hGfh5W3s9FM9uCHDS2SG3LYwBpyTi'',
      STAKE_FOR_FEE_PROGRAM_ID = PublicKey ''FEESngU3neckdwib9X3KWqdL7Mjmqk9XNp3uh5JbP4KP'',
      PROGRAM_ID_META = METAPLEX_PROGRAM,
      getVaultPdas = sampleVaultPdas,
      createPermissionlessVaultInstruction = (\<lambda>payer m. Some (PackageIx ''initialize vault'' [payer, m])),
      createMultipleWithPda = (\<lambda>ks _. rmap (sampleVaultImpl vaults) ks),
      refreshVaultState = (\<lambda>vi. rbind (of_option TypeError (vaults (vi_vaultPda vi))) (\<lambda>v. Inr (vi\<lparr>vi_vaultState := v\<rparr>))),
      deriveFeeVault = (\<lambda>pool p. program_address [[3], key_bytes pool] p),
      createFeeVaultInstructions = (\<lambda>pool payer a b ps. [PackageIx ''initialize fee vault'' [pool, payer, a, b]])\<rparr>"

lemma sampleChain_sel [simp]:
  "toBuffer (sampleChain accounts pools vaults escrows configs) = key_bytes"
  "isPublicKey (sampleChain accounts pools vaults escrows configs) k \<longleftrightarrow> key_of_bytes (key_bytes k) = k"
  "findProgramAddressSync (sampleChain accounts pools vaults escrows configs) = program_address"
  "isOnCurve (sampleChain accounts pools vaults escrows configs) = on_curve"
  "getAssociatedTokenAddressSync (sampleChain accounts pools vaults escrows configs) = token_address"
  "getAccountInfo (sampleChain accounts pools vaults escrows configs) = accounts"
  "fetchPool (sampleChain accounts pools vaults escrows configs) = pools"
  "fetchVault (sampleChain accounts pools vaults escrows configs) = vaults"
  "fetchLockEscrow (sampleChain accounts pools vaults escrows configs) = escrows"
  "allConfigs (sampleChain accounts pools vaults escrows configs) filters = configs"
  by (simp_all add: sampleChain_def)

interpretation sample: chain_laws "sampleChain accounts pools vaults escrows configs"
  for accounts pools vaults escrows configs
proof
  show "length (toBuffer (sampleChain accounts pools vaults escrows configs) k) = 32" for k
    by (simp add: key_bytes_def split: pubkey.splits)
  show "k = k'" if "isPublicKey (sampleChain accounts pools vaults escrows configs) k"
      "isPublicKey (sampleChain accounts pools vaults escrows configs) k'"
      "toBuffer (sampleChain accounts pools vaults escrows configs) k = toBuffer (sampleChain accounts pools vaults escrows configs) k'"
    for k k'
  proof -
    have "key_of_bytes (key_bytes k) = k" "key_of_bytes (key_bytes k') = k'" "key_bytes k = key_bytes k'"
      using that unfolding sampleChain_sel by this+
    then show "k = k'" by metis
  qed
  show "\<not> isOnCurve (sampleChain accounts pools vaults escrows configs)
      (findProgramAddressSync (sampleChain accounts pools vaults escrows configs) seeds program)" for seeds program
    by (simp add: on_curve_def program_address_def key_bytes_of_bytes)
qed (simp_all add: token_address_def, simp_all add: sampleChain_def)

interpretation sample: vault_package "sampleChain accounts pools vaults escrows configs" "sampleVaultImpl vaults"
  for accounts pools vaults escrows configs
  by unfold_locales (auto simp: sampleChain_def sampleVaultImpl_def)

text \<open>Wallet keys for concrete instances: 32 equal bytes.\<close>

definition sampleKey :: "8 word \<Rightarrow> pubkey" where
  "sampleKey b = key_of_bytes (replicate 32 b)"

lemma sampleKey_valid: "key_of_bytes (key_bytes (sampleKey b)) = sampleKey b"
  by (simp add: sampleKey_def key_bytes_of_bytes)

section \<open>Properties\<close>

text \<open>
  C40. The bytes that are hashed to a pool address determine the pool: two fee-tier pools with the
  same joined seeds have the same curve type, unordered pair of mints and fee; two pools with a
  configuration have the same pair and configuration; and the three families of pools (fee
  tier, configuration, customizable) never share joined seeds.
\<close>

theorem pool_seeds_determine_pool:
  assumes "chain_laws ch" "\<forall>k \<in> {a, b, a', b', c, c'}. isPublicKey ch k" "0 \<le> fee" "0 \<le> fee'"
    and "poolSeeds ch a b curve fee = Inr s" "poolSeeds ch a' b' curve' fee' = Inr s'"
  shows "(concat s = concat s' \<longrightarrow>
      {a, b} = {a', b'} \<and> encodeCurveType curve = encodeCurveType curve' \<and> fee = fee') \<and>
    (concat (configSeeds ch a b c) = concat (configSeeds ch a' b' c') \<longrightarrow> {a, b} = {a', b'} \<and> c = c') \<and>
    concat s \<noteq> concat (configSeeds ch a' b' c') \<and> concat s \<noteq> concat (customizableSeeds ch a' b') \<and>
    concat (configSeeds ch a b c) \<noteq> concat (customizableSeeds ch a' b')"
proof (intro conjI impI)
  note [simp] = chain_laws.keys_length [OF assms(1)]
  note len = chain_laws.poolSeeds_length [OF assms(1,5)] chain_laws.configSeeds_length [OF assms(1)]
    chain_laws.customizableSeeds_length [OF assms(1)]
  show "concat s \<noteq> concat (configSeeds ch a' b' c')" "concat s \<noteq> concat (customizableSeeds ch a' b')"
    "concat (configSeeds ch a b c) \<noteq> concat (customizableSeeds ch a' b')"
    using len(1) len(2) [of a' b' c'] len(2) [of a b c] len(3) [of a' b'] by (auto simp del: length_concat)
  assume e: "concat s = concat s'"
  show "{a, b} = {a', b'}" "encodeCurveType curve = encodeCurveType curve'" "fee = fee'"
    using chain_laws.poolSeeds_inj [OF assms(1,5,6) e] assms(2-4) by auto
next
  note [simp] = chain_laws.keys_length [OF assms(1)]
  assume "concat (configSeeds ch a b c) = concat (configSeeds ch a' b' c')"
  then have e: "getFirstKey ch a b = getFirstKey ch a' b'" "getSecondKey ch a b = getSecondKey ch a' b'"
    "toBuffer ch c = toBuffer ch c'"
    by (simp_all add: configSeeds_def)
  have v: "isPublicKey ch a" "isPublicKey ch b" "isPublicKey ch a'" "isPublicKey ch b'" "isPublicKey ch c" "isPublicKey ch c'"
    using assms(2) by simp_all
  show "{a, b} = {a', b'}" by (rule chain_laws.keys_determine_pair [OF assms(1) v(1-4) e(1,2)])
  show "c = c'" by (rule chain_laws.toBuffer_inj [OF assms(1) v(5,6) e(3)])
qed

theorem pool_seeds_determine_pool_witness:
  "\<exists>s s'. poolSeeds (sampleChain Map.empty Map.empty Map.empty Map.empty []) (sampleKey 1) (sampleKey 2) ConstantProductCurve 25 = Inr s \<and>
     poolSeeds (sampleChain Map.empty Map.empty Map.empty Map.empty []) (sampleKey 1) (sampleKey 2) ConstantProductCurve 100 = Inr s' \<and>
     concat s \<noteq> concat s'"
proof -
  let ?ch = "sampleChain Map.empty Map.empty Map.empty Map.empty []"
  obtain s s' where s: "poolSeeds ?ch (sampleKey 1) (sampleKey 2) ConstantProductCurve 25 = Inr s"
    "poolSeeds ?ch (sampleKey 1) (sampleKey 2) ConstantProductCurve 100 = Inr s'"
    by (simp add: poolSeeds_def getTradeFeeBpsBuffer_def CONSTANT_PRODUCT_DEFAULT_TRADE_FEE_BPS_def bn_toBuffer_le8_def)
  have "\<forall>k \<in> {sampleKey 1, sampleKey 2, sampleKey 1, sampleKey 2, sampleKey 3, sampleKey 3}. isPublicKey ?ch k"
    using sampleKey_valid by simp
  from pool_seeds_determine_pool [OF sample.chain_laws_axioms this _ _ s] s show ?thesis by auto
qed

text \<open>
  A chunked read returns every account in the order of the keys, for any number of keys,
  although one request takes at most a hundred.
\<close>

lemma chunked_read_is_read:
  assumes "chain_laws ch"
  shows "chunkedGetMultipleAccountInfos ch ks 100 = Inr (map (getAccountInfo ch) ks) \<and>
    chunkedFetchMultiplePoolAccount ch ks 100 = Inr (List.map_filter (fetchPool ch) ks)"
  using chain_laws.chunked_infos [OF assms] chain_laws.chunked_pools [OF assms] by blast

end
