(* ===== verification/Idl.thy ===== *)
theory Idl
  imports Chain
begin

text \<open>
  The interface description of the AMM program (idl.ts): its instructions with their accounts and
  arguments, its account types, its parameter structs and enums, its events and the
  error table. On top of it, when an instruction built by the client matches its description,
  the offsets of account fields, and the error class of error.ts.
\<close>

section \<open>Descriptions\<close>

datatype idlType =
    IdlU8 | IdlU32 | IdlU64 | IdlU128 | IdlF64 | IdlBool | IdlPublicKey
  | IdlOption idlType
  | IdlArray idlType nat
  | IdlDefined string

datatype idlAccount = IdlAccount (ia_name: string) (ia_isMut: bool) (ia_isSigner: bool)

datatype idlInstruction =
  IdlInstruction (ii_name: string) (ii_accounts: "idlAccount list") (ii_args: "(string \<times> idlType) list")

datatype idlError = IdlError (err_code: int) (err_name: string) (err_msg: string)

section \<open>Instructions\<close>

definition idl_initializePermissionedPool :: idlInstruction where
  "idl_initializePermissionedPool =
     IdlInstruction ''initializePermissionedPool''
      [IdlAccount ''pool'' True True,
       IdlAccount ''lpMint'' True False,
       IdlAccount ''tokenAMint'' False False,
       IdlAccount ''tokenBMint'' False False,
       IdlAccount ''aVault'' True False,
       IdlAccount ''bVault'' True False,
       IdlAccount ''aVaultLpMint'' True False,
       IdlAccount ''bVaultLpMint'' True False,
       IdlAccount ''aVaultLp'' True False,
       IdlAccount ''bVaultLp'' True False,
       IdlAccount ''adminTokenA'' True False,
       IdlAccount ''adminTokenB'' True False,
       IdlAccount ''adminPoolLp'' True False,
       IdlAccount ''protocolTokenAFee'' True False,
       IdlAccount ''protocolTokenBFee'' True False,
       IdlAccount ''admin'' True True,
       IdlAccount ''feeOwner'' False False,
       IdlAccount ''rent'' False False,
       IdlAccount ''mintMetadata'' True False,
       IdlAccount ''metadataProgram'' False False,
       IdlAccount ''vaultProgram'' False False,
       IdlAccount ''tokenProgram'' False False,
       IdlAccount ''associatedTokenProgram'' False False,
       IdlAccount ''systemProgram'' False False]
      [(''curveType'', IdlDefined ''CurveType'')]"

definition idl_initializePermissionlessPool :: idlInstruction where
  "idl_initializePermissionlessPool =
     IdlInstruction ''initializePermissionlessPool''
      [IdlAccount ''pool'' True False,
       IdlAccount ''lpMint'' True False,
       IdlAccount ''tokenAMint'' False False,
       IdlAccount ''tokenBMint'' False False,
       IdlAccount ''aVault'' True False,
       IdlAccount ''bVault'' True False,
       IdlAccount ''aTokenVault'' True False,
       IdlAccount ''bTokenVault'' True False,
       IdlAccount ''aVaultLpMint'' True False,
       IdlAccount ''bVaultLpMint'' True False,
       IdlAccount ''aVaultLp'' True False,
       IdlAccount ''bVaultLp'' True False,
       IdlAccount ''payerTokenA'' True False,
       IdlAccount ''payerTokenB'' True False,
       IdlAccount ''payerPoolLp'' True False,
       IdlAccount ''protocolTokenAFee'' True False,
       IdlAccount ''protocolTokenBFee'' True False,
       IdlAccount ''payer'' True True,
       IdlAccount ''feeOwner'' False False,
       IdlAccount ''rent'' False False,
       IdlAccount ''mintMetadata'' True False,
       IdlAccount ''metadataProgram'' False False,
       IdlAccount ''vaultProgram'' False False,
       IdlAccount ''tokenProgram'' False False,
       IdlAccount ''associatedTokenProgram'' False False,
       IdlAccount ''systemProgram'' False False]
      [(''curveType'', IdlDefined ''CurveType''), (''tokenAAmount'', IdlU64), (''tokenBAmount'', IdlU64)]"

definition idl_initializePermissionlessPoolWithFeeTier :: idlInstruction where
  "idl_initializePermissionlessPoolWithFeeTier =
     IdlInstruction ''initializePermissionlessPoolWithFeeTier''
      [IdlAccount ''pool'' True False,
       IdlAccount ''lpMint'' True False,
       IdlAccount ''tokenAMint'' False False,
       IdlAccount ''tokenBMint'' False False,
       IdlAccount ''aVault'' True False,
       IdlAccount ''bVault'' True False,
       IdlAccount ''aTokenVault'' True False,
       IdlAccount ''bTokenVault'' True False,
       IdlAccount ''aVaultLpMint'' True False,
       IdlAccount ''bVaultLpMint'' True False,
       IdlAccount ''aVaultLp'' True False,
       IdlAccount ''bVaultLp'' True False,
       IdlAccount ''payerTokenA'' True False,
       IdlAccount ''payerTokenB'' True False,
       IdlAccount ''payerPoolLp'' True False,
       IdlAccount ''protocolTokenAFee'' True False,
       IdlAccount ''protocolTokenBFee'' True False,
       IdlAccount ''payer'' True True,
       IdlAccount ''feeOwner'' False False,
       IdlAccount ''rent'' False False,
       IdlAccount ''mintMetadata'' True False,
       IdlAccount ''metadataProgram'' False False,
       IdlAccount ''vaultProgram'' False False,
       IdlAccount ''tokenProgram'' False False,
       IdlAccount ''associatedTokenProgram'' False False,
       IdlAccount ''systemProgram'' False False]
      [(''curveType'', IdlDefined ''CurveType''), (''tradeFeeBps'', IdlU64), (''tokenAAmount'', IdlU64), (''tokenBAmount'', IdlU64)]"

definition idl_enableOrDisablePool :: idlInstruction where
  "idl_enableOrDisablePool =
     IdlInstruction ''enableOrDisablePool''
      [IdlAccount ''pool'' True False,
       IdlAccount ''admin'' False True]
      [(''enable'', IdlBool)]"

definition idl_swap :: idlInstruction where
  "idl_swap =
     IdlInstruction ''swap''
      [IdlAccount ''pool'' True False,
       IdlAccount ''userSourceToken'' True False,
       IdlAccount ''userDestinationToken'' True False,
       IdlAccount ''aVault'' True False,
       IdlAccount ''bVault'' True False,
       IdlAccount ''aTokenVault'' True False,
       IdlAccount ''bTokenVault'' True False,
       IdlAccount ''aVaultLpMint'' True False,
       IdlAccount ''bVaultLpMint'' True False,
       IdlAccount ''aVaultLp'' True False,
       IdlAccount ''bVaultLp'' True False,
       IdlAccount ''protocolTokenFee'' True False,
       IdlAccount ''user'' False True,
       IdlAccount ''vaultProgram'' False False,
       IdlAccount ''tokenProgram'' False False]
      [(''inAmount'', IdlU64), (''minimumOutAmount'', IdlU64)]"

definition idl_removeLiquiditySingleSide :: idlInstruction where
  "idl_removeLiquiditySingleSide =
     IdlInstruction ''removeLiquiditySingleSide''
      [IdlAccount ''pool'' True False,
       IdlAccount ''lpMint'' True False,
       IdlAccount ''userPoolLp'' True False,
       IdlAccount ''aVaultLp'' True False,
       IdlAccount ''bVaultLp'' True False,
       IdlAccount ''aVault'' True False,
       IdlAccount ''bVault'' True False,
       IdlAccount ''aVaultLpMint'' True False,
       IdlAccount ''bVaultLpMint'' True False,
       IdlAccount ''aTokenVault'' True False,
       IdlAccount ''bTokenVault'' True False,
       IdlAccount ''userDestinationToken'' True False,
       IdlAccount ''user'' False True,
       IdlAccount ''vaultProgram'' False False,
       IdlAccount ''tokenProgram'' False False]
      [(''poolTokenAmount'', IdlU64), (''minimumOutAmount'', IdlU64)]"

definition idl_addImbalanceLiquidity :: idlInstruction where
  "idl_addImbalanceLiquidity =
     IdlInstruction ''addImbalanceLiquidity''
      [IdlAccount ''pool'' True False,
       IdlAccount ''lpMint'' True False,
       IdlAccount ''userPoolLp'' True False,
       IdlAccount ''aVaultLp'' True False,
       IdlAccount ''bVaultLp'' True False,
       IdlAccount ''aVault'' True False,
       IdlAccount ''bVault'' True False,
       IdlAccount ''aVaultLpMint'' True False,
       IdlAccount ''bVaultLpMint'' True False,
       IdlAccount ''aTokenVault'' True False,
       IdlAccount ''bTokenVault'' True False,
       IdlAccount ''userAToken'' True False,
       IdlAccount ''userBToken'' True False,
       IdlAccount ''user'' False True,
       IdlAccount ''vaultProgram'' False False,
       IdlAccount ''tokenProgram'' False False]
      [(''minimumPoolTokenAmount'', IdlU64), (''tokenAAmount'', IdlU64), (''tokenBAmount'', IdlU64)]"

definition idl_removeBalanceLiquidity :: idlInstruction where
  "idl_removeBalanceLiquidity =
     IdlInstruction ''removeBalanceLiquidity''
      [IdlAccount ''pool'' True False,
       IdlAccount ''lpMint'' True False,
       IdlAccount ''userPoolLp'' True False,
       IdlAccount ''aVaultLp'' True False,
       IdlAccount ''bVaultLp'' True False,
       IdlAccount ''aVault'' True False,
       IdlAccount ''bVault'' True False,
       IdlAccount ''aVaultLpMint'' True False,
       IdlAccount ''bVaultLpMint'' True False,
       IdlAccount ''aTokenVault'' True False,
       IdlAccount ''bTokenVault'' True False,
       IdlAccount ''userAToken'' True False,
       IdlAccount ''userBToken'' True False,
       IdlAccount ''user'' False True,
       IdlAccount ''vaultProgram'' False False,
       IdlAccount ''tokenProgram'' False False]
      [(''poolTokenAmount'', IdlU64), (''minimumATokenOut'', IdlU64), (''minimumBTokenOut'', IdlU64)]"

definition idl_addBalanceLiquidity :: idlInstruction where
  "idl_addBalanceLiquidity =
     IdlInstruction ''addBalanceLiquidity''
      [IdlAccount ''pool'' True False,
       IdlAccount ''lpMint'' True False,
       IdlAccount ''userPoolLp'' True False,
       IdlAccount ''aVaultLp'' True False,
       IdlAccount ''bVaultLp'' True False,
       IdlAccount ''aVault'' True False,
       IdlAccount ''bVault'' True False,
       IdlAccount ''aVaultLpMint'' True False,
       IdlAccount ''bVaultLpMint'' True False,
       IdlAccount ''aTokenVault'' True False,
       IdlAccount ''bTokenVault'' True False,
       IdlAccount ''userAToken'' True False,
       IdlAccount ''userBToken'' True False,
       IdlAccount ''user'' False True,
       IdlAccount ''vaultProgram'' False False,
       IdlAccount ''tokenProgram'' False False]
      [(''poolTokenAmount'', IdlU64), (''maximumTokenAAmount'', IdlU64), (''maximumTokenBAmount'', IdlU64)]"

definition idl_setPoolFees :: idlInstruction where
  "idl_setPoolFees =
     IdlInstruction ''setPoolFees''
      [IdlAccount ''pool'' True False,
       IdlAccount ''feeOperator'' False True]
      [(''fees'', IdlDefined ''PoolFees''), (''newPartnerFeeNumerator'', IdlU64)]"

definition idl_overrideCurveParam :: idlInstruction where
  "idl_overrideCurveParam =
     IdlInstruction ''overrideCurveParam''
      [IdlAccount ''pool'' True False,
       IdlAccount ''admin'' False True]
      [(''curveType'', IdlDefined ''CurveType'')]"

definition idl_getPoolInfo :: idlInstruction where
  "idl_getPoolInfo =
     IdlInstruction ''getPoolInfo''
      [IdlAccount ''pool'' False False,
       IdlAccount ''lpMint'' False False,
       IdlAccount ''aVaultLp'' False False,
       IdlAccount ''bVaultLp'' False False,
       IdlAccount ''aVault'' False False,
       IdlAccount ''bVault'' False False,
       IdlAccount ''aVaultLpMint'' False False,
       IdlAccount ''bVaultLpMint'' False False]
      []"

definition idl_bootstrapLiquidity :: idlInstruction where
  "idl_bootstrapLiquidity =
     IdlInstruction ''bootstrapLiquidity''
      [IdlAccount ''pool'' True False,
       IdlAccount ''lpMint'' True False,
       IdlAccount ''userPoolLp'' True False,
       IdlAccount ''aVaultLp'' True False,
       IdlAccount ''bVaultLp'' True False,
       IdlAccount ''aVault'' True False,
       IdlAccount ''bVault'' True False,
       IdlAccount ''aVaultLpMint'' True False,
       IdlAccount ''bVaultLpMint'' True False,
       IdlAccount ''aTokenVault'' True False,
       IdlAccount ''bTokenVault'' True False,
       IdlAccount ''userAToken'' True False,
       IdlAccount ''userBToken'' True False,
       IdlAccount ''user'' False True,
       IdlAccount ''vaultProgram'' False False,
       IdlAccount ''tokenProgram'' False False]
      [(''tokenAAmount'', IdlU64), (''tokenBAmount'', IdlU64)]"

definition idl_createMintMetadata :: idlInstruction where
  "idl_createMintMetadata =
     IdlInstruction ''createMintMetadata''
      [IdlAccount ''pool'' False False,
       IdlAccount ''lpMint'' False False,
       IdlAccount ''aVaultLp'' False False,
       IdlAccount ''mintMetadata'' True False,
       IdlAccount ''metadataProgram'' False False,
       IdlAccount ''systemProgram'' False False,
       IdlAccount ''payer'' True True]
      []"

definition idl_createLockEscrow :: idlInstruction where
  "idl_createLockEscrow =
     IdlInstruction ''createLockEscrow''
      [IdlAccount ''pool'' False False,
       IdlAccount ''lockEscrow'' True False,
       IdlAccount ''owner'' False False,
       IdlAccount ''lpMint'' False False,
       IdlAccount ''payer'' True True,
       IdlAccount ''systemProgram'' False False]
      []"

definition idl_lock :: idlInstruction where
  "idl_lock =
     IdlInstruction ''lock''
      [IdlAccount ''pool'' True False,
       IdlAccount ''lpMint'' False False,
       IdlAccount ''lockEscrow'' True False,
       IdlAccount ''owner'' True True,
       IdlAccount ''sourceTokens'' True False,
       IdlAccount ''escrowVault'' True False,
       IdlAccount ''tokenProgram'' False False,
       IdlAccount ''aVault'' False False,
       IdlAccount ''bVault'' False False,
       IdlAccount ''aVaultLp'' False False,
       IdlAccount ''bVaultLp'' False False,
       IdlAccount ''aVaultLpMint'' False False,
       IdlAccount ''bVaultLpMint'' False False]
      [(''maxAmount'', IdlU64)]"

definition idl_claimFee :: idlInstruction where
  "idl_claimFee =
     IdlInstruction ''claimFee''
      [IdlAccount ''pool'' True False,
       IdlAccount ''lpMint'' True False,
       IdlAccount ''lockEscrow'' True False,
       IdlAccount ''owner'' True True,
       IdlAccount ''sourceTokens'' True False,
       IdlAccount ''escrowVault'' True False,
       IdlAccount ''tokenProgram'' False False,
       IdlAccount ''aTokenVault'' True False,
       IdlAccount ''bTokenVault'' True False,
       IdlAccount ''aVault'' True False,
       IdlAccount ''bVault'' True False,
       IdlAccount ''aVaultLp'' True False,
       IdlAccount ''bVaultLp'' True False,
       IdlAccount ''aVaultLpMint'' True False,
       IdlAccount ''bVaultLpMint'' True False,
       IdlAccount ''userAToken'' True False,
       IdlAccount ''userBToken'' True False,
       IdlAccount ''vaultProgram'' False False]
      [(''maxAmount'', IdlU64)]"

definition idl_createConfig :: idlInstruction where
  "idl_createConfig =
     IdlInstruction ''createConfig''
      [IdlAccount ''config'' True False,
       IdlAccount ''admin'' True True,
       IdlAccount ''systemProgram'' False False]
      [(''configParameters'', IdlDefined ''ConfigParameters'')]"

definition idl_closeConfig :: idlInstruction where
  "idl_closeConfig =
     IdlInstruction ''closeConfig''
      [IdlAccount ''config'' True False,
       IdlAccount ''admin'' True True,
       IdlAccount ''rentReceiver'' True False]
      []"

definition idl_initializePermissionlessConstantProductPoolWithConfig :: idlInstruction where
  "idl_initializePermissionlessConstantProductPoolWithConfig =
     IdlInstruction ''initializePermissionlessConstantProductPoolWithConfig''
      [IdlAccount ''pool'' True False,
       IdlAccount ''config'' False False,
       IdlAccount ''lpMint'' True False,
       IdlAccount ''tokenAMint'' False False,
       IdlAccount ''tokenBMint'' False False,
       IdlAccount ''aVault'' True False,
       IdlAccount ''bVault'' True False,
       IdlAccount ''aTokenVault'' True False,
       IdlAccount ''bTokenVault'' True False,
       IdlAccount ''aVaultLpMint'' True False,
       IdlAccount ''bVaultLpMint'' True False,
       IdlAccount ''aVaultLp'' True False,
       IdlAccount ''bVaultLp'' True False,
       IdlAccount ''payerTokenA'' True False,
       IdlAccount ''payerTokenB'' True False,
       IdlAccount ''payerPoolLp'' True False,
       IdlAccount ''protocolTokenAFee'' True False,
       IdlAccount ''protocolTokenBFee'' True False,
       IdlAccount ''payer'' True True,
       IdlAccount ''rent'' False False,
       IdlAccount ''mintMetadata'' True False,
       IdlAccount ''metadataProgram'' False False,
       IdlAccount ''vaultProgram'' False False,
       IdlAccount ''tokenProgram'' False False,
       IdlAccount ''associatedTokenProgram'' False False,
       IdlAccount ''systemProgram'' False False]
      [(''tokenAAmount'', IdlU64), (''tokenBAmount'', IdlU64)]"

definition idl_initializePermissionlessConstantProductPoolWithConfig2 :: idlInstruction where
  "idl_initializePermissionlessConstantProductPoolWithConfig2 =
     IdlInstruction ''initializePermissionlessConstantProductPoolWithConfig2''
      [IdlAccount ''pool'' True False,
       IdlAccount ''config'' False False,
       IdlAccount ''lpMint'' True False,
       IdlAccount ''tokenAMint'' False False,
       IdlAccount ''tokenBMint'' False False,
       IdlAccount ''aVault'' True False,
       IdlAccount ''bVault'' True False,
       IdlAccount ''aTokenVault'' True False,
       IdlAccount ''bTokenVault'' True False,
       IdlAccount ''aVaultLpMint'' True False,
       IdlAccount ''bVaultLpMint'' True False,
       IdlAccount ''aVaultLp'' True False,
       IdlAccount ''bVaultLp'' True False,
       IdlAccount ''payerTokenA'' True False,
       IdlAccount ''payerTokenB'' True False,
       IdlAccount ''payerPoolLp'' True False,
       IdlAccount ''protocolTokenAFee'' True False,
       IdlAccount ''protocolTokenBFee'' True False,
       IdlAccount ''payer'' True True,
       IdlAccount ''rent'' False False,
       IdlAccount ''mintMetadata'' True False,
       IdlAccount ''metadataProgram'' False False,
       IdlAccount ''vaultProgram'' False False,
       IdlAccount ''tokenProgram'' False False,
       IdlAccount ''associatedTokenProgram'' False False,
       IdlAccount ''systemProgram'' False False]
      [(''tokenAAmount'', IdlU64), (''tokenBAmount'', IdlU64), (''activationPoint'', IdlOption IdlU64)]"

definition idl_initializeCustomizablePermissionlessConstantProductPool :: idlInstruction where
  "idl_initializeCustomizablePermissionlessConstantProductPool =
     IdlInstruction ''initializeCustomizablePermissionlessConstantProductPool''
      [IdlAccount ''pool'' True False,
       IdlAccount ''lpMint'' True False,
       IdlAccount ''tokenAMint'' False False,
       IdlAccount ''tokenBMint'' False False,
       IdlAccount ''aVault'' True False,
       IdlAccount ''bVault'' True False,
       IdlAccount ''aTokenVault'' True False,
       IdlAccount ''bTokenVault'' True False,
       IdlAccount ''aVaultLpMint'' True False,
       IdlAccount ''bVaultLpMint'' True False,
       IdlAccount ''aVaultLp'' True False,
       IdlAccount ''bVaultLp'' True False,
       IdlAccount ''payerTokenA'' True False,
       IdlAccount ''payerTokenB'' True False,
       IdlAccount ''payerPoolLp'' True False,
       IdlAccount ''protocolTokenAFee'' True False,
       IdlAccount ''protocolTokenBFee'' True False,
       IdlAccount ''payer'' True True,
       IdlAccount ''rent'' False False,
       IdlAccount ''mintMetadata'' True False,
       IdlAccount ''metadataProgram'' False False,
       IdlAccount ''vaultProgram'' False False,
       IdlAccount ''tokenProgram'' False False,
       IdlAccount ''associatedTokenProgram'' False False,
       IdlAccount ''systemProgram'' False False]
      [(''tokenAAmount'', IdlU64), (''tokenBAmount'', IdlU64), (''params'', IdlDefined ''CustomizableParams'')]"

definition idl_updateActivationPoint :: idlInstruction where
  "idl_updateActivationPoint =
     IdlInstruction ''updateActivationPoint''
      [IdlAccount ''pool'' True False,
       IdlAccount ''admin'' False True]
      [(''newActivationPoint'', IdlU64)]"

definition idl_withdrawProtocolFees :: idlInstruction where
  "idl_withdrawProtocolFees =
     IdlInstruction ''withdrawProtocolFees''
      [IdlAccount ''pool'' False False,
       IdlAccount ''aVaultLp'' False False,
       IdlAccount ''protocolTokenAFee'' True False,
       IdlAccount ''protocolTokenBFee'' True False,
       IdlAccount ''treasuryTokenA'' True False,
       IdlAccount ''treasuryTokenB'' True False,
       IdlAccount ''tokenProgram'' False False]
      []"

definition idl_setWhitelistedVault :: idlInstruction where
  "idl_setWhitelistedVault =
     IdlInstruction ''setWhitelistedVault''
      [IdlAccount ''pool'' True False,
       IdlAccount ''admin'' False True]
      [(''whitelistedVault'', IdlPublicKey)]"

definition idl_partnerClaimFee :: idlInstruction where
  "idl_partnerClaimFee =
     IdlInstruction ''partnerClaimFee''
      [IdlAccount ''pool'' True False,
       IdlAccount ''aVaultLp'' False False,
       IdlAccount ''protocolTokenAFee'' True False,
       IdlAccount ''protocolTokenBFee'' True False,
       IdlAccount ''partnerTokenA'' True False,
       IdlAccount ''partnerTokenB'' True False,
       IdlAccount ''tokenProgram'' False False,
       IdlAccount ''partnerAuthority'' False True]
      [(''maxAmountA'', IdlU64), (''maxAmountB'', IdlU64)]"

definition idl_moveLockedLp :: idlInstruction where
  "idl_moveLockedLp =
     IdlInstruction ''moveLockedLp''
      [IdlAccount ''pool'' False False,
       IdlAccount ''lpMint'' False False,
       IdlAccount ''fromLockEscrow'' True False,
       IdlAccount ''toLockEscrow'' True False,
       IdlAccount ''owner'' False True,
       IdlAccount ''fromEscrowVault'' True False,
       IdlAccount ''toEscrowVault'' True False,
       IdlAccount ''tokenProgram'' False False,
       IdlAccount ''aVault'' False False,
       IdlAccount ''bVault'' False False,
       IdlAccount ''aVaultLp'' False False,
       IdlAccount ''bVaultLp'' False False,
       IdlAccount ''aVaultLpMint'' False False,
       IdlAccount ''bVaultLpMint'' False False]
      [(''maxAmount'', IdlU64)]"

definition idl_instructions :: "idlInstruction list" where
  "idl_instructions =
     [idl_initializePermissionedPool,
      idl_initializePermissionlessPool,
      idl_initializePermissionlessPoolWithFeeTier,
      idl_enableOrDisablePool,
      idl_swap,
      idl_removeLiquiditySingleSide,
      idl_addImbalanceLiquidity,
      idl_removeBalanceLiquidity,
      idl_addBalanceLiquidity,
      idl_setPoolFees,
      idl_overrideCurveParam,
      idl_getPoolInfo,
      idl_bootstrapLiquidity,
      idl_createMintMetadata,
      idl_createLockEscrow,
      idl_lock,
      idl_claimFee,
      idl_createConfig,
      idl_closeConfig,
      idl_initializePermissionlessConstantProductPoolWithConfig,
      idl_initializePermissionlessConstantProductPoolWithConfig2,
      idl_initializeCustomizablePermissionlessConstantProductPool,
      idl_updateActivationPoint,
      idl_withdrawProtocolFees,
      idl_setWhitelistedVault,
      idl_partnerClaimFee,
      idl_moveLockedLp]"

section \<open>Accounts and parameter structs\<close>

definition idl_account_config :: "(string \<times> idlType) list" where
  "idl_account_config =
     [(''poolFees'', IdlDefined ''PoolFees''),
      (''activationDuration'', IdlU64),
      (''vaultConfigKey'', IdlPublicKey),
      (''poolCreatorAuthority'', IdlPublicKey),
      (''activationType'', IdlU8),
      (''partnerFeeNumerator'', IdlU64),
      (''padding'', IdlArray IdlU8 219)]"

definition idl_account_lockEscrow :: "(string \<times> idlType) list" where
  "idl_account_lockEscrow =
     [(''pool'', IdlPublicKey),
      (''owner'', IdlPublicKey),
      (''escrowVault'', IdlPublicKey),
      (''bump'', IdlU8),
      (''totalLockedAmount'', IdlU64),
      (''lpPerToken'', IdlU128),
      (''unclaimedFeePending'', IdlU64),
      (''aFee'', IdlU64),
      (''bFee'', IdlU64),
      (''padding'', IdlArray IdlU8 7)]"

definition idl_account_pool :: "(string \<times> idlType) list" where
  "idl_account_pool =
     [(''lpMint'', IdlPublicKey),
      (''tokenAMint'', IdlPublicKey),
      (''tokenBMint'', IdlPublicKey),
      (''aVault'', IdlPublicKey),
      (''bVault'', IdlPublicKey),
      (''aVaultLp'', IdlPublicKey),
      (''bVaultLp'', IdlPublicKey),
      (''aVaultLpBump'', IdlU8),
      (''enabled'', IdlBool),
      (''protocolTokenAFee'', IdlPublicKey),
      (''protocolTokenBFee'', IdlPublicKey),
      (''feeLastUpdatedAt'', IdlU64),
      (''padding0'', IdlArray IdlU8 24),
      (''fees'', IdlDefined ''PoolFees''),
      (''poolType'', IdlDefined ''PoolType''),
      (''stake'', IdlPublicKey),
      (''totalLockedLp'', IdlU64),
      (''bootstrapping'', IdlDefined ''Bootstrapping''),
      (''partnerInfo'', IdlDefined ''PartnerInfo''),
      (''padding'', IdlDefined ''Padding''),
      (''curveType'', IdlDefined ''CurveType''),
      (''padding1'', IdlArray IdlU8 19)]"

definition idl_type_PoolFees :: "(string \<times> idlType) list" where
  "idl_type_PoolFees =
     [(''tradeFeeNumerator'', IdlU64),
      (''tradeFeeDenominator'', IdlU64),
      (''protocolTradeFeeNumerator'', IdlU64),
      (''protocolTradeFeeDenominator'', IdlU64)]"

definition idl_type_ConfigParameters :: "(string \<times> idlType) list" where
  "idl_type_ConfigParameters =
     [(''tradeFeeNumerator'', IdlU64),
      (''protocolTradeFeeNumerator'', IdlU64),
      (''activationDuration'', IdlU64),
      (''vaultConfigKey'', IdlPublicKey),
      (''poolCreatorAuthority'', IdlPublicKey),
      (''activationType'', IdlU8),
      (''index'', IdlU64),
      (''partnerFeeNumerator'', IdlU64)]"

definition idl_type_CustomizableParams :: "(string \<times> idlType) list" where
  "idl_type_CustomizableParams =
     [(''tradeFeeNumerator'', IdlU32),
      (''activationPoint'', IdlOption IdlU64),
      (''hasAlphaVault'', IdlBool),
      (''activationType'', IdlU8),
      (''padding'', IdlArray IdlU8 90)]"

definition idl_type_Bootstrapping :: "(string \<times> idlType) list" where
  "idl_type_Bootstrapping =
     [(''activationPoint'', IdlU64),
      (''whitelistedVault'', IdlPublicKey),
      (''poolCreator'', IdlPublicKey),
      (''activationType'', IdlU8)]"

definition idl_type_PartnerInfo :: "(string \<times> idlType) list" where
  "idl_type_PartnerInfo =
     [(''feeNumerator'', IdlU64),
      (''partnerAuthority'', IdlPublicKey),
      (''pendingFeeA'', IdlU64),
      (''pendingFeeB'', IdlU64)]"

definition idl_type_Depeg :: "(string \<times> idlType) list" where
  "idl_type_Depeg =
     [(''baseVirtualPrice'', IdlU64),
      (''baseCacheUpdated'', IdlU64),
      (''depegType'', IdlDefined ''DepegType'')]"

definition idl_type_TokenMultiplier :: "(string \<times> idlType) list" where
  "idl_type_TokenMultiplier =
     [(''tokenAMultiplier'', IdlU64),
      (''tokenBMultiplier'', IdlU64),
      (''precisionFactor'', IdlU8)]"

definition idl_type_Padding :: "(string \<times> idlType) list" where
  "idl_type_Padding =
     [(''padding0'', IdlArray IdlU8 6),
      (''padding1'', IdlArray IdlU64 21),
      (''padding2'', IdlArray IdlU64 21)]"

text \<open>The enums, by their variants and the fields of each.\<close>

definition idl_enum_ActivationType :: "(string \<times> (string \<times> idlType) list) list" where
  "idl_enum_ActivationType =
     [(''Slot'', []),
      (''Timestamp'', [])]"

definition idl_enum_RoundDirection :: "(string \<times> (string \<times> idlType) list) list" where
  "idl_enum_RoundDirection =
     [(''Floor'', []),
      (''Ceiling'', [])]"

definition idl_enum_TradeDirection :: "(string \<times> (string \<times> idlType) list) list" where
  "idl_enum_TradeDirection =
     [(''AtoB'', []),
      (''BtoA'', [])]"

definition idl_enum_NewCurveType :: "(string \<times> (string \<times> idlType) list) list" where
  "idl_enum_NewCurveType =
     [(''ConstantProduct'', []),
      (''Stable'', [(''amp'', IdlU64),
        (''token_multiplier'', IdlDefined ''TokenMultiplier''),
        (''depeg'', IdlDefined ''Depeg''),
        (''last_amp_updated_timestamp'', IdlU64)]),
      (''NewCurve'', [(''field_one'', IdlU64),
        (''field_two'', IdlU64)])]"

definition idl_enum_CurveType :: "(string \<times> (string \<times> idlType) list) list" where
  "idl_enum_CurveType =
     [(''ConstantProduct'', []),
      (''Stable'', [(''amp'', IdlU64),
        (''token_multiplier'', IdlDefined ''TokenMultiplier''),
        (''depeg'', IdlDefined ''Depeg''),
        (''last_amp_updated_timestamp'', IdlU64)])]"

definition idl_enum_DepegType :: "(string \<times> (string \<times> idlType) list) list" where
  "idl_enum_DepegType =
     [(''None'', []),
      (''Marinade'', []),
      (''Lido'', []),
      (''SplStake'', [])]"

definition idl_enum_Rounding :: "(string \<times> (string \<times> idlType) list) list" where
  "idl_enum_Rounding =
     [(''Up'', []),
      (''Down'', [])]"

definition idl_enum_PoolType :: "(string \<times> (string \<times> idlType) list) list" where
  "idl_enum_PoolType =
     [(''Permissioned'', []),
      (''Permissionless'', [])]"

section \<open>Events\<close>

definition idl_event_AddLiquidity :: "(string \<times> idlType) list" where
  "idl_event_AddLiquidity =
     [(''lpMintAmount'', IdlU64),
      (''tokenAAmount'', IdlU64),
      (''tokenBAmount'', IdlU64)]"

definition idl_event_RemoveLiquidity :: "(string \<times> idlType) list" where
  "idl_event_RemoveLiquidity =
     [(''lpUnmintAmount'', IdlU64),
      (''tokenAOutAmount'', IdlU64),
      (''tokenBOutAmount'', IdlU64)]"

definition idl_event_BootstrapLiquidity :: "(string \<times> idlType) list" where
  "idl_event_BootstrapLiquidity =
     [(''lpMintAmount'', IdlU64),
      (''tokenAAmount'', IdlU64),
      (''tokenBAmount'', IdlU64),
      (''pool'', IdlPublicKey)]"

definition idl_event_Swap :: "(string \<times> idlType) list" where
  "idl_event_Swap =
     [(''inAmount'', IdlU64),
      (''outAmount'', IdlU64),
      (''tradeFee'', IdlU64),
      (''protocolFee'', IdlU64),
      (''hostFee'', IdlU64)]"

definition idl_event_SetPoolFees :: "(string \<times> idlType) list" where
  "idl_event_SetPoolFees =
     [(''tradeFeeNumerator'', IdlU64),
      (''tradeFeeDenominator'', IdlU64),
      (''protocolTradeFeeNumerator'', IdlU64),
      (''protocolTradeFeeDenominator'', IdlU64),
      (''pool'', IdlPublicKey)]"

definition idl_event_PoolInfo :: "(string \<times> idlType) list" where
  "idl_event_PoolInfo =
     [(''tokenAAmount'', IdlU64),
      (''tokenBAmount'', IdlU64),
      (''virtualPrice'', IdlF64),
      (''currentTimestamp'', IdlU64)]"

definition idl_event_TransferAdmin :: "(string \<times> idlType) list" where
  "idl_event_TransferAdmin =
     [(''admin'', IdlPublicKey),
      (''newAdmin'', IdlPublicKey),
      (''pool'', IdlPublicKey)]"

definition idl_event_OverrideCurveParam :: "(string \<times> idlType) list" where
  "idl_event_OverrideCurveParam =
     [(''newAmp'', IdlU64),
      (''updatedTimestamp'', IdlU64),
      (''pool'', IdlPublicKey)]"

definition idl_event_PoolCreated :: "(string \<times> idlType) list" where
  "idl_event_PoolCreated =
     [(''lpMint'', IdlPublicKey),
      (''tokenAMint'', IdlPublicKey),
      (''tokenBMint'', IdlPublicKey),
      (''poolType'', IdlDefined ''PoolType''),
      (''pool'', IdlPublicKey)]"

definition idl_event_PoolEnabled :: "(string \<times> idlType) list" where
  "idl_event_PoolEnabled =
     [(''pool'', IdlPublicKey),
      (''enabled'', IdlBool)]"

definition idl_event_MigrateFeeAccount :: "(string \<times> idlType) list" where
  "idl_event_MigrateFeeAccount =
     [(''pool'', IdlPublicKey),
      (''newAdminTokenAFee'', IdlPublicKey),
      (''newAdminTokenBFee'', IdlPublicKey),
      (''tokenAAmount'', IdlU64),
      (''tokenBAmount'', IdlU64)]"

definition idl_event_CreateLockEscrow :: "(string \<times> idlType) list" where
  "idl_event_CreateLockEscrow =
     [(''pool'', IdlPublicKey),
      (''owner'', IdlPublicKey)]"

definition idl_event_Lock :: "(string \<times> idlType) list" where
  "idl_event_Lock =
     [(''pool'', IdlPublicKey),
      (''owner'', IdlPublicKey),
      (''amount'', IdlU64)]"

definition idl_event_ClaimFee :: "(string \<times> idlType) list" where
  "idl_event_ClaimFee =
     [(''pool'', IdlPublicKey),
      (''owner'', IdlPublicKey),
      (''amount'', IdlU64),
      (''aFee'', IdlU64),
      (''bFee'', IdlU64)]"

definition idl_event_CreateConfig :: "(string \<times> idlType) list" where
  "idl_event_CreateConfig =
     [(''tradeFeeNumerator'', IdlU64),
      (''protocolTradeFeeNumerator'', IdlU64),
      (''config'', IdlPublicKey)]"

definition idl_event_CloseConfig :: "(string \<times> idlType) list" where
  "idl_event_CloseConfig =
     [(''config'', IdlPublicKey)]"

definition idl_event_WithdrawProtocolFees :: "(string \<times> idlType) list" where
  "idl_event_WithdrawProtocolFees =
     [(''pool'', IdlPublicKey),
      (''protocolAFee'', IdlU64),
      (''protocolBFee'', IdlU64),
      (''protocolAFeeOwner'', IdlPublicKey),
      (''protocolBFeeOwner'', IdlPublicKey)]"

definition idl_event_PartnerClaimFees :: "(string \<times> idlType) list" where
  "idl_event_PartnerClaimFees =
     [(''pool'', IdlPublicKey),
      (''feeA'', IdlU64),
      (''feeB'', IdlU64),
      (''partner'', IdlPublicKey)]"

definition idl_event_MoveLockedLp :: "(string \<times> idlType) list" where
  "idl_event_MoveLockedLp =
     [(''pool'', IdlPublicKey),
      (''fromLockEscrow'', IdlPublicKey),
      (''toLockEscrow'', IdlPublicKey),
      (''amount'', IdlU64)]"

section \<open>Errors\<close>

definition idl_errors_low :: "idlError list" where
  "idl_errors_low =
     [IdlError 6000 ''MathOverflow'' ''Math operation overflow'',
      IdlError 6001 ''InvalidFee'' ''Invalid fee setup'',
      IdlError 6002 ''InvalidInvariant'' ''Invalid invariant d'',
      IdlError 6003 ''FeeCalculationFailure'' ''Fee calculation failure'',
      IdlError 6004 ''ExceededSlippage'' ''Exceeded slippage tolerance'',
      IdlError 6005 ''InvalidCalculation'' ''Invalid curve calculation'',
      IdlError 6006 ''ZeroTradingTokens'' ''Given pool token amount results in zero trading tokens'',
      IdlError 6007 ''ConversionError'' ''Math conversion overflow'',
      IdlError 6008 ''FaultyLpMint'' ''LP mint authority must be 'A' vault lp, without freeze authority, and 0 supply'',
      IdlError 6009 ''MismatchedTokenMint'' ''Token mint mismatched'',
      IdlError 6010 ''MismatchedLpMint'' ''LP mint mismatched'',
      IdlError 6011 ''MismatchedOwner'' ''Invalid lp token owner'',
      IdlError 6012 ''InvalidVaultAccount'' ''Invalid vault account'',
      IdlError 6013 ''InvalidVaultLpAccount'' ''Invalid vault lp account'',
      IdlError 6014 ''InvalidPoolLpMintAccount'' ''Invalid pool lp mint account'',
      IdlError 6015 ''PoolDisabled'' ''Pool disabled'',
      IdlError 6016 ''InvalidAdminAccount'' ''Invalid admin account'',
      IdlError 6017 ''InvalidProtocolFeeAccount'' ''Invalid protocol fee account'',
      IdlError 6018 ''SameAdminAccount'' ''Same admin account'',
      IdlError 6019 ''IdenticalSourceDestination'' ''Identical user source and destination token account'',
      IdlError 6020 ''ApyCalculationError'' ''Apy calculation error'',
      IdlError 6021 ''InsufficientSnapshot'' ''Insufficient virtual price snapshot'',
      IdlError 6022 ''NonUpdatableCurve'' ''Current curve is non-updatable'',
      IdlError 6023 ''MisMatchedCurve'' ''New curve is mismatched with old curve'',
      IdlError 6024 ''InvalidAmplification'' ''Amplification is invalid'',
      IdlError 6025 ''UnsupportedOperation'' ''Operation is not supported'',
      IdlError 6026 ''ExceedMaxAChanges'' ''Exceed max amplification changes'']"

definition idl_errors_high :: "idlError list" where
  "idl_errors_high =
     [IdlError 6027 ''InvalidRemainingAccountsLen'' ''Invalid remaining accounts length'',
      IdlError 6028 ''InvalidRemainingAccounts'' ''Invalid remaining account'',
      IdlError 6029 ''MismatchedDepegMint'' ''Token mint B doesn't matches depeg type token mint'',
      IdlError 6030 ''InvalidApyAccount'' ''Invalid APY account'',
      IdlError 6031 ''InvalidTokenMultiplier'' ''Invalid token multiplier'',
      IdlError 6032 ''InvalidDepegInformation'' ''Invalid depeg information'',
      IdlError 6033 ''UpdateTimeConstraint'' ''Update time constraint violated'',
      IdlError 6034 ''ExceedMaxFeeBps'' ''Exceeded max fee bps'',
      IdlError 6035 ''InvalidAdmin'' ''Invalid admin'',
      IdlError 6036 ''PoolIsNotPermissioned'' ''Pool is not permissioned'',
      IdlError 6037 ''InvalidDepositAmount'' ''Invalid deposit amount'',
      IdlError 6038 ''InvalidFeeOwner'' ''Invalid fee owner'',
      IdlError 6039 ''NonDepletedPool'' ''Pool is not depleted'',
      IdlError 6040 ''AmountNotPeg'' ''Token amount is not 1:1'',
      IdlError 6041 ''AmountIsZero'' ''Amount is zero'',
      IdlError 6042 ''TypeCastFailed'' ''Type cast error'',
      IdlError 6043 ''AmountIsNotEnough'' ''Amount is not enough'',
      IdlError 6044 ''InvalidActivationDuration'' ''Invalid activation duration'',
      IdlError 6045 ''PoolIsNotLaunchPool'' ''Pool is not launch pool'',
      IdlError 6046 ''UnableToModifyActivationPoint'' ''Unable to modify activation point'',
      IdlError 6047 ''InvalidAuthorityToCreateThePool'' ''Invalid authority to create the pool'',
      IdlError 6048 ''InvalidActivationType'' ''Invalid activation type'',
      IdlError 6049 ''InvalidActivationPoint'' ''Invalid activation point'',
      IdlError 6050 ''PreActivationSwapStarted'' ''Pre activation swap window started'',
      IdlError 6051 ''InvalidPoolType'' ''Invalid pool type'',
      IdlError 6052 ''InvalidQuoteMint'' ''Quote token must be SOL,USDC'']"

definition idl_errors :: "idlError list" where
  "idl_errors = idl_errors_low @ idl_errors_high"

section \<open>Instructions that match their description\<close>

text \<open>
  An instruction matches when it names every account of its description exactly once and no
  other, and its arguments have the described number and types.
\<close>

fun arg_matches :: "ixArg \<Rightarrow> idlType \<Rightarrow> bool" where
  "arg_matches (BNArg n) t = (t = IdlU64)"
| "arg_matches (OptionBNArg n) t = (t = IdlOption IdlU64)"
| "arg_matches (CurveTypeArg c) t = (t = IdlDefined ''CurveType'')"
| "arg_matches (ConfigParametersArg p) t = (t = IdlDefined ''ConfigParameters'')"
| "arg_matches (CustomizableParamsArg p) t = (t = IdlDefined ''CustomizableParams'')"

definition find_instruction :: "string \<Rightarrow> idlInstruction option" where
  "find_instruction n = List.find (\<lambda>i. ii_name i = n) idl_instructions"

definition names_match :: "string list \<Rightarrow> string list \<Rightarrow> bool" where
  "names_match given described \<longleftrightarrow> distinct given \<and> length given = length described \<and>
     list_all (\<lambda>n. n \<in> set described) given"

definition ix_matches_idl :: "instruction \<Rightarrow> bool" where
  "ix_matches_idl ix \<longleftrightarrow>
     (case ix of
        ProgramIx program name args accounts remaining \<Rightarrow>
          (case find_instruction name of
             None \<Rightarrow> False
           | Some i \<Rightarrow> names_match (map fst accounts) (map ia_name (ii_accounts i)) \<and>
                       list_all2 arg_matches args (map snd (ii_args i)))
      | _ \<Rightarrow> True)"

text \<open>The signatures that the description of an instruction of the program asks for, by the keys it was given.\<close>

definition ix_signers :: "instruction \<Rightarrow> pubkey list" where
  "ix_signers ix =
     (case ix of
        ProgramIx program name args accounts remaining \<Rightarrow>
          (case find_instruction name of
             None \<Rightarrow> []
           | Some i \<Rightarrow> concat (map (\<lambda>a. if ia_isSigner a then map snd (filter (\<lambda>(n, k). n = ia_name a) accounts) else [])
                         (ii_accounts i)) @
                       map am_pubkey (filter am_isSigner remaining))
      | _ \<Rightarrow> [])"

section \<open>Offsets of fields\<close>

fun idl_size :: "idlType \<Rightarrow> nat option" where
  "idl_size IdlU8 = Some 1"
| "idl_size IdlU32 = Some 4"
| "idl_size IdlU64 = Some 8"
| "idl_size IdlU128 = Some 16"
| "idl_size IdlF64 = Some 8"
| "idl_size IdlBool = Some 1"
| "idl_size IdlPublicKey = Some 32"
| "idl_size (IdlOption t) = None"
| "idl_size (IdlArray t n) = map_option (\<lambda>s. s * n) (idl_size t)"
| "idl_size (IdlDefined n) = (if n = ''PoolFees'' then Some 32 else None)"

fun field_offset :: "(string \<times> idlType) list \<Rightarrow> string \<Rightarrow> nat option" where
  "field_offset [] f = None"
| "field_offset ((g, t) # fs) f =
     (if f = g then Some 0
      else Option.bind (idl_size t) (\<lambda>s. map_option (\<lambda>n. s + n) (field_offset fs f)))"

section \<open>The error class\<close>

text \<open>
  \<^verbatim>\<open>new DynamicAmmError(error)\<close> takes an \<^verbatim>\<open>Error\<close>, from whose logs the package parses a program
  error, or anything else, which is looked up as a code.
\<close>

record parsedAnchorError =
  ae_program :: pubkey
  ae_number :: int
  ae_code :: string
  ae_message :: string

datatype thrown = CaughtError "parsedAnchorError option" | CodeValue int | OtherObject

record dynamicAmmError =
  errorCode :: int
  errorName :: string
  errorMessage :: string

definition DynamicAmmError :: "thrown \<Rightarrow> dynamicAmmError" where
  "DynamicAmmError error =
     (let unknown = \<lparr>errorCode = 0, errorName = ''Something went wrong'', errorMessage = ''Something went wrong''\<rparr> in
      case error of
        CaughtError p \<Rightarrow>
          (case p of
             None \<Rightarrow> unknown
           | Some a \<Rightarrow> if ae_program a = PublicKey PROGRAM_ID
                       then \<lparr>errorCode = ae_number a, errorName = ae_code a, errorMessage = ae_message a\<rparr>
                       else unknown)
      | CodeValue c \<Rightarrow>
          (case List.find (\<lambda>e. err_code e = c) idl_errors of
             None \<Rightarrow> unknown
           | Some e \<Rightarrow> \<lparr>errorCode = err_code e, errorName = err_name e, errorMessage = err_msg e\<rparr>)
      | OtherObject \<Rightarrow> unknown)"

section \<open>Facts\<close>

lemma names_match_set: "names_match given described \<Longrightarrow> set given = set described \<and> distinct described"
proof -
  assume m: "names_match given described"
  have "card (set described) \<le> length described" by (rule card_length)
  with m have "set given \<subseteq> set described" "card (set described) \<le> card (set given)"
    by (auto simp: names_match_def list_all_iff distinct_card)
  then have "set given = set described" by (simp add: card_seteq)
  moreover from this m have "distinct described"
    by (metis card_distinct distinct_card names_match_def)
  ultimately show ?thesis by blast
qed

lemma idl_names:
  "ii_name idl_initializePermissionedPool = ''initializePermissionedPool''"
  "ii_name idl_initializePermissionlessPool = ''initializePermissionlessPool''"
  "ii_name idl_initializePermissionlessPoolWithFeeTier = ''initializePermissionlessPoolWithFeeTier''"
  "ii_name idl_enableOrDisablePool = ''enableOrDisablePool''"
  "ii_name idl_swap = ''swap''"
  "ii_name idl_removeLiquiditySingleSide = ''removeLiquiditySingleSide''"
  "ii_name idl_addImbalanceLiquidity = ''addImbalanceLiquidity''"
  "ii_name idl_removeBalanceLiquidity = ''removeBalanceLiquidity''"
  "ii_name idl_addBalanceLiquidity = ''addBalanceLiquidity''"
  "ii_name idl_setPoolFees = ''setPoolFees''"
  "ii_name idl_overrideCurveParam = ''overrideCurveParam''"
  "ii_name idl_getPoolInfo = ''getPoolInfo''"
  "ii_name idl_bootstrapLiquidity = ''bootstrapLiquidity''"
  "ii_name idl_createMintMetadata = ''createMintMetadata''"
  "ii_name idl_createLockEscrow = ''createLockEscrow''"
  "ii_name idl_lock = ''lock''"
  "ii_name idl_claimFee = ''claimFee''"
  "ii_name idl_createConfig = ''createConfig''"
  "ii_name idl_closeConfig = ''closeConfig''"
  "ii_name idl_initializePermissionlessConstantProductPoolWithConfig = ''initializePermissionlessConstantProductPoolWithConfig''"
  "ii_name idl_initializePermissionlessConstantProductPoolWithConfig2 = ''initializePermissionlessConstantProductPoolWithConfig2''"
  "ii_name idl_initializeCustomizablePermissionlessConstantProductPool = ''initializeCustomizablePermissionlessConstantProductPool''"
  "ii_name idl_updateActivationPoint = ''updateActivationPoint''"
  "ii_name idl_withdrawProtocolFees = ''withdrawProtocolFees''"
  "ii_name idl_setWhitelistedVault = ''setWhitelistedVault''"
  "ii_name idl_partnerClaimFee = ''partnerClaimFee''"
  "ii_name idl_moveLockedLp = ''moveLockedLp''"
  by (simp_all only: idlInstruction.sel
      idl_initializePermissionedPool_def
      idl_initializePermissionlessPool_def
      idl_initializePermissionlessPoolWithFeeTier_def
      idl_enableOrDisablePool_def
      idl_swap_def
      idl_removeLiquiditySingleSide_def
      idl_addImbalanceLiquidity_def
      idl_removeBalanceLiquidity_def
      idl_addBalanceLiquidity_def
      idl_setPoolFees_def
      idl_overrideCurveParam_def
      idl_getPoolInfo_def
      idl_bootstrapLiquidity_def
      idl_createMintMetadata_def
      idl_createLockEscrow_def
      idl_lock_def
      idl_claimFee_def
      idl_createConfig_def
      idl_closeConfig_def
      idl_initializePermissionlessConstantProductPoolWithConfig_def
      idl_initializePermissionlessConstantProductPoolWithConfig2_def
      idl_initializeCustomizablePermissionlessConstantProductPool_def
      idl_updateActivationPoint_def
      idl_withdrawProtocolFees_def
      idl_setWhitelistedVault_def
      idl_partnerClaimFee_def
      idl_moveLockedLp_def)

lemma find_instruction_simps [simp]:
  "find_instruction ''initializePermissionedPool'' = Some idl_initializePermissionedPool"
  "find_instruction ''initializePermissionlessPool'' = Some idl_initializePermissionlessPool"
  "find_instruction ''initializePermissionlessPoolWithFeeTier'' = Some idl_initializePermissionlessPoolWithFeeTier"
  "find_instruction ''enableOrDisablePool'' = Some idl_enableOrDisablePool"
  "find_instruction ''swap'' = Some idl_swap"
  "find_instruction ''removeLiquiditySingleSide'' = Some idl_removeLiquiditySingleSide"
  "find_instruction ''addImbalanceLiquidity'' = Some idl_addImbalanceLiquidity"
  "find_instruction ''removeBalanceLiquidity'' = Some idl_removeBalanceLiquidity"
  "find_instruction ''addBalanceLiquidity'' = Some idl_addBalanceLiquidity"
  "find_instruction ''setPoolFees'' = Some idl_setPoolFees"
  "find_instruction ''overrideCurveParam'' = Some idl_overrideCurveParam"
  "find_instruction ''getPoolInfo'' = Some idl_getPoolInfo"
  "find_instruction ''bootstrapLiquidity'' = Some idl_bootstrapLiquidity"
  "find_instruction ''createMintMetadata'' = Some idl_createMintMetadata"
  "find_instruction ''createLockEscrow'' = Some idl_createLockEscrow"
  "find_instruction ''lock'' = Some idl_lock"
  "find_instruction ''claimFee'' = Some idl_claimFee"
  "find_instruction ''createConfig'' = Some idl_createConfig"
  "find_instruction ''closeConfig'' = Some idl_closeConfig"
  "find_instruction ''initializePermissionlessConstantProductPoolWithConfig'' = Some idl_initializePermissionlessConstantProductPoolWithConfig"
  "find_instruction ''initializePermissionlessConstantProductPoolWithConfig2'' = Some idl_initializePermissionlessConstantProductPoolWithConfig2"
  "find_instruction ''initializeCustomizablePermissionlessConstantProductPool'' = Some idl_initializeCustomizablePermissionlessConstantProductPool"
  "find_instruction ''updateActivationPoint'' = Some idl_updateActivationPoint"
  "find_instruction ''withdrawProtocolFees'' = Some idl_withdrawProtocolFees"
  "find_instruction ''setWhitelistedVault'' = Some idl_setWhitelistedVault"
  "find_instruction ''partnerClaimFee'' = Some idl_partnerClaimFee"
  "find_instruction ''moveLockedLp'' = Some idl_moveLockedLp"
  by (simp_all add: find_instruction_def idl_instructions_def idl_names)

lemmas match_simps = ix_matches_idl_def names_match_def

lemma idl_error_codes: "map err_code idl_errors = map (\<lambda>i. 6000 + int i) [0..<53]"
  by (simp add: idl_errors_def idl_errors_low_def idl_errors_high_def upt_conv_Cons)

lemma find_error:
  assumes "e \<in> set idl_errors"
  shows "List.find (\<lambda>x. err_code x = err_code e) idl_errors = Some e"
proof -
  have d: "distinct (map err_code idl_errors)"
    unfolding idl_error_codes by (simp add: distinct_map inj_on_def)
  then have "\<And>x y. x \<in> set idl_errors \<Longrightarrow> y \<in> set idl_errors \<Longrightarrow> err_code x = err_code y \<Longrightarrow> x = y"
    by (auto simp: distinct_map inj_on_def)
  moreover obtain y where y: "List.find (\<lambda>x. err_code x = err_code e) idl_errors = Some y"
    using assms by (cases "List.find (\<lambda>x. err_code x = err_code e) idl_errors") (auto simp: find_None_iff)
  moreover from y have "y \<in> set idl_errors" "err_code y = err_code e" by (auto simp: find_Some_iff)
  ultimately show ?thesis using assms by metis
qed

lemma find_unknown_code:
  assumes "c < 6000 \<or> 6052 < c"
  shows "List.find (\<lambda>x. err_code x = c) idl_errors = None"
proof -
  have "c \<notin> set (map err_code idl_errors)" unfolding idl_error_codes using assms by auto
  then show ?thesis by (auto simp: find_None_iff)
qed

lemma field_offsets:
  "field_offset idl_account_pool ''tokenAMint'' = Some 32"
  "field_offset idl_account_pool ''tokenBMint'' = Some 64"
  "field_offset idl_account_lockEscrow ''owner'' = Some 32"
  "field_offset idl_account_config ''poolCreatorAuthority'' = Some 72"
  by (simp_all add: idl_account_pool_def idl_account_lockEscrow_def idl_account_config_def)

lemma PoolFees_size: "idl_size (IdlDefined ''PoolFees'') = Some (sum_list (map (the \<circ> idl_size \<circ> snd) idl_type_PoolFees))"
  by (simp add: idl_type_PoolFees_def)

section \<open>Errors\<close>

text \<open>
  The error class turns every code of the table into the name and message the table gives it,
  and any code outside 6000 to 6052 into the unknown error.
\<close>

lemma error_lookup_total:
  "(\<forall>e \<in> set idl_errors. DynamicAmmError (CodeValue (err_code e)) =
      \<lparr>errorCode = err_code e, errorName = err_name e, errorMessage = err_msg e\<rparr>) \<and>
   (\<forall>c. c < 6000 \<or> 6052 < c \<longrightarrow> DynamicAmmError (CodeValue c) =
      \<lparr>errorCode = 0, errorName = ''Something went wrong'', errorMessage = ''Something went wrong''\<rparr>) \<and>
   err_code ` set idl_errors = {6000..6052}"
proof (intro conjI ballI allI impI)
  have "set (map err_code idl_errors) = {6000..6052}"
  proof -
    have "(\<lambda>i. 6000 + int i) ` {0..<53} = {6000..6052}"
    proof (intro equalityI subsetI)
      fix c :: int assume "c \<in> {6000..6052}"
      then show "c \<in> (\<lambda>i. 6000 + int i) ` {0..<53}" by (intro image_eqI [of _ _ "nat (c - 6000)"]) auto
    qed auto
    then show ?thesis unfolding idl_error_codes by simp
  qed
  then show "err_code ` set idl_errors = {6000..6052}" by simp
qed (simp_all add: DynamicAmmError_def find_error find_unknown_code)

end
