(* ===== verification/PoolCreation.thy ===== *)
theory PoolCreation
  imports Base58 Idl
begin

text \<open>
  The static methods of \<^verbatim>\<open>AmmImpl\<close> that create configurations and pools (index.ts). Each one reads
  the vaults and token accounts, derives the addresses of the pool and returns transactions as
  data. The blocks that the source repeats in every method (the vaults of the two mints, the
  accounts of the pool, the escrow and lock instructions, the swap) are one definition each.
\<close>

section \<open>Configurations\<close>

record feeConfiguration =
  fc_publicKey :: pubkey
  fc_poolFees :: poolFees
  fc_tradeFeeBps :: int
  fc_protocolTradeFeeBps :: int

definition getFeeConfigurations :: "chain \<Rightarrow> feeConfiguration list res" where
  "getFeeConfigurations ch =
     rmap (\<lambda>(publicKey, account).
       let pf = c_poolFees account in
       rbind (bn_div (tradeFeeNumerator pf * 10000) (tradeFeeDenominator pf)) (\<lambda>tradeFeeBps.
       rbind (bn_div (protocolTradeFeeNumerator pf * 10000) (protocolTradeFeeDenominator pf)) (\<lambda>protocolTradeFeeBps.
       Inr \<lparr>fc_publicKey = publicKey, fc_poolFees = pf, fc_tradeFeeBps = tradeFeeBps,
            fc_protocolTradeFeeBps = protocolTradeFeeBps\<rparr>)))
       (allConfigs ch [])"

text \<open>
  The loop of \<^verbatim>\<open>createConfig\<close> over the index; \<^verbatim>\<open>new BN(index)\<close> refuses a number of 53 bits.
\<close>

partial_function (option) createConfig_loop ::
  "chain \<Rightarrow> pubkey \<Rightarrow> pubkey list \<Rightarrow> int \<Rightarrow> (int \<times> pubkey) res option" where
  "createConfig_loop ch program configs index =
     (case rbind (BN_of_number (of_int index)) (\<lambda>i. deriveConfigPda ch i program) of
        Inl e \<Rightarrow> Some (Inl e)
      | Inr configPda \<Rightarrow>
          if configPda \<notin> set configs then Some (Inr (index, configPda))
          else createConfig_loop ch program configs (index + 1))"

declare createConfig_loop.simps [code]

definition createConfig ::
  "chain \<Rightarrow> pubkey \<Rightarrow> int \<Rightarrow> int \<Rightarrow> pubkey \<Rightarrow> int \<Rightarrow> pubkey \<Rightarrow> activationType \<Rightarrow> int \<Rightarrow> string option \<Rightarrow>
    transaction res option" where
  "createConfig ch payer tradeFeeBps protocolFeeBps vaultConfigKey activationDuration poolCreatorAuthority
     actType partnerFeeNumerator programId =
     (let prog = createProgram ch programId in
      case getFeeConfigurations ch of
        Inl e \<Rightarrow> Some (Inl e)
      | Inr configs \<Rightarrow>
          map_option (\<lambda>r. rbind r (\<lambda>(index, configPda).
            Inr (newTransaction ch payer
              [ProgramIx (ammProgramId prog) ''createConfig''
                [ConfigParametersArg
                  \<lparr>cp_tradeFeeNumerator = tradeFeeBps * 10,
                   cp_protocolTradeFeeNumerator = protocolFeeBps * 10,
                   cp_vaultConfigKey = vaultConfigKey,
                   cp_activationDuration = activationDuration,
                   cp_poolCreatorAuthority = poolCreatorAuthority,
                   cp_index = index,
                   cp_activationType = actType,
                   cp_partnerFeeNumerator = partnerFeeNumerator\<rparr>]
                [(''config'', configPda),
                 (''systemProgram'', SystemProgram_programId),
                 (''admin'', payer)]
                []])))
            (createConfig_loop ch (ammProgramId prog) (map fc_publicKey configs) 0))"

section \<open>Blocks shared by the pool creations\<close>

record vaultSetup =
  vs_vault :: pubkey
  vs_tokenVault :: pubkey
  vs_lpMint :: pubkey
  vs_create :: "instruction option"

text \<open>A vault that does not exist is created; an existing one names its own LP mint.\<close>

definition setupVault :: "chain \<Rightarrow> programs \<Rightarrow> pubkey \<Rightarrow> pubkey \<Rightarrow> vaultSetup" where
  "setupVault ch prog payer mint =
     (let pdas = getVaultPdas ch mint (vaultProgramId prog) in
      case fetchVault ch (vaultPda pdas) of
        None \<Rightarrow> \<lparr>vs_vault = vaultPda pdas, vs_tokenVault = tokenVaultPda pdas, vs_lpMint = lpMintPda pdas,
                 vs_create = createPermissionlessVaultInstruction ch payer mint\<rparr>
      | Some account \<Rightarrow>
                \<lparr>vs_vault = vaultPda pdas, vs_tokenVault = tokenVaultPda pdas, vs_lpMint = v_lpMint account,
                 vs_create = None\<rparr>)"

record poolAccounts =
  pa_pool :: pubkey
  pa_tokenAMint :: pubkey
  pa_tokenBMint :: pubkey
  pa_aVault :: pubkey
  pa_bVault :: pubkey
  pa_aVaultLpMint :: pubkey
  pa_bVaultLpMint :: pubkey
  pa_aVaultLp :: pubkey
  pa_bVaultLp :: pubkey
  pa_lpMint :: pubkey
  pa_payerTokenA :: pubkey
  pa_payerTokenB :: pubkey
  pa_protocolTokenAFee :: pubkey
  pa_protocolTokenBFee :: pubkey
  pa_payerPoolLp :: pubkey
  pa_aTokenVault :: pubkey
  pa_bTokenVault :: pubkey
  pa_mintMetadata :: pubkey

text \<open>The addresses derived from the pool and the two vaults, and the creation of missing token accounts.\<close>

definition poolAccountsOf ::
  "chain \<Rightarrow> programs \<Rightarrow> pubkey \<Rightarrow> pubkey \<Rightarrow> pubkey \<Rightarrow> pubkey \<Rightarrow> vaultSetup \<Rightarrow> vaultSetup \<Rightarrow>
    (poolAccounts \<times> instruction option \<times> instruction option) res" where
  "poolAccountsOf ch prog payer poolPubkey tokenA tokenB a b =
     (let amm = ammProgramId prog;
          lpM = findProgramAddressSync ch [Buffer_from SEEDS_LP_MINT, toBuffer ch poolPubkey] amm;
          aVaultLpKey = findProgramAddressSync ch [toBuffer ch (vs_vault a), toBuffer ch poolPubkey] amm;
          bVaultLpKey = findProgramAddressSync ch [toBuffer ch (vs_vault b), toBuffer ch poolPubkey] amm in
      rbind (getOrCreateATAInstruction ch tokenA payer None) (\<lambda>(payerTokenA, createPayerTokenAIx).
      rbind (getOrCreateATAInstruction ch tokenB payer None) (\<lambda>(payerTokenB, createPayerTokenBIx).
      let feeA = findProgramAddressSync ch [Buffer_from SEEDS_FEE, toBuffer ch tokenA, toBuffer ch poolPubkey] amm;
          feeB = findProgramAddressSync ch [Buffer_from SEEDS_FEE, toBuffer ch tokenB, toBuffer ch poolPubkey] amm in
      rbind (getAssociatedTokenAccount ch lpM payer) (\<lambda>payerPoolLp.
      Inr (\<lparr>pa_pool = poolPubkey, pa_tokenAMint = tokenA, pa_tokenBMint = tokenB,
            pa_aVault = vs_vault a, pa_bVault = vs_vault b,
            pa_aVaultLpMint = vs_lpMint a, pa_bVaultLpMint = vs_lpMint b,
            pa_aVaultLp = aVaultLpKey, pa_bVaultLp = bVaultLpKey, pa_lpMint = lpM,
            pa_payerTokenA = payerTokenA, pa_payerTokenB = payerTokenB,
            pa_protocolTokenAFee = feeA, pa_protocolTokenBFee = feeB, pa_payerPoolLp = payerPoolLp,
            pa_aTokenVault = vs_tokenVault a, pa_bTokenVault = vs_tokenVault b,
            pa_mintMetadata = deriveMintMetadata ch lpM\<rparr>,
           createPayerTokenAIx, createPayerTokenBIx)))))"

text \<open>The accounts every initialization names before and after the one in which they differ.\<close>

definition initAccountsHead :: "poolAccounts \<Rightarrow> namedAccounts" where
  "initAccountsHead k =
     [(''pool'', pa_pool k),
      (''tokenAMint'', pa_tokenAMint k),
      (''tokenBMint'', pa_tokenBMint k),
      (''aVault'', pa_aVault k),
      (''bVault'', pa_bVault k),
      (''aVaultLpMint'', pa_aVaultLpMint k),
      (''bVaultLpMint'', pa_bVaultLpMint k),
      (''aVaultLp'', pa_aVaultLp k),
      (''bVaultLp'', pa_bVaultLp k),
      (''lpMint'', pa_lpMint k),
      (''payerTokenA'', pa_payerTokenA k),
      (''payerTokenB'', pa_payerTokenB k),
      (''protocolTokenAFee'', pa_protocolTokenAFee k),
      (''protocolTokenBFee'', pa_protocolTokenBFee k),
      (''payerPoolLp'', pa_payerPoolLp k),
      (''aTokenVault'', pa_aTokenVault k),
      (''bTokenVault'', pa_bTokenVault k),
      (''mintMetadata'', pa_mintMetadata k),
      (''metadataProgram'', METAPLEX_PROGRAM)]"

definition initAccountsTail :: "programs \<Rightarrow> namedAccounts" where
  "initAccountsTail prog =
     [(''rent'', SYSVAR_RENT_PUBKEY),
      (''vaultProgram'', vaultProgramId prog),
      (''tokenProgram'', TOKEN_PROGRAM_ID),
      (''systemProgram'', SystemProgram_programId),
      (''associatedTokenProgram'', ASSOCIATED_TOKEN_PROGRAM_ID)]"

definition createLockEscrowIx :: "pubkey \<Rightarrow> pubkey \<Rightarrow> pubkey \<Rightarrow> pubkey \<Rightarrow> pubkey \<Rightarrow> pubkey \<Rightarrow> instruction" where
  "createLockEscrowIx program pool lockEscrow owner lpM payer =
     ProgramIx program ''createLockEscrow'' []
       [(''pool'', pool),
        (''lockEscrow'', lockEscrow),
        (''owner'', owner),
        (''lpMint'', lpM),
        (''payer'', payer),
        (''systemProgram'', SystemProgram_programId)] []"

text \<open>The vault accounts that a lock, a claim and a move name.\<close>

record vaultKeys =
  vk_aVault :: pubkey
  vk_bVault :: pubkey
  vk_aVaultLp :: pubkey
  vk_bVaultLp :: pubkey
  vk_aVaultLpMint :: pubkey
  vk_bVaultLpMint :: pubkey

definition lockIx ::
  "pubkey \<Rightarrow> int \<Rightarrow> pubkey \<Rightarrow> pubkey \<Rightarrow> pubkey \<Rightarrow> pubkey \<Rightarrow> pubkey \<Rightarrow> pubkey \<Rightarrow> vaultKeys \<Rightarrow> instruction" where
  "lockIx program amount pool lockEscrow owner lpM sourceTokens escrowVault v =
     ProgramIx program ''lock'' [BNArg amount]
       [(''pool'', pool),
        (''lockEscrow'', lockEscrow),
        (''owner'', owner),
        (''lpMint'', lpM),
        (''sourceTokens'', sourceTokens),
        (''escrowVault'', escrowVault),
        (''tokenProgram'', TOKEN_PROGRAM_ID),
        (''aVault'', vk_aVault v),
        (''bVault'', vk_bVault v),
        (''aVaultLp'', vk_aVaultLp v),
        (''bVaultLp'', vk_bVaultLp v),
        (''aVaultLpMint'', vk_aVaultLpMint v),
        (''bVaultLpMint'', vk_bVaultLpMint v)] []"

definition poolVaultKeys :: "poolAccounts \<Rightarrow> vaultKeys" where
  "poolVaultKeys k =
     \<lparr>vk_aVault = pa_aVault k, vk_bVault = pa_bVault k, vk_aVaultLp = pa_aVaultLp k, vk_bVaultLp = pa_bVaultLp k,
      vk_aVaultLpMint = pa_aVaultLpMint k, vk_bVaultLpMint = pa_bVaultLpMint k\<rparr>"

text \<open>The escrow of the payer, its token account and the lock, which follow the initialization.\<close>

definition lockLiquidityIxs :: "chain \<Rightarrow> programs \<Rightarrow> pubkey \<Rightarrow> poolAccounts \<Rightarrow> int \<Rightarrow> instruction list res" where
  "lockLiquidityIxs ch prog payer k amount =
     (let amm = ammProgramId prog;
          lockEscrowPK = deriveLockEscrowPda ch (pa_pool k) payer amm in
      rbind (getOrCreateATAInstruction ch (pa_lpMint k) lockEscrowPK (Some payer)) (\<lambda>(escrowAta, createEscrowAtaIx).
      Inr (push_opt [createLockEscrowIx amm (pa_pool k) lockEscrowPK payer (pa_lpMint k) payer] createEscrowAtaIx @
           [lockIx amm amount (pa_pool k) lockEscrowPK payer (pa_lpMint k) (pa_payerPoolLp k) escrowAta (poolVaultKeys k)])))"

text \<open>The lock for the fee vault of stake-for-fee, behind the creation of that vault.\<close>

definition feeVaultLockTx ::
  "chain \<Rightarrow> programs \<Rightarrow> pubkey \<Rightarrow> poolAccounts \<Rightarrow> feeVaultParams option \<Rightarrow> int \<Rightarrow> instruction list res" where
  "feeVaultLockTx ch prog payer k params amount =
     (let amm = ammProgramId prog;
          createFeeVaultIxs = createFeeVaultInstructions ch (pa_pool k) payer (pa_tokenAMint k) (pa_tokenBMint k) params;
          vaultKey = deriveFeeVault ch (pa_pool k) (STAKE_FOR_FEE_PROGRAM_ID ch);
          lockEscrowFeeVaultPK = deriveLockEscrowPda ch (pa_pool k) vaultKey amm in
      rbind (getOrCreateATAInstruction ch (pa_lpMint k) lockEscrowFeeVaultPK (Some payer))
        (\<lambda>(escrowFeeVaultAta, createEscrowFeeVaultAtaIx).
      Inr (methodTx (lockIx amm amount (pa_pool k) lockEscrowFeeVaultPK payer (pa_lpMint k) (pa_payerPoolLp k)
                       escrowFeeVaultAta (poolVaultKeys k))
             (push_opt createFeeVaultIxs createEscrowFeeVaultAtaIx) [])))"

text \<open>The first swap, always from token B to token A.\<close>

definition swapLiquidityIx :: "chain \<Rightarrow> programs \<Rightarrow> pubkey \<Rightarrow> poolAccounts \<Rightarrow> int \<Rightarrow> int \<Rightarrow> instruction" where
  "swapLiquidityIx ch prog payer k inAmount minAmountOut =
     ProgramIx (ammProgramId prog) ''swap'' [BNArg inAmount, BNArg minAmountOut]
       [(''aTokenVault'', pa_aTokenVault k),
        (''bTokenVault'', pa_bTokenVault k),
        (''aVault'', pa_aVault k),
        (''bVault'', pa_bVault k),
        (''aVaultLp'', pa_aVaultLp k),
        (''bVaultLp'', pa_bVaultLp k),
        (''aVaultLpMint'', pa_aVaultLpMint k),
        (''bVaultLpMint'', pa_bVaultLpMint k),
        (''userSourceToken'', pa_payerTokenB k),
        (''userDestinationToken'', pa_payerTokenA k),
        (''user'', payer),
        (''protocolTokenFee'', deriveProtocolTokenFee ch (pa_pool k) (pa_tokenBMint k) (ammProgramId prog)),
        (''pool'', pa_pool k),
        (''tokenProgram'', TOKEN_PROGRAM_ID),
        (''vaultProgram'', vaultProgramId prog)] []"

definition wrapIfNative :: "pubkey \<Rightarrow> pubkey \<Rightarrow> pubkey \<Rightarrow> int \<Rightarrow> instruction list" where
  "wrapIfNative payer mint account amount =
     (if mint = NATIVE_MINT then wrapSOLInstruction payer account amount else [])"

text \<open>The transactions before and with the initialization, each behind its compute budget.\<close>

definition createPoolIxs :: "instruction list \<Rightarrow> instruction list \<Rightarrow> instruction list list" where
  "createPoolIxs preInstructions createPoolTx =
     (if preInstructions \<noteq> [] then [SetComputeUnitLimit 300000 # preInstructions] else []) @
     [SetComputeUnitLimit 450000 # createPoolTx]"

section \<open>Pool creation\<close>

definition createCustomizablePermissionlessConstantProductPool ::
  "chain \<Rightarrow> pubkey \<Rightarrow> pubkey \<Rightarrow> pubkey \<Rightarrow> int \<Rightarrow> int \<Rightarrow> customizableParams \<Rightarrow> string option \<Rightarrow> transaction res" where
  "createCustomizablePermissionlessConstantProductPool ch payer tokenA tokenB tokenAAmt tokenBAmt params programId =
     (let prog = createProgram ch programId;
          a = setupVault ch prog payer tokenA;
          b = setupVault ch prog payer tokenB;
          poolPubkey = deriveCustomizablePermissionlessConstantProductPoolAddress ch tokenA tokenB (ammProgramId prog) in
      rbind (poolAccountsOf ch prog payer poolPubkey tokenA tokenB a b) (\<lambda>(k, createA, createB).
      let preInstructions =
            push_opt (push_opt (push_opt (push_opt [] (vs_create a)) (vs_create b)) createA) createB @
            wrapIfNative payer tokenA (pa_payerTokenA k) tokenAAmt @
            wrapIfNative payer tokenB (pa_payerTokenB k) tokenBAmt;
          initIx = ProgramIx (ammProgramId prog) ''initializeCustomizablePermissionlessConstantProductPool''
            [BNArg tokenAAmt, BNArg tokenBAmt, CustomizableParamsArg params]
            (initAccountsHead k @ [(''payer'', payer)] @ initAccountsTail prog) [] in
      Inr (newTransaction ch payer (methodTx initIx preInstructions []))))"

record stakeLiquidity =
  sl_ratio :: "rat option"
  sl_param :: feeVaultParams

record createPoolOpt =
  opt_programId :: "string option"
  opt_lockLiquidity :: bool
  opt_swapLiquidity :: "(int \<times> int) option"
  opt_stakeLiquidity :: "stakeLiquidity option"
  opt_activationPoint :: "int option"
  opt_skipAAta :: bool
  opt_skipBAta :: bool
  opt_feeVault :: "feeVaultParams option"

definition stakeRatio :: "createPoolOpt \<Rightarrow> rat" where
  "stakeRatio opt =
     (case opt_stakeLiquidity opt of None \<Rightarrow> 0 | Some s \<Rightarrow> (case sl_ratio s of None \<Rightarrow> 0 | Some r \<Rightarrow> r))"

definition stakeParams :: "createPoolOpt \<Rightarrow> feeVaultParams" where
  "stakeParams opt =
     (case opt_stakeLiquidity opt of
        None \<Rightarrow> \<lparr>fv_unstakeLockDuration = 0, fv_secondsToFullUnlock = 0, fv_topListLength = 0,
                 fv_startFeeDistributeTimestamp = Some 0\<rparr>
      | Some s \<Rightarrow> (sl_param s)\<lparr>fv_startFeeDistributeTimestamp :=
                   Some (case fv_startFeeDistributeTimestamp (sl_param s) of None \<Rightarrow> 0 | Some t \<Rightarrow> t)\<rparr>)"

definition swapInAmount :: "createPoolOpt \<Rightarrow> int" where
  "swapInAmount opt = (case opt_swapLiquidity opt of None \<Rightarrow> 0 | Some (i, m) \<Rightarrow> i)"

definition swapTxs :: "chain \<Rightarrow> programs \<Rightarrow> pubkey \<Rightarrow> poolAccounts \<Rightarrow> createPoolOpt \<Rightarrow> instruction list list" where
  "swapTxs ch prog payer k opt =
     (case opt_swapLiquidity opt of
        None \<Rightarrow> []
      | Some (inAmount, minAmountOut) \<Rightarrow> [[swapLiquidityIx ch prog payer k inAmount minAmountOut]])"

definition createPermissionlessConstantProductPoolWithConfig2 ::
  "chain \<Rightarrow> mathLib \<Rightarrow> pubkey \<Rightarrow> pubkey \<Rightarrow> pubkey \<Rightarrow> int \<Rightarrow> int \<Rightarrow> pubkey \<Rightarrow> createPoolOpt \<Rightarrow> transaction list res" where
  "createPermissionlessConstantProductPoolWithConfig2 ch L payer tokenA tokenB tokenAAmt tokenBAmt config opt =
     (let prog = createProgram ch (opt_programId opt);
          a = setupVault ch prog payer tokenA;
          b = setupVault ch prog payer tokenB;
          poolPubkey = derivePoolAddressWithConfig ch tokenA tokenB config (ammProgramId prog) in
      rbind (poolAccountsOf ch prog payer poolPubkey tokenA tokenB a b) (\<lambda>(k, createA, createB).
      let preInstructions =
            push_opt (push_opt (push_opt (push_opt [] (vs_create a)) (vs_create b)) createA) createB @
            wrapIfNative payer tokenA (pa_payerTokenA k) tokenAAmt @
            wrapIfNative payer tokenB (pa_payerTokenB k) tokenBAmt in
      rbind (bnSqrt L (tokenAAmt * tokenBAmt)) (\<lambda>lpAmount.
      rbind (calculateLockAmounts L lpAmount (stakeRatio opt)) (\<lambda>(feeWrapperLockAmount, userLockAmount).
      rbind (if opt_lockLiquidity opt \<and> userLockAmount > 0 then lockLiquidityIxs ch prog payer k userLockAmount
             else Inr []) (\<lambda>createPoolPostInstructions.
      let initIx = ProgramIx (ammProgramId prog) ''initializePermissionlessConstantProductPoolWithConfig2''
            [BNArg tokenAAmt, BNArg tokenBAmt, OptionBNArg (opt_activationPoint opt)]
            (initAccountsHead k @ [(''payer'', payer), (''config'', config)] @ initAccountsTail prog) [] in
      rbind (if feeWrapperLockAmount > 0
             then rbind (feeVaultLockTx ch prog payer k (Some (stakeParams opt)) feeWrapperLockAmount) (\<lambda>tx. Inr [tx])
             else Inr []) (\<lambda>lockTxs.
      createTransactions ch
             (createPoolIxs preInstructions (methodTx initIx [] createPoolPostInstructions) @ lockTxs @
              swapTxs ch prog payer k opt) payer))))))"

definition createPermissionlessConstantProductPoolWithConfig ::
  "chain \<Rightarrow> pubkey \<Rightarrow> pubkey \<Rightarrow> pubkey \<Rightarrow> int \<Rightarrow> int \<Rightarrow> pubkey \<Rightarrow> createPoolOpt \<Rightarrow> transaction list res" where
  "createPermissionlessConstantProductPoolWithConfig ch payer tokenA tokenB tokenAAmt tokenBAmt config opt =
     (let prog = createProgram ch (opt_programId opt);
          a = setupVault ch prog payer tokenA;
          b = setupVault ch prog payer tokenB;
          poolPubkey = derivePoolAddressWithConfig ch tokenA tokenB config (ammProgramId prog) in
      rbind (poolAccountsOf ch prog payer poolPubkey tokenA tokenB a b) (\<lambda>(k, createA, createB).
      let preInstructions =
            push_opt (push_opt (push_opt (push_opt [] (vs_create a)) (vs_create b))
              (if opt_skipAAta opt then None else createA)) (if opt_skipBAta opt then None else createB) @
            wrapIfNative payer tokenA (pa_payerTokenA k) tokenAAmt @
            wrapIfNative payer tokenB (pa_payerTokenB k) (tokenBAmt + swapInAmount opt) in
      rbind (if opt_lockLiquidity opt then lockLiquidityIxs ch prog payer k U64_MAX else Inr [])
        (\<lambda>createPoolPostInstructions.
      let initIx = ProgramIx (ammProgramId prog) ''initializePermissionlessConstantProductPoolWithConfig''
            [BNArg tokenAAmt, BNArg tokenBAmt]
            (initAccountsHead k @ [(''payer'', payer), (''config'', config)] @ initAccountsTail prog) [] in
      createTransactions ch
             (createPoolIxs preInstructions (methodTx initIx [] createPoolPostInstructions) @
              swapTxs ch prog payer k opt) payer)))"

record memecoinInfo =
  mi_isMinted :: bool
  mi_keypair :: "pubkey option"
  mi_payer :: "pubkey option"
  mi_assetData :: "string option"
  mi_mintAuthority :: "pubkey option"
  mi_freezeAuthority :: "pubkey option option" \<comment> \<open>undefined, null or a key\<close>
  mi_decimals :: "nat option"
  mi_mintAmount :: "int option"

text \<open>The token of the pool: create the mint, mint the supply to its authority and revoke the authority.\<close>

definition createTokenIxs :: "chain \<Rightarrow> memecoinInfo \<Rightarrow> instruction list res" where
  "createTokenIxs ch info =
     (if mi_isMinted info then Inr []
      else case (mi_keypair info, mi_payer info, mi_mintAuthority info, mi_mintAmount info, mi_assetData info,
                 mi_freezeAuthority info) of
        (Some keypair, Some payer, Some mintAuthority, Some mintAmount, Some assetData, Some freezeAuthority) \<Rightarrow>
          (let mintTx = createMint ch keypair payer assetData mintAuthority freezeAuthority
                 (case mi_decimals info of None \<Rightarrow> 0 | Some d \<Rightarrow> d) TOKEN_PROGRAM_ID in
           rbind (getOrCreateATAInstruction ch keypair mintAuthority (Some payer)) (\<lambda>(ata, createAtaIx).
           Inr (push_opt mintTx createAtaIx @
                [MintTo keypair ata mintAuthority mintAmount, SetAuthority keypair mintAuthority 0 None])))
      | _ \<Rightarrow> Inl (Error ''Missing required fields for minting Memecoin.''))"

definition createPermissionlessConstantProductMemecoinPoolWithConfig ::
  "chain \<Rightarrow> mathLib \<Rightarrow> pubkey \<Rightarrow> pubkey \<Rightarrow> pubkey \<Rightarrow> int \<Rightarrow> int \<Rightarrow> pubkey \<Rightarrow> memecoinInfo \<Rightarrow> createPoolOpt \<Rightarrow>
    transaction list res" where
  "createPermissionlessConstantProductMemecoinPoolWithConfig ch L payer tokenA tokenB tokenAAmt tokenBAmt config info opt =
     (let prog = createProgram ch (opt_programId opt) in
      rbind (createTokenIxs ch info) (\<lambda>createTokenIxs.
      let a = setupVault ch prog payer tokenA;
          b = setupVault ch prog payer tokenB;
          poolPubkey = derivePoolAddressWithConfig ch tokenA tokenB config (ammProgramId prog) in
      rbind (poolAccountsOf ch prog payer poolPubkey tokenA tokenB a b) (\<lambda>(k, createA, createB).
      let preInstructions =
            push_opt (push_opt (push_opt (push_opt createTokenIxs (vs_create a)) (vs_create b))
              (if opt_skipAAta opt then None else createA)) (if opt_skipBAta opt then None else createB) @
            wrapIfNative payer tokenA (pa_payerTokenA k) tokenAAmt @
            wrapIfNative payer tokenB (pa_payerTokenB k) (tokenBAmt + swapInAmount opt) in
      rbind (bnSqrt L (tokenAAmt * tokenBAmt)) (\<lambda>lpAmount.
      rbind (calculateLockAmounts L lpAmount (stakeRatio opt)) (\<lambda>(feeWrapperLockAmount, userLockAmount).
      rbind (if opt_lockLiquidity opt \<and> userLockAmount > 0 then lockLiquidityIxs ch prog payer k userLockAmount
             else Inr []) (\<lambda>createPoolPostInstructions.
      let initIx = ProgramIx (ammProgramId prog) ''initializePermissionlessConstantProductPoolWithConfig''
            [BNArg tokenAAmt, BNArg tokenBAmt]
            (initAccountsHead k @ [(''payer'', payer), (''config'', config)] @ initAccountsTail prog) [] in
      rbind (if feeWrapperLockAmount > 0
             then rbind (feeVaultLockTx ch prog payer k (opt_feeVault opt) feeWrapperLockAmount) (\<lambda>tx. Inr [tx])
             else Inr []) (\<lambda>lockTxs.
      createTransactions ch
             (createPoolIxs preInstructions (methodTx initIx [] createPoolPostInstructions) @ lockTxs @
              swapTxs ch prog payer k opt) payer)))))))"

definition createPermissionlessPool ::
  "chain \<Rightarrow> pubkey \<Rightarrow> pubkey \<Rightarrow> pubkey \<Rightarrow> int \<Rightarrow> int \<Rightarrow> bool \<Rightarrow> int \<Rightarrow> string option \<Rightarrow> bool \<Rightarrow> transaction res" where
  "createPermissionlessPool ch payer mintA mintB tokenAAmt tokenBAmt isStable tradeFeeBps programId skipAta =
     (let prog = createProgram ch programId in
      rbind (getMint ch mintA) (\<lambda>tokenMintA.
      rbind (getMint ch mintB) (\<lambda>tokenMintB.
      rbind (generateCurveType (mint_decimals tokenMintA) (mint_decimals tokenMintB) isStable) (\<lambda>curve.
      let a = setupVault ch prog payer mintA;
          b = setupVault ch prog payer mintB in
      rbind (derivePoolAddress ch (mint_address tokenMintA) (mint_address tokenMintB) (mint_decimals tokenMintA)
               (mint_decimals tokenMintB) isStable tradeFeeBps programId) (\<lambda>poolPubkey.
      rbind (poolAccountsOf ch prog payer poolPubkey mintA mintB a b) (\<lambda>(k, createA, createB).
      let preInstructions =
            push_opt (push_opt (push_opt (push_opt [SetComputeUnitLimit 600000] (vs_create a)) (vs_create b))
              (if skipAta then None else createA)) createB @
            wrapIfNative payer mintA (pa_payerTokenA k) tokenAAmt @
            wrapIfNative payer mintB (pa_payerTokenB k) tokenBAmt;
          initIx = ProgramIx (ammProgramId prog) ''initializePermissionlessPoolWithFeeTier''
            [CurveTypeArg curve, BNArg tradeFeeBps, BNArg tokenAAmt, BNArg tokenBAmt]
            (initAccountsHead k @ [(''feeOwner'', FEE_OWNER), (''payer'', payer)] @ initAccountsTail prog) [] in
      Inr (newTransaction ch payer (methodTx initIx preInstructions []))))))))"

section \<open>Every instruction matches its description\<close>

definition txs_all :: "(instruction \<Rightarrow> bool) \<Rightarrow> transaction list \<Rightarrow> bool" where
  "txs_all p txs \<longleftrightarrow> list_all (\<lambda>t. list_all p (tx_instructions t)) txs"

lemma package_ix_matches [simp]:
  "ix_matches_idl (CreateAssociatedTokenAccount p a own m)" "ix_matches_idl (SystemTransfer x y n)"
  "ix_matches_idl (RawInstruction ks d p)" "ix_matches_idl (SetComputeUnitLimit n)"
  "ix_matches_idl (SystemCreateAccount x y n p)" "ix_matches_idl (InitializeMint m dec ma fa p)"
  "ix_matches_idl (CreateMetadataAccountV3 md m ma p ua ad)" "ix_matches_idl (MintTo m ds au n)"
  "ix_matches_idl (PackageIx nm pks)" "ix_matches_idl (SetAuthority ac ca t na)" "ix_matches_idl (CloseAccount ac ds au)"
  by (simp_all add: ix_matches_idl_def)

lemma lockIx_matches [simp]: "ix_matches_idl (lockIx p n pool le own lpM src esc v)"
  by (simp add: lockIx_def match_simps idl_lock_def)

lemma createLockEscrowIx_matches [simp]: "ix_matches_idl (createLockEscrowIx p pool le own lpM payer)"
  by (simp add: createLockEscrowIx_def match_simps idl_createLockEscrow_def)

lemma swapLiquidityIx_matches [simp]: "ix_matches_idl (swapLiquidityIx ch prog payer k i m)"
  by (simp add: swapLiquidityIx_def match_simps idl_swap_def)

lemma init_matches [simp]:
  "ix_matches_idl (ProgramIx p ''initializeCustomizablePermissionlessConstantProductPool''
     [BNArg x, BNArg y, CustomizableParamsArg c] (initAccountsHead k @ (''payer'', payer) # initAccountsTail prog) r)"
  "ix_matches_idl (ProgramIx p ''initializePermissionlessConstantProductPoolWithConfig2''
     [BNArg x, BNArg y, OptionBNArg z] (initAccountsHead k @ (''payer'', payer) # (''config'', config) # initAccountsTail prog) r)"
  "ix_matches_idl (ProgramIx p ''initializePermissionlessConstantProductPoolWithConfig''
     [BNArg x, BNArg y] (initAccountsHead k @ (''payer'', payer) # (''config'', config) # initAccountsTail prog) r)"
  "ix_matches_idl (ProgramIx p ''initializePermissionlessPoolWithFeeTier''
     [CurveTypeArg cu, BNArg f, BNArg x, BNArg y]
     (initAccountsHead k @ (''feeOwner'', fo) # (''payer'', payer) # initAccountsTail prog) r)"
  by (simp_all add: match_simps initAccountsHead_def initAccountsTail_def
      idl_initializeCustomizablePermissionlessConstantProductPool_def
      idl_initializePermissionlessConstantProductPoolWithConfig2_def
      idl_initializePermissionlessConstantProductPoolWithConfig_def
      idl_initializePermissionlessPoolWithFeeTier_def)

lemma createConfigIx_matches [simp]:
  "ix_matches_idl (ProgramIx p ''createConfig'' [ConfigParametersArg c] [(''config'', x), (''systemProgram'', y), (''admin'', z)] r)"
  by (simp add: match_simps idl_createConfig_def)

lemma list_all_push_opt [simp]: "list_all p (push_opt ixs i) \<longleftrightarrow> list_all p ixs \<and> pred_option p i"
  by (cases i) (auto simp: push_opt_def)

lemma list_all_methodTx [simp]: "list_all p (methodTx ix pre post) \<longleftrightarrow> p ix \<and> list_all p pre \<and> list_all p post"
  by (auto simp: methodTx_def)

lemma createTransactions_Inr [simp]:
  "createTransactions ch l payer = Inr txs \<longleftrightarrow> [] \<notin> set l \<and> txs = map (newTransaction ch payer) l"
  unfolding createTransactions_def by (induction l arbitrary: txs) (auto simp: addAll_def)

lemma txs_all_append [simp]: "txs_all p (xs @ ys) \<longleftrightarrow> txs_all p xs \<and> txs_all p ys"
  by (simp add: txs_all_def)

lemma txs_all_newTransactions [simp]: "txs_all p (map (newTransaction ch payer) l) \<longleftrightarrow> list_all (list_all p) l"
  by (auto simp: txs_all_def newTransaction_def list_all_iff)

lemma txs_all_newTransaction [simp]: "txs_all p [newTransaction ch payer ixs] \<longleftrightarrow> list_all p ixs"
  by (simp add: txs_all_def newTransaction_def)

text \<open>
  The derived accounts of a pool to be created, and the addresses of the three kinds of pools, by
  the pair of mints that the accounts name.
\<close>

definition derived_accounts :: "chain \<Rightarrow> pubkey \<Rightarrow> pubkey \<Rightarrow> poolAccounts \<Rightarrow> bool" where
  "derived_accounts ch program payer k \<longleftrightarrow>
     (let address = (\<lambda>seeds. findProgramAddressSync ch seeds program); pool = toBuffer ch (pa_pool k) in
      pa_lpMint k = address [Buffer_from SEEDS_LP_MINT, pool] \<and>
      pa_aVaultLp k = address [toBuffer ch (pa_aVault k), pool] \<and>
      pa_bVaultLp k = address [toBuffer ch (pa_bVault k), pool] \<and>
      pa_protocolTokenAFee k = address [Buffer_from SEEDS_FEE, toBuffer ch (pa_tokenAMint k), pool] \<and>
      pa_protocolTokenBFee k = address [Buffer_from SEEDS_FEE, toBuffer ch (pa_tokenBMint k), pool] \<and>
      pa_mintMetadata k = deriveMintMetadata ch (pa_lpMint k) \<and>
      getAssociatedTokenAccount ch (pa_lpMint k) payer = Inr (pa_payerPoolLp k) \<and>
      getAssociatedTokenAccount ch (pa_tokenAMint k) payer = Inr (pa_payerTokenA k) \<and>
      getAssociatedTokenAccount ch (pa_tokenBMint k) payer = Inr (pa_payerTokenB k))"

definition same_vaults :: "poolAccounts \<Rightarrow> vaultSetup \<Rightarrow> vaultSetup \<Rightarrow> bool" where
  "same_vaults k a b \<longleftrightarrow>
     pa_aVault k = vs_vault a \<and> pa_aTokenVault k = vs_tokenVault a \<and> pa_aVaultLpMint k = vs_lpMint a \<and>
     pa_bVault k = vs_vault b \<and> pa_bTokenVault k = vs_tokenVault b \<and> pa_bVaultLpMint k = vs_lpMint b"

definition creation_accounts :: "chain \<Rightarrow> programs \<Rightarrow> pubkey \<Rightarrow> poolAccounts \<Rightarrow> bool" where
  "creation_accounts ch prog payer k \<longleftrightarrow>
     derived_accounts ch (ammProgramId prog) payer k \<and> vaultProgramId prog = VAULT_PROGRAM_ID ch \<and>
     same_vaults k (setupVault ch prog payer (pa_tokenAMint k)) (setupVault ch prog payer (pa_tokenBMint k))"

lemma createProgram_vault [simp]: "vaultProgramId (createProgram ch pid) = VAULT_PROGRAM_ID ch"
  by (simp add: createProgram_def)

lemma poolAccountsOf_derived:
  assumes "poolAccountsOf ch prog payer pool ta tb a b = Inr (k, ia, ib)"
  shows "derived_accounts ch (ammProgramId prog) payer k" "pa_pool k = pool" "pa_tokenAMint k = ta" "pa_tokenBMint k = tb"
    "same_vaults k a b"
  using assms
  by (auto simp: poolAccountsOf_def derived_accounts_def same_vaults_def getOrCreateATAInstruction_def Let_def split: option.splits)

text \<open>
  A predicate that holds of what every block builds; the instances are the match with the
  description, the signers, and the constraints of the program. It may ask for the pair of
  mints to be \<open>pair_ok\<close> and for the fee of a curve to be \<open>fee_ok\<close>.
\<close>

locale ix_predicate = chain_laws +
  fixes p :: "instruction \<Rightarrow> bool" and program :: pubkey and payer :: pubkey
    and pair_ok :: "pubkey \<Rightarrow> pubkey \<Rightarrow> bool" and fee_ok :: "curveType \<Rightarrow> int \<Rightarrow> bool"
  assumes p_ata: "p (CreateAssociatedTokenAccount payer a own m)"
    and p_transfer: "p (SystemTransfer payer to n)"
    and p_raw: "p (RawInstruction [\<lparr>am_pubkey = to, am_isWritable = True, am_isSigner = False\<rparr>] [17] TOKEN_PROGRAM_ID)"
    and p_budget: "p (SetComputeUnitLimit n)"
    and p_package: "p (PackageIx nm ks)"
    and p_escrow: "p (createLockEscrowIx program pool (deriveLockEscrowPda ch pool payer program) payer lpM payer)"
    and p_lock: "p (lockIx program n pool le payer lpM src esc v)"
    and p_swap: "ammProgramId prog = program \<Longrightarrow> p (swapLiquidityIx ch prog payer k n n')"
    and p_init:
      "creation_accounts ch prog payer k \<Longrightarrow> ammProgramId prog = program \<Longrightarrow> pair_ok (pa_tokenAMint k) (pa_tokenBMint k) \<Longrightarrow>
       pa_pool k = deriveCustomizablePermissionlessConstantProductPoolAddress ch (pa_tokenAMint k) (pa_tokenBMint k) program \<Longrightarrow>
       p (ProgramIx program ''initializeCustomizablePermissionlessConstantProductPool''
         [BNArg x, BNArg y, CustomizableParamsArg c] (initAccountsHead k @ (''payer'', payer) # initAccountsTail prog) [])"
      "creation_accounts ch prog payer k \<Longrightarrow> ammProgramId prog = program \<Longrightarrow> pair_ok (pa_tokenAMint k) (pa_tokenBMint k) \<Longrightarrow>
       pa_pool k = derivePoolAddressWithConfig ch (pa_tokenAMint k) (pa_tokenBMint k) config program \<Longrightarrow>
       p (ProgramIx program ''initializePermissionlessConstantProductPoolWithConfig2''
         [BNArg x, BNArg y, OptionBNArg z] (initAccountsHead k @ (''payer'', payer) # (''config'', config) # initAccountsTail prog) [])"
      "creation_accounts ch prog payer k \<Longrightarrow> ammProgramId prog = program \<Longrightarrow> pair_ok (pa_tokenAMint k) (pa_tokenBMint k) \<Longrightarrow>
       pa_pool k = derivePoolAddressWithConfig ch (pa_tokenAMint k) (pa_tokenBMint k) config program \<Longrightarrow>
       p (ProgramIx program ''initializePermissionlessConstantProductPoolWithConfig''
         [BNArg x, BNArg y] (initAccountsHead k @ (''payer'', payer) # (''config'', config) # initAccountsTail prog) [])"
      "creation_accounts ch prog payer k \<Longrightarrow> ammProgramId prog = program \<Longrightarrow> pair_ok (pa_tokenAMint k) (pa_tokenBMint k) \<Longrightarrow> fee_ok cu f \<Longrightarrow>
       poolSeeds ch (pa_tokenAMint k) (pa_tokenBMint k) cu f = Inr seeds \<Longrightarrow> pa_pool k = findProgramAddressSync ch seeds program \<Longrightarrow>
       p (ProgramIx program ''initializePermissionlessPoolWithFeeTier''
         [CurveTypeArg cu, BNArg f, BNArg x, BNArg y]
         (initAccountsHead k @ (''feeOwner'', FEE_OWNER) # (''payer'', payer) # initAccountsTail prog) [])"
begin

lemma p_ata_opt:
  "getOrCreateATAInstruction ch m own (Some payer) = Inr (a, i) \<Longrightarrow> pred_option p i"
  "getOrCreateATAInstruction ch m payer None = Inr (a, i) \<Longrightarrow> pred_option p i"
  using p_ata by (auto simp: getOrCreateATAInstruction_def split: option.splits)

lemma p_wrap [simp]: "list_all p (wrapIfNative payer m a n)"
  using p_transfer p_raw by (simp add: wrapIfNative_def wrapSOLInstruction_def)

lemma p_poolAccounts:
  assumes "poolAccountsOf ch (createProgram ch pid) payer pool ta tb (setupVault ch (createProgram ch pid) payer ta)
     (setupVault ch (createProgram ch pid) payer tb) = Inr (k, ia, ib)"
  shows "pred_option p ia \<and> pred_option p ib \<and> creation_accounts ch (createProgram ch pid) payer k \<and>
     pa_pool k = pool \<and> pa_tokenAMint k = ta \<and> pa_tokenBMint k = tb"
  using poolAccountsOf_derived [OF assms] assms
  by (auto simp: creation_accounts_def poolAccountsOf_def Let_def dest: p_ata_opt)

lemma p_setupVault [simp]: "pred_option p (vs_create (setupVault ch prog payer m))"
  using vault_ix p_package
  by (fastforce simp: setupVault_def Let_def pred_option_def split: option.splits)

lemma p_lockLiquidity:
  "lockLiquidityIxs ch prog payer k n = Inr ixs \<Longrightarrow> ammProgramId prog = program \<Longrightarrow> list_all p ixs"
  using p_escrow p_lock by (auto simp: lockLiquidityIxs_def Let_def dest: p_ata_opt)

lemma p_feeVault [simp]: "list_all p (createFeeVaultInstructions ch pool pay a b ps)"
  using fee_vault_ix p_package by (fastforce simp: list_all_iff)

lemma p_feeVaultLock:
  "feeVaultLockTx ch prog payer k ps n = Inr ixs \<Longrightarrow> ammProgramId prog = program \<Longrightarrow> list_all p ixs"
  using p_lock by (auto simp: feeVaultLockTx_def Let_def intro: p_ata_opt(1))

lemma p_optional_lock:
  "(if c then lockLiquidityIxs ch prog payer k n else Inr []) = Inr ixs \<Longrightarrow> ammProgramId prog = program \<Longrightarrow> list_all p ixs"
  "(if c then rbind (feeVaultLockTx ch prog payer k ps n) (\<lambda>tx. Inr [tx]) else Inr []) = Inr txs \<Longrightarrow>
     ammProgramId prog = program \<Longrightarrow> list_all (list_all p) txs"
  by (auto split: if_splits dest: p_lockLiquidity p_feeVaultLock)

lemma p_swapTxs: "ammProgramId prog = program \<Longrightarrow> list_all (list_all p) (swapTxs ch prog payer k opt)"
  using p_swap by (auto simp: swapTxs_def split: option.splits)

lemma p_createPoolIxs: "list_all p pre \<Longrightarrow> list_all p tx \<Longrightarrow> list_all (list_all p) (createPoolIxs pre tx)"
  using p_budget by (simp add: createPoolIxs_def)

lemma all_customizable:
  assumes "createCustomizablePermissionlessConstantProductPool ch payer ta tb x y params pid = Inr tx"
    and pr: "ammProgramId (createProgram ch pid) = program" and ok: "pair_ok ta tb"
  shows "txs_all p [tx]"
  using assms(1) ok unfolding createCustomizablePermissionlessConstantProductPool_def Let_def
  apply (simp only: rbind_Inr_iff case_prod_unfold)
  apply (elim exE conjE)
  apply (clarsimp simp: pr p_init(1) dest!: p_poolAccounts)
  done

lemma all_config2:
  assumes "createPermissionlessConstantProductPoolWithConfig2 ch L payer ta tb x y config opt = Inr txs"
    and pr: "ammProgramId (createProgram ch (opt_programId opt)) = program" and ok: "pair_ok ta tb"
  shows "txs_all p txs"
  using assms(1) ok unfolding createPermissionlessConstantProductPoolWithConfig2_def Let_def
  apply (simp only: rbind_Inr_iff case_prod_unfold)
  apply (elim exE conjE)
  apply (drule p_optional_lock(1) [OF _ pr])
  apply (drule p_optional_lock(2) [OF _ pr])
  apply (clarsimp dest!: p_poolAccounts simp: pr p_createPoolIxs p_swapTxs p_init(2))
  done

lemma all_config:
  assumes "createPermissionlessConstantProductPoolWithConfig ch payer ta tb x y config opt = Inr txs"
    and pr: "ammProgramId (createProgram ch (opt_programId opt)) = program" and ok: "pair_ok ta tb"
  shows "txs_all p txs"
  using assms(1) ok unfolding createPermissionlessConstantProductPoolWithConfig_def Let_def
  apply (simp only: rbind_Inr_iff case_prod_unfold)
  apply (elim exE conjE)
  apply (drule p_optional_lock(1) [OF _ pr])
  apply (clarsimp dest!: p_poolAccounts simp: pr p_createPoolIxs p_swapTxs p_init(3))
  done

lemma all_memecoin:
  assumes "createPermissionlessConstantProductMemecoinPoolWithConfig ch L payer ta tb x y config info opt = Inr txs"
    and pr: "ammProgramId (createProgram ch (opt_programId opt)) = program" and ok: "pair_ok ta tb"
    and tok: "\<And>ixs. createTokenIxs ch info = Inr ixs \<Longrightarrow> list_all p ixs"
  shows "txs_all p txs"
  using assms(1) ok unfolding createPermissionlessConstantProductMemecoinPoolWithConfig_def Let_def
  apply (simp only: rbind_Inr_iff case_prod_unfold)
  apply (elim exE conjE)
  apply (drule p_optional_lock(1) [OF _ pr])
  apply (drule p_optional_lock(2) [OF _ pr])
  apply (drule tok)
  apply (clarsimp dest!: p_poolAccounts simp: pr p_createPoolIxs p_swapTxs p_init(3))
  done

lemma all_feeTier:
  assumes "createPermissionlessPool ch payer ta tb x y st f pid skip = Inr tx"
    and pr: "ammProgramId (createProgram ch pid) = program" and ok: "pair_ok ta tb"
    and fee: "\<And>cu. (\<exists>c. cu = StableSwapCurve c) \<longleftrightarrow> st \<Longrightarrow> fee_ok cu f"
  shows "txs_all p [tx]"
proof -
  have cu: "fee_ok cu f" if "generateCurveType m n st = Inr cu" for m n cu
    using that fee by (auto simp: generateCurveType_def split: if_splits)
  show ?thesis
    using assms(1) ok unfolding createPermissionlessPool_def derivePoolAddress_def Let_def
    apply (simp only: rbind_Inr_iff case_prod_unfold)
    apply (elim exE conjE)
    apply (drule mint_of)+
    apply (clarsimp simp: pr p_budget dest!: p_poolAccounts)
    apply (rule p_init(4))
         apply (simp_all add: pr cu)
    done
qed

end

text \<open>The two instances of the predicate, over any environment that meets the laws.\<close>

sublocale chain_laws \<subseteq> matching: ix_predicate ch ix_matches_idl program payer "\<lambda>_ _. True" "\<lambda>_ _. True" for program payer
  by unfold_locales simp_all

definition signed_by :: "pubkey \<Rightarrow> instruction \<Rightarrow> bool" where
  "signed_by payer ix \<longleftrightarrow> set (ix_signers ix) \<subseteq> {payer}"

sublocale chain_laws \<subseteq> signing: ix_predicate ch "signed_by payer" program payer "\<lambda>_ _. True" "\<lambda>_ _. True" for program payer
  by unfold_locales
    (simp_all add: signed_by_def ix_signers_def createLockEscrowIx_def lockIx_def swapLiquidityIx_def
      initAccountsHead_def initAccountsTail_def idl_createLockEscrow_def idl_lock_def idl_swap_def
      idl_initializeCustomizablePermissionlessConstantProductPool_def
      idl_initializePermissionlessConstantProductPoolWithConfig2_def
      idl_initializePermissionlessConstantProductPoolWithConfig_def
      idl_initializePermissionlessPoolWithFeeTier_def)

section \<open>Amounts over transactions\<close>

definition ixs_sum :: "(instruction \<Rightarrow> int) \<Rightarrow> instruction list \<Rightarrow> int" where
  "ixs_sum f ixs = sum_list (map f ixs)"

definition txs_sum :: "(instruction \<Rightarrow> int) \<Rightarrow> transaction list \<Rightarrow> int" where
  "txs_sum f txs = sum_list (map (\<lambda>t. ixs_sum f (tx_instructions t)) txs)"

definition lamports :: "instruction \<Rightarrow> int" where
  "lamports ix = (case ix of SystemTransfer s d n \<Rightarrow> n | _ \<Rightarrow> 0)"

definition lockedLp :: "instruction \<Rightarrow> int" where
  "lockedLp ix =
     (case ix of
        ProgramIx program name args accounts remaining \<Rightarrow>
          (if name = ''lock'' then (case args of [BNArg n] \<Rightarrow> n | _ \<Rightarrow> 0) else 0)
      | _ \<Rightarrow> 0)"

lemma ixs_sum_simps [simp]:
  "ixs_sum f [] = 0" "ixs_sum f (ix # ixs) = f ix + ixs_sum f ixs" "ixs_sum f (xs @ ys) = ixs_sum f xs + ixs_sum f ys"
  "ixs_sum f (push_opt xs i) = ixs_sum f xs + (case i of None \<Rightarrow> 0 | Some x \<Rightarrow> f x)"
  "ixs_sum f (methodTx ix pre post) = ixs_sum f pre + f ix + ixs_sum f post"
  by (auto simp: ixs_sum_def push_opt_def methodTx_def split: option.splits)

lemma txs_sum_append [simp]: "txs_sum f (xs @ ys) = txs_sum f xs + txs_sum f ys"
  by (simp add: txs_sum_def)

lemma txs_sum_newTransactions: "txs_sum f (map (newTransaction ch payer) l) = sum_list (map (ixs_sum f) l)"
  by (simp add: txs_sum_def newTransaction_def comp_def)

text \<open>A measure that only transfers and locks contribute to.\<close>

locale ix_measure = chain_laws +
  fixes f :: "instruction \<Rightarrow> int" and ft fl :: "int \<Rightarrow> int"
  assumes f_zero [simp]: "f (CreateAssociatedTokenAccount w x y z) = 0" "f (RawInstruction ks d q) = 0"
      "f (SetComputeUnitLimit u) = 0" "f (PackageIx nm pks) = 0"
      "f (createLockEscrowIx program pool le own lpM pay) = 0" "f (swapLiquidityIx ch prog pay k i m') = 0"
      "f (ProgramIx program ''initializePermissionlessConstantProductPoolWithConfig2'' args accs rem) = 0"
      "f (ProgramIx program ''initializePermissionlessConstantProductPoolWithConfig'' args accs rem) = 0"
    and f_transfer [simp]: "f (SystemTransfer s t n) = ft n"
    and f_lock [simp]: "f (lockIx program n pool le own lpM src esc v) = fl n"
begin

lemma f_ata: "getOrCreateATAInstruction ch m own q = Inr (a, i) \<Longrightarrow> (case i of None \<Rightarrow> 0 | Some x \<Rightarrow> f x) = 0"
  by (auto simp: getOrCreateATAInstruction_def split: option.splits)

lemma f_wrap [simp]: "ixs_sum f (wrapIfNative payer m a n) = (if m = NATIVE_MINT then ft n else 0)"
  by (simp add: wrapIfNative_def wrapSOLInstruction_def)

lemma f_setupVault [simp]: "(case vs_create (setupVault ch prog payer m) of None \<Rightarrow> 0 | Some x \<Rightarrow> f x) = 0"
  using vault_ix by (fastforce simp: setupVault_def Let_def split: option.splits)

lemma f_feeVault [simp]: "ixs_sum f (createFeeVaultInstructions ch pool pay a b ps) = 0"
proof -
  have "\<forall>ix \<in> set (createFeeVaultInstructions ch pool pay a b ps). f ix = 0" using fee_vault_ix by fastforce
  then have "map f (createFeeVaultInstructions ch pool pay a b ps) =
      map (\<lambda>_. 0) (createFeeVaultInstructions ch pool pay a b ps)" by simp
  then show ?thesis unfolding ixs_sum_def by (simp only: sum_list_0)
qed

lemma f_poolAccounts:
  "poolAccountsOf ch prog payer pool ta tb a b = Inr (k, ia, ib) \<Longrightarrow>
     (case ia of None \<Rightarrow> 0 | Some x \<Rightarrow> f x) = 0 \<and> (case ib of None \<Rightarrow> 0 | Some x \<Rightarrow> f x) = 0"
  by (auto simp: poolAccountsOf_def Let_def dest: f_ata)

lemma f_optional_lock:
  "(if c then lockLiquidityIxs ch prog payer k n else Inr []) = Inr ixs \<Longrightarrow> ixs_sum f ixs = (if c then fl n else 0)"
  "(if c then rbind (feeVaultLockTx ch prog payer k ps n) (\<lambda>tx. Inr [tx]) else Inr []) = Inr txs \<Longrightarrow>
     sum_list (map (ixs_sum f) txs) = (if c then fl n else 0)"
  by (auto simp: lockLiquidityIxs_def feeVaultLockTx_def Let_def split: if_splits dest: f_ata)

lemma f_swapTxs [simp]: "sum_list (map (ixs_sum f) (swapTxs ch prog payer k opt)) = 0"
  by (auto simp: swapTxs_def split: option.splits)

lemma f_createPoolIxs [simp]: "sum_list (map (ixs_sum f) (createPoolIxs pre tx)) = ixs_sum f pre + ixs_sum f tx"
  by (simp add: createPoolIxs_def)

lemma sum_config2:
  assumes "createPermissionlessConstantProductPoolWithConfig2 ch L payer ta tb x y config opt = Inr txs"
    and lp: "bnSqrt L (x * y) = Inr lp" "calculateLockAmounts L lp (stakeRatio opt) = Inr (fw, u)"
  shows "txs_sum f txs = (if ta = NATIVE_MINT then ft x else 0) + (if tb = NATIVE_MINT then ft y else 0) +
      (if opt_lockLiquidity opt \<and> 0 < u then fl u else 0) + (if 0 < fw then fl fw else 0)"
  using assms(1) unfolding createPermissionlessConstantProductPoolWithConfig2_def Let_def lp rbind_simps
  apply (simp only: rbind_Inr_iff case_prod_unfold lp Inr_inject simp_thms fst_conv snd_conv)
  apply (elim exE conjE)
  apply (drule f_optional_lock(1))
  apply (drule f_optional_lock(2))
  apply (clarsimp dest!: f_poolAccounts simp: txs_sum_newTransactions)
  done

lemma sum_config:
  assumes "createPermissionlessConstantProductPoolWithConfig ch payer ta tb x y config opt = Inr txs"
  shows "txs_sum f txs = (if ta = NATIVE_MINT then ft x else 0) +
    (if tb = NATIVE_MINT then ft (y + swapInAmount opt) else 0) + (if opt_lockLiquidity opt then fl U64_MAX else 0)"
  using assms unfolding createPermissionlessConstantProductPoolWithConfig_def Let_def
  apply (simp only: rbind_Inr_iff case_prod_unfold)
  apply (elim exE conjE)
  apply (drule f_optional_lock(1))
  apply (clarsimp dest!: f_poolAccounts simp: txs_sum_newTransactions)
  done

end

sublocale chain_laws \<subseteq> wrapped: ix_measure ch lamports "\<lambda>n. n" "\<lambda>n. 0"
  by unfold_locales
    (simp_all add: lamports_def createLockEscrowIx_def swapLiquidityIx_def lockIx_def)

sublocale chain_laws \<subseteq> locked: ix_measure ch lockedLp "\<lambda>n. 0" "\<lambda>n. n"
  by unfold_locales
    (simp_all add: lockedLp_def createLockEscrowIx_def swapLiquidityIx_def lockIx_def)

lemma createTokenIxs_matches: "createTokenIxs ch info = Inr ixs \<Longrightarrow> list_all ix_matches_idl ixs"
  by (auto simp: createTokenIxs_def createMint_def getOrCreateATAInstruction_def Let_def split: if_splits option.splits)

context chain_laws
begin

lemma creation_matches:
  "createCustomizablePermissionlessConstantProductPool ch payer ta tb x y params pid = Inr tx \<Longrightarrow>
     txs_all ix_matches_idl [tx]"
  "createPermissionlessConstantProductPoolWithConfig2 ch L payer ta tb x y config opt = Inr txs \<Longrightarrow>
     txs_all ix_matches_idl txs"
  "createPermissionlessConstantProductPoolWithConfig ch payer ta tb x y config opt = Inr txs \<Longrightarrow>
     txs_all ix_matches_idl txs"
  "createPermissionlessConstantProductMemecoinPoolWithConfig ch L payer ta tb x y config info opt = Inr txs \<Longrightarrow>
     txs_all ix_matches_idl txs"
  "createPermissionlessPool ch payer ta tb x y st fee pid skip = Inr tx \<Longrightarrow> txs_all ix_matches_idl [tx]"
  by (erule matching.all_customizable [OF _ refl TrueI], erule matching.all_config2 [OF _ refl TrueI],
      erule matching.all_config [OF _ refl TrueI], erule matching.all_memecoin [OF _ refl TrueI createTokenIxs_matches], assumption,
      erule matching.all_feeTier [OF _ refl TrueI TrueI])

lemma creation_signers:
  "createCustomizablePermissionlessConstantProductPool ch payer ta tb x y params pid = Inr tx \<Longrightarrow>
     txs_all (signed_by payer) [tx]"
  "createPermissionlessConstantProductPoolWithConfig2 ch L payer ta tb x y config opt = Inr txs \<Longrightarrow>
     txs_all (signed_by payer) txs"
  "createPermissionlessConstantProductPoolWithConfig ch payer ta tb x y config opt = Inr txs \<Longrightarrow>
     txs_all (signed_by payer) txs"
  "createPermissionlessPool ch payer ta tb x y st fee pid skip = Inr tx \<Longrightarrow> txs_all (signed_by payer) [tx]"
  by (erule signing.all_customizable [OF _ refl TrueI], erule signing.all_config2 [OF _ refl TrueI],
      erule signing.all_config [OF _ refl TrueI], erule signing.all_feeTier [OF _ refl TrueI TrueI])

lemmas creation_lamports2 = wrapped.sum_config2
lemmas creation_lamports = wrapped.sum_config
lemmas creation_locks2 = locked.sum_config2

end

section \<open>The loop over configuration indices\<close>

definition configAddress :: "chain \<Rightarrow> pubkey \<Rightarrow> int \<Rightarrow> pubkey" where
  "configAddress ch program i = findProgramAddressSync ch [Buffer_from ''config'', le_bytes 8 (nat i)] program"

lemma createConfig_loop_step:
  assumes "0 \<le> i" "i < 2 ^ 53"
  shows "createConfig_loop ch program configs i =
    (if configAddress ch program i \<notin> set configs then Some (Inr (i, configAddress ch program i))
     else createConfig_loop ch program configs (i + 1))"
proof -
  have "of_int i < (2 ^ 53 :: rat)" using assms(2) by (metis of_int_less_iff of_int_numeral of_int_power)
  then have "BN_of_number (of_int i) = Inr i" using assms by (subst BN_of_number_nonneg) auto
  moreover have "deriveConfigPda ch i program = Inr (configAddress ch program i)"
    using assms by (simp add: deriveConfigPda_def bn_toBuffer_le8_def configAddress_def)
  ultimately show ?thesis by (subst createConfig_loop.simps) simp
qed

lemma createConfig_loop_end: "createConfig_loop ch program configs (2 ^ 53) = Some (Inl BnAssert)"
  by (subst createConfig_loop.simps) (simp add: BN_of_number_def)

lemma createConfig_loop_total:
  assumes "0 \<le> i" "i \<le> 2 ^ 53"
  shows "(\<exists>k. i \<le> k \<and> k < 2 ^ 53 \<and> configAddress ch program k \<notin> set configs \<and>
      (\<forall>j. i \<le> j \<and> j < k \<longrightarrow> configAddress ch program j \<in> set configs) \<and>
      createConfig_loop ch program configs i = Some (Inr (k, configAddress ch program k))) \<or>
    ((\<forall>j. i \<le> j \<and> j < 2 ^ 53 \<longrightarrow> configAddress ch program j \<in> set configs) \<and>
      createConfig_loop ch program configs i = Some (Inl BnAssert))"
  using assms
proof (induction "nat (2 ^ 53 - i)" arbitrary: i)
  case 0
  then have "i = 2 ^ 53" by simp
  then show ?case using createConfig_loop_end [of ch program configs] by auto
next
  case (Suc n)
  then have lt: "i < 2 ^ 53" by simp
  show ?case
  proof (cases "configAddress ch program i \<in> set configs")
    case False
    then show ?thesis using createConfig_loop_step [OF Suc(3) lt, of ch program configs] lt
      by (intro disjI1 exI [of _ i]) auto
  next
    case True
    have ext: "(\<forall>j. i \<le> j \<and> j < m \<longrightarrow> configAddress ch program j \<in> set configs)"
      if "\<forall>j. i + 1 \<le> j \<and> j < m \<longrightarrow> configAddress ch program j \<in> set configs" for m
    proof (intro allI impI)
      fix j assume j: "i \<le> j \<and> j < m"
      show "configAddress ch program j \<in> set configs"
      proof (cases "j = i")
        case False
        then have "i + 1 \<le> j \<and> j < m" using j by simp
        with that show ?thesis by blast
      qed (use True in simp)
    qed
    have step: "createConfig_loop ch program configs i = createConfig_loop ch program configs (i + 1)"
      using createConfig_loop_step [OF Suc(3) lt, of ch program configs] True by simp
    have "n = nat (2 ^ 53 - (i + 1))" "0 \<le> i + 1" "i + 1 \<le> 2 ^ 53" using Suc lt by auto
    from Suc(1) [OF this] show ?thesis
    proof (elim disjE exE conjE)
      fix k assume "i + 1 \<le> k" "k < 2 ^ 53" "configAddress ch program k \<notin> set configs"
        "\<forall>j. i + 1 \<le> j \<and> j < k \<longrightarrow> configAddress ch program j \<in> set configs"
        "createConfig_loop ch program configs (i + 1) = Some (Inr (k, configAddress ch program k))"
      then show ?thesis using ext step by (intro disjI1 exI [of _ k]) auto
    qed (use ext step in simp)
  qed
qed

section \<open>A concrete creation\<close>

text \<open>An empty chain: no vaults, no token accounts, no configurations.\<close>

abbreviation emptyChain :: chain where
  "emptyChain \<equiv> sampleChain (\<lambda>_. None) (\<lambda>_. None) (\<lambda>_. None) (\<lambda>_. None) []"

definition sampleOpt :: createPoolOpt where
  "sampleOpt = \<lparr>opt_programId = None, opt_lockLiquidity = True, opt_swapLiquidity = Some (500, 1),
     opt_stakeLiquidity = Some \<lparr>sl_ratio = Some (1 / 4), sl_param = \<lparr>fv_unstakeLockDuration = 0,
       fv_secondsToFullUnlock = 0, fv_topListLength = 0, fv_startFeeDistributeTimestamp = None\<rparr>\<rparr>,
     opt_activationPoint = None, opt_skipAAta = False, opt_skipBAta = False, opt_feeVault = None\<rparr>"

lemma sample_ata: "\<exists>r. getOrCreateATAInstruction (sampleChain acc po va es co) m own p = Inr r"
  by (auto simp: getOrCreateATAInstruction_def getAssociatedTokenAccount_def token_address_def split: option.splits)

lemma sample_accounts: "\<exists>k ia ib. poolAccountsOf (sampleChain acc po va es co) prog payer pool ta tb a b = Inr (k, ia, ib)"
proof -
  let ?ch = "sampleChain acc po va es co"
  obtain x i y j where "getOrCreateATAInstruction ?ch ta payer None = Inr (x, i)"
      "getOrCreateATAInstruction ?ch tb payer None = Inr (y, j)"
    using sample_ata [of acc po va es co] by (metis surj_pair)
  then show ?thesis
    by (simp add: poolAccountsOf_def Let_def getAssociatedTokenAccount_def token_address_def)
qed

lemma sample_locks:
  "\<exists>ixs. lockLiquidityIxs (sampleChain acc po va es co) prog payer k n = Inr ixs"
  "\<exists>ixs. feeVaultLockTx (sampleChain acc po va es co) prog payer k ps n = Inr ixs"
  using sample_ata [of acc po va es co]
  by (auto simp: lockLiquidityIxs_def feeVaultLockTx_def Let_def split: prod.splits)

lemma no_empty_transaction [simp]:
  "[] \<notin> set (createPoolIxs pre tx)" "[] \<notin> set (swapTxs ch prog payer k opt)"
  "feeVaultLockTx ch prog payer k ps n \<noteq> Inr []"
  by (auto simp: createPoolIxs_def swapTxs_def feeVaultLockTx_def methodTx_def Let_def split: option.splits)

lemma sample_config2:
  fixes acc po va es co
  defines "ch \<equiv> sampleChain acc po va es co"
  shows "\<exists>txs. createPermissionlessConstantProductPoolWithConfig2 ch referenceLib payer ta tb 1000000 4000000 config sampleOpt = Inr txs"
proof -
  let ?prog = "createProgram ch (opt_programId sampleOpt)"
  let ?pool = "derivePoolAddressWithConfig ch ta tb config (ammProgramId ?prog)"
  have 1: "bnSqrt referenceLib (1000000 * 4000000) = Inr 2000000"
    by code_simp
  have 2: "calculateLockAmounts referenceLib 2000000 (stakeRatio sampleOpt) = Inr (500000, 1500000)"
    by code_simp
  obtain k ia ib where 3: "poolAccountsOf ch ?prog payer ?pool ta tb
      (setupVault ch ?prog payer ta) (setupVault ch ?prog payer tb) = Inr (k, ia, ib)"
    using sample_accounts [of acc po va es co ?prog payer ?pool ta tb] unfolding ch_def by blast
  obtain ixs where 4: "lockLiquidityIxs ch ?prog payer k 1500000 = Inr ixs"
    using sample_locks(1) unfolding ch_def by blast
  obtain tx where 5: "feeVaultLockTx ch ?prog payer k (Some (stakeParams sampleOpt)) 500000 = Inr tx"
    using sample_locks(2) unfolding ch_def by blast
  have 6: "opt_lockLiquidity sampleOpt" by (simp add: sampleOpt_def)
  have 7: "tx \<noteq> []" using 5 by auto
  show ?thesis
    unfolding createPermissionlessConstantProductPoolWithConfig2_def Let_def
    by (simp only: 3 1 2 4 5 6 rbind_simps prod.case) (simp add: 7 [symmetric])
qed

lemma sample_config:
  fixes acc po va es co
  defines "ch \<equiv> sampleChain acc po va es co"
  shows "\<exists>txs. createPermissionlessConstantProductPoolWithConfig ch payer ta tb x y config sampleOpt = Inr txs"
proof -
  let ?prog = "createProgram ch (opt_programId sampleOpt)"
  let ?pool = "derivePoolAddressWithConfig ch ta tb config (ammProgramId ?prog)"
  obtain k ia ib where 1: "poolAccountsOf ch ?prog payer ?pool ta tb
      (setupVault ch ?prog payer ta) (setupVault ch ?prog payer tb) = Inr (k, ia, ib)"
    using sample_accounts [of acc po va es co ?prog payer ?pool ta tb] unfolding ch_def by blast
  obtain ixs where 2: "lockLiquidityIxs ch ?prog payer k U64_MAX = Inr ixs"
    using sample_locks(1) unfolding ch_def by blast
  have 3: "opt_lockLiquidity sampleOpt" by (simp add: sampleOpt_def)
  show ?thesis
    unfolding createPermissionlessConstantProductPoolWithConfig_def Let_def
    by (simp only: 1 2 3 rbind_simps prod.case if_True) simp
qed

section \<open>Properties\<close>

text \<open>
  C28. The search for a free configuration index always ends: the transaction takes the least index
  whose address no configuration has, with fees of ten times the basis points over the
  denominator of 100000; if the addresses of all indices below 2^53 were taken, the index is
  refused as a number of 53 bits.
\<close>

theorem createConfig_takes_least_free_index:
  fixes ch programId
  assumes "getFeeConfigurations ch = Inr configs"
  defines "program \<equiv> ammProgramId (createProgram ch programId)" and "used \<equiv> set (map fc_publicKey configs)"
  shows "(\<exists>k ix cp. 0 \<le> k \<and> k < 2 ^ 53 \<and> configAddress ch program k \<notin> used \<and>
      (\<forall>j. 0 \<le> j \<and> j < k \<longrightarrow> configAddress ch program j \<in> used) \<and>
      createConfig ch payer tradeFeeBps protocolFeeBps vaultConfigKey duration authority actType partnerFee programId =
        Some (Inr (newTransaction ch payer [ix])) \<and>
      ix = ProgramIx program ''createConfig'' [ConfigParametersArg cp]
        [(''config'', configAddress ch program k), (''systemProgram'', SystemProgram_programId), (''admin'', payer)] [] \<and>
      cp_index cp = k \<and> cp_tradeFeeNumerator cp = 10 * tradeFeeBps \<and>
      cp_protocolTradeFeeNumerator cp = 10 * protocolFeeBps) \<or>
    ((\<forall>j. 0 \<le> j \<and> j < 2 ^ 53 \<longrightarrow> configAddress ch program j \<in> used) \<and>
      createConfig ch payer tradeFeeBps protocolFeeBps vaultConfigKey duration authority actType partnerFee programId =
        Some (Inl BnAssert))"
proof -
  let ?loop = "createConfig_loop ch program (map fc_publicKey configs) 0"
  consider (free) k where "0 \<le> k" "k < 2 ^ 53" "configAddress ch program k \<notin> used"
      "\<forall>j. 0 \<le> j \<and> j < k \<longrightarrow> configAddress ch program j \<in> used" "?loop = Some (Inr (k, configAddress ch program k))"
    | (full) "\<forall>j. 0 \<le> j \<and> j < 2 ^ 53 \<longrightarrow> configAddress ch program j \<in> used" "?loop = Some (Inl BnAssert)"
    using createConfig_loop_total [of 0 ch program "map fc_publicKey configs"] unfolding used_def by auto
  then show ?thesis
  proof cases
    case free
    then show ?thesis using assms(1)
      by (intro disjI1 exI [of _ k]) (auto simp: createConfig_def Let_def program_def)
  next
    case full
    then show ?thesis using assms(1) by (auto simp: createConfig_def Let_def program_def)
  qed
qed

theorem createConfig_takes_least_free_index_witness:
  "\<exists>k ix cp. createConfig emptyChain FEE_OWNER 25 20 METAPLEX_PROGRAM 0 FEE_OWNER Slot 0 None =
       Some (Inr (newTransaction emptyChain FEE_OWNER [ix])) \<and>
     ix_matches_idl ix \<and> ix = ProgramIx (ammProgramId (createProgram emptyChain None)) ''createConfig'' [ConfigParametersArg cp]
       [(''config'', configAddress emptyChain (ammProgramId (createProgram emptyChain None)) k),
        (''systemProgram'', SystemProgram_programId), (''admin'', FEE_OWNER)] [] \<and>
     cp_tradeFeeNumerator cp = 250"
proof -
  have "getFeeConfigurations emptyChain = Inr []" by (simp add: getFeeConfigurations_def)
  from createConfig_takes_least_free_index [OF this, of None FEE_OWNER 25 20 METAPLEX_PROGRAM 0 FEE_OWNER Slot 0]
  obtain k ix cp where "createConfig emptyChain FEE_OWNER 25 20 METAPLEX_PROGRAM 0 FEE_OWNER Slot 0 None =
       Some (Inr (newTransaction emptyChain FEE_OWNER [ix]))"
    "ix = ProgramIx (ammProgramId (createProgram emptyChain None)) ''createConfig'' [ConfigParametersArg cp]
       [(''config'', configAddress emptyChain (ammProgramId (createProgram emptyChain None)) k),
        (''systemProgram'', SystemProgram_programId), (''admin'', FEE_OWNER)] []"
    "cp_tradeFeeNumerator cp = 10 * 25" by auto
  then show ?thesis by (intro exI [of _ k] exI [of _ ix] exI [of _ cp]) simp
qed

text \<open>
  C32. Every instruction of the program that the pool creations build names exactly the accounts
  that the program's description lists for it and passes arguments of the described types.
\<close>

theorem pool_creation_matches_idl:
  assumes "chain_laws ch"
  shows "(\<forall>tx. createCustomizablePermissionlessConstantProductPool ch payer tokenA tokenB x y params pid = Inr tx \<longrightarrow>
      txs_all ix_matches_idl [tx]) \<and>
    (\<forall>txs. createPermissionlessConstantProductPoolWithConfig2 ch L payer tokenA tokenB x y config opt = Inr txs \<longrightarrow>
      txs_all ix_matches_idl txs) \<and>
    (\<forall>txs. createPermissionlessConstantProductPoolWithConfig ch payer tokenA tokenB x y config opt = Inr txs \<longrightarrow>
      txs_all ix_matches_idl txs) \<and>
    (\<forall>txs. createPermissionlessConstantProductMemecoinPoolWithConfig ch L payer tokenA tokenB x y config info opt = Inr txs \<longrightarrow>
      txs_all ix_matches_idl txs) \<and>
    (\<forall>tx. createPermissionlessPool ch payer tokenA tokenB x y isStable fee pid skipAta = Inr tx \<longrightarrow>
      txs_all ix_matches_idl [tx])"
  by (simp add: chain_laws.creation_matches [OF assms])

theorem pool_creation_matches_idl_witness:
  "\<exists>txs. createPermissionlessConstantProductPoolWithConfig2 emptyChain referenceLib FEE_OWNER METAPLEX_PROGRAM NATIVE_MINT
       1000000 4000000 (sampleKey 1) sampleOpt = Inr txs \<and> txs_all ix_matches_idl txs"
  using sample_config2 [of "\<lambda>_. None" "\<lambda>_. None" "\<lambda>_. None" "\<lambda>_. None" "[]" FEE_OWNER METAPLEX_PROGRAM NATIVE_MINT "sampleKey 1"]
    pool_creation_matches_idl [OF sample.chain_laws_axioms, THEN conjunct2, THEN conjunct1] by blast



text \<open>
  C27. Creating a pool with liquidity locking locks all of it: the locks for the payer and for the
  fee vault add up to the LP tokens the pool mints, the integer square root of the product of
  the deposits.
\<close>

theorem pool_creation_locks_all_liquidity:
  assumes "chain_laws ch" "math_lib L" "0 \<le> amountA" "0 \<le> amountB" "opt_lockLiquidity opt"
    and "createPermissionlessConstantProductPoolWithConfig2 ch L payer tokenA tokenB amountA amountB config opt = Inr txs"
  shows "\<exists>lp. txs_sum lockedLp txs = lp \<and> 0 \<le> lp \<and> lp * lp \<le> amountA * amountB \<and>
    amountA * amountB < (lp + 1) * (lp + 1)"
proof -
  obtain lp where lp: "bnSqrt L (amountA * amountB) = Inr lp" "0 \<le> lp" "lp * lp \<le> amountA * amountB"
    "amountA * amountB < (lp + 1) * (lp + 1)"
    using math_lib.bnSqrt_floor [OF assms(2), of "amountA * amountB"] assms(3,4) by auto
  obtain fw u where fw: "calculateLockAmounts L lp (stakeRatio opt) = Inr (fw, u)"
    using assms(6) lp(1) by (auto simp: createPermissionlessConstantProductPoolWithConfig2_def Let_def)
  then have "0 \<le> fw" "0 \<le> u" "u + fw = lp"
    using math_lib.decMulDown_range [OF assms(2) lp(2), of "stakeRatio opt"]
    by (auto simp: calculateLockAmounts_def Let_def split: if_splits)
  then show ?thesis
    using chain_laws.creation_locks2 [OF assms(1,6) lp(1) fw] assms(5) lp by (auto split: if_splits)
qed

theorem pool_creation_locks_all_liquidity_witness:
  "\<exists>txs lp. createPermissionlessConstantProductPoolWithConfig2 emptyChain referenceLib FEE_OWNER METAPLEX_PROGRAM NATIVE_MINT
       1000000 4000000 (sampleKey 1) sampleOpt = Inr txs \<and>
     txs_sum lockedLp txs = lp \<and> 0 \<le> lp \<and> lp * lp \<le> 1000000 * 4000000 \<and> 1000000 * 4000000 < (lp + 1) * (lp + 1)"
proof -
  obtain txs where "createPermissionlessConstantProductPoolWithConfig2 emptyChain referenceLib FEE_OWNER METAPLEX_PROGRAM
      NATIVE_MINT 1000000 4000000 (sampleKey 1) sampleOpt = Inr txs"
    using sample_config2 by blast
  with pool_creation_locks_all_liquidity [OF sample.chain_laws_axioms reference.math_lib_axioms _ _ _ this]
  show ?thesis by (auto simp: sampleOpt_def)
qed

text \<open>
  With a first swap from wrapped SOL, creating a pool with \<^verbatim>\<open>PoolWithConfig2\<close> wraps only the
  deposit, while \<^verbatim>\<open>PoolWithConfig\<close> wraps the deposit and the amount to swap.
\<close>

lemma config2_does_not_wrap_swap_amount:
  assumes "chain_laws ch" "tokenA \<noteq> NATIVE_MINT" "opt_swapLiquidity opt = Some (inAmount, minAmountOut)"
    and "createPermissionlessConstantProductPoolWithConfig2 ch L payer tokenA NATIVE_MINT amountA amountB config opt = Inr txs2"
    and "createPermissionlessConstantProductPoolWithConfig ch payer tokenA NATIVE_MINT amountA amountB config opt = Inr txs"
  shows "txs_sum lamports txs2 = amountB \<and> txs_sum lamports txs = amountB + inAmount"
proof -
  obtain lp fw u where "bnSqrt L (amountA * amountB) = Inr lp"
      "calculateLockAmounts L lp (stakeRatio opt) = Inr (fw, u)"
    using assms(4) by (auto simp: createPermissionlessConstantProductPoolWithConfig2_def Let_def)
  from chain_laws.creation_lamports2 [OF assms(1,4) this] chain_laws.creation_lamports [OF assms(1,5)] assms(2,3)
  show ?thesis by (simp add: swapInAmount_def)
qed

end
