(* ===== verification/SwapQuote.thy ===== *)
theory SwapQuote
  imports AmmUtils
begin

text \<open>
  The two swap quotes of utils.ts: \<^verbatim>\<open>calculateSwapQuote\<close> for a pool that exists and
  \<^verbatim>\<open>calculateSwapQuoteForGoingToCreateMemecoinPool\<close> for one that is yet to be created. A quote
  moves the input into the source vault, trades on the curve, and moves the output out of the
  destination vault. The lemmas describe a successful quote by its two sides, whichever the
  direction, and bound what it pays.
\<close>

section \<open>The swap quote\<close>

record swapQuoteParam =
  q_poolState :: poolState
  q_vaultA :: vaultState
  q_vaultB :: vaultState
  q_poolVaultALp :: int
  q_poolVaultBLp :: int
  q_vaultALpSupply :: int
  q_vaultBLpSupply :: int
  q_vaultAReserve :: int
  q_vaultBReserve :: int
  q_currentTime :: int
  q_currentSlot :: int
  q_depegAccounts :: "pubkey \<rightharpoonup> bytes"

text \<open>
  \<^verbatim>\<open>new StableSwap(amp.toNumber(), tokenMultiplier, depeg, depegAccounts, time, stake)\<close>, for the
  curve of a pool state. The object shares \<^verbatim>\<open>depeg\<close> with the pool state, so what the object
  writes there is written back by \<open>store_depeg\<close>.
\<close>

definition newStableSwap :: "stableCurve \<Rightarrow> (pubkey \<rightharpoonup> bytes) \<Rightarrow> int \<Rightarrow> pubkey \<Rightarrow> stableSwap res" where
  "newStableSwap c accounts now stk =
     rbind (bn_toNumber (amp c)) (\<lambda>a.
     Inr \<lparr>ss_amp = a, ss_tokenMultiplier = curveTokenMultiplier c, ss_depeg = curveDepeg c,
          ss_extraAccounts = accounts, ss_onChainTime = now, ss_stakePoolPubkey = stk\<rparr>)"

definition store_depeg :: "swapCurve \<Rightarrow> curveType \<Rightarrow> curveType" where
  "store_depeg curve t =
     (case (curve, t) of
        (StableSwap self, StableSwapCurve c) \<Rightarrow> StableSwapCurve (c\<lparr>curveDepeg := ss_depeg self\<rparr>)
      | _ \<Rightarrow> t)"

definition quoteCurve :: "swapQuoteParam \<Rightarrow> pubkey option \<Rightarrow> swapCurve res" where
  "quoteCurve params swapInitiator =
     (case curveType (q_poolState params) of
        StableSwapCurve c \<Rightarrow>
          rbind (newStableSwap c (q_depegAccounts params) (q_currentTime params) (stake (q_poolState params)))
            (\<lambda>s. Inr (StableSwap s))
      | ConstantProductCurve \<Rightarrow>
          (let boot = bootstrapping (q_poolState params);
               currentPoint = (if activationType boot = 1 then q_currentTime params else q_currentSlot params);
               canQuoteEarlier = (case swapInitiator of Some k \<Rightarrow> k = whitelistedVault boot | None \<Rightarrow> False)
           in rbind (if canQuoteEarlier then Inr ()
                     else invariant (currentPoint \<ge> activationPoint boot) ''Swap is disabled'') (\<lambda>_.
              Inr ConstantProductSwap)))"

text \<open>
  The fees of the trade and the deposit into the source vault: the amount that reaches the
  curve, and the part of the trading fee that stays in the pool.
\<close>

definition quoteSourceAmount ::
  "vaultSdk \<Rightarrow> int \<Rightarrow> poolFees \<Rightarrow> int \<Rightarrow> vaultState \<Rightarrow> int \<Rightarrow> int \<Rightarrow> int \<Rightarrow> (int \<times> int) res" where
  "quoteSourceAmount V now f sourceAmount swapSourceVault swapSourceVaultLpAmount swapSourceVaultLpSupply
     swapSourceAmount =
     rbind (calculateTradingFee sourceAmount f) (\<lambda>tradeFee.
     rbind (calculateProtocolTradingFee tradeFee f) (\<lambda>protocolFee.
     let tradeFeeAfterProtocolFee = tradeFee - protocolFee;
         sourceVaultWithdrawableAmount = calculateWithdrawableAmount V now swapSourceVault;
         beforeSwapSourceAmount = swapSourceAmount;
         sourceAmountLessProtocolFee = sourceAmount - protocolFee in
     rbind (getUnmintAmount V sourceAmountLessProtocolFee sourceVaultWithdrawableAmount swapSourceVaultLpSupply)
       (\<lambda>sourceVaultLp.
     let sourceVaultTotalAmount = sourceVaultWithdrawableAmount + sourceAmountLessProtocolFee in
     rbind (sdk_getAmountByShare V (sourceVaultLp + swapSourceVaultLpAmount) sourceVaultTotalAmount
              (swapSourceVaultLpSupply + sourceVaultLp)) (\<lambda>afterSwapSourceAmount.
     let actualSourceAmount = afterSwapSourceAmount - beforeSwapSourceAmount;
         sourceAmountWithFee = actualSourceAmount - tradeFeeAfterProtocolFee in
     Inr (sourceAmountWithFee, tradeFeeAfterProtocolFee)))))"

text \<open>The withdrawal from the destination vault.\<close>

definition quoteDestinationAmount :: "vaultSdk \<Rightarrow> int \<Rightarrow> int \<Rightarrow> vaultState \<Rightarrow> int \<Rightarrow> int res" where
  "quoteDestinationAmount V now destinationAmount swapDestinationVault swapDestinationVaultLpSupply =
     (let destinationVaultWithdrawableAmount = calculateWithdrawableAmount V now swapDestinationVault in
      rbind (getUnmintAmount V destinationAmount destinationVaultWithdrawableAmount swapDestinationVaultLpSupply)
        (\<lambda>destinationVaultLp.
      sdk_getAmountByShare V destinationVaultLp destinationVaultWithdrawableAmount swapDestinationVaultLpSupply))"

text \<open>
  From the amounts of the two sides to the result: the trade on the curve between the two
  vault movements, and the bound on what can leave the destination vault.
\<close>

definition quoteTrade ::
  "vaultSdk \<Rightarrow> mathLib \<Rightarrow> swapQuoteParam \<Rightarrow> swapCurve \<Rightarrow> int \<Rightarrow> int \<Rightarrow> int \<Rightarrow> tradeDirection \<Rightarrow>
    int \<Rightarrow> int \<Rightarrow> int \<Rightarrow> vaultState \<Rightarrow> vaultState \<Rightarrow> int \<Rightarrow> int \<Rightarrow> (poolState \<times> swapResult) res" where
  "quoteTrade V L params swapCurve sourceAmount tokenA tokenB dir swapSourceVaultLpAmount swapSourceAmount
     swapDestinationAmount swapSourceVault swapDestinationVault swapSourceVaultLpSupply
     swapDestinationVaultLpSupply =
     (let ps = q_poolState params; mintA = tokenAMint ps; mintB = tokenBMint ps; now = q_currentTime params in
      rbind (quoteSourceAmount V now (fees ps) sourceAmount swapSourceVault swapSourceVaultLpAmount
               swapSourceVaultLpSupply swapSourceAmount) (\<lambda>(sourceAmountWithFee, tradeFeeAfterProtocolFee).
      rbind (curve_computeOutAmount L swapCurve sourceAmountWithFee swapSourceAmount swapDestinationAmount dir)
        (\<lambda>(swapCurve', out).
      rbind (quoteDestinationAmount V now (outAmount out) swapDestinationVault swapDestinationVaultLpSupply)
        (\<lambda>actualDestinationAmount.
      rbind (calculateMaxSwapOutAmount (if dir = AToB then mintB else mintA) mintA mintB tokenA tokenB
               (q_vaultAReserve params) (q_vaultBReserve params)) (\<lambda>maxSwapOutAmount.
      rbind (invariant (actualDestinationAmount < maxSwapOutAmount) ''Out amount > vault reserve'') (\<lambda>_.
      Inr (ps\<lparr>curveType := store_depeg swapCurve' (curveType ps)\<rparr>,
           \<lparr>sr_amountOut = actualDestinationAmount, sr_priceImpact = priceImpact out,
            sr_fee = tradeFeeAfterProtocolFee\<rparr>)))))))"

definition calculateSwapQuote ::
  "vaultSdk \<Rightarrow> mathLib \<Rightarrow> pubkey \<Rightarrow> int \<Rightarrow> swapQuoteParam \<Rightarrow> pubkey option \<Rightarrow> (poolState \<times> swapResult) res" where
  "calculateSwapQuote V L inTokenMint inAmountLamport params swapInitiator =
     (let ps = q_poolState params; mintA = tokenAMint ps; mintB = tokenBMint ps; now = q_currentTime params in
      rbind (invariant (inTokenMint = mintA \<or> inTokenMint = mintB) ERROR_INVALID_MINT) (\<lambda>_.
      rbind (invariant (enabled ps) ''Pool disabled'') (\<lambda>_.
      rbind (quoteCurve params swapInitiator) (\<lambda>swapCurve.
      let vaultAWithdrawableAmount = calculateWithdrawableAmount V now (q_vaultA params);
          vaultBWithdrawableAmount = calculateWithdrawableAmount V now (q_vaultB params) in
      rbind (sdk_getAmountByShare V (q_poolVaultALp params) vaultAWithdrawableAmount (q_vaultALpSupply params)) (\<lambda>tokenA.
      rbind (sdk_getAmountByShare V (q_poolVaultBLp params) vaultBWithdrawableAmount (q_vaultBLpSupply params)) (\<lambda>tokenB.
      if inTokenMint = mintA
      then quoteTrade V L params swapCurve inAmountLamport tokenA tokenB AToB (q_poolVaultALp params) tokenA tokenB
             (q_vaultA params) (q_vaultB params) (q_vaultALpSupply params) (q_vaultBLpSupply params)
      else quoteTrade V L params swapCurve inAmountLamport tokenA tokenB BToA (q_poolVaultBLp params) tokenB tokenA
             (q_vaultB params) (q_vaultA params) (q_vaultBLpSupply params) (q_vaultALpSupply params)))))))"

section \<open>The quote for a pool that is going to be created\<close>

record vaultAssociatedAccountStates =
  va_vault :: vaultState
  va_reserve :: int
  va_lpSupply :: int

record localStates =
  ls_vaultStates :: vaultAssociatedAccountStates
  ls_poolVaultLp :: int

definition getTokenAmountAfterDepositVault ::
  "vaultSdk \<Rightarrow> int \<Rightarrow> int \<Rightarrow> localStates option \<Rightarrow> (int \<times> localStates option) res" where
  "getTokenAmountAfterDepositVault V now amount states =
     (case states of
        None \<Rightarrow> Inr (amount, None)
      | Some st \<Rightarrow>
          (let vs = ls_vaultStates st;
               vaultWithdrawableAmount = calculateWithdrawableAmount V now (va_vault vs) in
           rbind (getUnmintAmount V amount vaultWithdrawableAmount (va_lpSupply vs)) (\<lambda>lpMinted.
           let vault' = (va_vault vs)\<lparr>v_totalAmount := v_totalAmount (va_vault vs) + amount\<rparr>;
               vs' = vs\<lparr>va_vault := vault', va_lpSupply := va_lpSupply vs + lpMinted\<rparr>;
               st' = \<lparr>ls_vaultStates = vs', ls_poolVaultLp = ls_poolVaultLp st + lpMinted\<rparr> in
           rbind (sdk_getAmountByShare V (ls_poolVaultLp st') (calculateWithdrawableAmount V now vault')
                    (va_lpSupply vs')) (\<lambda>r. Inr (r, Some st')))))"

definition getTokenAmountAfterWithdrawVault ::
  "vaultSdk \<Rightarrow> int \<Rightarrow> int \<Rightarrow> localStates option \<Rightarrow> (int \<times> localStates option) res" where
  "getTokenAmountAfterWithdrawVault V now amount states =
     (case states of
        None \<Rightarrow> Inr (amount, None)
      | Some st \<Rightarrow>
          (let vs = ls_vaultStates st;
               vaultWithdrawableAmount = calculateWithdrawableAmount V now (va_vault vs) in
           rbind (getUnmintAmount V amount vaultWithdrawableAmount (va_lpSupply vs)) (\<lambda>lpBurned.
           let vault' = (va_vault vs)\<lparr>v_totalAmount := v_totalAmount (va_vault vs) - amount\<rparr>;
               vs' = vs\<lparr>va_vault := vault', va_lpSupply := va_lpSupply vs - lpBurned\<rparr>;
               st' = \<lparr>ls_vaultStates = vs', ls_poolVaultLp = ls_poolVaultLp st - lpBurned\<rparr> in
           rbind (sdk_getAmountByShare V (ls_poolVaultLp st') (calculateWithdrawableAmount V now vault')
                    (va_lpSupply vs')) (\<lambda>r. Inr (r, Some st')))))"

record memecoinQuote =
  mq_amountOut :: int
  mq_fee :: int

definition calculateSwapQuoteForGoingToCreateMemecoinPool ::
  "vaultSdk \<Rightarrow> mathLib \<Rightarrow> int \<Rightarrow> int \<Rightarrow> int \<Rightarrow> bool \<Rightarrow> poolFees \<Rightarrow>
    vaultAssociatedAccountStates option \<Rightarrow> vaultAssociatedAccountStates option \<Rightarrow> int \<Rightarrow>
    (localStates option \<times> localStates option \<times> memecoinQuote) res" where
  "calculateSwapQuoteForGoingToCreateMemecoinPool V L inAmountLamport tokenADepositAmount
     tokenBDepositAmount aToB f paramVaultA paramVaultB now =
     (let vaultA = map_option (\<lambda>s. \<lparr>ls_vaultStates = s, ls_poolVaultLp = 0\<rparr>) paramVaultA;
          vaultB = map_option (\<lambda>s. \<lparr>ls_vaultStates = s, ls_poolVaultLp = 0\<rparr>) paramVaultB in
      rbind (invariant (vaultA \<noteq> None \<or> vaultB \<noteq> None) ''Must one side have vault'') (\<lambda>_.
      rbind (invariant (vaultA = None \<or> vaultB = None) ''Must one side have vault'') (\<lambda>_.
      rbind (getTokenAmountAfterDepositVault V now tokenADepositAmount vaultA) (\<lambda>(tokenA, vaultA1).
      rbind (getTokenAmountAfterDepositVault V now tokenBDepositAmount vaultB) (\<lambda>(tokenB, vaultB1).
      let sourceAmount = inAmountLamport;
          (swapSourceAmount, swapDestinationAmount, sourceVault, destinationVault) =
            (if aToB then (tokenA, tokenB, vaultA1, vaultB1) else (tokenB, tokenA, vaultB1, vaultA1)) in
      rbind (bn_div (sourceAmount * tradeFeeNumerator f) (tradeFeeDenominator f)) (\<lambda>tradeFee.
      rbind (bn_div (tradeFee * protocolTradeFeeNumerator f) (protocolTradeFeeDenominator f)) (\<lambda>protocolFee.
      let sourceAmountLessProtocolFee = sourceAmount - protocolFee;
          beforeSwapSourceAmount = swapSourceAmount in
      rbind (case sourceVault of
               Some _ \<Rightarrow> getTokenAmountAfterDepositVault V now sourceAmountLessProtocolFee sourceVault
             | None \<Rightarrow> Inr (sourceAmountLessProtocolFee, None)) (\<lambda>(afterSwapSourceAmount, sourceVault').
      let actualSourceAmount = afterSwapSourceAmount - beforeSwapSourceAmount;
          sourceAmountLessFee = actualSourceAmount - (tradeFee - protocolFee) in
      rbind (CP_computeOutAmount L sourceAmountLessFee swapSourceAmount swapDestinationAmount) (\<lambda>out.
      rbind (case destinationVault of
               Some _ \<Rightarrow> getTokenAmountAfterWithdrawVault V now (outAmount out) destinationVault
             | None \<Rightarrow> Inr (outAmount out, None)) (\<lambda>(afterDestinationAmount, destinationVault').
      let (vaultA', vaultB') = (if aToB then (sourceVault', destinationVault') else (destinationVault', sourceVault')) in
      Inr (vaultA', vaultB',
           \<lparr>mq_amountOut = afterDestinationAmount, mq_fee = sourceAmountLessProtocolFee\<rparr>)))))))))))"

section \<open>The two sides of a quote\<close>

record tradeSide =
  ts_lp :: int
  ts_supply :: int
  ts_vault :: vaultState
  ts_reserve :: int

definition sideA :: "swapQuoteParam \<Rightarrow> tradeSide" where
  "sideA q = \<lparr>ts_lp = q_poolVaultALp q, ts_supply = q_vaultALpSupply q, ts_vault = q_vaultA q,
     ts_reserve = q_vaultAReserve q\<rparr>"

definition sideB :: "swapQuoteParam \<Rightarrow> tradeSide" where
  "sideB q = \<lparr>ts_lp = q_poolVaultBLp q, ts_supply = q_vaultBLpSupply q, ts_vault = q_vaultB q,
     ts_reserve = q_vaultBReserve q\<rparr>"

definition inSide :: "swapQuoteParam \<Rightarrow> pubkey \<Rightarrow> tradeSide" where
  "inSide q mint = (if mint = tokenAMint (q_poolState q) then sideA q else sideB q)"

definition outSide :: "swapQuoteParam \<Rightarrow> pubkey \<Rightarrow> tradeSide" where
  "outSide q mint = (if mint = tokenAMint (q_poolState q) then sideB q else sideA q)"

definition quoteDir :: "swapQuoteParam \<Rightarrow> pubkey \<Rightarrow> tradeDirection" where
  "quoteDir q mint = (if mint = tokenAMint (q_poolState q) then AToB else BToA)"

definition withdrawable :: "vaultSdk \<Rightarrow> swapQuoteParam \<Rightarrow> tradeSide \<Rightarrow> int" where
  "withdrawable V q s = calculateWithdrawableAmount V (q_currentTime q) (ts_vault s)"

definition sideAmount :: "vaultSdk \<Rightarrow> swapQuoteParam \<Rightarrow> tradeSide \<Rightarrow> int res" where
  "sideAmount V q s = sdk_getAmountByShare V (ts_lp s) (withdrawable V q s) (ts_supply s)"

definition side_ok :: "vaultSdk \<Rightarrow> swapQuoteParam \<Rightarrow> tradeSide \<Rightarrow> bool" where
  "side_ok V q s \<longleftrightarrow> 0 < withdrawable V q s \<and> 0 < ts_supply s \<and> 0 \<le> ts_lp s \<and> ts_lp s \<le> ts_supply s"

definition netSource :: "vaultSdk \<Rightarrow> swapQuoteParam \<Rightarrow> pubkey \<Rightarrow> int \<Rightarrow> int \<Rightarrow> (int \<times> int) res" where
  "netSource V q mint amt before =
     quoteSourceAmount V (q_currentTime q) (fees (q_poolState q)) amt (ts_vault (inSide q mint))
       (ts_lp (inSide q mint)) (ts_supply (inSide q mint)) before"

lemmas side_defs = sideA_def sideB_def inSide_def outSide_def quoteDir_def withdrawable_def
  sideAmount_def netSource_def

lemma maxSwapOut_D:
  assumes "calculateMaxSwapOutAmount m a b tA tB rA rB = Inr x" "y < x" "a \<noteq> b"
  shows "m = a \<Longrightarrow> y < tA \<and> y < rA" "m = b \<Longrightarrow> y < tB \<and> y < rB"
  using assms by (auto simp: calculateMaxSwapOutAmount_def split: if_splits)

lemma quoteTrade_D:
  assumes "quoteTrade V L q curve amt tA tB dir lp S D vs vd ss sd = Inr (ps', r)"
  shows "\<exists>n curve' out m.
    quoteSourceAmount V (q_currentTime q) (fees (q_poolState q)) amt vs lp ss S = Inr (n, sr_fee r) \<and>
    curve_computeOutAmount L curve n S D dir = Inr (curve', out) \<and>
    quoteDestinationAmount V (q_currentTime q) (outAmount out) vd sd = Inr (sr_amountOut r) \<and>
    calculateMaxSwapOutAmount
      (if dir = AToB then tokenBMint (q_poolState q) else tokenAMint (q_poolState q))
      (tokenAMint (q_poolState q)) (tokenBMint (q_poolState q)) tA tB (q_vaultAReserve q) (q_vaultBReserve q) = Inr m \<and>
    sr_amountOut r < m \<and> sr_priceImpact r = priceImpact out \<and>
    ps' = (q_poolState q)\<lparr>curveType := store_depeg curve' (curveType (q_poolState q))\<rparr>"
  using assms unfolding quoteTrade_def Let_def by fastforce

lemma calculateSwapQuote_D:
  assumes "calculateSwapQuote V L mint amt q init = Inr (ps', r)"
    and "tokenAMint (q_poolState q) \<noteq> tokenBMint (q_poolState q)"
  shows "\<exists>curve curve' S D n out.
    quoteCurve q init = Inr curve \<and>
    sideAmount V q (inSide q mint) = Inr S \<and> sideAmount V q (outSide q mint) = Inr D \<and>
    netSource V q mint amt S = Inr (n, sr_fee r) \<and>
    curve_computeOutAmount L curve n S D (quoteDir q mint) = Inr (curve', out) \<and>
    quoteDestinationAmount V (q_currentTime q) (outAmount out) (ts_vault (outSide q mint))
      (ts_supply (outSide q mint)) = Inr (sr_amountOut r) \<and>
    sr_amountOut r < D \<and> sr_amountOut r < ts_reserve (outSide q mint) \<and>
    sr_priceImpact r = priceImpact out \<and>
    ps' = (q_poolState q)\<lparr>curveType := store_depeg curve' (curveType (q_poolState q))\<rparr>"
proof (cases "mint = tokenAMint (q_poolState q)")
  case True
  with assms obtain curve S D where c: "quoteCurve q init = Inr curve" "sideAmount V q (sideA q) = Inr S"
      "sideAmount V q (sideB q) = Inr D"
    and t: "quoteTrade V L q curve amt S D AToB (q_poolVaultALp q) S D (q_vaultA q) (q_vaultB q)
      (q_vaultALpSupply q) (q_vaultBLpSupply q) = Inr (ps', r)"
    by (auto simp: calculateSwapQuote_def Let_def sideAmount_def withdrawable_def sideA_def sideB_def)
  from quoteTrade_D [OF t] obtain n curve' out m where
      "quoteSourceAmount V (q_currentTime q) (fees (q_poolState q)) amt (q_vaultA q) (q_poolVaultALp q)
         (q_vaultALpSupply q) S = Inr (n, sr_fee r)"
      "curve_computeOutAmount L curve n S D AToB = Inr (curve', out)"
      "quoteDestinationAmount V (q_currentTime q) (outAmount out) (q_vaultB q) (q_vaultBLpSupply q) =
         Inr (sr_amountOut r)"
      "sr_amountOut r < D \<and> sr_amountOut r < q_vaultBReserve q" "sr_priceImpact r = priceImpact out"
      "ps' = (q_poolState q)\<lparr>curveType := store_depeg curve' (curveType (q_poolState q))\<rparr>"
    using maxSwapOut_D [OF _ _ assms(2)] by (simp only: simp_thms if_True if_False tradeDirection.distinct) blast
  with c True show ?thesis
    by (intro exI [of _ curve] exI [of _ curve'] exI [of _ S] exI [of _ D] exI [of _ n] exI [of _ out])
      (simp add: inSide_def outSide_def quoteDir_def netSource_def, simp add: sideA_def sideB_def)
next
  case False
  with assms obtain curve S D where c: "quoteCurve q init = Inr curve" "sideAmount V q (sideB q) = Inr S"
      "sideAmount V q (sideA q) = Inr D"
    and t: "quoteTrade V L q curve amt D S BToA (q_poolVaultBLp q) S D (q_vaultB q) (q_vaultA q)
      (q_vaultBLpSupply q) (q_vaultALpSupply q) = Inr (ps', r)"
    by (auto simp: calculateSwapQuote_def Let_def sideAmount_def withdrawable_def sideA_def sideB_def)
  from quoteTrade_D [OF t] obtain n curve' out where
      "quoteSourceAmount V (q_currentTime q) (fees (q_poolState q)) amt (q_vaultB q) (q_poolVaultBLp q)
         (q_vaultBLpSupply q) S = Inr (n, sr_fee r)"
      "curve_computeOutAmount L curve n S D BToA = Inr (curve', out)"
      "quoteDestinationAmount V (q_currentTime q) (outAmount out) (q_vaultA q) (q_vaultALpSupply q) =
         Inr (sr_amountOut r)"
      "sr_amountOut r < D \<and> sr_amountOut r < q_vaultAReserve q" "sr_priceImpact r = priceImpact out"
      "ps' = (q_poolState q)\<lparr>curveType := store_depeg curve' (curveType (q_poolState q))\<rparr>"
    using maxSwapOut_D [OF _ _ assms(2)] by (simp only: simp_thms if_True if_False tradeDirection.distinct) blast
  with c False show ?thesis
    by (intro exI [of _ curve] exI [of _ curve'] exI [of _ S] exI [of _ D] exI [of _ n] exI [of _ out])
      (simp add: inSide_def outSide_def quoteDir_def netSource_def, simp add: sideA_def sideB_def)
qed

section \<open>Quotes never favour the trader\<close>

context vault_sdk
begin

lemma netSource_bounds:
  assumes "fees_ok (fees (q_poolState q))" "side_ok V q (inSide q mint)" "0 \<le> amt"
    and "sideAmount V q (inSide q mint) = Inr S" "netSource V q mint amt S = Inr (n, fee)"
  shows "0 \<le> fee" "fee \<le> amt" "n \<le> amt - fee" "- fee \<le> n"
proof -
  let ?s = "inSide q mint" and ?f = "fees (q_poolState q)" and ?w = "withdrawable V q (inSide q mint)"
  obtain t p sh v where t: "calculateTradingFee amt ?f = Inr t"
    and p: "calculateProtocolTradingFee t ?f = Inr p" and fee: "fee = t - p"
    and sh: "getUnmintAmount V (amt - p) ?w (ts_supply ?s) = Inr sh"
    and v: "sdk_getAmountByShare V (sh + ts_lp ?s) (?w + (amt - p)) (ts_supply ?s + sh) = Inr v"
    and n: "n = v - S - fee"
    using assms(5) by (auto simp: netSource_def quoteSourceAmount_def withdrawable_def Let_def)
  note tb = trading_fee_bounds [OF assms(1,3) t]
  note pb = protocol_fee_bounds [OF assms(1) tb(1) p]
  show "0 \<le> fee" "fee \<le> amt" using tb pb fee by auto
  have sd: "0 < ?w" "0 < ts_supply ?s" "0 \<le> ts_lp ?s" "ts_lp ?s \<le> ts_supply ?s" "0 \<le> amt - p"
    using assms(2) tb pb by (auto simp: side_ok_def)
  have before: "sdk_getAmountByShare V (ts_lp ?s) ?w (ts_supply ?s) = Inr S"
    using assms(4) by (simp add: sideAmount_def)
  have "S \<le> v" using deposit_value_mono [OF sd(5,1,2,3) sh before v] .
  moreover have "v \<le> S + (amt - p)" using deposit_value_le [OF sd(5,1,2,3,4) sh before v] .
  ultimately show "n \<le> amt - fee" "- fee \<le> n" using n pb by auto
qed

lemma destination_le:
  assumes "side_ok V q s"
    and "quoteDestinationAmount V (q_currentTime q) out (ts_vault s) (ts_supply s) = Inr a"
  shows "0 \<le> out \<Longrightarrow> 0 \<le> a \<and> a \<le> out"
proof -
  assume "0 \<le> out"
  obtain sh where "getUnmintAmount V out (withdrawable V q s) (ts_supply s) = Inr sh"
      "sdk_getAmountByShare V sh (withdrawable V q s) (ts_supply s) = Inr a"
    using assms(2) by (auto simp: quoteDestinationAmount_def withdrawable_def Let_def)
  then show ?thesis
    using assms(1) \<open>0 \<le> out\<close> unmint_then_value [of out "withdrawable V q s" "ts_supply s" sh a]
    by (auto simp: side_ok_def)
qed

lemma cp_quote_product:
  assumes "calculateSwapQuote V L mint amt q init = Inr (ps', r)"
    and "tokenAMint (q_poolState q) \<noteq> tokenBMint (q_poolState q)"
    and "curveType (q_poolState q) = ConstantProductCurve" "fees_ok (fees (q_poolState q))"
    and "side_ok V q (inSide q mint)" "side_ok V q (outSide q mint)" "0 \<le> amt"
    and S: "sideAmount V q (inSide q mint) = Inr S" "0 < S"
    and D: "sideAmount V q (outSide q mint) = Inr D" "0 < D"
    and n: "netSource V q mint amt S = Inr (n, fee)" "0 \<le> n"
  shows "S * D \<le> (S + (amt - sr_fee r)) * (D - sr_amountOut r)"
    and "0 \<le> sr_amountOut r" "sr_amountOut r < D"
proof -
  obtain out where out: "CP_computeOutAmount L n S D = Inr out" and fee: "sr_fee r = fee"
    and a: "quoteDestinationAmount V (q_currentTime q) (outAmount out) (ts_vault (outSide q mint))
      (ts_supply (outSide q mint)) = Inr (sr_amountOut r)"
    using calculateSwapQuote_D [OF assms(1,2)] S(1) D(1) n(1) assms(3)
    by (auto simp: quoteCurve_def curve_computeOutAmount_def Let_def)
  note ob = CP_out_bounds [OF n(2) S(2) D(2) out]
  note da = destination_le [OF assms(6) a]
  show "0 \<le> sr_amountOut r" "sr_amountOut r < D" using da ob by auto
  have "n \<le> amt - sr_fee r" using netSource_bounds [OF assms(4,5,7) S(1) n(1)] fee by simp
  then have "(S + n) * (D - outAmount out) \<le> (S + (amt - sr_fee r)) * (D - sr_amountOut r)"
    using da ob S n by (intro mult_mono) auto
  with ob(3) show "S * D \<le> (S + (amt - sr_fee r)) * (D - sr_amountOut r)" by linarith
qed

lemma destination_pos:
  assumes "side_ok V q s"
    and "quoteDestinationAmount V (q_currentTime q) out (ts_vault s) (ts_supply s) = Inr a" "0 < a"
  shows "0 < out"
proof (rule ccontr)
  assume "\<not> 0 < out"
  let ?w = "withdrawable V q s" and ?n = "ts_supply s"
  have pos: "0 < ?w" "0 < ?n" using assms(1) by (auto simp: side_ok_def)
  obtain sh where "getUnmintAmount V out ?w ?n = Inr sh" "sdk_getAmountByShare V sh ?w ?n = Inr a"
    using assms(2) by (auto simp: quoteDestinationAmount_def withdrawable_def Let_def)
  then have "sh = (out * ?n) sdiv ?w" "a = (sh * ?w) sdiv ?n"
    using pos by (auto simp: unmint_amount amount_by_share bn_div_def)
  moreover have "out * ?n \<le> 0" using \<open>\<not> 0 < out\<close> pos by (simp add: mult_nonpos_nonneg)
  then have "(out * ?n) sdiv ?w \<le> 0" using sdiv_nonpos [OF _ pos(1)] by blast
  ultimately have "a \<le> 0" using sdiv_nonpos [OF _ pos(2)] pos by (simp add: mult_nonpos_nonneg)
  with assms(3) show False by simp
qed

lemma stable_quote_above_curve:
  assumes "calculateSwapQuote V L mint amt q init = Inr (ps', r)"
    and "tokenAMint (q_poolState q) \<noteq> tokenBMint (q_poolState q)"
    and "quoteCurve q init = Inr (StableSwap self0)" "SS_invar L self0" "fees_ok (fees (q_poolState q))"
    and "side_ok V q (inSide q mint)" "side_ok V q (outSide q mint)" "0 \<le> amt"
    and S: "sideAmount V q (inSide q mint) = Inr S" "0 < S"
    and D: "sideAmount V q (outSide q mint) = Inr D" "0 < D"
    and n: "netSource V q mint amt S = Inr (n, fee)" "0 \<le> n" and pos: "0 < sr_amountOut r"
  shows "\<exists>self d. updateDepegInfoIfExpired L self0 = Inr self \<and>
    computeD (ss_amp self) (S * src_scale self (quoteDir q mint)) (D * dst_scale self (quoteDir q mint)) = Inr d \<and>
    above_curve (ss_amp self) d ((S + (amt - sr_fee r)) * src_scale self (quoteDir q mint))
      ((D - sr_amountOut r) * dst_scale self (quoteDir q mint))"
proof -
  let ?t = "quoteDir q mint"
  obtain self out where out: "SS_computeOutAmount L self0 n S D ?t = Inr (self, out)" and fee: "sr_fee r = fee"
    and a: "quoteDestinationAmount V (q_currentTime q) (outAmount out) (ts_vault (outSide q mint))
      (ts_supply (outSide q mint)) = Inr (sr_amountOut r)"
    using calculateSwapQuote_D [OF assms(1,2)] S(1) D(1) n(1) assms(3)
    by (auto simp: curve_computeOutAmount_def)
  have op: "0 < outAmount out" using destination_pos [OF assms(7) a pos] .
  have da: "sr_amountOut r \<le> outAmount out" using destination_le [OF assms(7) a] op by simp
  obtain d where d: "computeD (ss_amp self) (S * src_scale self ?t) (D * dst_scale self ?t) = Inr d"
    "above_curve (ss_amp self) d ((S + n) * src_scale self ?t) ((D - outAmount out) * dst_scale self ?t)"
    using SS_swap_above_curve [OF out assms(4) D(2) S(2) n(2) op] by blast
  obtain d' y where sc: "1 \<le> ss_amp self" "1 \<le> src_scale self ?t" "1 \<le> dst_scale self ?t" "0 \<le> d'"
      "computeD (ss_amp self) (S * src_scale self ?t) (D * dst_scale self ?t) = Inr d'"
    using SS_swap_facts [OF out assms(4) D(2) S(2) n(2)] by metis
  have n_le: "n \<le> amt - sr_fee r" using netSource_bounds [OF assms(5,6,8) S(1) n(1)] fee by simp
  have lt: "outAmount out < D" using SS_out_lt_reserve [OF out assms(4) D(2) S(2) n(2)] .
  have "above_curve (ss_amp self) d ((S + (amt - sr_fee r)) * src_scale self ?t)
      ((D - sr_amountOut r) * dst_scale self ?t)"
    using d sc n_le da lt S n by (intro above_curve_mono2 [OF _ _ _ _ _ _ d(2)] mult_right_mono mult_nonneg_nonneg) auto
  moreover have "updateDepegInfoIfExpired L self0 = Inr self"
    using SS_computeOutAmount_D [OF out assms(4)] by metis
  ultimately show ?thesis using d(1) by blast
qed

end

section \<open>Concrete pools\<close>

text \<open>
  A pool on the constant product curve and one on the stable curve, each holding a fifth of two
  vaults without locked profit; the trade fee is a quarter of a percent, a fifth of it for the
  protocol.
\<close>

definition sampleFees :: poolFees where
  "sampleFees = \<lparr>tradeFeeNumerator = 250, tradeFeeDenominator = 100000,
     protocolTradeFeeNumerator = 20000, protocolTradeFeeDenominator = 100000\<rparr>"

definition sampleVault :: "int \<Rightarrow> vaultState" where
  "sampleVault amt = \<lparr>v_totalAmount = amt, v_tokenVault = PublicKey ''tokenVault'', v_tokenMint = PublicKey ''mint'',
     v_lpMint = PublicKey ''lpMint'', v_lockedProfitTracker = \<lparr>lastUpdatedLockedProfit = 0, lastReport = 0,
     lockedProfitDegradation = 0\<rparr>\<rparr>"

definition samplePool :: "curveType \<Rightarrow> poolState" where
  "samplePool c = \<lparr>lpMint = PublicKey ''lp'', tokenAMint = PublicKey ''A'', tokenBMint = PublicKey ''B'',
     aVault = PublicKey ''aVault'', bVault = PublicKey ''bVault'', aVaultLp = PublicKey ''aVaultLp'',
     bVaultLp = PublicKey ''bVaultLp'', aVaultLpBump = 255, enabled = True,
     protocolTokenAFee = PublicKey ''feeA'', protocolTokenBFee = PublicKey ''feeB'', feeLastUpdatedAt = 0,
     fees = sampleFees, poolType = Permissionless, stake = PublicKey ''stake'', totalLockedLp = 0,
     bootstrapping = \<lparr>activationPoint = 100, whitelistedVault = PublicKey ''whitelisted'',
       poolCreator = PublicKey ''creator'', activationType = 1\<rparr>,
     partnerInfo = \<lparr>feeNumerator = 0, partnerAuthority = PublicKey ''partner'', pendingFeeA = 0, pendingFeeB = 0\<rparr>,
     curveType = c\<rparr>"

definition sampleStableCurve :: curveType where
  "sampleStableCurve = StableSwapCurve \<lparr>amp = 100,
     curveTokenMultiplier = \<lparr>tokenAMultiplier = 1, tokenBMultiplier = 1000, precisionFactor = 9\<rparr>,
     curveDepeg = \<lparr>baseVirtualPrice = 0, baseCacheUpdated = 0, depegType = DepegNone\<rparr>,
     lastAmpUpdatedTimestamp = 0\<rparr>"

definition sampleParam :: "curveType \<Rightarrow> swapQuoteParam" where
  "sampleParam c = \<lparr>q_poolState = samplePool c, q_vaultA = sampleVault 5000000000000, q_vaultB = sampleVault 6000000000,
     q_poolVaultALp = 1000000000000, q_poolVaultBLp = 1000000000, q_vaultALpSupply = 5000000000000,
     q_vaultBLpSupply = 5000000000, q_vaultAReserve = 4000000000000, q_vaultBReserve = 6000000000,
     q_currentTime = 1700000000, q_currentSlot = 200000000, q_depegAccounts = (\<lambda>_. None)\<rparr>"

definition sampleVaultStates :: vaultAssociatedAccountStates where
  "sampleVaultStates = \<lparr>va_vault = sampleVault 1000000000000, va_reserve = 1000000000000, va_lpSupply = 1000000000000\<rparr>"

lemmas sample_defs = sampleFees_def sampleVault_def samplePool_def sampleStableCurve_def sampleParam_def

lemma sample_sides:
  "side_ok programSdk (sampleParam c) (inSide (sampleParam c) (PublicKey ''A''))"
  "side_ok programSdk (sampleParam c) (outSide (sampleParam c) (PublicKey ''A''))"
  "fees_ok (fees (q_poolState (sampleParam c)))"
  by (simp_all add: sample_defs side_ok_def side_defs fees_ok_def programSdk_def get_unlocked_amount_def
      calculate_locked_profit_def checked_def checked_div_def LOCKED_PROFIT_DEGRADATION_DENOMINATOR_def)

lemma sample_amounts:
  "sideAmount programSdk (sampleParam c) (inSide (sampleParam c) (PublicKey ''A'')) = Inr 1000000000000"
  "sideAmount programSdk (sampleParam c) (outSide (sampleParam c) (PublicKey ''A'')) = Inr 1200000000"
  "netSource programSdk (sampleParam c) (PublicKey ''A'') 1000000000 1000000000000 = Inr (997500000, 2000000)"
  by (simp_all add: sample_defs side_defs programSdk_def get_unlocked_amount_def Let_def
      calculate_locked_profit_def checked_def checked_div_def LOCKED_PROFIT_DEGRADATION_DENOMINATOR_def
      quoteSourceAmount_def calculateTradingFee_def calculateProtocolTradingFee_def bn_div_def sdiv_nonneg_eq_div)

lemma sample_quote_cp:
  "\<exists>ps r. calculateSwapQuote programSdk referenceLib (PublicKey ''A'') 1000000000
     (sampleParam ConstantProductCurve) None = Inr (ps, r) \<and> 0 < sr_amountOut r"
proof -
  have "case calculateSwapQuote programSdk referenceLib (PublicKey ''A'') 1000000000
     (sampleParam ConstantProductCurve) None of Inl e \<Rightarrow> False | Inr (ps, r) \<Rightarrow> 0 < sr_amountOut r"
    by code_simp
  then show ?thesis by (auto split: sum.splits prod.splits)
qed

lemma sample_quote_stable:
  "\<exists>ps r. calculateSwapQuote programSdk referenceLib (PublicKey ''A'') 1000000000
     (sampleParam sampleStableCurve) None = Inr (ps, r) \<and> 0 < sr_amountOut r"
proof -
  have "case calculateSwapQuote programSdk referenceLib (PublicKey ''A'') 1000000000
     (sampleParam sampleStableCurve) None of Inl e \<Rightarrow> False | Inr (ps, r) \<Rightarrow> 0 < sr_amountOut r"
    by code_simp
  then show ?thesis by (auto split: sum.splits prod.splits)
qed

lemma sample_curves:
  "quoteCurve (sampleParam sampleStableCurve) None = Inr (StableSwap sampleStable)"
  by (simp add: quoteCurve_def sample_defs newStableSwap_def sampleStable_def bn_toNumber_def)

lemma sample_mints: "tokenAMint (q_poolState (sampleParam c)) \<noteq> tokenBMint (q_poolState (sampleParam c))"
  by (simp add: sample_defs)

section \<open>Properties\<close>

text \<open>
  C37. The swap quote refuses, in this order, a mint that is not one of the pool's, a disabled
  pool, and a trade against a constant product pool before its activation point (a time or a
  slot, as the pool says) unless the caller is the whitelisted vault.
\<close>

theorem swap_quote_refusals:
  fixes params swapInitiator
  defines "ps \<equiv> q_poolState params"
  defines "point \<equiv> (if activationType (bootstrapping ps) = 1 then q_currentTime params else q_currentSlot params)"
  shows "(inTokenMint \<noteq> tokenAMint ps \<and> inTokenMint \<noteq> tokenBMint ps \<longrightarrow>
      calculateSwapQuote V L inTokenMint inAmount params swapInitiator = Inl (Invariant ERROR_INVALID_MINT)) \<and>
    (inTokenMint \<in> {tokenAMint ps, tokenBMint ps} \<and> \<not> enabled ps \<longrightarrow>
      calculateSwapQuote V L inTokenMint inAmount params swapInitiator = Inl (Invariant ''Pool disabled'')) \<and>
    (inTokenMint \<in> {tokenAMint ps, tokenBMint ps} \<and> enabled ps \<and> curveType ps = ConstantProductCurve \<and>
      point < activationPoint (bootstrapping ps) \<and>
      swapInitiator \<noteq> Some (whitelistedVault (bootstrapping ps)) \<longrightarrow>
      calculateSwapQuote V L inTokenMint inAmount params swapInitiator = Inl (Invariant ''Swap is disabled''))"
  unfolding ps_def point_def
  by (auto simp: calculateSwapQuote_def quoteCurve_def Let_def split: option.splits)

theorem swap_quote_refusals_witness:
  "calculateSwapQuote programSdk referenceLib (PublicKey ''C'') 1000 (sampleParam ConstantProductCurve) None =
     Inl (Invariant ERROR_INVALID_MINT) \<and>
   calculateSwapQuote programSdk referenceLib (PublicKey ''A'') 1000
     ((sampleParam ConstantProductCurve)\<lparr>q_currentTime := 99\<rparr>) None = Inl (Invariant ''Swap is disabled'')"
  using swap_quote_refusals [of "PublicKey ''C''" "sampleParam ConstantProductCurve" programSdk referenceLib 1000 None]
    swap_quote_refusals [of "PublicKey ''A''" "(sampleParam ConstantProductCurve)\<lparr>q_currentTime := 99\<rparr>"
      programSdk referenceLib 1000 None]
  by (simp add: sample_defs)

text \<open>
  C21. A quote that succeeds can be paid: its output is less than the pool's amount of the output
  token and less than what the output vault holds in reserve. The quote changes nothing of the
  pool state but the cached depeg price of a stable curve.
\<close>

theorem swap_quote_is_payable:
  assumes "calculateSwapQuote V L inTokenMint inAmount params swapInitiator = Inr (ps', r)"
    and "tokenAMint (q_poolState params) \<noteq> tokenBMint (q_poolState params)"
  shows "(\<exists>D. sideAmount V params (outSide params inTokenMint) = Inr D \<and> sr_amountOut r < D) \<and>
    sr_amountOut r < ts_reserve (outSide params inTokenMint) \<and>
    (\<exists>curve. ps' = (q_poolState params)\<lparr>curveType := store_depeg curve (curveType (q_poolState params))\<rparr>)"
  using calculateSwapQuote_D [OF assms] by blast

theorem swap_quote_is_payable_witness:
  "\<exists>ps' r. calculateSwapQuote programSdk referenceLib (PublicKey ''A'') 1000000000 (sampleParam sampleStableCurve) None =
     Inr (ps', r) \<and> sr_amountOut r < 1200000000"
  using sample_quote_stable swap_quote_is_payable [OF _ sample_mints]
  by (metis sample_amounts(2) Inr_inject)





text \<open>
  The quote for a memecoin pool that is yet to be created is wrong when the trade goes from the
  token without a vault: with 10^9 of token A and 10^12 of token B deposited, selling 10^6 of
  token B is quoted at more than 10^15 of token A, a million times what the pool holds. In the
  other direction the output is right, but what is reported as fee is the amount in less the
  protocol fee.
\<close>

lemma memecoin_quote_is_wrong:
  "(case calculateSwapQuoteForGoingToCreateMemecoinPool programSdk referenceLib 1000000 1000000000 1000000000000
      False sampleFees (Some sampleVaultStates) None 1700000000 of
      Inl e \<Rightarrow> False | Inr (a, b, q) \<Rightarrow> mq_amountOut q = 1002506265664161) \<and>
   (case calculateSwapQuoteForGoingToCreateMemecoinPool programSdk referenceLib 1000000 1000000000 1000000000000
      True sampleFees (Some sampleVaultStates) None 1700000000 of
      Inl e \<Rightarrow> False | Inr (a, b, q) \<Rightarrow> mq_amountOut q = 996505985 \<and> mq_fee q = 999500)"
  by code_simp

end
