(* ===== verification/AmmImpl.thy ===== *)
theory AmmImpl
  imports PoolCreation SwapQuote "HOL-Library.AList"
begin

text \<open>
  The object \<^verbatim>\<open>AmmImpl\<close> of index.ts: its state, how it is loaded from the chain (one pool with
  \<^verbatim>\<open>create\<close>, several with \<^verbatim>\<open>createMultiple\<close>), how \<^verbatim>\<open>updateState\<close> refreshes it, and its getters and
  balance reads. The state of a pool and the curve object share the cached price, so a write
  through the curve is stored in both.
\<close>

section \<open>State\<close>

datatype accountType =
    APY | VAULT_A_RESERVE | VAULT_B_RESERVE | VAULT_A_LP | VAULT_B_LP
  | POOL_VAULT_A_LP | POOL_VAULT_B_LP | POOL_LP_MINT | SYSVAR_CLOCK

record ammImpl =
  am_address :: pubkey
  am_program :: pubkey
  am_vaultProgram :: pubkey
  am_tokenAMint :: mint
  am_tokenBMint :: mint
  am_poolState :: poolState
  am_lpSupply :: int \<comment> \<open>poolState.lpSupply\<close>
  am_poolInfo :: poolInformation
  am_vaultA :: vaultImpl
  am_vaultB :: vaultImpl
  am_accountsInfo :: accountsInfo
  am_swapCurve :: swapCurve
  am_depegAccounts :: "pubkey \<rightharpoonup> bytes"
  am_cluster :: string

text \<open>What the curve object wrote to the shared \<^verbatim>\<open>depeg\<close> is seen through the pool state too.\<close>

definition setCurve :: "swapCurve \<Rightarrow> ammImpl \<Rightarrow> ammImpl" where
  "setCurve curve self =
     self\<lparr>am_swapCurve := curve,
          am_poolState := (am_poolState self)\<lparr>curveType := store_depeg curve (curveType (am_poolState self))\<rparr>\<rparr>"

section \<open>Reading accounts\<close>

definition toBase58 :: "pubkey \<Rightarrow> string" where
  "toBase58 key = (case key of PublicKey k \<Rightarrow> k)"

definition getAllPoolState :: "chain \<Rightarrow> pubkey list \<Rightarrow> (poolState \<times> int) list res" where
  "getAllPoolState ch poolMints =
     rbind (chunkedFetchMultiplePoolAccount ch poolMints 100) (\<lambda>poolStates.
     rbind (invariant (length poolStates = length poolMints) ''Some of the pool state not found'') (\<lambda>_.
     let poolLpMints = map lpMint poolStates in
     rbind (chunkedGetMultipleAccountInfos ch poolLpMints 100) (\<lambda>lpMintAccounts.
     rmap (\<lambda>(ps, lpMintAccount).
       rbind (of_option (Invariant ERROR_INVALID_ACCOUNT) lpMintAccount) (\<lambda>account.
       rbind (mintSupply ch account) (\<lambda>lpSupply. Inr (ps, lpSupply))))
       (zip poolStates lpMintAccounts))))"

definition getPoolState :: "chain \<Rightarrow> pubkey \<Rightarrow> (poolState \<times> int) res" where
  "getPoolState ch poolMint =
     rbind (of_option (Invariant (''Pool '' @ toBase58 poolMint @ '' not found''))
              (fetchPool ch poolMint)) (\<lambda>ps.
     rbind (of_option (Invariant ERROR_INVALID_ACCOUNT) (getTokenSupply ch (lpMint ps))) (\<lambda>amount.
     Inr (ps, amount)))"

definition getFeeVaultState :: "chain \<Rightarrow> pubkey \<Rightarrow> bool" where
  "getFeeVaultState ch publicKey = fetchFeeVault ch publicKey"

text \<open>There is no decoder for the type \<^verbatim>\<open>APY\<close>; calling the missing one is a type error.\<close>

definition decodeAccountTypeMapper :: "chain \<Rightarrow> accountType \<Rightarrow> bytes \<Rightarrow> int res" where
  "decodeAccountTypeMapper ch t accountData =
     (case t of
        VAULT_A_RESERVE \<Rightarrow> accountAmount ch accountData
      | VAULT_B_RESERVE \<Rightarrow> accountAmount ch accountData
      | VAULT_A_LP \<Rightarrow> mintSupply ch accountData
      | VAULT_B_LP \<Rightarrow> mintSupply ch accountData
      | POOL_VAULT_A_LP \<Rightarrow> accountAmount ch accountData
      | POOL_VAULT_B_LP \<Rightarrow> accountAmount ch accountData
      | POOL_LP_MINT \<Rightarrow> mintSupply ch accountData
      | SYSVAR_CLOCK \<Rightarrow> readBigInt64LE accountData 32
      | APY \<Rightarrow> Inl TypeError)"

text \<open>A \<^verbatim>\<open>Map\<close> keeps the position of a key that is set again, as \<^const>\<open>AList.update\<close> does.\<close>

type_synonym accountTypeInfo = "accountType \<times> bytes option"

definition getAccountsBuffer ::
  "chain \<Rightarrow> (accountType \<times> pubkey) list \<Rightarrow> (pubkey \<times> accountTypeInfo) list res" where
  "getAccountsBuffer ch accountsToFetch =
     rbind (chunkedGetMultipleAccountInfos ch (map snd accountsToFetch) 100) (\<lambda>accounts.
     Inr (foldl (\<lambda>accMap ((t, key), accountInfo). AList.update key (t, accountInfo) accMap) []
            (zip accountsToFetch accounts)))"

fun deserializeAccountsBuffer_from ::
  "chain \<Rightarrow> (pubkey \<times> int) list \<Rightarrow> (pubkey \<times> accountTypeInfo) list \<Rightarrow> (pubkey \<times> int) list res" where
  "deserializeAccountsBuffer_from ch accValue [] = Inr accValue"
| "deserializeAccountsBuffer_from ch accValue ((key, t, account) # rest) =
     rbind (of_option TypeError account) (\<lambda>data.
     rbind (decodeAccountTypeMapper ch t data) (\<lambda>n.
     deserializeAccountsBuffer_from ch (AList.update key n accValue) rest))"

definition deserializeAccountsBuffer ::
  "chain \<Rightarrow> (pubkey \<times> accountTypeInfo) list \<Rightarrow> (pubkey \<times> int) list res" where
  "deserializeAccountsBuffer ch accountInfoMap = deserializeAccountsBuffer_from ch [] accountInfoMap"

section \<open>Loading a pool\<close>

text \<open>The accounts of a pool, in the order in which the source destructures them again.\<close>

definition poolAccountTypes :: "vaultImpl \<Rightarrow> vaultImpl \<Rightarrow> poolState \<Rightarrow> (accountType \<times> pubkey) list" where
  "poolAccountTypes vaultA vaultB ps =
     [(VAULT_A_RESERVE, v_tokenVault (vi_vaultState vaultA)),
      (VAULT_B_RESERVE, v_tokenVault (vi_vaultState vaultB)),
      (VAULT_A_LP, v_lpMint (vi_vaultState vaultA)),
      (VAULT_B_LP, v_lpMint (vi_vaultState vaultB)),
      (POOL_VAULT_A_LP, aVaultLp ps),
      (POOL_VAULT_B_LP, bVaultLp ps),
      (POOL_LP_MINT, lpMint ps)]"

text \<open>The clock account: its slot and unix timestamp.\<close>

definition decodeClock :: "(pubkey \<times> accountTypeInfo) list \<Rightarrow> (int \<times> int) res" where
  "decodeClock accountsBufferMap =
     rbind (of_option (Invariant ''Clock account not found'') (map_of accountsBufferMap SYSVAR_CLOCK_PUBKEY))
       (\<lambda>(_, account).
     rbind (of_option TypeError account) (\<lambda>data.
     rbind (layout_decode_u64 ClockLayout data ''slot'') (\<lambda>slot.
     rbind (layout_decode_i64 ClockLayout data ''unixTimestamp'') (\<lambda>unixTimestamp.
     Inr (slot, unixTimestamp)))))"

text \<open>Every number is an object, so only a missing entry fails the check of the source.\<close>

definition accountsInfoOf ::
  "(pubkey \<times> int) list \<Rightarrow> (accountType \<times> pubkey) list \<Rightarrow> int \<times> int \<Rightarrow> accountsInfo res" where
  "accountsInfoOf accountsInfoMap accounts clock =
     (case map (\<lambda>a. map_of accountsInfoMap (snd a)) accounts of
        [Some tokenAVault, Some tokenBVault, Some vaultALp, Some vaultBLp, Some poolVaultA, Some poolVaultB, Some poolLpMint] \<Rightarrow>
          Inr \<lparr>vaultAReserve = tokenAVault, vaultBReserve = tokenBVault, vaultALpSupply = vaultALp, vaultBLpSupply = vaultBLp,
               poolVaultALp = poolVaultA, poolVaultBLp = poolVaultB, poolLpSupply = poolLpMint,
               currentTime = snd clock, currentSlot = fst clock\<rparr>
      | _ \<Rightarrow> Inl (Invariant ''Account Info not found''))"

definition newSwapCurve :: "poolState \<Rightarrow> (pubkey \<rightharpoonup> bytes) \<Rightarrow> int \<Rightarrow> swapCurve res" where
  "newSwapCurve ps depegAccounts now =
     (case curveType ps of
        StableSwapCurve c \<Rightarrow> rbind (newStableSwap c depegAccounts now (stake ps)) (\<lambda>s. Inr (StableSwap s))
      | ConstantProductCurve \<Rightarrow> Inr ConstantProductSwap)"

text \<open>\<^verbatim>\<open>calculatePoolInfo\<close> on the fields of the object.\<close>

definition poolInfoOf ::
  "vaultSdk \<Rightarrow> mathLib \<Rightarrow> accountsInfo \<Rightarrow> swapCurve \<Rightarrow> vaultImpl \<Rightarrow> vaultImpl \<Rightarrow> (swapCurve \<times> poolInformation) res" where
  "poolInfoOf V L info curve vaultA vaultB =
     calculatePoolInfo V L (currentTime info) (poolVaultALp info) (poolVaultBLp info) (vaultALpSupply info)
       (vaultBLpSupply info) (poolLpSupply info) curve (vi_vaultState vaultA) (vi_vaultState vaultB)"

text \<open>The curve, the pool information and the object, from what was read.\<close>

definition newAmmImpl ::
  "vaultSdk \<Rightarrow> mathLib \<Rightarrow> programs \<Rightarrow> string \<Rightarrow> (pubkey \<rightharpoonup> bytes) \<Rightarrow> pubkey \<Rightarrow> poolState \<times> int \<Rightarrow> vaultImpl \<Rightarrow> vaultImpl \<Rightarrow>
    accountsInfo \<Rightarrow> ammImpl res" where
  "newAmmImpl V L prog cluster depegAccounts pool poolStateLp vaultA vaultB info =
     (let (ps, lpSupply) = poolStateLp in
      rbind (newSwapCurve ps depegAccounts (currentTime info)) (\<lambda>curve.
      rbind (poolInfoOf V L info curve vaultA vaultB) (\<lambda>(curve', poolInfo).
      Inr (setCurve curve'
        \<lparr>am_address = pool, am_program = ammProgramId prog, am_vaultProgram = vaultProgramId prog,
         am_tokenAMint = vi_tokenMint vaultA, am_tokenBMint = vi_tokenMint vaultB,
         am_poolState = ps, am_lpSupply = lpSupply, am_poolInfo = poolInfo, am_vaultA = vaultA, am_vaultB = vaultB,
         am_accountsInfo = info, am_swapCurve = curve, am_depegAccounts = depegAccounts, am_cluster = cluster\<rparr>))))"

definition readPoolAccounts :: "chain \<Rightarrow> vaultImpl \<Rightarrow> vaultImpl \<Rightarrow> poolState \<Rightarrow> accountsInfo res" where
  "readPoolAccounts ch vaultA vaultB ps =
     rbind (getAccountsBuffer ch (poolAccountTypes vaultA vaultB ps @ [(SYSVAR_CLOCK, SYSVAR_CLOCK_PUBKEY)]))
       (\<lambda>accountsBufferMap.
     rbind (deserializeAccountsBuffer ch accountsBufferMap) (\<lambda>accountsInfoMap.
     rbind (decodeClock accountsBufferMap) (\<lambda>clock.
     accountsInfoOf accountsInfoMap (poolAccountTypes vaultA vaultB ps) clock)))"

definition create ::
  "chain \<Rightarrow> vaultSdk \<Rightarrow> mathLib \<Rightarrow> pubkey \<Rightarrow> string option \<Rightarrow> pubkey option \<Rightarrow> string option \<Rightarrow> ammImpl res" where
  "create ch V L pool programId vaultSeedBaseKey opt_cluster =
     (let cluster = (case opt_cluster of Some c \<Rightarrow> c | None \<Rightarrow> ''mainnet-beta'');
          prog = createProgram ch programId in
      rbind (getPoolState ch pool) (\<lambda>(ps, lpSupply).
      let pdaInfos = [aVault ps, bVault ps] in
      rbind (createMultipleWithPda ch pdaInfos vaultSeedBaseKey) (\<lambda>vaults.
      case vaults of
        vaultA # vaultB # _ \<Rightarrow>
          rbind (readPoolAccounts ch vaultA vaultB ps) (\<lambda>info.
          rbind (getDepegAccounts ch [ps]) (\<lambda>depegAccounts.
          newAmmImpl V L prog cluster depegAccounts pool (ps, lpSupply) vaultA vaultB info))
      | _ \<Rightarrow> Inl TypeError)))"

section \<open>Loading several pools\<close>

text \<open>The value of the map from LP mints to what is known of their pools.\<close>

record poolInfoData =
  pid_pool :: pubkey
  pid_poolState :: poolState
  pid_lpSupply :: int
  pid_vaultA :: vaultImpl
  pid_vaultB :: vaultImpl

definition poolEntry :: "vaultImpl list \<Rightarrow> pubkey \<Rightarrow> poolState \<times> int \<Rightarrow> poolInfoData res" where
  "poolEntry vaultsImpl pool poolStateLp =
     (let (ps, lpSupply) = poolStateLp in
      rbind (of_option (Invariant (''Vault '' @ toBase58 (tokenAMint ps) @ '' not found''))
               (List.find (\<lambda>v. vi_vaultPda v = aVault ps) vaultsImpl)) (\<lambda>vaultA.
      rbind (of_option (Invariant (''Vault '' @ toBase58 (tokenBMint ps) @ '' not found''))
               (List.find (\<lambda>v. vi_vaultPda v = bVault ps) vaultsImpl)) (\<lambda>vaultB.
      Inr \<lparr>pid_pool = pool, pid_poolState = ps, pid_lpSupply = lpSupply, pid_vaultA = vaultA, pid_vaultB = vaultB\<rparr>)))"

definition entryAccounts :: "poolInfoData \<Rightarrow> (accountType \<times> pubkey) list" where
  "entryAccounts e = poolAccountTypes (pid_vaultA e) (pid_vaultB e) (pid_poolState e)"

text \<open>
  The objects in the order of the pools. The pool state in the map is shared with the object
  that is built from it, so the cached price it writes is stored in the map.
\<close>

fun createAll ::
  "vaultSdk \<Rightarrow> mathLib \<Rightarrow> programs \<Rightarrow> string \<Rightarrow> (pubkey \<rightharpoonup> bytes) \<Rightarrow> (pubkey \<times> int) list \<Rightarrow> int \<times> int \<Rightarrow>
    (pubkey \<rightharpoonup> poolInfoData) \<Rightarrow> (accountType \<times> pubkey) list list \<Rightarrow> ammImpl list res" where
  "createAll V L prog cluster depegAccounts accountsInfoMap clock poolInfoMap [] = Inr []"
| "createAll V L prog cluster depegAccounts accountsInfoMap clock poolInfoMap (accounts # rest) =
     rbind (accountsInfoOf accountsInfoMap accounts clock) (\<lambda>info.
     let poolLpMint = snd (last accounts) in
     rbind (of_option (Invariant ''Cannot find pool info'') (poolInfoMap poolLpMint)) (\<lambda>e.
     rbind (newAmmImpl V L prog cluster depegAccounts (pid_pool e) (pid_poolState e, pid_lpSupply e)
              (pid_vaultA e) (pid_vaultB e) info) (\<lambda>amm.
     rbind (createAll V L prog cluster depegAccounts accountsInfoMap clock
              (poolInfoMap(poolLpMint \<mapsto> e\<lparr>pid_poolState := am_poolState amm\<rparr>)) rest) (\<lambda>amms.
     Inr (amm # amms)))))"

definition createMultiple ::
  "chain \<Rightarrow> vaultSdk \<Rightarrow> mathLib \<Rightarrow> pubkey list \<Rightarrow> string option \<Rightarrow> string option \<Rightarrow> ammImpl list res" where
  "createMultiple ch V L poolList programId opt_cluster =
     (let cluster = (case opt_cluster of Some c \<Rightarrow> c | None \<Rightarrow> ''mainnet-beta'');
          prog = createProgram ch programId in
      rbind (getAllPoolState ch poolList) (\<lambda>poolsState.
      let pdaInfos = concat (map (\<lambda>(ps, _). [aVault ps, bVault ps]) poolsState) in
      rbind (createMultipleWithPda ch pdaInfos None) (\<lambda>vaultsImpl.
      rbind (rmap (\<lambda>(pool, s). poolEntry vaultsImpl pool s) (zip poolList poolsState)) (\<lambda>entries.
      let poolInfoMap = foldl (\<lambda>m e. m(lpMint (pid_poolState e) \<mapsto> e)) (\<lambda>_. None) entries;
          accountsToFetch = map entryAccounts entries in
      rbind (getAccountsBuffer ch (concat accountsToFetch @ [(SYSVAR_CLOCK, SYSVAR_CLOCK_PUBKEY)])) (\<lambda>accountsBufferMap.
      rbind (decodeClock accountsBufferMap) (\<lambda>clock.
      rbind (deserializeAccountsBuffer ch accountsBufferMap) (\<lambda>accountsInfoMap.
      rbind (getDepegAccounts ch (map fst poolsState)) (\<lambda>depegAccounts.
      createAll V L prog cluster depegAccounts accountsInfoMap clock poolInfoMap accountsToFetch))))))))"

section \<open>Refreshing\<close>

text \<open>
  The update assigns field by field: when a later read fails, the fields assigned before keep
  their new values. The three reads at the start run together, so each vault is refreshed
  whenever its own read succeeds.
\<close>

definition updateState :: "chain \<Rightarrow> vaultSdk \<Rightarrow> mathLib \<Rightarrow> ammImpl \<Rightarrow> ammImpl \<times> unit res" where
  "updateState ch V L self =
     (let rA = refreshVaultState ch (am_vaultA self);
          rB = refreshVaultState ch (am_vaultB self);
          vaultA = (case rA of Inr v \<Rightarrow> v | Inl _ \<Rightarrow> am_vaultA self);
          vaultB = (case rB of Inr v \<Rightarrow> v | Inl _ \<Rightarrow> am_vaultB self);
          self1 = self\<lparr>am_vaultA := vaultA, am_vaultB := vaultB\<rparr> in
      case rbind (getPoolState ch (am_address self)) (\<lambda>p. rbind rA (\<lambda>_. rbind rB (\<lambda>_. Inr p))) of
        Inl e \<Rightarrow> (self1, Inl e)
      | Inr (ps, lpSupply) \<Rightarrow>
          (let self2 = self1\<lparr>am_poolState := ps, am_lpSupply := lpSupply\<rparr> in
           case readPoolAccounts ch vaultA vaultB ps of
             Inl e \<Rightarrow> (self2, Inl e)
           | Inr info \<Rightarrow>
               (let self3 = self2\<lparr>am_accountsInfo := info\<rparr> in
                case getDepegAccounts ch [ps] of
                  Inl e \<Rightarrow> (self3, Inl e)
                | Inr depegAccounts \<Rightarrow>
                    (let self4 = self3\<lparr>am_depegAccounts := depegAccounts\<rparr> in
                     case newSwapCurve ps depegAccounts (currentTime info) of
                       Inl e \<Rightarrow> (self4, Inl e)
                     | Inr curve \<Rightarrow>
                         (let self5 = self4\<lparr>am_swapCurve := curve\<rparr> in
                          case poolInfoOf V L info curve vaultA vaultB of
                            Inl e \<Rightarrow> (self5, Inl e)
                          | Inr (curve', poolInfo) \<Rightarrow>
                              (setCurve curve' (self5\<lparr>am_poolInfo := poolInfo\<rparr>), Inr ()))))))"

section \<open>Getters and balances\<close>

definition decimals :: "ammImpl \<Rightarrow> nat" where
  "decimals self = max (mint_decimals (am_tokenAMint self)) (mint_decimals (am_tokenBMint self))"

definition isStablePool :: "ammImpl \<Rightarrow> bool" where
  "isStablePool self = (case curveType (am_poolState self) of StableSwapCurve _ \<Rightarrow> True | ConstantProductCurve \<Rightarrow> False)"

definition isLST :: "ammImpl \<Rightarrow> bool" where
  "isLST self =
     (isStablePool self \<and>
      (case am_swapCurve self of
         StableSwap s \<Rightarrow> depegType (ss_depeg s) \<noteq> DepegNone
       | ConstantProductSwap \<Rightarrow> False))"

definition feeBps :: "ammImpl \<Rightarrow> int res" where
  "feeBps self =
     bn_div (tradeFeeNumerator (fees (am_poolState self)) * 10000) (tradeFeeDenominator (fees (am_poolState self)))"

definition depegToken :: "ammImpl \<Rightarrow> mint option res" where
  "depegToken self =
     (case curveType (am_poolState self) of
        ConstantProductCurve \<Rightarrow> Inr None
      | StableSwapCurve c \<Rightarrow>
          (let a = tokenAAmount (am_poolInfo self);
               b = tokenBAmount (am_poolInfo self);
               tokenABalance = a * tokenAMultiplier (curveTokenMultiplier c);
               tokenBBalance = b * tokenBMultiplier (curveTokenMultiplier c);
               totalTokenBalance = tokenABalance + tokenBBalance in
           if totalTokenBalance = 0 then Inr None
           else
             rbind (bn_div (a * 2) totalTokenBalance) (\<lambda>qa.
             rbind (bn_div (b * 2) totalTokenBalance) (\<lambda>qb.
             Inr (if qa * 100 > 95 then Some (am_tokenAMint self)
                  else if qb * 100 > 95 then Some (am_tokenBMint self)
                  else None)))))"

definition getLockedAtaAmount :: "chain \<Rightarrow> ammImpl \<Rightarrow> int" where
  "getLockedAtaAmount ch self =
     (case rbind (getAssociatedTokenAccount ch (lpMint (am_poolState self)) (am_address self)) (getTokenAccountBalance ch) of
        Inr amount \<Rightarrow> amount
      | Inl _ \<Rightarrow> 0)"

definition getLockedLpAmount :: "chain \<Rightarrow> ammImpl \<Rightarrow> int" where
  "getLockedLpAmount ch self = getLockedAtaAmount ch self + totalLockedLp (am_poolState self)"

definition getPoolTokenMint :: "ammImpl \<Rightarrow> pubkey" where
  "getPoolTokenMint self = lpMint (am_poolState self)"

definition getLpSupply :: "chain \<Rightarrow> ammImpl \<Rightarrow> int res" where
  "getLpSupply ch self =
     of_option (Invariant ERROR_INVALID_ACCOUNT) (getTokenSupply ch (lpMint (am_poolState self)))"

definition getUserBalance :: "chain \<Rightarrow> ammImpl \<Rightarrow> pubkey \<Rightarrow> int res" where
  "getUserBalance ch self owner =
     rbind (getAssociatedTokenAccount ch (lpMint (am_poolState self)) owner) (\<lambda>account.
     Inr (case getParsedTokenAmount ch account of None \<Rightarrow> 0 | Some amount \<Rightarrow> amount))"

section \<open>Searches\<close>

definition searchPoolsByToken :: "chain \<Rightarrow> pubkey \<Rightarrow> (pubkey \<times> poolState) list" where
  "searchPoolsByToken ch tokenMint =
     (let poolsForTokenAMint = allPools ch [(8 + 32, toBuffer ch tokenMint)];
          poolsForTokenBMint = allPools ch [(8 + 32 + 32, toBuffer ch tokenMint)] in
      poolsForTokenAMint @ poolsForTokenBMint)"

definition getPoolConfigsWithPoolCreatorAuthority :: "chain \<Rightarrow> pubkey \<Rightarrow> (pubkey \<times> configAccount) list" where
  "getPoolConfigsWithPoolCreatorAuthority ch wallet = allConfigs ch [(8 + 72, toBuffer ch wallet)]"

text \<open>The map from pools to the user's escrows; a later escrow of the same pool replaces an earlier one.\<close>

text \<open>\<^verbatim>\<open>fetch\<close> of Anchor throws where there is no account.\<close>

definition getPoolConfig :: "chain \<Rightarrow> pubkey \<Rightarrow> configAccount res" where
  "getPoolConfig ch config =
     of_option (Error (''Account does not exist or has no data '' @ toBase58 config)) (fetchConfig ch config)"

definition getLockedLpAmountByUser :: "chain \<Rightarrow> pubkey \<Rightarrow> (pubkey \<rightharpoonup> lockEscrowAccount)" where
  "getLockedLpAmountByUser ch userPubKey =
     foldl (\<lambda>accMap (_, account). accMap(le_pool account \<mapsto> account)) (\<lambda>_. None)
       (allLockEscrows ch [(8 + 32, toBuffer ch userPubKey)])"

definition fetchMultipleUserBalance :: "chain \<Rightarrow> pubkey list \<Rightarrow> pubkey \<Rightarrow> int list res" where
  "fetchMultipleUserBalance ch lpMintList owner =
     rbind (rmap (\<lambda>m. getAssociatedTokenAccount ch m owner) lpMintList) (\<lambda>ataAccounts.
     rbind (chunkedGetMultipleAccountInfos ch ataAccounts 100) (\<lambda>accountsInfo.
     rmap (\<lambda>accountInfo. case accountInfo of
         None \<Rightarrow> Inr 0
       | Some data \<Rightarrow>
           rbind (deserializeAccount ch (Some data)) (\<lambda>accountBalance.
           of_option (Error ''Failed to parse user account for LP token.'') accountBalance))
       accountsInfo))"

lemma newAmmImpl_fields:
  "newAmmImpl V L prog cluster dep pool pp vaultA vaultB info = Inr amm \<Longrightarrow>
    am_address amm = pool \<and> am_vaultA amm = vaultA \<and> am_vaultB amm = vaultB \<and> am_tokenAMint amm = vi_tokenMint vaultA \<and>
    am_tokenBMint amm = vi_tokenMint vaultB \<and> am_program amm = ammProgramId prog \<and>
    am_vaultProgram amm = vaultProgramId prog \<and> am_cluster amm = cluster \<and> am_accountsInfo amm = info"
  by (auto simp: newAmmImpl_def Let_def case_prod_unfold setCurve_def)

section \<open>What a read returns\<close>

text \<open>
  The tables of fetched accounts give, for every listed account, its contents on the chain
  decoded by its type. An account listed twice with different types would be decoded by the
  last one, so the kinds of the listed accounts have to agree.
\<close>

datatype accountKind = TokenAccount | MintAccount | ClockAccount | NoDecoder

fun kindOf :: "accountType \<Rightarrow> accountKind" where
  "kindOf APY = NoDecoder"
| "kindOf VAULT_A_RESERVE = TokenAccount"
| "kindOf VAULT_B_RESERVE = TokenAccount"
| "kindOf VAULT_A_LP = MintAccount"
| "kindOf VAULT_B_LP = MintAccount"
| "kindOf POOL_VAULT_A_LP = TokenAccount"
| "kindOf POOL_VAULT_B_LP = TokenAccount"
| "kindOf POOL_LP_MINT = MintAccount"
| "kindOf SYSVAR_CLOCK = ClockAccount"

lemma decode_by_kind: "kindOf t = kindOf t' \<Longrightarrow> decodeAccountTypeMapper ch t = decodeAccountTypeMapper ch t'"
  by (cases t; cases t') (auto simp: decodeAccountTypeMapper_def fun_eq_iff)

definition accountOf :: "chain \<Rightarrow> accountType \<Rightarrow> pubkey \<Rightarrow> int res" where
  "accountOf ch t k = rbind (of_option TypeError (getAccountInfo ch k)) (decodeAccountTypeMapper ch t)"

definition clockOf :: "chain \<Rightarrow> (int \<times> int) res" where
  "clockOf ch =
     rbind (of_option TypeError (getAccountInfo ch SYSVAR_CLOCK_PUBKEY)) (\<lambda>data.
     rbind (layout_decode_u64 ClockLayout data ''slot'') (\<lambda>slot.
     rbind (layout_decode_i64 ClockLayout data ''unixTimestamp'') (\<lambda>unixTimestamp.
     Inr (slot, unixTimestamp))))"

definition bufferOf ::
  "chain \<Rightarrow> (pubkey \<times> accountTypeInfo) list \<Rightarrow> (accountType \<times> pubkey) list \<Rightarrow> (pubkey \<times> accountTypeInfo) list" where
  "bufferOf ch = foldl (\<lambda>m (t, k). AList.update k (t, getAccountInfo ch k) m)"

lemma bufferOf_distinct: "distinct (map fst m) \<Longrightarrow> distinct (map fst (bufferOf ch m ats))"
  unfolding bufferOf_def by (induction ats arbitrary: m) (auto simp: distinct_update)

lemma bufferOf_lookup:
  "(\<exists>t. (t, k) \<in> set ats \<and> map_of (bufferOf ch m ats) k = Some (t, getAccountInfo ch k)) \<or>
   k \<notin> snd ` set ats \<and> map_of (bufferOf ch m ats) k = map_of m k"
  unfolding bufferOf_def
proof (induction ats arbitrary: m)
  case (Cons a ats)
  obtain t k' where a: "a = (t, k')" by fastforce
  from Cons [of "AList.update k' (t, getAccountInfo ch k') m"] show ?case
    by (elim disjE exE conjE) (auto simp: a update_conv')
qed simp

lemma bufferOf_listed:
  "(t, k) \<in> set ats \<Longrightarrow> \<exists>t'. (t', k) \<in> set ats \<and> map_of (bufferOf ch m ats) k = Some (t', getAccountInfo ch k)"
  using bufferOf_lookup [of k ats ch m] by force

lemma bufferOf_set:
  assumes "(k, e) \<in> set (bufferOf ch [] ats)"
  shows "\<exists>t. (t, k) \<in> set ats \<and> e = (t, getAccountInfo ch k)"
proof -
  have "map_of (bufferOf ch [] ats) k = Some e"
    using assms bufferOf_distinct [of "[]" ch ats] by (intro map_of_is_SomeI) auto
  with bufferOf_lookup [of k ats ch "[]"] show ?thesis by auto
qed

lemma deserialize_unlisted:
  "deserializeAccountsBuffer_from ch acc m = Inr r \<Longrightarrow> k \<notin> fst ` set m \<Longrightarrow> map_of r k = map_of acc k"
  by (induction ch acc m rule: deserializeAccountsBuffer_from.induct) (auto simp: update_conv')

lemma deserialize_lookup:
  "deserializeAccountsBuffer_from ch acc m = Inr r \<Longrightarrow> distinct (map fst m) \<Longrightarrow> (k, t, a) \<in> set m \<Longrightarrow>
    \<exists>d n. a = Some d \<and> decodeAccountTypeMapper ch t d = Inr n \<and> map_of r k = Some n"
proof (induction ch acc m rule: deserializeAccountsBuffer_from.induct)
  case (2 ch acc key t' account rest)
  then obtain d n where dn: "account = Some d" "decodeAccountTypeMapper ch t' d = Inr n"
      "deserializeAccountsBuffer_from ch (AList.update key n acc) rest = Inr r" by auto
  show ?case
  proof (cases "k = key")
    case True
    then have "(k, t, a) \<notin> set rest" using 2(3) by force
    then have "t = t'" "a = account" using 2(4) True by auto
    then show ?thesis using dn deserialize_unlisted [OF dn(3), of k] 2(3) True by (auto simp: update_conv')
  next
    case False
    then show ?thesis using 2(1) [OF _ _ dn(3)] dn 2(3,4) by auto
  qed
qed simp

lemma deserialize_total:
  assumes "\<forall>(k, t, a) \<in> set m. \<exists>d n. a = Some d \<and> decodeAccountTypeMapper ch t d = Inr n"
  shows "\<exists>r. deserializeAccountsBuffer_from ch acc m = Inr r"
  using assms by (induction ch acc m rule: deserializeAccountsBuffer_from.induct) auto

definition typed :: "(pubkey \<Rightarrow> accountKind) \<Rightarrow> (accountType \<times> pubkey) list \<Rightarrow> bool" where
  "typed kind ats \<longleftrightarrow> list_all (\<lambda>(t, k). kind k = kindOf t) ats"

lemma typed_decoder:
  "typed kind ats \<Longrightarrow> (t, k) \<in> set ats \<Longrightarrow> (t', k) \<in> set ats \<Longrightarrow>
    decodeAccountTypeMapper ch t = decodeAccountTypeMapper ch t'"
  by (rule decode_by_kind) (metis (mono_tags, lifting) case_prod_conv list_all_iff typed_def)

context chain_laws
begin

lemma accounts_buffer: "getAccountsBuffer ch ats = Inr (bufferOf ch [] ats)"
proof -
  have "foldl (\<lambda>m ((t, k), i). AList.update k (t, i) m) m (zip ats (map (getAccountInfo ch) (map snd ats))) = bufferOf ch m ats" for m
    unfolding bufferOf_def by (induction ats arbitrary: m) auto
  then show ?thesis by (simp add: getAccountsBuffer_def chunked_infos)
qed

lemma clock_read:
  assumes "(SYSVAR_CLOCK, SYSVAR_CLOCK_PUBKEY) \<in> set ats"
  shows "decodeClock (bufferOf ch [] ats) = clockOf ch"
proof -
  obtain t where "map_of (bufferOf ch [] ats) SYSVAR_CLOCK_PUBKEY = Some (t, getAccountInfo ch SYSVAR_CLOCK_PUBKEY)"
    using bufferOf_listed [OF assms] by blast
  then show ?thesis by (simp add: decodeClock_def clockOf_def)
qed

lemma table_lookup:
  assumes "deserializeAccountsBuffer ch (bufferOf ch [] ats) = Inr r" "typed kind ats" "(t, k) \<in> set ats"
  shows "\<exists>n. accountOf ch t k = Inr n \<and> map_of r k = Some n"
proof -
  obtain t' where t': "(t', k) \<in> set ats" "map_of (bufferOf ch [] ats) k = Some (t', getAccountInfo ch k)"
    using bufferOf_listed [OF assms(3)] by blast
  then show ?thesis
    using deserialize_lookup [OF assms(1) [unfolded deserializeAccountsBuffer_def] _ map_of_SomeD [OF t'(2)]]
      bufferOf_distinct [of "[]" ch ats] typed_decoder [OF assms(2,3) t'(1), of ch]
    by (auto simp: accountOf_def)
qed

lemma table_total:
  assumes "\<forall>(t, k) \<in> set ats. \<exists>n. accountOf ch t k = Inr n"
  shows "\<exists>r. deserializeAccountsBuffer ch (bufferOf ch [] ats) = Inr r"
  unfolding deserializeAccountsBuffer_def
proof (rule deserialize_total, clarify)
  fix k t a assume "(k, t, a) \<in> set (bufferOf ch [] ats)"
  then have "(t, k) \<in> set ats" "a = getAccountInfo ch k" using bufferOf_set by fastforce+
  then show "\<exists>d n. a = Some d \<and> decodeAccountTypeMapper ch t d = Inr n"
    using assms by (fastforce simp: accountOf_def)
qed

end

definition loadedInfo :: "chain \<Rightarrow> vaultImpl \<Rightarrow> vaultImpl \<Rightarrow> poolState \<Rightarrow> int \<times> int \<Rightarrow> accountsInfo res" where
  "loadedInfo ch vaultA vaultB ps clock =
     rbind (rmap (\<lambda>(t, k). accountOf ch t k) (poolAccountTypes vaultA vaultB ps)) (\<lambda>ns.
     Inr \<lparr>vaultAReserve = ns ! 0, vaultBReserve = ns ! 1, vaultALpSupply = ns ! 2, vaultBLpSupply = ns ! 3,
          poolVaultALp = ns ! 4, poolVaultBLp = ns ! 5, poolLpSupply = ns ! 6,
          currentTime = snd clock, currentSlot = fst clock\<rparr>)"

lemma rmap_Inr_all: "(\<exists>ys. rmap f xs = Inr ys) \<longleftrightarrow> (\<forall>x \<in> set xs. \<exists>y. f x = Inr y)"
  by (induction xs) auto

context chain_laws
begin

lemma accountsInfo_read:
  assumes r: "deserializeAccountsBuffer ch (bufferOf ch [] ats) = Inr r" and kind: "typed kind ats"
    and listed: "set (poolAccountTypes vaultA vaultB ps) \<subseteq> set ats"
  shows "accountsInfoOf r (poolAccountTypes vaultA vaultB ps) clock = loadedInfo ch vaultA vaultB ps clock"
proof -
  have "\<forall>a \<in> set (poolAccountTypes vaultA vaultB ps).
      \<exists>n. accountOf ch (fst a) (snd a) = Inr n \<and> map_of r (snd a) = Some n"
    using table_lookup [OF r kind] listed by force
  then show ?thesis
    by (simp add: poolAccountTypes_def loadedInfo_def accountsInfoOf_def) (elim conjE exE, simp)
qed

lemma readPoolAccounts_eq:
  assumes "typed kind (poolAccountTypes vaultA vaultB ps @ [(SYSVAR_CLOCK, SYSVAR_CLOCK_PUBKEY)])"
  shows "readPoolAccounts ch vaultA vaultB ps = Inr info \<longleftrightarrow>
    (\<exists>clock. clockOf ch = Inr clock \<and> (\<exists>n. accountOf ch SYSVAR_CLOCK SYSVAR_CLOCK_PUBKEY = Inr n) \<and>
      loadedInfo ch vaultA vaultB ps clock = Inr info)"
    (is "_ \<longleftrightarrow> ?R")
proof -
  let ?ats = "poolAccountTypes vaultA vaultB ps @ [(SYSVAR_CLOCK, SYSVAR_CLOCK_PUBKEY)]"
  have clock: "decodeClock (bufferOf ch [] ?ats) = clockOf ch" by (rule clock_read) simp
  have info: "accountsInfoOf r (poolAccountTypes vaultA vaultB ps) c = loadedInfo ch vaultA vaultB ps c"
    if "deserializeAccountsBuffer ch (bufferOf ch [] ?ats) = Inr r" for r c
    using that by (rule accountsInfo_read [OF _ assms]) auto
  have "readPoolAccounts ch vaultA vaultB ps = Inr info \<longleftrightarrow>
      (\<exists>r. deserializeAccountsBuffer ch (bufferOf ch [] ?ats) = Inr r \<and>
        (\<exists>c. clockOf ch = Inr c \<and> loadedInfo ch vaultA vaultB ps c = Inr info))"
    using info clock by (auto simp: readPoolAccounts_def accounts_buffer)
  also have "\<dots> \<longleftrightarrow> ?R"
  proof
    assume "\<exists>r. deserializeAccountsBuffer ch (bufferOf ch [] ?ats) = Inr r \<and>
        (\<exists>c. clockOf ch = Inr c \<and> loadedInfo ch vaultA vaultB ps c = Inr info)"
    then show ?R using table_lookup [OF _ assms, of _ SYSVAR_CLOCK SYSVAR_CLOCK_PUBKEY] by auto
  next
    assume R: ?R
    then have "\<forall>(t, k) \<in> set ?ats. \<exists>n. accountOf ch t k = Inr n"
      using rmap_Inr_all [of "\<lambda>(t, k). accountOf ch t k" "poolAccountTypes vaultA vaultB ps"]
      by (auto simp: loadedInfo_def)
    then show "\<exists>r. deserializeAccountsBuffer ch (bufferOf ch [] ?ats) = Inr r \<and>
        (\<exists>c. clockOf ch = Inr c \<and> loadedInfo ch vaultA vaultB ps c = Inr info)"
      using table_total R by blast
  qed
  finally show ?thesis .
qed

end

context vault_package
begin

lemma create_eq:
  "create ch V L pool programId None cluster =
    rbind (getPoolState ch pool) (\<lambda>(ps, supp).
    rbind (loadVault (aVault ps)) (\<lambda>vaultA.
    rbind (loadVault (bVault ps)) (\<lambda>vaultB.
    rbind (readPoolAccounts ch vaultA vaultB ps) (\<lambda>info.
    rbind (getDepegAccounts ch [ps]) (\<lambda>dep.
    newAmmImpl V L (createProgram ch programId) (case cluster of Some c \<Rightarrow> c | None \<Rightarrow> ''mainnet-beta'') dep pool
      (ps, supp) vaultA vaultB info)))))"
  by (simp add: create_def Let_def create_multiple rbind_assoc)

text \<open>Refreshing an object and loading its pool anew give the same result, errors included.\<close>

lemma updateState_create:
  assumes ps: "getPoolState ch (am_address self) = Inr (ps, supp)"
    and A: "loadVault (aVault ps) = Inr vaultA" "vi_vaultPda (am_vaultA self) = aVault ps" "vi_tokenMint (am_vaultA self) = vi_tokenMint vaultA"
    and B: "loadVault (bVault ps) = Inr vaultB" "vi_vaultPda (am_vaultB self) = bVault ps" "vi_tokenMint (am_vaultB self) = vi_tokenMint vaultB"
    and mints: "am_tokenAMint self = vi_tokenMint vaultA" "am_tokenBMint self = vi_tokenMint vaultB"
    and prog: "am_program self = ammProgramId (createProgram ch programId)" "am_vaultProgram self = vaultProgramId (createProgram ch programId)"
  shows "create ch V L (am_address self) programId None (Some (am_cluster self)) =
    (case updateState ch V L self of (self', Inr _) \<Rightarrow> Inr self' | (_, Inl e) \<Rightarrow> Inl e)"
proof -
  have ref: "refreshVaultState ch (am_vaultA self) = Inr vaultA" "refreshVaultState ch (am_vaultB self) = Inr vaultB"
    using A B by (auto intro: refreshed)
  note defs = create_eq updateState_def ps ref A(1) B(1) Let_def
  show ?thesis
  proof (cases "readPoolAccounts ch vaultA vaultB ps")
    case read: (Inr info)
    show ?thesis
    proof (cases "getDepegAccounts ch [ps]")
      case dep: (Inr dep)
      show ?thesis
      proof (cases "newSwapCurve ps dep (currentTime info)")
        case curve: (Inr curve)
        show ?thesis
          by (cases "poolInfoOf V L info curve vaultA vaultB")
            (auto simp: defs read dep curve newAmmImpl_def setCurve_def mints prog intro: ammImpl.equality)
      qed (simp add: defs read dep newAmmImpl_def)
    qed (simp add: defs read)
  qed (simp add: defs)
qed

end

section \<open>Loading several pools is loading each\<close>

text \<open>
  Loaded together, the pools share one table of stake accounts, of which each curve only looks
  up its own. \<open>forgetAccounts\<close> drops the table from an object.
\<close>

definition dropAccounts :: "swapCurve \<Rightarrow> swapCurve" where
  "dropAccounts curve = (case curve of StableSwap s \<Rightarrow> StableSwap (s\<lparr>ss_extraAccounts := Map.empty\<rparr>) | c \<Rightarrow> c)"

definition forgetAccounts :: "ammImpl \<Rightarrow> ammImpl" where
  "forgetAccounts self = self\<lparr>am_depegAccounts := Map.empty, am_swapCurve := dropAccounts (am_swapCurve self)\<rparr>"

definition stakeAccount :: "stableSwap \<Rightarrow> pubkey option" where
  "stakeAccount s =
     (case depegType (ss_depeg s) of
        DepegNone \<Rightarrow> None
      | DepegMarinade \<Rightarrow> Some CURVE_TYPE_ACCOUNTS_marinade
      | DepegLido \<Rightarrow> Some CURVE_TYPE_ACCOUNTS_lido
      | DepegSplStake \<Rightarrow> Some (ss_stakePoolPubkey s))"

lemma update_with_accounts:
  assumes "\<And>k. stakeAccount s = Some k \<Longrightarrow> accs k = ss_extraAccounts s k"
  shows "updateDepegInfoIfExpired L (s\<lparr>ss_extraAccounts := accs\<rparr>) =
    rbind (updateDepegInfoIfExpired L s) (\<lambda>s'. Inr (s'\<lparr>ss_extraAccounts := accs\<rparr>))"
proof -
  have "getBasePoolVirtualPrice L (s\<lparr>ss_extraAccounts := accs\<rparr>) (depegType (ss_depeg s)) =
      getBasePoolVirtualPrice L s (depegType (ss_depeg s))"
    using assms by (auto simp: getBasePoolVirtualPrice_def stakeAccount_def split: depegType.splits)
  then show ?thesis
    by (auto simp: updateDepegInfoIfExpired_def isDepeg_def rbind_def split: sum.splits)
qed

lemma scale_with_accounts [simp]:
  "scaleA (s\<lparr>ss_extraAccounts := accs\<rparr>) = scaleA s"
  "scaleB (s\<lparr>ss_extraAccounts := accs\<rparr>) = scaleB s"
  "isDepeg (s\<lparr>ss_extraAccounts := accs\<rparr>) = isDepeg s"
  by (simp_all add: scaleA_def scaleB_def isDepeg_def)

lemma poolInfo_with_accounts:
  assumes "\<And>k. stakeAccount s = Some k \<Longrightarrow> accs k = ss_extraAccounts s k"
  shows "rbind (poolInfoOf V L info (StableSwap (s\<lparr>ss_extraAccounts := accs\<rparr>)) vaultA vaultB) (\<lambda>(c, i). Inr (dropAccounts c, i)) =
    rbind (poolInfoOf V L info (StableSwap s) vaultA vaultB) (\<lambda>(c, i). Inr (dropAccounts c, i))"
proof -
  have D: "rbind (curve_computeD L (StableSwap (s\<lparr>ss_extraAccounts := accs\<rparr>)) a b) f =
      rbind (curve_computeD L (StableSwap s) a b) f"
    if "\<And>c d. f (StableSwap (c\<lparr>ss_extraAccounts := accs\<rparr>), d) = f (StableSwap c, d)" for a b and f :: "swapCurve \<times> int \<Rightarrow> 'z res"
  proof -
    have u: "updateDepegInfoIfExpired L (s\<lparr>ss_extraAccounts := accs\<rparr>) =
        rbind (updateDepegInfoIfExpired L s) (\<lambda>s'. Inr (s'\<lparr>ss_extraAccounts := accs\<rparr>))"
      using assms by (rule update_with_accounts)
    show ?thesis
      by (auto simp: curve_computeD_def SS_computeD_def u rbind_def that split: sum.splits)
  qed
  show ?thesis
    unfolding poolInfoOf_def calculatePoolInfo_def Let_def rbind_assoc
    by (rule rbind_cong [OF refl], rule rbind_cong [OF refl], rule rbind_cong [OF refl], rule D)
      (simp add: rbind_assoc dropAccounts_def)
qed

lemma dropAccounts_simps [simp]:
  "store_depeg (dropAccounts c) t = store_depeg c t" "dropAccounts (dropAccounts c) = dropAccounts c"
  by (auto simp: dropAccounts_def store_depeg_def split: swapCurve.splits curveType.splits)

lemma newAmmImpl_with_accounts:
  assumes "\<And>k. getStakePubkey ps = Some k \<Longrightarrow> accs k = accs' k"
  shows "rbind (newAmmImpl V L prog cluster accs pool (ps, supp) vaultA vaultB info) (\<lambda>a. Inr (forgetAccounts a)) =
    rbind (newAmmImpl V L prog cluster accs' pool (ps, supp) vaultA vaultB info) (\<lambda>a. Inr (forgetAccounts a))"
proof (cases "curveType ps")
  case ConstantProductCurve
  then show ?thesis
    by (simp add: newAmmImpl_def newSwapCurve_def rbind_assoc forgetAccounts_def setCurve_def case_prod_unfold)
next
  case (StableSwapCurve c)
  let ?s = "\<lambda>a. \<lparr>ss_amp = a, ss_tokenMultiplier = curveTokenMultiplier c, ss_depeg = curveDepeg c,
          ss_extraAccounts = accs', ss_onChainTime = currentTime info, ss_stakePoolPubkey = stake ps\<rparr>"
  have key: "stakeAccount (?s a) = getStakePubkey ps" for a
    by (simp add: stakeAccount_def getStakePubkey_def StableSwapCurve split: depegType.splits)
  let ?final = "\<lambda>(c, i). Inr (forgetAccounts (setCurve c \<lparr>am_address = pool, am_program = ammProgramId prog,
      am_vaultProgram = vaultProgramId prog, am_tokenAMint = vi_tokenMint vaultA, am_tokenBMint = vi_tokenMint vaultB,
      am_poolState = ps, am_lpSupply = supp, am_poolInfo = i, am_vaultA = vaultA, am_vaultB = vaultB,
      am_accountsInfo = info, am_swapCurve = ConstantProductSwap, am_depegAccounts = Map.empty, am_cluster = cluster\<rparr>))"
  have final: "rbind (newAmmImpl V L prog cluster x pool (ps, supp) vaultA vaultB info) (\<lambda>a. Inr (forgetAccounts a)) =
      rbind (bn_toNumber (amp c)) (\<lambda>a.
      rbind (rbind (poolInfoOf V L info (StableSwap ((?s a)\<lparr>ss_extraAccounts := x\<rparr>)) vaultA vaultB)
        (\<lambda>(c, i). Inr (dropAccounts c, i))) ?final)" for x
    by (simp add: newAmmImpl_def newSwapCurve_def newStableSwap_def StableSwapCurve rbind_assoc forgetAccounts_def
        setCurve_def case_prod_unfold Let_def)
  show ?thesis unfolding final
  proof (rule rbind_cong [OF refl], rule rbind_cong [OF _ refl])
    fix a
    have "stakeAccount (?s a) = Some k \<Longrightarrow> accs k = ss_extraAccounts (?s a) k" for k using assms key by simp
    then show "rbind (poolInfoOf V L info (StableSwap ((?s a)\<lparr>ss_extraAccounts := accs\<rparr>)) vaultA vaultB)
        (\<lambda>(c, i). Inr (dropAccounts c, i)) =
      rbind (poolInfoOf V L info (StableSwap ((?s a)\<lparr>ss_extraAccounts := accs'\<rparr>)) vaultA vaultB)
        (\<lambda>(c, i). Inr (dropAccounts c, i))"
      using poolInfo_with_accounts [of "?s a" accs V L info vaultA vaultB] by simp
  qed
qed

text \<open>With one LP mint per pool, every object is built from its own entry.\<close>

lemma createAll_entries:
  assumes "distinct (map (lpMint \<circ> pid_poolState) es)"
    and "\<And>e. e \<in> set es \<Longrightarrow> m (lpMint (pid_poolState e)) = Some e"
  shows "createAll V L prog cluster dep r clock m (map entryAccounts es) =
    rmap (\<lambda>e. rbind (accountsInfoOf r (entryAccounts e) clock) (\<lambda>info.
      newAmmImpl V L prog cluster dep (pid_pool e) (pid_poolState e, pid_lpSupply e) (pid_vaultA e) (pid_vaultB e) info)) es"
  using assms
proof (induction es arbitrary: m)
  case (Cons e es)
  have last: "snd (last (entryAccounts e)) = lpMint (pid_poolState e)"
    by (simp add: entryAccounts_def poolAccountTypes_def)
  have "(m(lpMint (pid_poolState e) \<mapsto> e\<lparr>pid_poolState := x\<rparr>)) (lpMint (pid_poolState e')) = Some e'"
    if "e' \<in> set es" for e' x
  proof -
    have "lpMint (pid_poolState e) \<notin> (lpMint \<circ> pid_poolState) ` set es" using Cons.prems(1) by simp
    then have "lpMint (pid_poolState e') \<noteq> lpMint (pid_poolState e)"
      using imageI [OF that, of "lpMint \<circ> pid_poolState"] by (metis comp_apply)
    then show ?thesis using Cons.prems(2) [of e'] that by simp
  qed
  then have "createAll V L prog cluster dep r clock (m(lpMint (pid_poolState e) \<mapsto> e\<lparr>pid_poolState := x\<rparr>)) (map entryAccounts es) =
    rmap (\<lambda>e. rbind (accountsInfoOf r (entryAccounts e) clock) (\<lambda>info.
      newAmmImpl V L prog cluster dep (pid_pool e) (pid_poolState e, pid_lpSupply e) (pid_vaultA e) (pid_vaultB e) info)) es" for x
    using Cons.prems(1) by (intro Cons.IH) auto
  then show ?case using Cons.prems(2) [of e] by (simp add: last Let_def rbind_assoc)
qed simp

lemma entry_map_lookup:
  "distinct (map f es) \<Longrightarrow> e \<in> set es \<Longrightarrow> foldl (\<lambda>m e. m(f e \<mapsto> e)) m0 es (f e) = Some e"
proof (induction es rule: rev_induct)
  case (snoc x es)
  then show ?case by (cases "e = x") (auto simp: image_iff)
qed simp

lemma rmap_map: "rmap f (map g xs) = rmap (f \<circ> g) xs"
  by (induction xs) auto

lemma rmap_Inr_mono: "(\<And>x y. x \<in> set xs \<Longrightarrow> f x = Inr y \<Longrightarrow> g x = Inr y) \<Longrightarrow> rmap f xs = Inr ys \<Longrightarrow> rmap g xs = Inr ys"
  by (induction xs arbitrary: ys) auto

lemma map_filter_full: "length (List.map_filter f xs) = length xs \<Longrightarrow> List.map_filter f xs = map (the \<circ> f) xs \<and> (\<forall>x \<in> set xs. f x \<noteq> None)"
proof (induction xs)
  case (Cons x xs)
  have "length (List.map_filter f xs) \<le> length xs" by (simp add: List.map_filter_def)
  with Cons show ?case by (cases "f x") (auto simp: List.map_filter_simps)
qed (simp add: List.map_filter_simps)

definition poolStateFrom :: "chain \<Rightarrow> pubkey \<Rightarrow> (poolState \<times> int) res" where
  "poolStateFrom ch p =
     rbind (of_option (Invariant ERROR_INVALID_ACCOUNT) (getAccountInfo ch (lpMint (the (fetchPool ch p))))) (\<lambda>account.
     rbind (mintSupply ch account) (\<lambda>lpSupply. Inr (the (fetchPool ch p), lpSupply)))"

context vault_package
begin

lemma getAllPoolState_eq:
  assumes "List.map_filter (fetchPool ch) pools = map (the \<circ> fetchPool ch) pools"
  shows "getAllPoolState ch pools = rmap (poolStateFrom ch) pools"
  by (simp add: getAllPoolState_def chunked_pools assms chunked_infos zip_map_map rmap_map zip_same_conv_map comp_def
      poolStateFrom_def [abs_def])

lemma all_pool_states:
  assumes "getAllPoolState ch pools = Inr pss"
  shows "rmap (getPoolState ch) pools = Inr pss"
proof -
  have full: "List.map_filter (fetchPool ch) pools = map (the \<circ> fetchPool ch) pools" "\<forall>p \<in> set pools. fetchPool ch p \<noteq> None"
    using assms map_filter_full [of "fetchPool ch" pools] by (auto simp: getAllPoolState_def chunked_pools)
  have "rmap (poolStateFrom ch) pools = Inr pss" using assms getAllPoolState_eq [OF full(1)] by simp
  then show ?thesis
  proof (rule rmap_Inr_mono [rotated])
    fix p y assume "p \<in> set pools" "poolStateFrom ch p = Inr y"
    then show "getPoolState ch p = Inr y"
      using full(2) token_supply by (auto simp: getPoolState_def poolStateFrom_def)
  qed
qed

lemma find_vault:
  assumes "rmap loadVault ks = Inr vs" "List.find (\<lambda>v. vi_vaultPda v = k) vs = Some v"
  shows "loadVault k = Inr v"
proof -
  obtain i where i: "i < length vs" "vs ! i = v" "vi_vaultPda v = k"
    using assms(2) by (auto simp: find_Some_iff)
  then have "loadVault (ks ! i) = Inr v"
    using rmap_Inr_nth [OF assms(1)] rmap_Inr_length [OF assms(1)] by auto
  then show ?thesis using loaded_pda i(3) by metis
qed

end

definition accounts_typed :: "chain \<Rightarrow> (pubkey \<Rightarrow> vaultImpl res) \<Rightarrow> (pubkey \<Rightarrow> accountKind) \<Rightarrow> pubkey list \<Rightarrow> bool" where
  "accounts_typed ch load kind pools \<longleftrightarrow>
     kind SYSVAR_CLOCK_PUBKEY = ClockAccount \<and>
     (\<forall>p \<in> set pools. \<forall>ps vaultA vaultB. fetchPool ch p = Some ps \<longrightarrow> load (aVault ps) = Inr vaultA \<longrightarrow>
       load (bVault ps) = Inr vaultB \<longrightarrow> typed kind (poolAccountTypes vaultA vaultB ps))"

lemma rmap_related:
  assumes "length as = length xs" "\<And>i. i < length xs \<Longrightarrow> \<exists>b. f (xs ! i) = Inr b \<and> h (as ! i) = h b"
  shows "\<exists>bs. rmap f xs = Inr bs \<and> map h as = map h bs"
  using assms
proof (induction as xs rule: list_induct2)
  case (Cons a as x xs)
  have "\<exists>b. f x = Inr b \<and> h a = h b" using Cons.prems [of 0] by simp
  moreover have "\<exists>bs. rmap f xs = Inr bs \<and> map h as = map h bs"
    using Cons.prems by (intro Cons.IH) force
  ultimately show ?case by auto
qed simp

context vault_package
begin

lemma own_account:
  assumes "getDepegAccounts ch pss = Inr dep" "ps \<in> set pss" "getStakePubkey ps = Some k"
  shows "dep k = getAccountInfo ch k"
proof -
  have "k \<in> set (List.map_filter getStakePubkey pss)"
    using assms(2,3) by (auto simp: List.map_filter_def intro!: rev_image_eqI [of ps])
  then show ?thesis using assms(1) by (auto simp: depeg_accounts)
qed

text \<open>One pool of a joint load, from the tables of the joint load.\<close>

lemma joint_load_one:
  assumes typed: "typed kind ats" "set (poolAccountTypes vaultA vaultB ps) \<subseteq> set ats"
      "(SYSVAR_CLOCK, SYSVAR_CLOCK_PUBKEY) \<in> set ats"
    and r: "deserializeAccountsBuffer ch (bufferOf ch [] ats) = Inr r" and clock: "clockOf ch = Inr clock"
    and pool: "getPoolState ch pool = Inr (ps, supp)" "loadVault (aVault ps) = Inr vaultA" "loadVault (bVault ps) = Inr vaultB"
    and dep: "getDepegAccounts ch pss = Inr dep" "ps \<in> set pss"
    and a: "rbind (accountsInfoOf r (poolAccountTypes vaultA vaultB ps) clock)
        (newAmmImpl V L (createProgram ch programId) (case cluster of Some c \<Rightarrow> c | None \<Rightarrow> ''mainnet-beta'') dep pool
          (ps, supp) vaultA vaultB) = Inr a"
  shows "\<exists>b. create ch V L pool programId None cluster = Inr b \<and> forgetAccounts a = forgetAccounts b"
proof -
  let ?new = "newAmmImpl V L (createProgram ch programId) (case cluster of Some c \<Rightarrow> c | None \<Rightarrow> ''mainnet-beta'')"
  obtain info where info: "loadedInfo ch vaultA vaultB ps clock = Inr info"
      "?new dep pool (ps, supp) vaultA vaultB info = Inr a"
    using a accountsInfo_read [OF r typed(1,2)] by auto
  have "typed kind (poolAccountTypes vaultA vaultB ps @ [(SYSVAR_CLOCK, SYSVAR_CLOCK_PUBKEY)])"
    using typed by (auto simp: typed_def list_all_iff)
  moreover have "\<exists>n. accountOf ch SYSVAR_CLOCK SYSVAR_CLOCK_PUBKEY = Inr n"
    using table_lookup [OF r typed(1,3)] by blast
  ultimately have read: "readPoolAccounts ch vaultA vaultB ps = Inr info"
    using readPoolAccounts_eq clock info(1) by blast
  obtain dep' where dep': "getDepegAccounts ch [ps] = Inr dep'" using depeg_accounts by blast
  have same: "dep k = dep' k" if "getStakePubkey ps = Some k" for k
    using own_account [OF dep that] own_account [OF dep' _ that] by simp
  have "rbind (?new dep pool (ps, supp) vaultA vaultB info) (\<lambda>a. Inr (forgetAccounts a)) =
      rbind (?new dep' pool (ps, supp) vaultA vaultB info) (\<lambda>a. Inr (forgetAccounts a))"
    by (rule newAmmImpl_with_accounts) (rule same)
  then have "\<exists>b. ?new dep' pool (ps, supp) vaultA vaultB info = Inr b \<and> forgetAccounts a = forgetAccounts b"
    using info(2) by (cases "?new dep' pool (ps, supp) vaultA vaultB info") auto
  then show ?thesis by (simp add: create_eq pool read dep')
qed

lemma poolEntry_facts:
  assumes "rmap loadVault ks = Inr vs" "poolEntry vs pool (ps, supp) = Inr e"
  shows "pid_pool e = pool \<and> pid_poolState e = ps \<and> pid_lpSupply e = supp \<and>
    loadVault (aVault ps) = Inr (pid_vaultA e) \<and> loadVault (bVault ps) = Inr (pid_vaultB e)"
  using assms(2) find_vault [OF assms(1)] by (auto simp: poolEntry_def)

lemma joint_entries:
  assumes pss: "rmap (getPoolState ch) pools = Inr pss" and vs: "rmap loadVault ks = Inr vs"
    and es: "rmap (\<lambda>(pool, s). poolEntry vs pool s) (zip pools pss) = Inr es" and i: "i < length pools"
  shows "pid_pool (es ! i) = pools ! i \<and> (pid_poolState (es ! i), pid_lpSupply (es ! i)) = pss ! i \<and>
    getPoolState ch (pools ! i) = Inr (pid_poolState (es ! i), pid_lpSupply (es ! i)) \<and>
    fetchPool ch (pools ! i) = Some (pid_poolState (es ! i)) \<and>
    loadVault (aVault (pid_poolState (es ! i))) = Inr (pid_vaultA (es ! i)) \<and>
    loadVault (bVault (pid_poolState (es ! i))) = Inr (pid_vaultB (es ! i))"
proof -
  obtain ps supp where s: "pss ! i = (ps, supp)" by fastforce
  have "poolEntry vs (pools ! i) (ps, supp) = Inr (es ! i)"
    using rmap_Inr_nth [OF es, of i] i rmap_Inr_length [OF pss] s by simp
  with poolEntry_facts [OF vs this] rmap_Inr_nth [OF pss i] s show ?thesis
    by (auto simp: getPoolState_def)
qed

lemma joint_lists:
  assumes typed: "accounts_typed ch loadVault kind pools"
    and mints: "distinct (map (\<lambda>p. map_option lpMint (fetchPool ch p)) pools)"
    and pss: "rmap (getPoolState ch) pools = Inr pss" and vs: "rmap loadVault ks = Inr vs"
    and es: "rmap (\<lambda>(pool, s). poolEntry vs pool s) (zip pools pss) = Inr es"
  shows "length pss = length pools" "length es = length pools" "distinct (map (lpMint \<circ> pid_poolState) es)"
    "typed kind (concat (map entryAccounts es) @ [(SYSVAR_CLOCK, SYSVAR_CLOCK_PUBKEY)])"
proof -
  note entry = joint_entries [OF pss vs es]
  show len: "length pss = length pools" "length es = length pools"
    using rmap_Inr_length [OF pss] rmap_Inr_length [OF es] by auto
  have "map (\<lambda>p. map_option lpMint (fetchPool ch p)) pools = map Some (map (lpMint \<circ> pid_poolState) es)"
    using entry len by (intro nth_equalityI) auto
  then show "distinct (map (lpMint \<circ> pid_poolState) es)" using mints by (metis distinct_map)
  have "typed kind (entryAccounts e)" if e: "e \<in> set es" for e
  proof -
    obtain i where "i < length pools" "es ! i = e" using e len by (auto simp: in_set_conv_nth)
    then show ?thesis using typed entry [of i] nth_mem [of i pools] unfolding accounts_typed_def entryAccounts_def by blast
  qed
  then show "typed kind (concat (map entryAccounts es) @ [(SYSVAR_CLOCK, SYSVAR_CLOCK_PUBKEY)])"
    using typed by (auto simp: typed_def list_all_iff accounts_typed_def)
qed

text \<open>All pools of a joint load.\<close>

lemma createMultiple_create:
  assumes typed: "accounts_typed ch loadVault kind pools"
    and mints: "distinct (map (\<lambda>p. map_option lpMint (fetchPool ch p)) pools)"
    and as: "createMultiple ch V L pools programId cluster = Inr as"
  shows "\<exists>bs. rmap (\<lambda>p. create ch V L p programId None cluster) pools = Inr bs \<and> map forgetAccounts as = map forgetAccounts bs"
proof -
  let ?new = "newAmmImpl V L (createProgram ch programId) (case cluster of Some c \<Rightarrow> c | None \<Rightarrow> ''mainnet-beta'')"
  let ?ats = "\<lambda>es. concat (map entryAccounts es) @ [(SYSVAR_CLOCK, SYSVAR_CLOCK_PUBKEY)]"
  obtain pss vs es clock r dep where
      pss: "getAllPoolState ch pools = Inr pss" and vs: "rmap loadVault (concat (map (\<lambda>(ps, _). [aVault ps, bVault ps]) pss)) = Inr vs"
    and es: "rmap (\<lambda>(pool, s). poolEntry vs pool s) (zip pools pss) = Inr es"
    and clock: "decodeClock (bufferOf ch [] (?ats es)) = Inr clock"
    and r: "deserializeAccountsBuffer ch (bufferOf ch [] (?ats es)) = Inr r"
    and dep: "getDepegAccounts ch (map fst pss) = Inr dep"
    and all: "createAll V L (createProgram ch programId) (case cluster of Some c \<Rightarrow> c | None \<Rightarrow> ''mainnet-beta'') dep r clock
      (foldl (\<lambda>m e. m(lpMint (pid_poolState e) \<mapsto> e)) (\<lambda>_. None) es) (map entryAccounts es) = Inr as"
    using as unfolding createMultiple_def Let_def create_multiple accounts_buffer by auto
  note gets = all_pool_states [OF pss]
  note entry = joint_entries [OF gets vs es] and lists = joint_lists [OF typed mints gets vs es]
  have clk: "clockOf ch = Inr clock" using clock clock_read [of "?ats es"] by simp
  have "rmap (\<lambda>e. rbind (accountsInfoOf r (entryAccounts e) clock) (\<lambda>info.
      ?new dep (pid_pool e) (pid_poolState e, pid_lpSupply e) (pid_vaultA e) (pid_vaultB e) info)) es = Inr as"
    using all createAll_entries [OF lists(3) entry_map_lookup [OF lists(3), unfolded comp_def]] by simp
  note built = rmap_Inr_nth [OF this] and len' = rmap_Inr_length [OF this]
  show ?thesis
  proof (rule rmap_related)
    show "length as = length pools" using lists len' by simp
    fix i assume i: "i < length pools"
    let ?e = "es ! i"
    have sub: "set (poolAccountTypes (pid_vaultA ?e) (pid_vaultB ?e) (pid_poolState ?e)) \<subseteq> set (?ats es)"
      using i lists(2) by (auto simp: entryAccounts_def)
    have "pid_poolState ?e \<in> set (map fst pss)"
      using entry [OF i] i lists(1) by (metis fst_conv in_set_conv_nth length_map nth_map)
    moreover have "getPoolState ch (pools ! i) = Inr (pid_poolState ?e, pid_lpSupply ?e)"
        "loadVault (aVault (pid_poolState ?e)) = Inr (pid_vaultA ?e)" "loadVault (bVault (pid_poolState ?e)) = Inr (pid_vaultB ?e)"
        "pid_pool ?e = pools ! i"
      using entry [OF i] by blast+
    ultimately show "\<exists>b. create ch V L (pools ! i) programId None cluster = Inr b \<and> forgetAccounts (as ! i) = forgetAccounts b"
      using built [of i] i lists(2)
      by (intro joint_load_one [OF lists(4) sub _ r clk _ _ _ dep]) (simp_all add: entryAccounts_def)
  qed
qed

text \<open>Conversely, when every pool can be loaded alone, so can all of them together.\<close>

lemma create_facts:
  assumes typed: "accounts_typed ch loadVault kind pools" "pool \<in> set pools"
    and b: "create ch V L pool programId None cluster = Inr b"
  obtains ps supp vaultA vaultB info clock where
    "getPoolState ch pool = Inr (ps, supp)" "fetchPool ch pool = Some ps"
    "loadVault (aVault ps) = Inr vaultA" "loadVault (bVault ps) = Inr vaultB"
    "clockOf ch = Inr clock" "\<exists>n. accountOf ch SYSVAR_CLOCK SYSVAR_CLOCK_PUBKEY = Inr n"
    "\<forall>(t, k) \<in> set (poolAccountTypes vaultA vaultB ps). \<exists>n. accountOf ch t k = Inr n"
    "loadedInfo ch vaultA vaultB ps clock = Inr info"
    "\<And>pss dep. getDepegAccounts ch pss = Inr dep \<Longrightarrow> ps \<in> set pss \<Longrightarrow>
      \<exists>a. newAmmImpl V L (createProgram ch programId) (case cluster of Some c \<Rightarrow> c | None \<Rightarrow> ''mainnet-beta'') dep pool
        (ps, supp) vaultA vaultB info = Inr a"
proof -
  let ?new = "newAmmImpl V L (createProgram ch programId) (case cluster of Some c \<Rightarrow> c | None \<Rightarrow> ''mainnet-beta'')"
  obtain ps supp vaultA vaultB info dep where ps: "getPoolState ch pool = Inr (ps, supp)"
      and vaults: "loadVault (aVault ps) = Inr vaultA" "loadVault (bVault ps) = Inr vaultB"
      and read: "readPoolAccounts ch vaultA vaultB ps = Inr info" and dep: "getDepegAccounts ch [ps] = Inr dep"
      and new: "?new dep pool (ps, supp) vaultA vaultB info = Inr b"
    using b by (auto simp: create_eq)
  have fetch: "fetchPool ch pool = Some ps" using ps by (auto simp: getPoolState_def)
  then have "typed kind (poolAccountTypes vaultA vaultB ps)"
    using typed vaults unfolding accounts_typed_def by blast
  then have "typed kind (poolAccountTypes vaultA vaultB ps @ [(SYSVAR_CLOCK, SYSVAR_CLOCK_PUBKEY)])"
    using typed by (simp add: typed_def accounts_typed_def)
  then obtain clock where clock: "clockOf ch = Inr clock" "\<exists>n. accountOf ch SYSVAR_CLOCK SYSVAR_CLOCK_PUBKEY = Inr n"
      "loadedInfo ch vaultA vaultB ps clock = Inr info"
    using read readPoolAccounts_eq by blast
  have all: "\<forall>(t, k) \<in> set (poolAccountTypes vaultA vaultB ps). \<exists>n. accountOf ch t k = Inr n"
    using clock(3) rmap_Inr_all [of "\<lambda>(t, k). accountOf ch t k" "poolAccountTypes vaultA vaultB ps"]
    by (auto simp: loadedInfo_def)
  have "\<exists>a. ?new dep' pool (ps, supp) vaultA vaultB info = Inr a"
    if "getDepegAccounts ch pss = Inr dep'" "ps \<in> set pss" for pss dep'
  proof -
    have "rbind (?new dep' pool (ps, supp) vaultA vaultB info) (\<lambda>a. Inr (forgetAccounts a)) =
        rbind (?new dep pool (ps, supp) vaultA vaultB info) (\<lambda>a. Inr (forgetAccounts a))"
      using own_account [OF that] own_account [OF dep, of ps] by (intro newAmmImpl_with_accounts) simp
    then show ?thesis using new by (cases "?new dep' pool (ps, supp) vaultA vaultB info") auto
  qed
  with that ps fetch vaults clock all show ?thesis by blast
qed

lemma find_vault_total:
  assumes "rmap loadVault ks = Inr vs" "k \<in> set ks"
  shows "\<exists>v. List.find (\<lambda>v. vi_vaultPda v = k) vs = Some v"
proof -
  obtain i where i: "i < length ks" "ks ! i = k" using assms(2) by (auto simp: in_set_conv_nth)
  then have "loadVault k = Inr (vs ! i)" "i < length vs" using rmap_Inr_nth [OF assms(1)] rmap_Inr_length [OF assms(1)] by auto
  then have "vs ! i \<in> set vs" "vi_vaultPda (vs ! i) = k" using loaded_pda by auto
  then show ?thesis by (cases "List.find (\<lambda>v. vi_vaultPda v = k) vs") (auto simp: find_None_iff)
qed

lemma all_pool_states_total:
  assumes "\<And>p. p \<in> set pools \<Longrightarrow> \<exists>ps n. fetchPool ch p = Some ps \<and> accountOf ch POOL_LP_MINT (lpMint ps) = Inr n"
  shows "\<exists>pss. getAllPoolState ch pools = Inr pss"
proof -
  have "List.map_filter (fetchPool ch) pools = map (the \<circ> fetchPool ch) pools"
    using assms by (induction pools) (force simp: List.map_filter_simps)+
  moreover have "\<exists>y. poolStateFrom ch p = Inr y" if "p \<in> set pools" for p
    using assms [OF that] by (auto simp: poolStateFrom_def accountOf_def decodeAccountTypeMapper_def)
  ultimately show ?thesis using rmap_Inr_all [of "poolStateFrom ch" pools] by (auto simp: getAllPoolState_eq)
qed

lemma joint_entries_total:
  assumes typed: "accounts_typed ch loadVault kind pools"
    and created: "\<And>p. p \<in> set pools \<Longrightarrow> \<exists>b. create ch V L p programId None cluster = Inr b"
  obtains pss vs es where "getAllPoolState ch pools = Inr pss"
    "rmap loadVault (concat (map (\<lambda>(ps, _). [aVault ps, bVault ps]) pss)) = Inr vs"
    "rmap (\<lambda>(pool, s). poolEntry vs pool s) (zip pools pss) = Inr es"
proof -
  have "\<exists>ps n. fetchPool ch p = Some ps \<and> accountOf ch POOL_LP_MINT (lpMint ps) = Inr n" if p: "p \<in> set pools" for p
  proof -
    obtain b where "create ch V L p programId None cluster = Inr b" using created [OF p] by blast
    then show ?thesis by (rule create_facts [OF typed p]) (auto simp: poolAccountTypes_def)
  qed
  then obtain pss where pss: "getAllPoolState ch pools = Inr pss" using all_pool_states_total by blast
  note gets = all_pool_states [OF pss]
  let ?ks = "concat (map (\<lambda>(ps, _). [aVault ps, bVault ps]) pss)"
  have "\<exists>v. loadVault k = Inr v" if k: "k \<in> set ?ks" for k
  proof -
    obtain i where i: "i < length pools" "k = aVault (fst (pss ! i)) \<or> k = bVault (fst (pss ! i))"
      using k rmap_Inr_length [OF gets] by (auto simp: in_set_conv_nth)
    obtain b where "create ch V L (pools ! i) programId None cluster = Inr b" using created i(1) by (meson nth_mem)
    then show ?thesis
      by (rule create_facts [OF typed nth_mem [OF i(1)]]) (use rmap_Inr_nth [OF gets i(1)] i(2) in auto)
  qed
  then obtain vs where vs: "rmap loadVault ?ks = Inr vs" using rmap_Inr_all [of loadVault ?ks] by blast
  have "\<exists>e. (\<lambda>(pool, s). poolEntry vs pool s) x = Inr e" if x: "x \<in> set (zip pools pss)" for x
  proof -
    obtain p ps supp where x': "x = (p, ps, supp)" by (cases x) auto
    then have "(ps, supp) \<in> set pss" using x by (auto dest: set_zip_rightD)
    then have "aVault ps \<in> set ?ks" "bVault ps \<in> set ?ks" by (auto intro!: bexI [of _ "(ps, supp)"])
    then obtain vaultA vaultB where "List.find (\<lambda>v. vi_vaultPda v = aVault ps) vs = Some vaultA"
        "List.find (\<lambda>v. vi_vaultPda v = bVault ps) vs = Some vaultB"
      using find_vault_total [OF vs] by meson
    then show ?thesis using x' by (simp add: poolEntry_def)
  qed
  then show ?thesis
    using rmap_Inr_all [of "\<lambda>(pool, s). poolEntry vs pool s" "zip pools pss"] pss vs that by blast
qed

lemma createMultiple_total:
  assumes typed: "accounts_typed ch loadVault kind pools"
    and mints: "distinct (map (\<lambda>p. map_option lpMint (fetchPool ch p)) pools)"
    and bs: "rmap (\<lambda>p. create ch V L p programId None cluster) pools = Inr bs" and ne: "pools \<noteq> []"
  shows "\<exists>as. createMultiple ch V L pools programId cluster = Inr as"
proof -
  let ?new = "newAmmImpl V L (createProgram ch programId) (case cluster of Some c \<Rightarrow> c | None \<Rightarrow> ''mainnet-beta'')"
  let ?ats = "\<lambda>es. concat (map entryAccounts es) @ [(SYSVAR_CLOCK, SYSVAR_CLOCK_PUBKEY)]"
  have created: "\<exists>b. create ch V L p programId None cluster = Inr b" if "p \<in> set pools" for p
    using bs that rmap_Inr_all [of "\<lambda>p. create ch V L p programId None cluster" pools] by auto
  obtain pss vs es where pss: "getAllPoolState ch pools = Inr pss"
      and vs: "rmap loadVault (concat (map (\<lambda>(ps, _). [aVault ps, bVault ps]) pss)) = Inr vs"
      and es: "rmap (\<lambda>(pool, s). poolEntry vs pool s) (zip pools pss) = Inr es"
    using joint_entries_total [OF typed created] by blast
  note entry = joint_entries [OF all_pool_states [OF pss] vs es]
    and lists = joint_lists [OF typed mints all_pool_states [OF pss] vs es]
  obtain dep where dep: "getDepegAccounts ch (map fst pss) = Inr dep" using depeg_accounts by blast
  have facts: "(\<exists>n. accountOf ch SYSVAR_CLOCK SYSVAR_CLOCK_PUBKEY = Inr n) \<and>
      (\<forall>(t, k) \<in> set (entryAccounts e). \<exists>n. accountOf ch t k = Inr n) \<and>
      (\<exists>clock info. clockOf ch = Inr clock \<and> loadedInfo ch (pid_vaultA e) (pid_vaultB e) (pid_poolState e) clock = Inr info \<and>
        (\<exists>a. ?new dep (pid_pool e) (pid_poolState e, pid_lpSupply e) (pid_vaultA e) (pid_vaultB e) info = Inr a))"
    if e: "e \<in> set es" for e
  proof -
    obtain i where i: "i < length pools" "es ! i = e" using e lists(2) by (auto simp: in_set_conv_nth)
    obtain b where b: "create ch V L (pools ! i) programId None cluster = Inr b" using created i(1) by (meson nth_mem)
    have mem: "pid_poolState e \<in> set (map fst pss)"
      using entry [OF i(1)] i lists(1) by (metis fst_conv in_set_conv_nth length_map nth_map)
    have en: "pid_pool e = pools ! i" "getPoolState ch (pools ! i) = Inr (pid_poolState e, pid_lpSupply e)"
        "loadVault (aVault (pid_poolState e)) = Inr (pid_vaultA e)" "loadVault (bVault (pid_poolState e)) = Inr (pid_vaultB e)"
      using entry [OF i(1)] i(2) by blast+
    show ?thesis
      by (rule create_facts [OF typed nth_mem [OF i(1)] b]) (use en dep mem in \<open>auto simp: entryAccounts_def\<close>)
  qed
  obtain clock where clock: "clockOf ch = Inr clock" "\<exists>n. accountOf ch SYSVAR_CLOCK SYSVAR_CLOCK_PUBKEY = Inr n"
    using facts [of "hd es"] ne lists(2) by (metis hd_in_set length_0_conv)
  have "\<forall>(t, k) \<in> set (?ats es). \<exists>n. accountOf ch t k = Inr n" using facts clock by fastforce
  then obtain r where r: "deserializeAccountsBuffer ch (bufferOf ch [] (?ats es)) = Inr r" using table_total by blast
  have info: "accountsInfoOf r (entryAccounts e) clock = loadedInfo ch (pid_vaultA e) (pid_vaultB e) (pid_poolState e) clock"
    if "e \<in> set es" for e
    unfolding entryAccounts_def using that by (intro accountsInfo_read [OF r lists(4)]) (auto simp: entryAccounts_def)
  have "\<exists>as. rmap (\<lambda>e. rbind (accountsInfoOf r (entryAccounts e) clock) (\<lambda>info.
      ?new dep (pid_pool e) (pid_poolState e, pid_lpSupply e) (pid_vaultA e) (pid_vaultB e) info)) es = Inr as"
    unfolding rmap_Inr_all using facts info clock(1) by fastforce
  moreover have "foldl (\<lambda>m e. m(lpMint (pid_poolState e) \<mapsto> e)) (\<lambda>_. None) es (lpMint (pid_poolState e)) = Some e"
    if "e \<in> set es" for e
    using entry_map_lookup [OF lists(3) that] by (simp add: comp_def)
  ultimately show ?thesis
    using clock clock_read [of "?ats es"]
    by (simp add: createMultiple_def Let_def create_multiple accounts_buffer pss vs es dep r createAll_entries [OF lists(3)])
qed

end

section \<open>A concrete pool\<close>

text \<open>
  Two pools on the same two vaults, a constant product pool and a stable one, with the contents
  of their token accounts and mints as bytes.
\<close>

definition tokenBytes :: "nat \<Rightarrow> bytes" where
  "tokenBytes n = replicate 64 0 @ le_bytes 8 n @ replicate 93 0"

definition mintBytes :: "nat \<Rightarrow> bytes" where
  "mintBytes n = replicate 36 0 @ le_bytes 8 n @ replicate 38 0"

definition clockBytes :: "nat \<Rightarrow> nat \<Rightarrow> bytes" where
  "clockBytes slot time = le_bytes 8 slot @ replicate 24 0 @ le_bytes 8 time"

lemma read_le_bytes:
  assumes "n < 2 ^ 64"
  shows "readBigUInt64LE (xs @ le_bytes 8 n @ ys) (length xs) = Inr (int n)"
proof -
  have "le_nat (le_bytes 8 n) = n" using assms by (intro le_nat_le_bytes) simp
  then show ?thesis by (simp add: readBigUInt64LE_def)
qed

lemma read_bytes:
  "n < 2 ^ 64 \<Longrightarrow> readBigUInt64LE (tokenBytes n) 64 = Inr (int n)"
  "n < 2 ^ 64 \<Longrightarrow> readBigUInt64LE (mintBytes n) 36 = Inr (int n)"
  "slot < 2 ^ 64 \<Longrightarrow> readBigUInt64LE (clockBytes slot time) 0 = Inr (int slot)"
  "time < 2 ^ 64 \<Longrightarrow> readBigUInt64LE (clockBytes slot time) 32 = Inr (int time)"
  using read_le_bytes [of n "replicate 64 0"] read_le_bytes [of n "replicate 36 0"] read_le_bytes [of slot "[]"]
    read_le_bytes [of time "le_bytes 8 slot @ replicate 24 0" "[]"]
  by (simp_all add: tokenBytes_def mintBytes_def clockBytes_def)

definition sampleAccounts :: "pubkey \<rightharpoonup> bytes" where
  "sampleAccounts =
     [PublicKey ''reserveA'' \<mapsto> tokenBytes 4000000000000, PublicKey ''reserveB'' \<mapsto> tokenBytes 6000000000,
      PublicKey ''vaultALp'' \<mapsto> mintBytes 5000000000000, PublicKey ''vaultBLp'' \<mapsto> mintBytes 5000000000,
      PublicKey ''aVaultLp'' \<mapsto> tokenBytes 1000000000000, PublicKey ''bVaultLp'' \<mapsto> tokenBytes 1000000000,
      PublicKey ''lp'' \<mapsto> mintBytes 30000000000, PublicKey ''lp2'' \<mapsto> mintBytes 30000000000,
      SYSVAR_CLOCK_PUBKEY \<mapsto> clockBytes 200000000 1700000000]"

definition vaultStateA :: vaultState where
  "vaultStateA = (sampleVault 5000000000000)\<lparr>v_tokenVault := PublicKey ''reserveA'', v_tokenMint := PublicKey ''A'',
     v_lpMint := PublicKey ''vaultALp''\<rparr>"

definition vaultStateB :: vaultState where
  "vaultStateB = (sampleVault 6000000000)\<lparr>v_tokenVault := PublicKey ''reserveB'', v_tokenMint := PublicKey ''B'',
     v_lpMint := PublicKey ''vaultBLp''\<rparr>"

definition samplePools :: "pubkey \<rightharpoonup> poolState" where
  "samplePools =
     [PublicKey ''pool'' \<mapsto> samplePool ConstantProductCurve,
      PublicKey ''pool2'' \<mapsto> (samplePool sampleStableCurve)\<lparr>lpMint := PublicKey ''lp2''\<rparr>]"

definition sampleVaults :: "pubkey \<rightharpoonup> vaultState" where
  "sampleVaults = [PublicKey ''aVault'' \<mapsto> vaultStateA, PublicKey ''bVault'' \<mapsto> vaultStateB]"

abbreviation liveChain :: chain where
  "liveChain \<equiv> sampleChain sampleAccounts samplePools sampleVaults
     (\<lambda>_. Some \<lparr>le_pool = PublicKey ''pool'', le_owner = FEE_OWNER, le_escrowVault = PublicKey ''escrowVault'',
       le_totalLockedAmount = 1000000, le_lpPerToken = 0, le_unclaimedFeePending = 5000, le_aFee = 0, le_bFee = 0\<rparr>) []"

definition sampleKind :: "pubkey \<Rightarrow> accountKind" where
  "sampleKind k =
     (if k = SYSVAR_CLOCK_PUBKEY then ClockAccount
      else if k \<in> {PublicKey ''vaultALp'', PublicKey ''vaultBLp'', PublicKey ''lp'', PublicKey ''lp2''} then MintAccount
      else TokenAccount)"

definition sampleImplA :: vaultImpl where
  "sampleImplA = \<lparr>vi_vaultPda = PublicKey ''aVault'', vi_tokenMint = \<lparr>mint_address = PublicKey ''A'', mint_decimals = 9\<rparr>,
     vi_vaultState = vaultStateA\<rparr>"

definition sampleImplB :: vaultImpl where
  "sampleImplB = \<lparr>vi_vaultPda = PublicKey ''bVault'', vi_tokenMint = \<lparr>mint_address = PublicKey ''B'', mint_decimals = 9\<rparr>,
     vi_vaultState = vaultStateB\<rparr>"

definition sampleInfo :: accountsInfo where
  "sampleInfo = \<lparr>vaultAReserve = 4000000000000, vaultBReserve = 6000000000, vaultALpSupply = 5000000000000,
     vaultBLpSupply = 5000000000, poolVaultALp = 1000000000000, poolVaultBLp = 1000000000, poolLpSupply = 30000000000,
     currentTime = 1700000000, currentSlot = 200000000\<rparr>"

lemmas live_defs = sampleAccounts_def samplePools_def sampleVaults_def sampleImplA_def sampleImplB_def
  vaultStateA_def vaultStateB_def sample_defs

lemma sample_reads [simp]:
  "accountAmount (sampleChain accounts pools vaults escrows configs) bs = readBigUInt64LE bs 64"
  "mintSupply (sampleChain accounts pools vaults escrows configs) bs = readBigUInt64LE bs 36"
  "getTokenSupply (sampleChain accounts pools vaults escrows configs) k =
    Option.bind (accounts k) (\<lambda>d. case readBigUInt64LE d 36 of Inr n \<Rightarrow> Some n | Inl _ \<Rightarrow> None)"
  "getTokenAccountBalance (sampleChain accounts pools vaults escrows configs) k = Inr 1000000"
  by (simp_all add: sampleChain_def)

lemma live_pool_states:
  "getPoolState liveChain (PublicKey ''pool'') = Inr (samplePool ConstantProductCurve, 30000000000)"
  "getPoolState liveChain (PublicKey ''pool2'') = Inr ((samplePool sampleStableCurve)\<lparr>lpMint := PublicKey ''lp2''\<rparr>, 30000000000)"
  by (simp_all add: getPoolState_def live_defs read_bytes SYSVAR_CLOCK_PUBKEY_def)

lemma live_vaults:
  "sampleVaultImpl sampleVaults (PublicKey ''aVault'') = Inr sampleImplA"
  "sampleVaultImpl sampleVaults (PublicKey ''bVault'') = Inr sampleImplB"
  by (simp_all add: sampleVaultImpl_def live_defs)

lemma live_clock: "clockOf liveChain = Inr (200000000, 1700000000)"
  "accountOf liveChain SYSVAR_CLOCK SYSVAR_CLOCK_PUBKEY = Inr 1700000000"
proof -
  have "length (clockBytes 200000000 1700000000) = 40" by (simp add: clockBytes_def)
  then show "clockOf liveChain = Inr (200000000, 1700000000)"
    "accountOf liveChain SYSVAR_CLOCK SYSVAR_CLOCK_PUBKEY = Inr 1700000000"
    by (simp_all add: clockOf_def accountOf_def decodeAccountTypeMapper_def sampleAccounts_def layout_decode_u64_def
        layout_decode_i64_def readBigInt64LE_def read_bytes)
qed

lemma live_typed: "accounts_typed liveChain (sampleVaultImpl sampleVaults) sampleKind [PublicKey ''pool'', PublicKey ''pool2'']"
  by (auto simp: accounts_typed_def samplePools_def sample_defs live_vaults typed_def poolAccountTypes_def sampleKind_def
      sampleImplA_def sampleImplB_def vaultStateA_def vaultStateB_def SYSVAR_CLOCK_PUBKEY_def)

lemma live_info:
  "loadedInfo liveChain sampleImplA sampleImplB (samplePool ConstantProductCurve) (200000000, 1700000000) = Inr sampleInfo"
  "loadedInfo liveChain sampleImplA sampleImplB ((samplePool sampleStableCurve)\<lparr>lpMint := PublicKey ''lp2''\<rparr>) (200000000, 1700000000) = Inr sampleInfo"
  by (simp_all add: loadedInfo_def poolAccountTypes_def accountOf_def decodeAccountTypeMapper_def live_defs read_bytes sampleInfo_def
      SYSVAR_CLOCK_PUBKEY_def)

lemma live_create:
  assumes "p = (PublicKey ''pool'', samplePool ConstantProductCurve) \<or>
      p = (PublicKey ''pool2'', (samplePool sampleStableCurve)\<lparr>lpMint := PublicKey ''lp2''\<rparr>)"
  shows "create liveChain programSdk referenceLib (fst p) None None None =
    newAmmImpl programSdk referenceLib (createProgram liveChain None) ''mainnet-beta'' Map.empty (fst p)
      (snd p, 30000000000) sampleImplA sampleImplB sampleInfo"
proof -
  have vaults: "aVault (snd p) = PublicKey ''aVault''" "bVault (snd p) = PublicKey ''bVault''"
    using assms by (auto simp: samplePool_def)
  have state: "getPoolState liveChain (fst p) = Inr (snd p, 30000000000)" using assms live_pool_states by auto
  then have "fetchPool liveChain (fst p) = Some (snd p)" by (auto simp: getPoolState_def)
  then have "typed sampleKind (poolAccountTypes sampleImplA sampleImplB (snd p))"
    using live_typed assms live_vaults vaults unfolding accounts_typed_def by (metis fst_conv list.set_intros)
  then have "typed sampleKind (poolAccountTypes sampleImplA sampleImplB (snd p) @ [(SYSVAR_CLOCK, SYSVAR_CLOCK_PUBKEY)])"
    by (simp add: typed_def sampleKind_def)
  then have read: "readPoolAccounts liveChain sampleImplA sampleImplB (snd p) = Inr sampleInfo"
    using sample.readPoolAccounts_eq live_clock live_info assms by auto
  have "getStakePubkey (snd p) = None" using assms by (auto simp: getStakePubkey_def sample_defs)
  then have dep: "getDepegAccounts liveChain [snd p] = Inr Map.empty"
    by (simp add: sample.depeg_accounts List.map_filter_simps)
  show ?thesis by (simp add: sample.create_eq state vaults live_vaults read dep)
qed

lemma live_new:
  "\<exists>a. newAmmImpl programSdk referenceLib (createProgram liveChain None) ''mainnet-beta'' Map.empty (PublicKey ''pool'')
     (samplePool ConstantProductCurve, 30000000000) sampleImplA sampleImplB sampleInfo = Inr a"
  "\<exists>a. newAmmImpl programSdk referenceLib (createProgram liveChain None) ''mainnet-beta'' Map.empty (PublicKey ''pool2'')
     ((samplePool sampleStableCurve)\<lparr>lpMint := PublicKey ''lp2''\<rparr>, 30000000000) sampleImplA sampleImplB sampleInfo = Inr a"
proof -
  have 1: "case poolInfoOf programSdk referenceLib sampleInfo ConstantProductSwap sampleImplA sampleImplB of Inl _ \<Rightarrow> False | Inr _ \<Rightarrow> True"
    by code_simp
  have 2: "case poolInfoOf programSdk referenceLib sampleInfo (StableSwap sampleStable) sampleImplA sampleImplB of Inl _ \<Rightarrow> False | Inr _ \<Rightarrow> True"
    by code_simp
  show "\<exists>a. newAmmImpl programSdk referenceLib (createProgram liveChain None) ''mainnet-beta'' Map.empty (PublicKey ''pool'')
     (samplePool ConstantProductCurve, 30000000000) sampleImplA sampleImplB sampleInfo = Inr a"
    using 1 by (auto simp: newAmmImpl_def newSwapCurve_def samplePool_def split: sum.splits)
  show "\<exists>a. newAmmImpl programSdk referenceLib (createProgram liveChain None) ''mainnet-beta'' Map.empty (PublicKey ''pool2'')
     ((samplePool sampleStableCurve)\<lparr>lpMint := PublicKey ''lp2''\<rparr>, 30000000000) sampleImplA sampleImplB sampleInfo = Inr a"
    using 2 by (auto simp: newAmmImpl_def newSwapCurve_def newStableSwap_def sample_defs sampleStable_def sampleInfo_def bn_toNumber_def split: sum.splits)
qed

lemma live_sels:
  "samplePools (PublicKey ''pool'') = Some (samplePool ConstantProductCurve)"
  "aVault (samplePool c) = PublicKey ''aVault''" "bVault (samplePool c) = PublicKey ''bVault''"
  "vi_vaultPda sampleImplA = PublicKey ''aVault''" "vi_vaultPda sampleImplB = PublicKey ''bVault''"
  by (simp_all add: samplePools_def samplePool_def sampleImplA_def sampleImplB_def)

lemma live_created: "\<exists>a. create liveChain programSdk referenceLib p None None None = Inr a"
  if "p = PublicKey ''pool'' \<or> p = PublicKey ''pool2''" for p
  using live_create [of "(PublicKey ''pool'', samplePool ConstantProductCurve)"]
    live_create [of "(PublicKey ''pool2'', (samplePool sampleStableCurve)\<lparr>lpMint := PublicKey ''lp2''\<rparr>)"] live_new that by auto

lemma live_fields:
  assumes "create liveChain programSdk referenceLib (PublicKey ''pool'') None None None = Inr a"
  shows "am_address a = PublicKey ''pool''" "am_vaultA a = sampleImplA" "am_vaultB a = sampleImplB"
    "am_tokenAMint a = vi_tokenMint sampleImplA" "am_tokenBMint a = vi_tokenMint sampleImplB" "am_cluster a = ''mainnet-beta''"
    "am_program a = ammProgramId (createProgram liveChain None)" "am_vaultProgram a = vaultProgramId (createProgram liveChain None)"
    "am_accountsInfo a = sampleInfo"
proof -
  have "newAmmImpl programSdk referenceLib (createProgram liveChain None) ''mainnet-beta'' Map.empty (PublicKey ''pool'')
     (samplePool ConstantProductCurve, 30000000000) sampleImplA sampleImplB sampleInfo = Inr a"
    using assms live_create [of "(PublicKey ''pool'', samplePool ConstantProductCurve)"] by simp
  from newAmmImpl_fields [OF this] show "am_address a = PublicKey ''pool''" "am_vaultA a = sampleImplA" "am_vaultB a = sampleImplB"
    "am_tokenAMint a = vi_tokenMint sampleImplA" "am_tokenBMint a = vi_tokenMint sampleImplB" "am_cluster a = ''mainnet-beta''"
    "am_program a = ammProgramId (createProgram liveChain None)" "am_vaultProgram a = vaultProgramId (createProgram liveChain None)"
    "am_accountsInfo a = sampleInfo"
    by blast+
qed

section \<open>Properties\<close>

text \<open>
  C16. Refreshing an object gives exactly what loading its pool anew would give, including the
  error when that fails, whatever the object held before: only its address, programs, cluster
  and the addresses and mints of its vaults matter.
\<close>

theorem updateState_is_create:
  assumes "vault_package ch load" "fetchPool ch (am_address self) = Some ps"
    and "load (aVault ps) = Inr vaultA" "vi_vaultPda (am_vaultA self) = aVault ps" "vi_tokenMint (am_vaultA self) = vi_tokenMint vaultA"
    and "load (bVault ps) = Inr vaultB" "vi_vaultPda (am_vaultB self) = bVault ps" "vi_tokenMint (am_vaultB self) = vi_tokenMint vaultB"
    and "am_tokenAMint self = vi_tokenMint vaultA" "am_tokenBMint self = vi_tokenMint vaultB"
    and "am_program self = ammProgramId (createProgram ch programId)" "am_vaultProgram self = vaultProgramId (createProgram ch programId)"
  shows "create ch V L (am_address self) programId None (Some (am_cluster self)) =
    (case updateState ch V L self of (self', Inr _) \<Rightarrow> Inr self' | (_, Inl e) \<Rightarrow> Inl e)"
proof (cases "getPoolState ch (am_address self)")
  case (Inl e)
  then have "create ch V L (am_address self) programId None (Some (am_cluster self)) = Inl e"
    by (simp add: vault_package.create_eq [OF assms(1)])
  moreover have "\<exists>s. updateState ch V L self = (s, Inl e)" using Inl by (simp add: updateState_def Let_def)
  ultimately show ?thesis by auto
next
  case (Inr p)
  then obtain supp where "getPoolState ch (am_address self) = Inr (ps, supp)"
    using assms(2) by (auto simp: getPoolState_def)
  then show ?thesis by (rule vault_package.updateState_create [OF assms(1) _ assms(3-12)])
qed

theorem updateState_is_create_witness:
  "\<exists>a. create liveChain programSdk referenceLib (PublicKey ''pool'') None None None = Inr a \<and>
     updateState liveChain programSdk referenceLib a = (a, Inr ())"
proof -
  obtain a where a: "create liveChain programSdk referenceLib (PublicKey ''pool'') None None None = Inr a"
    using live_created by blast
  note f = live_fields [OF this]
  have "create liveChain programSdk referenceLib (am_address a) None None (Some (am_cluster a)) =
      (case updateState liveChain programSdk referenceLib a of (s, Inr _) \<Rightarrow> Inr s | (_, Inl e) \<Rightarrow> Inl e)"
    by (rule updateState_is_create [OF sample.vault_package_axioms, where ps = "samplePool ConstantProductCurve" and
          vaultA = sampleImplA and vaultB = sampleImplB]) (simp_all add: f live_vaults live_sels)
  moreover have "create liveChain programSdk referenceLib (am_address a) None None (Some (am_cluster a)) = Inr a"
    using a f by (simp add: create_def)
  ultimately show ?thesis using a by (auto split: prod.splits sum.splits)
qed

text \<open>
  C17. Loading several pools at once gives each pool the state that loading it alone gives, up to
  the table of stake accounts, which the pools share; it succeeds exactly when every pool can
  be loaded alone. The pools have different LP mints and their accounts are of one kind each.
\<close>

theorem createMultiple_is_create:
  assumes "vault_package ch load" "accounts_typed ch load kind pools"
    and "distinct (map (\<lambda>p. map_option lpMint (fetchPool ch p)) pools)" "pools \<noteq> []"
  shows "((\<exists>as. createMultiple ch V L pools programId cluster = Inr as) \<longleftrightarrow>
      (\<forall>p \<in> set pools. \<exists>b. create ch V L p programId None cluster = Inr b)) \<and>
    (\<forall>as. createMultiple ch V L pools programId cluster = Inr as \<longrightarrow>
      (\<exists>bs. rmap (\<lambda>p. create ch V L p programId None cluster) pools = Inr bs \<and>
        map forgetAccounts as = map forgetAccounts bs))"
proof -
  have one: "\<forall>as. createMultiple ch V L pools programId cluster = Inr as \<longrightarrow>
      (\<exists>bs. rmap (\<lambda>p. create ch V L p programId None cluster) pools = Inr bs \<and> map forgetAccounts as = map forgetAccounts bs)"
    using vault_package.createMultiple_create [OF assms(1-3)] by blast
  moreover have "(\<exists>as. createMultiple ch V L pools programId cluster = Inr as) \<longleftrightarrow>
      (\<exists>bs. rmap (\<lambda>p. create ch V L p programId None cluster) pools = Inr bs)"
    using one vault_package.createMultiple_total [OF assms(1-3) _ assms(4)] by blast
  ultimately show ?thesis by (simp add: rmap_Inr_all)
qed

theorem createMultiple_is_create_witness:
  "\<exists>as bs. createMultiple liveChain programSdk referenceLib [PublicKey ''pool'', PublicKey ''pool2''] None None = Inr as \<and>
     rmap (\<lambda>p. create liveChain programSdk referenceLib p None None None) [PublicKey ''pool'', PublicKey ''pool2''] = Inr bs \<and>
     map forgetAccounts as = map forgetAccounts bs"
proof -
  let ?pools = "[PublicKey ''pool'', PublicKey ''pool2'']"
  have "distinct (map (\<lambda>p. map_option lpMint (fetchPool liveChain p)) ?pools)"
    by (simp add: samplePools_def samplePool_def)
  note eq = createMultiple_is_create [OF sample.vault_package_axioms live_typed this, of programSdk referenceLib None None]
  have "\<forall>p \<in> set ?pools. \<exists>b. create liveChain programSdk referenceLib p None None None = Inr b"
    using live_created by auto
  with eq obtain as where "createMultiple liveChain programSdk referenceLib ?pools None None = Inr as" by blast
  with eq show ?thesis by blast
qed

end
