(* ===== verification/LiquidityQuotes.thy ===== *)
theory LiquidityQuotes
  imports AmmImpl
begin

text \<open>
  The quotes of the class \<^verbatim>\<open>AmmImpl\<close> (index.ts): swaps, the largest swaps, deposits, withdrawals
  and lock escrows. A quote that refreshes the cached price of a stable curve returns the object
  it leaves behind.
\<close>

section \<open>Shares\<close>

definition UNLOCK_AMOUNT_BUFFER :: rat where
  "UNLOCK_AMOUNT_BUFFER = js_round (998 / 1000)"

definition getShareByAmount :: "int \<Rightarrow> int \<Rightarrow> int \<Rightarrow> bool \<Rightarrow> int res" where
  "getShareByAmount amount tokenAmount lpSupply roundUp =
     (if tokenAmount = 0 then Inr 0
      else if roundUp then bn_divRound (amount * lpSupply) tokenAmount
      else bn_div (amount * lpSupply) tokenAmount)"

definition getAmountByShare :: "int \<Rightarrow> int \<Rightarrow> int \<Rightarrow> bool \<Rightarrow> int res" where
  "getAmountByShare amount tokenAmount lpSupply roundUp =
     (if lpSupply = 0 then Inr 0
      else if roundUp then bn_divRound (amount * tokenAmount) lpSupply
      else bn_div (amount * tokenAmount) lpSupply)"

definition computeActualInAmount ::
  "int \<Rightarrow> int \<Rightarrow> int \<Rightarrow> int \<Rightarrow> int \<Rightarrow> int \<Rightarrow> int \<Rightarrow> int \<Rightarrow> (int \<times> int) res" where
  "computeActualInAmount poolTokenAmount poolLp poolALp poolBLp vaultASupply vaultBSupply
     vaultAWithdrawableAmount vaultBWithdrawableAmount =
     rbind (getShareByAmount poolTokenAmount poolLp poolALp True) (\<lambda>aVaultLpMinted.
     rbind (getShareByAmount poolTokenAmount poolLp poolBLp True) (\<lambda>bVaultLpMinted.
     rbind (getAmountByShare aVaultLpMinted vaultAWithdrawableAmount vaultASupply True) (\<lambda>actualTokenAInAmount.
     rbind (getAmountByShare bVaultLpMinted vaultBWithdrawableAmount vaultBSupply True) (\<lambda>actualTokenBInAmount.
     Inr (actualTokenAInAmount, actualTokenBInAmount)))))"

text \<open>The private methods of the class, on the fees of its pool.\<close>

definition am_calculateProtocolTradingFee :: "ammImpl \<Rightarrow> int \<Rightarrow> int res" where
  "am_calculateProtocolTradingFee self amount =
     (let f = fees (am_poolState self) in
      bn_div (amount * protocolTradeFeeNumerator f) (protocolTradeFeeDenominator f))"

definition am_calculateTradingFee :: "ammImpl \<Rightarrow> int \<Rightarrow> int res" where
  "am_calculateTradingFee self amount =
     (let f = fees (am_poolState self) in
      bn_div (amount * tradeFeeNumerator f) (tradeFeeDenominator f))"

section \<open>Swaps\<close>

text \<open>What the quote wrote to the shared \<^verbatim>\<open>depeg\<close> of the pool state is seen through the curve too.\<close>

definition setPoolState :: "poolState \<Rightarrow> ammImpl \<Rightarrow> ammImpl" where
  "setPoolState ps self =
     self\<lparr>am_poolState := ps,
          am_swapCurve :=
            (case (am_swapCurve self, curveType ps) of
               (StableSwap s, StableSwapCurve c) \<Rightarrow> StableSwap (s\<lparr>ss_depeg := curveDepeg c\<rparr>)
             | (curve, _) \<Rightarrow> curve)\<rparr>"

definition quoteParam :: "ammImpl \<Rightarrow> swapQuoteParam res" where
  "quoteParam self =
     (let info = am_accountsInfo self in
      rbind (bn_toNumber (currentTime info)) (\<lambda>time.
      rbind (bn_toNumber (currentSlot info)) (\<lambda>slot.
      Inr \<lparr>q_poolState = am_poolState self,
           q_vaultA = vi_vaultState (am_vaultA self),
           q_vaultB = vi_vaultState (am_vaultB self),
           q_poolVaultALp = poolVaultALp info,
           q_poolVaultBLp = poolVaultBLp info,
           q_vaultALpSupply = vaultALpSupply info,
           q_vaultBLpSupply = vaultBLpSupply info,
           q_vaultAReserve = vaultAReserve info,
           q_vaultBReserve = vaultBReserve info,
           q_currentTime = time,
           q_currentSlot = slot,
           q_depegAccounts = am_depegAccounts self\<rparr>)))"

definition getSwapQuote ::
  "vaultSdk \<Rightarrow> mathLib \<Rightarrow> ammImpl \<Rightarrow> pubkey \<Rightarrow> int \<Rightarrow> rat \<Rightarrow> pubkey option \<Rightarrow> (ammImpl \<times> swapQuote) res" where
  "getSwapQuote V L self inTokenMint inAmountLamport slippage swapInitiator =
     rbind (quoteParam self) (\<lambda>params.
     rbind (calculateSwapQuote V L inTokenMint inAmountLamport params swapInitiator) (\<lambda>(ps, r).
     rbind (getMinAmountWithSlippage (sr_amountOut r) slippage) (\<lambda>minSwapOutAmount.
     Inr (setPoolState ps self,
          \<lparr>sq_swapInAmount = inAmountLamport, sq_swapOutAmount = sr_amountOut r,
           sq_minSwapOutAmount = minSwapOutAmount, sq_fee = sr_fee r, sq_priceImpact = sr_priceImpact r\<rparr>))))"

definition getMaxSwapOutAmount :: "ammImpl \<Rightarrow> pubkey \<Rightarrow> int res" where
  "getMaxSwapOutAmount self tokenMint =
     calculateMaxSwapOutAmount tokenMint (tokenAMint (am_poolState self)) (tokenBMint (am_poolState self))
       (tokenAAmount (am_poolInfo self)) (tokenBAmount (am_poolInfo self))
       (vaultAReserve (am_accountsInfo self)) (vaultBReserve (am_accountsInfo self))"

definition getMaxSwapInAmount :: "mathLib \<Rightarrow> ammImpl \<Rightarrow> pubkey \<Rightarrow> (ammImpl \<times> int) res" where
  "getMaxSwapInAmount L self tokenMint =
     (let ps = am_poolState self; a = tokenAAmount (am_poolInfo self); b = tokenBAmount (am_poolInfo self) in
      rbind (invariant (tokenMint = tokenAMint ps \<or> tokenMint = tokenBMint ps) ERROR_INVALID_MINT) (\<lambda>_.
      let (outTokenMint, swapSourceAmount, swapDestAmount, dir) =
            (if tokenMint = tokenAMint ps then (tokenBMint ps, a, b, AToB) else (tokenAMint ps, b, a, BToA)) in
      rbind (getMaxSwapOutAmount self outTokenMint) (\<lambda>maxOutAmount0.
      let maxOutAmount = (if maxOutAmount0 = swapDestAmount then maxOutAmount0 - 1 else maxOutAmount0) in
      rbind (curve_computeInAmount L (am_swapCurve self) maxOutAmount swapSourceAmount swapDestAmount dir)
        (\<lambda>(curve, maxInAmount).
      rbind (am_calculateProtocolTradingFee self maxInAmount) (\<lambda>adminFee.
      rbind (am_calculateTradingFee self maxInAmount) (\<lambda>tradeFee.
      Inr (setCurve curve self, maxInAmount - adminFee - tradeFee)))))))"

section \<open>Deposits\<close>

text \<open>
  The two balanced branches of the deposit quote differ only in which token is given; this is
  the branch for a given amount of the side with pool amount \<open>poolAmount\<close>, where \<open>other\<close> is the
  pool amount of the other side. It returns the pool tokens, their minimum and the amounts of
  the given and the other token on a stable pool, or of A and B on a constant product pool.
\<close>

definition balancedDeposit ::
  "ammImpl \<Rightarrow> int \<Rightarrow> int \<Rightarrow> rat \<Rightarrow> int \<Rightarrow> int \<Rightarrow> bool \<Rightarrow> int \<Rightarrow> depositQuote res" where
  "balancedDeposit self vaultAWithdrawableAmount vaultBWithdrawableAmount slippage given poolAmount givesB otherAmount =
     (let info = am_accountsInfo self in
      rbind (getShareByAmount given poolAmount (poolLpSupply info) False) (\<lambda>poolTokenAmountOut.
      rbind (getMinAmountWithSlippage poolTokenAmountOut UNLOCK_AMOUNT_BUFFER) (\<lambda>bufferedPoolTokenAmountOut.
      if isStablePool self then
        rbind (getMinAmountWithSlippage bufferedPoolTokenAmountOut slippage) (\<lambda>minPoolTokenAmountOut.
        rbind (bn_div (given * otherAmount) poolAmount) (\<lambda>otherIn.
        Inr \<lparr>dq_poolTokenAmountOut = bufferedPoolTokenAmountOut, dq_minPoolTokenAmountOut = minPoolTokenAmountOut,
             dq_tokenAInAmount = (if givesB then otherIn else given),
             dq_tokenBInAmount = (if givesB then given else otherIn)\<rparr>))
      else
        rbind (computeActualInAmount poolTokenAmountOut (poolLpSupply info) (poolVaultALp info) (poolVaultBLp info)
                 (vaultALpSupply info) (vaultBLpSupply info) vaultAWithdrawableAmount vaultBWithdrawableAmount)
          (\<lambda>(actualTokenAInAmount, actualTokenBInAmount).
        rbind (getMinAmountWithSlippage bufferedPoolTokenAmountOut slippage) (\<lambda>minPoolTokenAmountOut.
        rbind (getMaxAmountWithSlippage actualTokenAInAmount slippage) (\<lambda>maxA.
        rbind (getMaxAmountWithSlippage actualTokenBInAmount slippage) (\<lambda>maxB.
        Inr \<lparr>dq_poolTokenAmountOut = bufferedPoolTokenAmountOut, dq_minPoolTokenAmountOut = minPoolTokenAmountOut,
             dq_tokenAInAmount = maxA, dq_tokenBInAmount = maxB\<rparr>)))))))"

definition getDepositQuote ::
  "vaultSdk \<Rightarrow> mathLib \<Rightarrow> ammImpl \<Rightarrow> int \<Rightarrow> int \<Rightarrow> bool \<Rightarrow> rat \<Rightarrow> (ammImpl \<times> depositQuote) res" where
  "getDepositQuote V L self tokenAIn tokenBIn balance slippage =
     (let info = am_accountsInfo self; pool = am_poolInfo self in
      rbind (invariant (\<not> (\<not> isStablePool self \<and> tokenAIn \<noteq> 0 \<and> tokenBIn \<noteq> 0 \<and> poolLpSupply info \<noteq> 0))
               ''Constant product only supports balanced deposit'') (\<lambda>_.
      rbind (invariant (\<not> (tokenAIn \<noteq> 0 \<and> tokenBIn \<noteq> 0 \<and> balance))
               ''Deposit balance is not possible when both token in amount is non-zero'') (\<lambda>_.
      if poolLpSupply info = 0 then
        rbind (curve_computeD L (am_swapCurve self) tokenAIn tokenBIn) (\<lambda>(curve, poolTokenAmountOut).
        Inr (setCurve curve self,
             \<lparr>dq_poolTokenAmountOut = poolTokenAmountOut, dq_minPoolTokenAmountOut = poolTokenAmountOut,
              dq_tokenAInAmount = tokenAIn, dq_tokenBInAmount = tokenBIn\<rparr>))
      else
        rbind (bn_toNumber (currentTime info)) (\<lambda>now.
        let vaultAWithdrawableAmount = calculateWithdrawableAmount V now (vi_vaultState (am_vaultA self));
            vaultBWithdrawableAmount = calculateWithdrawableAmount V now (vi_vaultState (am_vaultB self)) in
        if tokenAIn = 0 \<and> balance then
          rbind (balancedDeposit self vaultAWithdrawableAmount vaultBWithdrawableAmount slippage
                   tokenBIn (tokenBAmount pool) True (tokenAAmount pool)) (\<lambda>q. Inr (self, q))
        else if tokenBIn = 0 \<and> balance then
          rbind (balancedDeposit self vaultAWithdrawableAmount vaultBWithdrawableAmount slippage
                   tokenAIn (tokenAAmount pool) False (tokenBAmount pool)) (\<lambda>q. Inr (self, q))
        else
          rbind (computeActualDepositAmount tokenAIn (tokenAAmount pool) (poolVaultALp info) (vaultALpSupply info)
                   vaultAWithdrawableAmount) (\<lambda>actualDepositAAmount.
          rbind (computeActualDepositAmount tokenBIn (tokenBAmount pool) (poolVaultBLp info) (vaultBLpSupply info)
                   vaultBWithdrawableAmount) (\<lambda>actualDepositBAmount.
          rbind (curve_computeImbalanceDeposit L (am_swapCurve self) actualDepositAAmount actualDepositBAmount
                   (tokenAAmount pool) (tokenBAmount pool) (poolLpSupply info) (fees (am_poolState self)))
            (\<lambda>(curve, poolTokenAmountOut).
          rbind (getMinAmountWithSlippage poolTokenAmountOut slippage) (\<lambda>minPoolTokenAmountOut.
          Inr (setCurve curve self,
               \<lparr>dq_poolTokenAmountOut = poolTokenAmountOut, dq_minPoolTokenAmountOut = minPoolTokenAmountOut,
                dq_tokenAInAmount = tokenAIn, dq_tokenBInAmount = tokenBIn\<rparr>)))))))))"

section \<open>Withdrawals\<close>

definition getWithdrawQuote ::
  "vaultSdk \<Rightarrow> mathLib \<Rightarrow> ammImpl \<Rightarrow> int \<Rightarrow> rat \<Rightarrow> pubkey option \<Rightarrow> (ammImpl \<times> withdrawQuote) res" where
  "getWithdrawQuote V L self withdrawTokenAmount slippage tokenMint =
     (let info = am_accountsInfo self; ps = am_poolState self in
      rbind (bn_toNumber (currentTime info)) (\<lambda>now.
      let vaultAWithdrawableAmount = calculateWithdrawableAmount V now (vi_vaultState (am_vaultA self));
          vaultBWithdrawableAmount = calculateWithdrawableAmount V now (vi_vaultState (am_vaultB self)) in
      case tokenMint of
        None \<Rightarrow>
          rbind (getShareByAmount withdrawTokenAmount (poolLpSupply info) (poolVaultALp info) False) (\<lambda>vaultALpBurn.
          rbind (getShareByAmount withdrawTokenAmount (poolLpSupply info) (poolVaultBLp info) False) (\<lambda>vaultBLpBurn.
          rbind (getAmountByShare vaultALpBurn vaultAWithdrawableAmount (vaultALpSupply info) False) (\<lambda>tokenAOut.
          rbind (getAmountByShare vaultBLpBurn vaultBWithdrawableAmount (vaultBLpSupply info) False) (\<lambda>tokenBOut.
          rbind (getMinAmountWithSlippage tokenAOut slippage) (\<lambda>minA.
          rbind (getMinAmountWithSlippage tokenBOut slippage) (\<lambda>minB.
          Inr (self, \<lparr>wq_poolTokenAmountIn = withdrawTokenAmount, wq_minTokenAOutAmount = minA,
                      wq_minTokenBOutAmount = minB, wq_tokenAOutAmount = tokenAOut, wq_tokenBOutAmount = tokenBOut\<rparr>)))))))
      | Some m \<Rightarrow>
          let isWithdrawingTokenA = (m = mint_address (am_tokenAMint self));
              isWithdrawingTokenB = (m = mint_address (am_tokenBMint self)) in
          rbind (invariant (isWithdrawingTokenA \<or> isWithdrawingTokenB) ERROR_INVALID_MINT) (\<lambda>_.
          let dir = (if m = tokenAMint ps then BToA else AToB) in
          rbind (curve_computeWithdrawOne L (am_swapCurve self) withdrawTokenAmount (poolLpSupply info)
                   (tokenAAmount (am_poolInfo self)) (tokenBAmount (am_poolInfo self)) (fees ps) dir)
            (\<lambda>(curve, outAmount).
          let (vaultLpSupply, vaultTotalAmount) =
                (if dir = AToB then (vaultBLpSupply info, vaultBWithdrawableAmount)
                 else (vaultALpSupply info, vaultAWithdrawableAmount)) in
          rbind (bn_div (outAmount * vaultLpSupply) vaultTotalAmount) (\<lambda>vaultLpToBurn.
          rbind (bn_div (vaultLpToBurn * vaultTotalAmount) vaultLpSupply) (\<lambda>realOutAmount.
          rbind (getMinAmountWithSlippage realOutAmount slippage) (\<lambda>minRealOutAmount.
          Inr (setCurve curve self,
               \<lparr>wq_poolTokenAmountIn = withdrawTokenAmount,
                wq_minTokenAOutAmount = (if isWithdrawingTokenA then minRealOutAmount else 0),
                wq_minTokenBOutAmount = (if isWithdrawingTokenB then minRealOutAmount else 0),
                wq_tokenAOutAmount = (if isWithdrawingTokenA then realOutAmount else 0),
                wq_tokenBOutAmount = (if isWithdrawingTokenB then realOutAmount else 0)\<rparr>))))))))"

section \<open>Lock escrows\<close>

record lockEscrow =
  esc_address :: pubkey
  esc_amount :: int
  esc_claimedA :: int
  esc_claimedB :: int
  esc_unclaimedLp :: int
  esc_unclaimedA :: int
  esc_unclaimedB :: int

definition getUserLockEscrow :: "chain \<Rightarrow> vaultSdk \<Rightarrow> mathLib \<Rightarrow> ammImpl \<Rightarrow> pubkey \<Rightarrow> lockEscrow option res" where
  "getUserLockEscrow ch V L self owner =
     (let lockEscrowPK = deriveLockEscrowPda ch (am_address self) owner (am_program self) in
      case fetchLockEscrow ch lockEscrowPK of
        None \<Rightarrow> Inr None
      | Some account \<Rightarrow>
          rbind (getTokenAccountBalance ch (le_escrowVault account)) (\<lambda>escrowVaultAmount.
          rbind (calculateUnclaimedLockEscrowFee (le_totalLockedAmount account) (le_lpPerToken account)
                   (le_unclaimedFeePending account) (virtualPriceRaw (am_poolInfo self))) (\<lambda>unClaimedFee.
          let unclaimedFeeCap = (if unClaimedFee > escrowVaultAmount then escrowVaultAmount else unClaimedFee) in
          rbind (getWithdrawQuote V L self unclaimedFeeCap 0 None) (\<lambda>(_, q).
          Inr (Some \<lparr>esc_address = lockEscrowPK, esc_amount = le_totalLockedAmount account,
                     esc_claimedA = le_aFee account, esc_claimedB = le_bFee account,
                     esc_unclaimedLp = unclaimedFeeCap, esc_unclaimedA = wq_tokenAOutAmount q,
                     esc_unclaimedB = wq_tokenBOutAmount q\<rparr>)))))"

section \<open>The object as a state machine\<close>

text \<open>
  The curve object is always the one that a new load would build from the pool state: same
  amplification, multipliers, stake account, time and accounts, and the same cached price.
\<close>

definition curve_agrees :: "poolState \<Rightarrow> (pubkey \<rightharpoonup> bytes) \<Rightarrow> int \<Rightarrow> swapCurve \<Rightarrow> bool" where
  "curve_agrees ps accs now curve \<longleftrightarrow> newSwapCurve ps accs now = Inr curve"

definition amm_inv :: "ammImpl \<Rightarrow> bool" where
  "amm_inv self \<longleftrightarrow>
     curve_agrees (am_poolState self) (am_depegAccounts self) (currentTime (am_accountsInfo self)) (am_swapCurve self)"

inductive amm_step :: "vaultSdk \<Rightarrow> mathLib \<Rightarrow> ammImpl \<Rightarrow> ammImpl \<Rightarrow> bool" for V L where
  update: "updateState ch V L self = (self', Inr ()) \<Longrightarrow> amm_step V L self self'"
| swapQuote: "getSwapQuote V L self m n slippage initiator = Inr (self', q) \<Longrightarrow> amm_step V L self self'"
| maxIn: "getMaxSwapInAmount L self m = Inr (self', n) \<Longrightarrow> amm_step V L self self'"
| depositQuote: "getDepositQuote V L self a b balance slippage = Inr (self', d) \<Longrightarrow> amm_step V L self self'"
| withdrawQuote: "getWithdrawQuote V L self n slippage t = Inr (self', w) \<Longrightarrow> amm_step V L self self'"

subsection \<open>A curve method only refreshes the cached price\<close>

definition refreshes :: "swapCurve \<Rightarrow> swapCurve \<Rightarrow> bool" where
  "refreshes c c' \<longleftrightarrow>
     (case (c, c') of
        (ConstantProductSwap, ConstantProductSwap) \<Rightarrow> True
      | (StableSwap s, StableSwap s') \<Rightarrow> \<exists>d. s' = s\<lparr>ss_depeg := d\<rparr>
      | _ \<Rightarrow> False)"

lemma update_refreshes: "updateDepegInfoIfExpired L s = Inr s' \<Longrightarrow> \<exists>d. s' = s\<lparr>ss_depeg := d\<rparr>"
  by (cases s) (auto simp: updateDepegInfoIfExpired_def split: if_splits)

lemma curve_refreshes:
  "curve_computeOutAmount L c i s d t = Inr (c', r) \<Longrightarrow> refreshes c c'"
  "curve_computeD L c a b = Inr (c', n) \<Longrightarrow> refreshes c c'"
  "curve_computeInAmount L c i s d t = Inr (c', n) \<Longrightarrow> refreshes c c'"
  "curve_computeImbalanceDeposit L c a b x y n f = Inr (c', m) \<Longrightarrow> refreshes c c'"
  "curve_computeWithdrawOne L c m n x y f t = Inr (c', w) \<Longrightarrow> refreshes c c'"
  by (auto simp: refreshes_def curve_computeOutAmount_def SS_computeOutAmount_def curve_computeD_def SS_computeD_def
      curve_computeInAmount_def SS_computeInAmount_def curve_computeImbalanceDeposit_def SS_computeImbalanceDeposit_def
      curve_computeWithdrawOne_def SS_computeWithdrawOne_def Let_def case_prod_unfold
      dest: update_refreshes split: swapCurve.splits if_splits)

lemma agrees_refresh:
  assumes "curve_agrees ps accs now c" "refreshes c c'"
  shows "curve_agrees (ps\<lparr>curveType := store_depeg c' (curveType ps)\<rparr>) accs now c'"
  using assms by (cases "curveType ps"; cases c')
    (auto simp: curve_agrees_def newSwapCurve_def newStableSwap_def refreshes_def store_depeg_def)

lemma amm_inv_setCurve: "amm_inv self \<Longrightarrow> refreshes (am_swapCurve self) c' \<Longrightarrow> amm_inv (setCurve c' self)"
  by (simp add: amm_inv_def setCurve_def agrees_refresh)

subsection \<open>Every operation keeps the invariant\<close>

lemma poolInfoOf_refreshes: "poolInfoOf V L info c vaultA vaultB = Inr (c', i) \<Longrightarrow> refreshes c c'"
  by (auto simp: poolInfoOf_def calculatePoolInfo_def Let_def dest: curve_refreshes(2))

lemma newAmmImpl_inv: "newAmmImpl V L prog cluster dep pool pp vaultA vaultB info = Inr amm \<Longrightarrow> amm_inv amm"
  by (auto simp: newAmmImpl_def Let_def case_prod_unfold amm_inv_def setCurve_def
      intro!: agrees_refresh [OF _ poolInfoOf_refreshes] simp flip: curve_agrees_def)

lemma create_inv:
  assumes "create ch V L pool pid seed cluster = Inr amm"
  shows "amm_inv amm \<and> am_address amm = pool"
proof -
  obtain prog cl dep pp vaultA vaultB info where "newAmmImpl V L prog cl dep pool pp vaultA vaultB info = Inr amm"
  proof -
    obtain ps supp vs where vs: "(case vs of vaultA # vaultB # _ \<Rightarrow>
          rbind (readPoolAccounts ch vaultA vaultB ps) (\<lambda>info.
          rbind (getDepegAccounts ch [ps]) (\<lambda>depegAccounts.
          newAmmImpl V L (createProgram ch pid) (case cluster of Some c \<Rightarrow> c | None \<Rightarrow> ''mainnet-beta'')
            depegAccounts pool (ps, supp) vaultA vaultB info))
      | _ \<Rightarrow> Inl TypeError) = Inr amm"
      using assms unfolding create_def Let_def by auto
    show ?thesis
    proof (cases vs)
      case (Cons vaultA rest)
      then show ?thesis using vs that by (cases rest) auto
    qed (use vs in simp)
  qed
  note this [THEN newAmmImpl_inv] this [THEN newAmmImpl_fields]
  then show ?thesis by simp
qed

lemma updateState_inv: "updateState ch V L self = (self', Inr ()) \<Longrightarrow> amm_inv self' \<and> am_address self' = am_address self"
  by (auto simp: updateState_def Let_def amm_inv_def setCurve_def split: sum.splits prod.splits
      intro!: agrees_refresh [OF _ poolInfoOf_refreshes] simp flip: curve_agrees_def)

lemma quoteTrade_state:
  "quoteTrade V L params curve n a b dir lp src dst va vb sa sb = Inr (ps', r) \<Longrightarrow>
    \<exists>c'. refreshes curve c' \<and> ps' = (q_poolState params)\<lparr>curveType := store_depeg c' (curveType (q_poolState params))\<rparr>"
  by (auto simp: quoteTrade_def Let_def case_prod_unfold dest!: curve_refreshes(1))

lemma quoteCurve_agrees:
  "quoteCurve params initiator = Inr curve \<Longrightarrow>
    newSwapCurve (q_poolState params) (q_depegAccounts params) (q_currentTime params) = Inr curve"
  by (auto simp: quoteCurve_def newSwapCurve_def Let_def split: curveType.splits if_splits)

lemma swapQuote_state:
  assumes "calculateSwapQuote V L m n params initiator = Inr (ps', r)"
  shows "\<exists>c c'. newSwapCurve (q_poolState params) (q_depegAccounts params) (q_currentTime params) = Inr c \<and> refreshes c c' \<and>
    ps' = (q_poolState params)\<lparr>curveType := store_depeg c' (curveType (q_poolState params))\<rparr>"
  using assms by (auto simp: calculateSwapQuote_def Let_def split: if_splits dest!: quoteTrade_state quoteCurve_agrees)

lemma setPoolState_refresh:
  assumes inv: "amm_inv self" and ref: "refreshes (am_swapCurve self) c'"
  shows "setPoolState ((am_poolState self)\<lparr>curveType := store_depeg c' (curveType (am_poolState self))\<rparr>) self = setCurve c' self"
proof (cases "am_swapCurve self")
  case ConstantProductSwap
  then show ?thesis using ref
    by (auto simp: refreshes_def store_depeg_def setPoolState_def setCurve_def split: swapCurve.splits)
next
  case (StableSwap s)
  then obtain c where "curveType (am_poolState self) = StableSwapCurve c"
    using inv by (auto simp: amm_inv_def curve_agrees_def newSwapCurve_def split: curveType.splits)
  moreover obtain d where "c' = StableSwap (s\<lparr>ss_depeg := d\<rparr>)"
    using ref StableSwap by (auto simp: refreshes_def split: swapCurve.splits)
  ultimately show ?thesis using StableSwap by (simp add: store_depeg_def setPoolState_def setCurve_def)
qed

lemma getSwapQuote_state:
  assumes "amm_inv self" "getSwapQuote V L self m n slippage initiator = Inr (self', q)"
  shows "\<exists>c'. refreshes (am_swapCurve self) c' \<and> self' = setCurve c' self"
proof -
  obtain params ps' r where p: "quoteParam self = Inr params"
      "calculateSwapQuote V L m n params initiator = Inr (ps', r)" "self' = setPoolState ps' self"
    using assms(2) by (auto simp: getSwapQuote_def)
  from p(1) have q: "q_poolState params = am_poolState self" "q_depegAccounts params = am_depegAccounts self"
      "q_currentTime params = currentTime (am_accountsInfo self)"
    by (auto simp: quoteParam_def Let_def bn_toNumber_def split: if_splits)
  obtain c' where "refreshes (am_swapCurve self) c'"
      "ps' = (am_poolState self)\<lparr>curveType := store_depeg c' (curveType (am_poolState self))\<rparr>"
    using swapQuote_state [OF p(2)] assms(1) unfolding q by (auto simp: amm_inv_def curve_agrees_def)
  then show ?thesis using p(3) setPoolState_refresh [OF assms(1)] by blast
qed

lemma getMaxSwapInAmount_state:
  "getMaxSwapInAmount L self m = Inr (self', n) \<Longrightarrow> \<exists>c'. refreshes (am_swapCurve self) c' \<and> self' = setCurve c' self"
  by (cases "m = tokenAMint (am_poolState self)")
    (auto simp: getMaxSwapInAmount_def Let_def dest!: curve_refreshes(3))

lemma getDepositQuote_state:
  "getDepositQuote V L self a b balance slippage = Inr (self', d) \<Longrightarrow>
    self' = self \<or> (\<exists>c'. refreshes (am_swapCurve self) c' \<and> self' = setCurve c' self)"
  by (auto simp: getDepositQuote_def Let_def split: if_splits dest: curve_refreshes(2,4))

lemma getWithdrawQuote_state:
  "getWithdrawQuote V L self n slippage t = Inr (self', w) \<Longrightarrow>
    self' = self \<or> (\<exists>c'. refreshes (am_swapCurve self) c' \<and> self' = setCurve c' self)"
  by (auto simp: getWithdrawQuote_def Let_def case_prod_unfold split: option.split_asm dest: curve_refreshes(5))

lemma setCurve_address [simp]: "am_address (setCurve c self) = am_address self"
  by (simp add: setCurve_def)

lemma amm_step_inv:
  assumes "amm_step V L self self'" "amm_inv self"
  shows "amm_inv self' \<and> am_address self' = am_address self"
  using assms
proof (induction rule: amm_step.induct)
  case (update ch self self')
  then show ?case using updateState_inv by blast
next
  case (swapQuote self m n slippage initiator self' q)
  then show ?case using getSwapQuote_state amm_inv_setCurve setCurve_address by metis
next
  case (maxIn self m self' n)
  then show ?case using getMaxSwapInAmount_state amm_inv_setCurve setCurve_address by metis
next
  case (depositQuote self a b balance slippage self' d)
  then show ?case using getDepositQuote_state amm_inv_setCurve setCurve_address by metis
next
  case (withdrawQuote self n slippage t self' w)
  then show ?case using getWithdrawQuote_state amm_inv_setCurve setCurve_address by metis
qed

lemma amm_steps_inv:
  assumes "(amm_step V L)\<^sup>*\<^sup>* self self'" "amm_inv self"
  shows "amm_inv self' \<and> am_address self' = am_address self"
  using assms by (induction rule: rtranclp_induct) (auto dest: amm_step_inv)

section \<open>Balanced withdrawals\<close>

text \<open>The accounts of one side of a pool: its LP tokens, their supply and what the vault can pay.\<close>

definition pool_side_ok :: "int \<Rightarrow> int \<Rightarrow> int \<Rightarrow> bool" where
  "pool_side_ok poolLp supply w \<longleftrightarrow> 0 \<le> poolLp \<and> 0 < supply \<and> 0 \<le> w"

definition pool_ok :: "vaultSdk \<Rightarrow> ammImpl \<Rightarrow> bool" where
  "pool_ok V self \<longleftrightarrow>
     (let info = am_accountsInfo self; now = currentTime info in
      0 < poolLpSupply info \<and> \<bar>now\<bar> < 2 ^ 53 \<and>
      pool_side_ok (poolVaultALp info) (vaultALpSupply info) (calculateWithdrawableAmount V now (vi_vaultState (am_vaultA self))) \<and>
      pool_side_ok (poolVaultBLp info) (vaultBLpSupply info) (calculateWithdrawableAmount V now (vi_vaultState (am_vaultB self))))"

definition sideOut :: "int \<Rightarrow> int \<Rightarrow> int \<Rightarrow> int \<Rightarrow> int \<Rightarrow> int" where
  "sideOut n lpTotal poolLp supply w = (n * poolLp div lpTotal) * w div supply"

lemma side_out:
  assumes "pool_side_ok poolLp supply w" "0 < lpTotal" "0 \<le> n"
  shows "rbind (getShareByAmount n lpTotal poolLp False) (\<lambda>b. getAmountByShare b w supply False) = Inr (sideOut n lpTotal poolLp supply w)"
    "0 \<le> sideOut n lpTotal poolLp supply w"
    "sideOut n lpTotal poolLp supply w * supply * lpTotal \<le> n * poolLp * w"
proof -
  have pos: "0 \<le> n * poolLp div lpTotal" "0 \<le> (n * poolLp div lpTotal) * w"
    using assms by (simp_all add: pool_side_ok_def)
  then show "rbind (getShareByAmount n lpTotal poolLp False) (\<lambda>b. getAmountByShare b w supply False) = Inr (sideOut n lpTotal poolLp supply w)"
      "0 \<le> sideOut n lpTotal poolLp supply w"
    using assms by (simp_all add: pool_side_ok_def getShareByAmount_def getAmountByShare_def sideOut_def)
  have "sideOut n lpTotal poolLp supply w * supply \<le> (n * poolLp div lpTotal) * w"
    using assms by (simp add: sideOut_def pool_side_ok_def div_mult_le_pos)
  then have "sideOut n lpTotal poolLp supply w * supply * lpTotal \<le> (n * poolLp div lpTotal) * w * lpTotal"
    using assms by (intro mult_right_mono) auto
  also have "\<dots> = (n * poolLp div lpTotal) * lpTotal * w" by (simp add: algebra_simps)
  also have "\<dots> \<le> n * poolLp * w"
    using assms div_mult_le_pos [of lpTotal "n * poolLp"] by (intro mult_right_mono) (auto simp: pool_side_ok_def)
  finally show "sideOut n lpTotal poolLp supply w * supply * lpTotal \<le> n * poolLp * w" .
qed

lemma balanced_withdraw:
  assumes ok: "pool_ok V self" and n: "0 \<le> n" and slip: "0 \<le> slippage" "slippage \<le> 100"
  defines "info \<equiv> am_accountsInfo self"
  defines "outA \<equiv> sideOut n (poolLpSupply info) (poolVaultALp info) (vaultALpSupply info)
      (calculateWithdrawableAmount V (currentTime info) (vi_vaultState (am_vaultA self)))"
    and "outB \<equiv> sideOut n (poolLpSupply info) (poolVaultBLp info) (vaultBLpSupply info)
      (calculateWithdrawableAmount V (currentTime info) (vi_vaultState (am_vaultB self)))"
  shows "\<exists>minA minB. getWithdrawQuote V L self n slippage None =
      Inr (self, \<lparr>wq_poolTokenAmountIn = n, wq_minTokenAOutAmount = minA, wq_minTokenBOutAmount = minB,
        wq_tokenAOutAmount = outA, wq_tokenBOutAmount = outB\<rparr>) \<and> 0 \<le> minA \<and> minA \<le> outA \<and> 0 \<le> minB \<and> minB \<le> outB"
proof -
  let ?wA = "calculateWithdrawableAmount V (currentTime info) (vi_vaultState (am_vaultA self))"
  let ?wB = "calculateWithdrawableAmount V (currentTime info) (vi_vaultState (am_vaultB self))"
  have sides: "pool_side_ok (poolVaultALp info) (vaultALpSupply info) ?wA" "pool_side_ok (poolVaultBLp info) (vaultBLpSupply info) ?wB"
      and pos: "0 < poolLpSupply info" and now: "bn_toNumber (currentTime info) = Inr (currentTime info)"
    using ok by (simp_all add: pool_ok_def info_def Let_def bn_toNumber_def)
  note A = side_out [OF sides(1) pos n] and B = side_out [OF sides(2) pos n]
  obtain minA where minA: "getMinAmountWithSlippage outA slippage = Inr minA" "0 \<le> minA" "minA \<le> outA"
    using getMinAmountWithSlippage_bounds [OF _ slip] A(2) unfolding outA_def by blast
  obtain minB where minB: "getMinAmountWithSlippage outB slippage = Inr minB" "0 \<le> minB" "minB \<le> outB"
    using getMinAmountWithSlippage_bounds [OF _ slip] B(2) unfolding outB_def by blast
  obtain sA sB where "getShareByAmount n (poolLpSupply info) (poolVaultALp info) False = Inr sA"
      "getAmountByShare sA ?wA (vaultALpSupply info) False = Inr outA"
      "getShareByAmount n (poolLpSupply info) (poolVaultBLp info) False = Inr sB"
      "getAmountByShare sB ?wB (vaultBLpSupply info) False = Inr outB"
    using A(1) B(1) unfolding outA_def outB_def by auto
  then have "getWithdrawQuote V L self n slippage None =
      Inr (self, \<lparr>wq_poolTokenAmountIn = n, wq_minTokenAOutAmount = minA, wq_minTokenBOutAmount = minB,
        wq_tokenAOutAmount = outA, wq_tokenBOutAmount = outB\<rparr>)"
    using now minA(1) minB(1) by (simp add: getWithdrawQuote_def Let_def flip: info_def)
  with minA minB show ?thesis by blast
qed

section \<open>Balanced deposits\<close>

text \<open>
  The buffer of the pool tokens is a percentage in the code: it takes 99 basis points off, where
  a factor of 0.998 would take 20.
\<close>

lemma unlock_buffer_is_percent:
  assumes "0 \<le> amount"
  shows "getMinAmountWithSlippage amount UNLOCK_AMOUNT_BUFFER = Inr (amount * 9900 div 10000)"
proof -
  have "BN_of_number (js_mul (js_div (js_sub 100 UNLOCK_AMOUNT_BUFFER) 100) 10000) = Inr 9900" by code_simp
  then show ?thesis using assms by (simp add: getMinAmountWithSlippage_def)
qed

text \<open>\<^verbatim>\<open>roundUp\<close> rounds to the nearest share, so it may round down.\<close>

lemma roundUp_rounds_down: "getShareByAmount 1 3 1 True = Inr 0 \<and> getShareByAmount 2 3 1 True = Inr 1"
  by (simp add: getShareByAmount_def bn_divRound_pos)

lemma deposit_pool_tokens:
  assumes "balancedDeposit self wA wB slippage given poolAmount givesB other = Inr q" "0 \<le> given" "0 < poolAmount"
    and "0 < poolLpSupply (am_accountsInfo self)"
  shows "dq_poolTokenAmountOut q = (given * poolLpSupply (am_accountsInfo self) div poolAmount) * 9900 div 10000"
proof -
  have "getShareByAmount given poolAmount (poolLpSupply (am_accountsInfo self)) False = Inr (given * poolLpSupply (am_accountsInfo self) div poolAmount)"
    using assms by (simp add: getShareByAmount_def)
  moreover have "getMinAmountWithSlippage (given * poolLpSupply (am_accountsInfo self) div poolAmount) UNLOCK_AMOUNT_BUFFER =
      Inr ((given * poolLpSupply (am_accountsInfo self) div poolAmount) * 9900 div 10000)"
    using assms by (intro unlock_buffer_is_percent) simp
  ultimately show ?thesis
    using assms(1) by (auto simp: balancedDeposit_def Let_def split: if_splits)
qed

text \<open>With at least a hundred units on a side, the buffer covers the rounding of the side.\<close>

lemma deposit_withdraw_side:
  assumes side: "pool_side_ok poolLp supply w" "0 < lpTotal" "0 \<le> given"
    and amount: "poolAmount = poolLp * w div supply" "100 \<le> poolAmount"
  shows "sideOut ((given * lpTotal div poolAmount) * 9900 div 10000) lpTotal poolLp supply w \<le> given"
proof -
  let ?n = "(given * lpTotal div poolAmount) * 9900 div 10000"
  let ?o = "sideOut ?n lpTotal poolLp supply w"
  have n0: "0 \<le> ?n" using assms by simp
  have n: "10000 * (?n * poolAmount) \<le> 9900 * (given * lpTotal)"
  proof -
    have "?n * 10000 \<le> (given * lpTotal div poolAmount) * 9900" by (rule div_mult_le_pos) simp
    then have "?n * 10000 * poolAmount \<le> (given * lpTotal div poolAmount) * 9900 * poolAmount"
      using amount by (intro mult_right_mono) auto
    also have "\<dots> = 9900 * ((given * lpTotal div poolAmount) * poolAmount)" by simp
    also have "\<dots> \<le> 9900 * (given * lpTotal)" using amount div_mult_le_pos [of poolAmount "given * lpTotal"] by simp
    finally show ?thesis by (simp add: algebra_simps)
  qed
  have worth: "100 * (poolLp * w) \<le> 101 * (poolAmount * supply)"
  proof -
    have "poolLp * w < (poolAmount + 1) * supply"
      using side(1) div_Suc_mult_gt [of "supply" "poolLp * w"] amount(1) by (simp add: pool_side_ok_def)
    then have "100 * (poolLp * w) \<le> 100 * (poolAmount * supply) + 100 * supply" by (simp add: algebra_simps)
    moreover have "100 * supply \<le> poolAmount * supply" using amount(2) side(1) by (simp add: pool_side_ok_def)
    ultimately show ?thesis by linarith
  qed
  have out: "?o * supply * lpTotal \<le> ?n * poolLp * w" by (rule side_out(3) [OF side(1,2) n0])
  have "1000000 * (?o * supply * lpTotal) * poolAmount \<le> 10000 * (?n * poolAmount) * (100 * (poolLp * w))"
    using mult_right_mono [OF out, of poolAmount] amount by (simp add: algebra_simps)
  also have "\<dots> \<le> (9900 * (given * lpTotal)) * (101 * (poolAmount * supply))"
    by (rule mult_mono [OF n worth]) (use side amount(2) in \<open>auto simp: pool_side_ok_def\<close>)
  also have "\<dots> = 999900 * (given * lpTotal * poolAmount * supply)" by simp
  also have "\<dots> \<le> 1000000 * (given * lpTotal * poolAmount * supply)"
    using side amount(2) by (simp add: pool_side_ok_def)
  finally have "?o * (supply * lpTotal * poolAmount) \<le> given * (supply * lpTotal * poolAmount)" by (simp add: algebra_simps)
  moreover have "0 < supply * lpTotal * poolAmount" using side amount(2) by (simp add: pool_side_ok_def)
  ultimately show ?thesis by (simp only: mult_le_cancel_right_pos)
qed

section \<open>Unclaimed fees\<close>

lemma unclaimed_fee:
  assumes "0 \<le> locked" "0 \<le> pending" "0 \<le> perToken" "perToken \<le> price"
  shows "\<exists>f. calculateUnclaimedLockEscrowFee locked perToken pending price = Inr f \<and> 0 \<le> f \<and> f \<le> locked + pending"
proof (cases "price = 0")
  case False
  then have "0 < price" using assms by simp
  then have "calculateUnclaimedLockEscrowFee locked perToken pending price = Inr (locked * (price - perToken) div price + pending)"
    using assms by (simp add: calculateUnclaimedLockEscrowFee_def)
  then show ?thesis using assms \<open>0 < price\<close> mult_div_le_self [of locked "price - perToken" price] by simp
qed (use assms in \<open>simp add: calculateUnclaimedLockEscrowFee_def\<close>)

section \<open>A concrete object\<close>

lemma live_pool_ok:
  assumes "create liveChain programSdk referenceLib (PublicKey ''pool'') None None None = Inr a"
  shows "pool_ok programSdk a"
  unfolding pool_ok_def live_fields [OF assms]
  by (simp add: pool_side_ok_def sampleInfo_def sampleImplA_def sampleImplB_def vaultStateA_def vaultStateB_def sampleVault_def
      programSdk_def get_unlocked_amount_def calculate_locked_profit_def checked_def checked_div_def
      LOCKED_PROFIT_DEGRADATION_DENOMINATOR_def)

definition sampleAmm :: "curveType \<Rightarrow> ammImpl" where
  "sampleAmm c =
     \<lparr>am_address = PublicKey ''pool'', am_program = PublicKey ''amm'', am_vaultProgram = PublicKey ''vault'',
      am_tokenAMint = vi_tokenMint sampleImplA, am_tokenBMint = vi_tokenMint sampleImplB, am_poolState = samplePool c,
      am_lpSupply = 30000000000,
      am_poolInfo = \<lparr>tokenAAmount = 1000000000000, tokenBAmount = 1200000000, virtualPrice = Decimal 1,
        virtualPriceRaw = 21300000000000000000\<rparr>,
      am_vaultA = sampleImplA, am_vaultB = sampleImplB, am_accountsInfo = sampleInfo, am_swapCurve = ConstantProductSwap,
      am_depegAccounts = Map.empty, am_cluster = ''mainnet-beta''\<rparr>"

lemma sampleAmm_ok: "pool_ok programSdk (sampleAmm c)"
  by (simp add: sampleAmm_def pool_ok_def pool_side_ok_def sampleInfo_def sampleImplA_def sampleImplB_def vaultStateA_def
      vaultStateB_def sampleVault_def programSdk_def get_unlocked_amount_def calculate_locked_profit_def checked_def checked_div_def
      LOCKED_PROFIT_DEGRADATION_DENOMINATOR_def)

section \<open>Properties\<close>







text \<open>
  C38. The unclaimed fee of a lock escrow can be read whenever the escrow exists and the pool's
  virtual price has not fallen below the price at the last claim: it is at most the locked amount
  with what is pending, never above what the escrow holds, and its value in tokens is at most
  that share of the pool.
\<close>

theorem lock_escrow_fee_capped:
  fixes V self
  assumes ok: "pool_ok V self"
    and acc: "fetchLockEscrow ch (deriveLockEscrowPda ch (am_address self) owner (am_program self)) = Some acc"
    and bal: "getTokenAccountBalance ch (le_escrowVault acc) = Inr bal" "0 \<le> bal"
    and fee: "0 \<le> le_totalLockedAmount acc" "0 \<le> le_unclaimedFeePending acc" "0 \<le> le_lpPerToken acc"
      "le_lpPerToken acc \<le> virtualPriceRaw (am_poolInfo self)"
  shows "\<exists>e. getUserLockEscrow ch V L self owner = Inr (Some e) \<and> 0 \<le> esc_unclaimedLp e \<and> esc_unclaimedLp e \<le> bal \<and>
    esc_unclaimedLp e \<le> le_totalLockedAmount acc + le_unclaimedFeePending acc \<and>
    esc_unclaimedA e * vaultALpSupply (am_accountsInfo self) * poolLpSupply (am_accountsInfo self) \<le>
      esc_unclaimedLp e * poolVaultALp (am_accountsInfo self) *
        calculateWithdrawableAmount V (currentTime (am_accountsInfo self)) (vi_vaultState (am_vaultA self))"
proof -
  obtain f where f: "calculateUnclaimedLockEscrowFee (le_totalLockedAmount acc) (le_lpPerToken acc)
      (le_unclaimedFeePending acc) (virtualPriceRaw (am_poolInfo self)) = Inr f" "0 \<le> f"
      "f \<le> le_totalLockedAmount acc + le_unclaimedFeePending acc"
    using unclaimed_fee [OF fee] by blast
  let ?cap = "if f > bal then bal else f"
  have cap: "0 \<le> ?cap" using f(2) bal(2) by simp
  have ok': "0 < poolLpSupply (am_accountsInfo self)"
      "pool_side_ok (poolVaultALp (am_accountsInfo self)) (vaultALpSupply (am_accountsInfo self))
        (calculateWithdrawableAmount V (currentTime (am_accountsInfo self)) (vi_vaultState (am_vaultA self)))"
    using ok by (simp_all add: pool_ok_def Let_def)
  show ?thesis
    using balanced_withdraw [OF ok cap, of 0 L] side_out(3) [OF ok'(2,1) cap] f bal
    by (auto simp: getUserLockEscrow_def acc Let_def)
qed

theorem lock_escrow_fee_capped_witness:
  "\<exists>e. getUserLockEscrow liveChain programSdk referenceLib (sampleAmm ConstantProductCurve) FEE_OWNER = Inr (Some e) \<and>
     0 \<le> esc_unclaimedLp e \<and> esc_unclaimedLp e \<le> 1000000"
proof -
  obtain acc where acc: "fetchLockEscrow liveChain (deriveLockEscrowPda liveChain (am_address (sampleAmm ConstantProductCurve)) FEE_OWNER
      (am_program (sampleAmm ConstantProductCurve))) = Some acc" "le_totalLockedAmount acc = 1000000" "le_unclaimedFeePending acc = 5000"
      "le_lpPerToken acc = 0"
    by simp
  from lock_escrow_fee_capped [OF sampleAmm_ok acc(1), of 1000000 referenceLib] acc show ?thesis
    by (auto simp: sampleAmm_def)
qed

text \<open>
  A stable pool of tokens with equal decimals is reported to have lost its peg whenever it
  holds anything: the integer quotient of twice an amount by the total is already 1 when the
  amount is half of the total, so the token with the larger amount is always named.
\<close>

lemma depegToken_always_reports:
  assumes "curveType (am_poolState self) = StableSwapCurve c"
    and "tokenAMultiplier (curveTokenMultiplier c) = 1" "tokenBMultiplier (curveTokenMultiplier c) = 1"
    and "0 \<le> tokenAAmount (am_poolInfo self)" "0 \<le> tokenBAmount (am_poolInfo self)"
    and "0 < tokenAAmount (am_poolInfo self) + tokenBAmount (am_poolInfo self)"
  shows "depegToken self = Inr (Some (if tokenBAmount (am_poolInfo self) \<le> tokenAAmount (am_poolInfo self)
    then am_tokenAMint self else am_tokenBMint self))"
proof -
  let ?a = "tokenAAmount (am_poolInfo self)" and ?b = "tokenBAmount (am_poolInfo self)"
  have q: "1 \<le> x * 2 div (?a + ?b) \<longleftrightarrow> ?a + ?b \<le> x * 2" for x
    using assms(6) le_div_iff_pos [of "?a + ?b" 1 "x * 2"] by simp
  have "bn_div (?a * 2) (?a + ?b) = Inr (?a * 2 div (?a + ?b))" "bn_div (?b * 2) (?a + ?b) = Inr (?b * 2 div (?a + ?b))"
    using assms by simp_all
  moreover have "95 < n * 100 \<longleftrightarrow> 1 \<le> n" for n :: int by linarith
  ultimately show ?thesis using q [of ?a] q [of ?b] assms by (simp add: depegToken_def Let_def)
qed

end
