(* ===== verification/AmmTransactions.thy ===== *)
theory AmmTransactions
  imports LiquidityQuotes
begin

text \<open>
  The methods of \<^verbatim>\<open>AmmImpl\<close> that build transactions for a loaded pool (index.ts): swaps, deposits,
  withdrawals, locks, fee claims and moves of locked liquidity. A transaction is its fee payer,
  blockhash and instructions.
\<close>

section \<open>Shared blocks\<close>

definition createATAPreInstructions ::
  "chain \<Rightarrow> pubkey \<Rightarrow> pubkey list \<Rightarrow> (pubkey \<times> instruction option) list res" where
  "createATAPreInstructions ch owner mintList = rmap (\<lambda>m. getOrCreateATAInstruction ch m owner None) mintList"

text \<open>The instructions that create missing token accounts, in the order of the accounts.\<close>

definition ataIxs :: "(pubkey \<times> instruction option) list \<Rightarrow> instruction list" where
  "ataIxs accounts = foldl (\<lambda>ixs a. push_opt ixs (snd a)) [] accounts"

definition ammVaultKeys :: "ammImpl \<Rightarrow> vaultKeys" where
  "ammVaultKeys self =
     \<lparr>vk_aVault = aVault (am_poolState self),
      vk_bVault = bVault (am_poolState self),
      vk_aVaultLp = aVaultLp (am_poolState self),
      vk_bVaultLp = bVaultLp (am_poolState self),
      vk_aVaultLpMint = v_lpMint (vi_vaultState (am_vaultA self)),
      vk_bVaultLpMint = v_lpMint (vi_vaultState (am_vaultB self))\<rparr>"

definition unwrapIf :: "chain \<Rightarrow> bool \<Rightarrow> pubkey \<Rightarrow> pubkey \<Rightarrow> instruction list res" where
  "unwrapIf ch c owner receiver =
     (if c then rbind (unwrapSOLInstruction ch owner receiver) (\<lambda>ix. Inr [ix]) else Inr [])"

section \<open>Swaps\<close>

definition swapIx ::
  "ammImpl \<Rightarrow> pubkey \<Rightarrow> int \<Rightarrow> int \<Rightarrow> pubkey \<Rightarrow> pubkey \<Rightarrow> pubkey \<Rightarrow> accountMeta list \<Rightarrow> instruction" where
  "swapIx self owner inAmountLamport outAmountLamport userSourceToken userDestinationToken protocolTokenFee remaining =
     ProgramIx (am_program self) ''swap'' [BNArg inAmountLamport, BNArg outAmountLamport]
       [(''aTokenVault'', v_tokenVault (vi_vaultState (am_vaultA self))),
        (''bTokenVault'', v_tokenVault (vi_vaultState (am_vaultB self))),
        (''aVault'', aVault (am_poolState self)),
        (''bVault'', bVault (am_poolState self)),
        (''aVaultLp'', aVaultLp (am_poolState self)),
        (''bVaultLp'', bVaultLp (am_poolState self)),
        (''aVaultLpMint'', v_lpMint (vi_vaultState (am_vaultA self))),
        (''bVaultLpMint'', v_lpMint (vi_vaultState (am_vaultB self))),
        (''userSourceToken'', userSourceToken),
        (''userDestinationToken'', userDestinationToken),
        (''user'', owner),
        (''protocolTokenFee'', protocolTokenFee),
        (''pool'', am_address self),
        (''tokenProgram'', TOKEN_PROGRAM_ID),
        (''vaultProgram'', am_vaultProgram self)]
       remaining"

definition swap ::
  "chain \<Rightarrow> ammImpl \<Rightarrow> pubkey \<Rightarrow> pubkey \<Rightarrow> int \<Rightarrow> int \<Rightarrow> pubkey option \<Rightarrow> transaction res" where
  "swap ch self owner inTokenMint inAmountLamport outAmountLamport referralOwner =
     (let ps = am_poolState self;
          (sourceToken, destinationToken) =
            (if mint_address (am_tokenAMint self) = inTokenMint then (tokenAMint ps, tokenBMint ps)
             else (tokenBMint ps, tokenAMint ps));
          protocolTokenFee =
            (if mint_address (am_tokenAMint self) = inTokenMint then protocolTokenAFee ps else protocolTokenBFee ps) in
      rbind (createATAPreInstructions ch owner [sourceToken, destinationToken]) (\<lambda>atas.
      let userSourceToken = fst (atas ! 0);
          userDestinationToken = fst (atas ! 1);
          preInstructions = ataIxs atas @ wrapIfNative owner sourceToken userSourceToken inAmountLamport in
      rbind (unwrapIf ch (NATIVE_MINT = destinationToken) owner owner) (\<lambda>postInstructions.
      let remainingAccounts = curve_getRemainingAccounts (am_swapCurve self) in
      rbind (case referralOwner of
               None \<Rightarrow> Inr (preInstructions, remainingAccounts)
             | Some referral \<Rightarrow>
                 rbind (getOrCreateATAInstruction ch inTokenMint referral (Some owner))
                   (\<lambda>(referralTokenAccount, createReferralTokenAccountIx).
                 Inr (push_opt preInstructions createReferralTokenAccountIx,
                      remainingAccounts @
                        [\<lparr>am_pubkey = referralTokenAccount, am_isWritable = True, am_isSigner = False\<rparr>])))
        (\<lambda>(pre, remaining).
      Inr (newTransaction ch owner (methodTx
        (swapIx self owner inAmountLamport outAmountLamport userSourceToken userDestinationToken protocolTokenFee remaining)
        pre postInstructions))))))"

text \<open>\<^verbatim>\<open>StakeForFee.stake\<close> of the stake-for-fee package is the argument \<open>stakeTx\<close>.\<close>

definition swapAndStakeForFee ::
  "chain \<Rightarrow> (int \<Rightarrow> pubkey \<Rightarrow> transaction res) \<Rightarrow> ammImpl \<Rightarrow> pubkey \<Rightarrow> pubkey \<Rightarrow> int \<Rightarrow> int \<Rightarrow> int \<Rightarrow> transaction list res" where
  "swapAndStakeForFee ch stakeTx self owner inTokenMint inAmountLamport minOutAmountLamport outAmountLamport =
     rbind (swap ch self owner inTokenMint inAmountLamport minOutAmountLamport None) (\<lambda>swapTx.
     rbind (stakeTx outAmountLamport owner) (\<lambda>stakeTx.
     Inr [swapTx, stakeTx]))"

section \<open>Deposits and withdrawals\<close>

definition hasNative :: "ammImpl \<Rightarrow> bool" where
  "hasNative self \<longleftrightarrow> NATIVE_MINT \<in> {mint_address (am_tokenAMint self), mint_address (am_tokenBMint self)}"

definition depositMethod :: "ammImpl \<Rightarrow> int \<Rightarrow> int \<Rightarrow> int \<Rightarrow> string \<times> ixArg list" where
  "depositMethod self tokenAIn tokenBIn poolTokenAmount =
     (if am_lpSupply self = 0 then (''bootstrapLiquidity'', [BNArg tokenAIn, BNArg tokenBIn])
      else if isStablePool self
      then (''addImbalanceLiquidity'', [BNArg poolTokenAmount, BNArg tokenAIn, BNArg tokenBIn])
      else (''addBalanceLiquidity'', [BNArg poolTokenAmount, BNArg tokenAIn, BNArg tokenBIn]))"

definition depositIx :: "ammImpl \<Rightarrow> pubkey \<Rightarrow> int \<Rightarrow> int \<Rightarrow> int \<Rightarrow> pubkey \<Rightarrow> pubkey \<Rightarrow> pubkey \<Rightarrow> instruction" where
  "depositIx self owner tokenAIn tokenBIn poolTokenAmount userAToken userBToken userPoolLp =
     (let (method, args) = depositMethod self tokenAIn tokenBIn poolTokenAmount;
          ps = am_poolState self in
      ProgramIx (am_program self) method args
        [(''aTokenVault'', v_tokenVault (vi_vaultState (am_vaultA self))),
         (''bTokenVault'', v_tokenVault (vi_vaultState (am_vaultB self))),
         (''aVault'', aVault ps),
         (''bVault'', bVault ps),
         (''pool'', am_address self),
         (''user'', owner),
         (''userAToken'', userAToken),
         (''userBToken'', userBToken),
         (''aVaultLp'', aVaultLp ps),
         (''bVaultLp'', bVaultLp ps),
         (''aVaultLpMint'', v_lpMint (vi_vaultState (am_vaultA self))),
         (''bVaultLpMint'', v_lpMint (vi_vaultState (am_vaultB self))),
         (''lpMint'', lpMint ps),
         (''tokenProgram'', TOKEN_PROGRAM_ID),
         (''vaultProgram'', am_vaultProgram self),
         (''userPoolLp'', userPoolLp)]
        (curve_getRemainingAccounts (am_swapCurve self)))"

definition deposit :: "chain \<Rightarrow> ammImpl \<Rightarrow> pubkey \<Rightarrow> int \<Rightarrow> int \<Rightarrow> int \<Rightarrow> transaction res" where
  "deposit ch self owner tokenAIn tokenBIn poolTokenAmount =
     (let ps = am_poolState self in
      rbind (createATAPreInstructions ch owner [tokenAMint ps, tokenBMint ps, lpMint ps]) (\<lambda>atas.
      let userAToken = fst (atas ! 0);
          userBToken = fst (atas ! 1);
          userPoolLp = fst (atas ! 2);
          preInstructions =
            ataIxs atas @
            (if NATIVE_MINT = mint_address (am_tokenAMint self) then wrapSOLInstruction owner userAToken tokenAIn else []) @
            (if NATIVE_MINT = mint_address (am_tokenBMint self) then wrapSOLInstruction owner userBToken tokenBIn else []) in
      rbind (unwrapIf ch (hasNative self) owner owner) (\<lambda>postInstructions.
      Inr (newTransaction ch owner (methodTx
        (depositIx self owner tokenAIn tokenBIn poolTokenAmount userAToken userBToken userPoolLp)
        preInstructions postInstructions)))))"

text \<open>A stable pool withdraws on one side when either amount is zero; the minimum it passes is zero.\<close>

definition withdrawIx :: "ammImpl \<Rightarrow> pubkey \<Rightarrow> int \<Rightarrow> int \<Rightarrow> int \<Rightarrow> pubkey \<Rightarrow> pubkey \<Rightarrow> pubkey \<Rightarrow> instruction" where
  "withdrawIx self owner lpTokenAmount tokenAOut tokenBOut userAToken userBToken userPoolLp =
     (let ps = am_poolState self in
      if isStablePool self \<and> (tokenAOut = 0 \<or> tokenBOut = 0)
      then ProgramIx (am_program self) ''removeLiquiditySingleSide'' [BNArg lpTokenAmount, BNArg 0]
          [(''aTokenVault'', v_tokenVault (vi_vaultState (am_vaultA self))),
           (''aVault'', aVault ps),
           (''aVaultLp'', aVaultLp ps),
           (''aVaultLpMint'', v_lpMint (vi_vaultState (am_vaultA self))),
           (''bTokenVault'', v_tokenVault (vi_vaultState (am_vaultB self))),
           (''bVault'', bVault ps),
           (''bVaultLp'', bVaultLp ps),
           (''bVaultLpMint'', v_lpMint (vi_vaultState (am_vaultB self))),
           (''lpMint'', lpMint ps),
           (''pool'', am_address self),
           (''userDestinationToken'', if tokenBOut = 0 then userAToken else userBToken),
           (''userPoolLp'', userPoolLp),
           (''user'', owner),
           (''tokenProgram'', TOKEN_PROGRAM_ID),
           (''vaultProgram'', am_vaultProgram self)]
          (curve_getRemainingAccounts (am_swapCurve self))
      else ProgramIx (am_program self) ''removeBalanceLiquidity'' [BNArg lpTokenAmount, BNArg tokenAOut, BNArg tokenBOut]
          [(''pool'', am_address self),
           (''lpMint'', lpMint ps),
           (''aVault'', aVault ps),
           (''aTokenVault'', v_tokenVault (vi_vaultState (am_vaultA self))),
           (''aVaultLp'', aVaultLp ps),
           (''aVaultLpMint'', v_lpMint (vi_vaultState (am_vaultA self))),
           (''bVault'', bVault ps),
           (''bTokenVault'', v_tokenVault (vi_vaultState (am_vaultB self))),
           (''bVaultLp'', bVaultLp ps),
           (''bVaultLpMint'', v_lpMint (vi_vaultState (am_vaultB self))),
           (''userAToken'', userAToken),
           (''userBToken'', userBToken),
           (''user'', owner),
           (''userPoolLp'', userPoolLp),
           (''tokenProgram'', TOKEN_PROGRAM_ID),
           (''vaultProgram'', am_vaultProgram self)]
          (curve_getRemainingAccounts (am_swapCurve self)))"

definition withdraw :: "chain \<Rightarrow> ammImpl \<Rightarrow> pubkey \<Rightarrow> int \<Rightarrow> int \<Rightarrow> int \<Rightarrow> transaction res" where
  "withdraw ch self owner lpTokenAmount tokenAOut tokenBOut =
     (let ps = am_poolState self in
      rbind (createATAPreInstructions ch owner [tokenAMint ps, tokenBMint ps, lpMint ps]) (\<lambda>atas.
      rbind (unwrapIf ch (hasNative self) owner owner) (\<lambda>postInstructions.
      Inr (newTransaction ch owner (methodTx
        (withdrawIx self owner lpTokenAmount tokenAOut tokenBOut (fst (atas ! 0)) (fst (atas ! 1)) (fst (atas ! 2)))
        (ataIxs atas) postInstructions)))))"

section \<open>Partner fees\<close>

definition partnerClaimFeeIx :: "ammImpl \<Rightarrow> pubkey \<Rightarrow> int \<Rightarrow> int \<Rightarrow> pubkey \<Rightarrow> pubkey \<Rightarrow> instruction" where
  "partnerClaimFeeIx self partnerAddress maxAmountA maxAmountB partnerTokenA partnerTokenB =
     ProgramIx (am_program self) ''partnerClaimFee'' [BNArg maxAmountA, BNArg maxAmountB]
       [(''pool'', am_address self),
        (''aVaultLp'', aVaultLp (am_poolState self)),
        (''protocolTokenAFee'', protocolTokenAFee (am_poolState self)),
        (''protocolTokenBFee'', protocolTokenBFee (am_poolState self)),
        (''partnerTokenA'', partnerTokenA),
        (''partnerTokenB'', partnerTokenB),
        (''tokenProgram'', TOKEN_PROGRAM_ID),
        (''partnerAuthority'', partnerAddress)]
       []"

definition partnerClaimFees :: "chain \<Rightarrow> ammImpl \<Rightarrow> pubkey \<Rightarrow> int \<Rightarrow> int \<Rightarrow> transaction res" where
  "partnerClaimFees ch self partnerAddress maxAmountA maxAmountB =
     (let ps = am_poolState self in
      rbind (createATAPreInstructions ch partnerAddress [tokenAMint ps, tokenBMint ps]) (\<lambda>atas.
      Inr (newTransaction ch partnerAddress (methodTx
        (partnerClaimFeeIx self partnerAddress maxAmountA maxAmountB (fst (atas ! 0)) (fst (atas ! 1)))
        (ataIxs atas) []))))"

section \<open>Locks\<close>

definition lockLiquidity ::
  "chain \<Rightarrow> mathLib \<Rightarrow> ammImpl \<Rightarrow> pubkey \<Rightarrow> int \<Rightarrow> pubkey option \<Rightarrow> rat option \<Rightarrow> transaction res" where
  "lockLiquidity ch L self owner amount feePayer ratio =
     (let payer = (case feePayer of Some p \<Rightarrow> p | None \<Rightarrow> owner);
          program = am_program self;
          lpM = lpMint (am_poolState self);
          lockEscrowPK = deriveLockEscrowPda ch (am_address self) owner program;
          createEscrow =
            (case fetchLockEscrow ch lockEscrowPK of
               None \<Rightarrow> [createLockEscrowIx program (am_address self) lockEscrowPK owner lpM payer]
             | Some _ \<Rightarrow> []) in
      rbind (getOrCreateATAInstruction ch lpM payer (Some payer)) (\<lambda>(userAta, createUserAtaIx).
      rbind (getOrCreateATAInstruction ch lpM lockEscrowPK (Some payer)) (\<lambda>(escrowAta, createEscrowAtaIx).
      let preInstructions = push_opt (push_opt createEscrow createUserAtaIx) createEscrowAtaIx in
      rbind (calculateLockAmounts L amount (case ratio of Some r \<Rightarrow> r | None \<Rightarrow> 0)) (\<lambda>(feeWrapperLockAmount, userLockAmount).
      rbind (if feeWrapperLockAmount > 0 then
               let vaultKey = deriveFeeVault ch (am_address self) (STAKE_FOR_FEE_PROGRAM_ID ch) in
               if \<not> getFeeVaultState ch vaultKey
               then Inl (Error (''Fee vault not found for pool '' @ toBase58 (am_address self)))
               else
                 let lockEscrowFeeVaultPK = deriveLockEscrowPda ch (am_address self) vaultKey program in
                 rbind (getOrCreateATAInstruction ch lpM lockEscrowFeeVaultPK (Some payer))
                   (\<lambda>(escrowFeeVaultAta, createEscrowFeeVaultAtaIx).
                 Inr (push_opt [] createEscrowFeeVaultAtaIx @
                      [lockIx program feeWrapperLockAmount (am_address self) lockEscrowFeeVaultPK payer lpM userAta
                         escrowFeeVaultAta (ammVaultKeys self)]))
             else Inr []) (\<lambda>stakeForFeeInstructions.
      if userLockAmount > 0
      then Inr (newTransaction ch payer (methodTx
             (lockIx program userLockAmount (am_address self) lockEscrowPK payer lpM userAta escrowAta (ammVaultKeys self))
             preInstructions stakeForFeeInstructions))
      else addAll ch payer stakeForFeeInstructions)))))"

section \<open>Fee claims\<close>

definition claimAccounts ::
  "ammImpl \<Rightarrow> pubkey \<Rightarrow> pubkey \<Rightarrow> pubkey \<Rightarrow> pubkey \<Rightarrow> pubkey \<Rightarrow> pubkey \<Rightarrow> namedAccounts" where
  "claimAccounts self owner lockEscrowPK userAta escrowAta tokenAAta tokenBAta =
     [(''pool'', am_address self),
      (''lockEscrow'', lockEscrowPK),
      (''owner'', owner),
      (''lpMint'', lpMint (am_poolState self)),
      (''sourceTokens'', userAta),
      (''escrowVault'', escrowAta),
      (''tokenProgram'', TOKEN_PROGRAM_ID),
      (''aVault'', aVault (am_poolState self)),
      (''bVault'', bVault (am_poolState self)),
      (''aVaultLp'', aVaultLp (am_poolState self)),
      (''bVaultLp'', bVaultLp (am_poolState self)),
      (''aVaultLpMint'', v_lpMint (vi_vaultState (am_vaultA self))),
      (''bVaultLpMint'', v_lpMint (vi_vaultState (am_vaultB self))),
      (''vaultProgram'', am_vaultProgram self),
      (''aTokenVault'', v_tokenVault (vi_vaultState (am_vaultA self))),
      (''bTokenVault'', v_tokenVault (vi_vaultState (am_vaultB self))),
      (''userAToken'', tokenAAta),
      (''userBToken'', tokenBAta)]"

definition claimFeeIx :: "ammImpl \<Rightarrow> int \<Rightarrow> namedAccounts \<Rightarrow> instruction" where
  "claimFeeIx self maxAmount accounts = ProgramIx (am_program self) ''claimFee'' [BNArg maxAmount] accounts []"

text \<open>
  The token accounts of a claim: the owner's and the escrow's LP accounts and the accounts that
  receive the two tokens, with their creation.
\<close>

definition claimAtas ::
  "chain \<Rightarrow> ammImpl \<Rightarrow> pubkey \<Rightarrow> pubkey \<Rightarrow> pubkey \<Rightarrow> pubkey \<Rightarrow> pubkey \<Rightarrow> (namedAccounts \<times> instruction list) res" where
  "claimAtas ch self owner payer lockEscrowPK tokenAOwner tokenBOwner =
     (let ps = am_poolState self in
      rbind (getOrCreateATAInstruction ch (lpMint ps) owner (Some payer)) (\<lambda>(userAta, createUserAtaIx).
      rbind (getOrCreateATAInstruction ch (lpMint ps) lockEscrowPK (Some payer)) (\<lambda>(escrowAta, createEscrowAtaIx).
      rbind (getOrCreateATAInstruction ch (tokenAMint ps) tokenAOwner (Some payer)) (\<lambda>(tokenAAta, createTokenAAtaIx).
      rbind (getOrCreateATAInstruction ch (tokenBMint ps) tokenBOwner (Some payer)) (\<lambda>(tokenBAta, createTokenBAtaIx).
      Inr (claimAccounts self owner lockEscrowPK userAta escrowAta tokenAAta tokenBAta,
           push_opt (push_opt (push_opt (push_opt [] createUserAtaIx) createEscrowAtaIx) createTokenAAtaIx)
             createTokenBAtaIx))))))"

definition claimWithQuoteMintSol ::
  "chain \<Rightarrow> ammImpl \<Rightarrow> pubkey \<Rightarrow> pubkey \<Rightarrow> pubkey \<Rightarrow> pubkey \<Rightarrow> pubkey \<Rightarrow>
    (namedAccounts \<times> instruction list \<times> instruction list) res" where
  "claimWithQuoteMintSol ch self owner payer receiver tempWSolAcc lockEscrowPK =
     (let isTokenAMintNative = (tokenAMint (am_poolState self) = NATIVE_MINT);
          isTokenBMintNative = (tokenBMint (am_poolState self) = NATIVE_MINT) in
      rbind (claimAtas ch self owner payer lockEscrowPK
               (if isTokenAMintNative then tempWSolAcc else receiver)
               (if isTokenBMintNative then tempWSolAcc else receiver)) (\<lambda>(accounts, preInstructions).
      rbind (unwrapSOLInstruction ch tempWSolAcc receiver) (\<lambda>closeWrappedSOLIx.
      Inr (accounts, preInstructions, [closeWrappedSOLIx]))))"

definition claimWithQuoteMintNotSol ::
  "chain \<Rightarrow> ammImpl \<Rightarrow> pubkey \<Rightarrow> pubkey \<Rightarrow> pubkey \<Rightarrow> pubkey \<Rightarrow> (namedAccounts \<times> instruction list) res" where
  "claimWithQuoteMintNotSol ch self owner payer receiver lockEscrowPK =
     claimAtas ch self owner payer lockEscrowPK receiver receiver"

definition claimLockFee ::
  "chain \<Rightarrow> ammImpl \<Rightarrow> pubkey \<Rightarrow> int \<Rightarrow> pubkey \<Rightarrow> pubkey option \<Rightarrow> pubkey option \<Rightarrow> transaction res" where
  "claimLockFee ch self owner maxAmount payer receiver tempWSolAcc =
     (let lockEscrowPK = deriveLockEscrowPda ch (am_address self) owner (am_program self);
          isTokenAOrBNative = (tokenAMint (am_poolState self) = NATIVE_MINT \<or> tokenBMint (am_poolState self) = NATIVE_MINT);
          feeReceiver = (case receiver of Some r \<Rightarrow> r | None \<Rightarrow> owner) in
      rbind (if isTokenAOrBNative then
               rbind (if receiver \<noteq> None \<and> feeReceiver \<noteq> owner
                      then of_option (Error ''tempWSolAcc is required when receiver is different from owner for native token pools'')
                             tempWSolAcc
                      else Inr owner) (\<lambda>tempWSol.
               rbind (claimWithQuoteMintSol ch self owner payer feeReceiver tempWSol lockEscrowPK) (\<lambda>(accounts, pre, post).
               Inr (methodTx (claimFeeIx self maxAmount accounts) pre post)))
             else
               rbind (claimWithQuoteMintNotSol ch self owner payer feeReceiver lockEscrowPK) (\<lambda>(accounts, pre).
               Inr (methodTx (claimFeeIx self maxAmount accounts) pre [])))
        (\<lambda>tx. Inr (newTransaction ch payer tx)))"

definition claimLockFee2 :: "chain \<Rightarrow> ammImpl \<Rightarrow> pubkey \<Rightarrow> int \<Rightarrow> pubkey \<Rightarrow> pubkey \<Rightarrow> transaction res" where
  "claimLockFee2 ch self owner maxAmount payer receiver =
     (let lockEscrowPK = deriveLockEscrowPda ch (am_address self) owner (am_program self);
          tokenAOwner = (if mint_address (am_tokenAMint self) = NATIVE_MINT then owner else receiver);
          tokenBOwner = (if mint_address (am_tokenBMint self) = NATIVE_MINT then owner else receiver) in
      rbind (claimAtas ch self owner payer lockEscrowPK tokenAOwner tokenBOwner) (\<lambda>(accounts, preInstructions).
      rbind (unwrapIf ch (tokenAMint (am_poolState self) = NATIVE_MINT \<or> tokenBMint (am_poolState self) = NATIVE_MINT)
               owner receiver) (\<lambda>postInstructions.
      Inr (newTransaction ch payer
        (methodTx (claimFeeIx self maxAmount accounts) preInstructions postInstructions)))))"

section \<open>Moving locked liquidity\<close>

text \<open>
  The source does not await the read of the new owner's escrow: what it tests is a promise, which
  is never null, so the branch that creates the escrow is not taken whatever the chain holds. The
  address of the escrow's token account is asked for without allowing an owner off the curve.
\<close>

definition moveLockedLP ::
  "chain \<Rightarrow> ammImpl \<Rightarrow> pubkey \<Rightarrow> pubkey \<Rightarrow> int \<Rightarrow> pubkey option \<Rightarrow> transaction res" where
  "moveLockedLP ch self owner newOwner maxAmount payer0 =
     (let payer = (case payer0 of Some p \<Rightarrow> p | None \<Rightarrow> owner);
          program = am_program self;
          ps = am_poolState self;
          ownerLockEscrowPK = deriveLockEscrowPda ch (am_address self) owner program;
          newOwnerLockEscrowPK = deriveLockEscrowPda ch (am_address self) newOwner program;
          newOwnerLockEscrow_isNull = False;
          preInstructions0 =
            (if newOwnerLockEscrow_isNull
             then [createLockEscrowIx program (am_address self) newOwnerLockEscrowPK newOwner (lpMint ps) payer] else []) in
      rbind (getAssociatedTokenAddressSync ch (lpMint ps) ownerLockEscrowPK False) (\<lambda>fromEscrowVault.
      rbind (getOrCreateATAInstruction ch (lpMint ps) newOwnerLockEscrowPK (Some payer)) (\<lambda>(toEscrowVault, createToEscrowVaultIx).
      Inr (newTransaction ch payer (methodTx
        (ProgramIx program ''moveLockedLp'' [BNArg maxAmount]
          [(''pool'', am_address self),
           (''fromLockEscrow'', ownerLockEscrowPK),
           (''toLockEscrow'', newOwnerLockEscrowPK),
           (''fromEscrowVault'', fromEscrowVault),
           (''toEscrowVault'', toEscrowVault),
           (''owner'', owner),
           (''lpMint'', lpMint ps),
           (''tokenProgram'', TOKEN_PROGRAM_ID),
           (''aVault'', aVault ps),
           (''bVault'', bVault ps),
           (''aVaultLp'', aVaultLp ps),
           (''bVaultLp'', bVaultLp ps),
           (''aVaultLpMint'', v_lpMint (vi_vaultState (am_vaultA self))),
           (''bVaultLpMint'', v_lpMint (vi_vaultState (am_vaultB self)))]
          [])
        (push_opt preInstructions0 createToEscrowVaultIx) [])))))"

section \<open>What every call builds\<close>

text \<open>Who has to sign an instruction, and a transaction with its fee payer.\<close>

definition ixSignatures :: "instruction \<Rightarrow> pubkey set" where
  "ixSignatures ix =
     (case ix of
        ProgramIx program name args accounts remaining \<Rightarrow> set (ix_signers ix)
      | CreateAssociatedTokenAccount payer account owner mnt \<Rightarrow> {payer}
      | SystemTransfer source target n \<Rightarrow> {source}
      | SystemCreateAccount source account n program \<Rightarrow> {source, account}
      | RawInstruction ks data program \<Rightarrow> set (map am_pubkey (filter am_isSigner ks))
      | CloseAccount account destination authority \<Rightarrow> {authority}
      | InitializeMint mnt dec authority freeze program \<Rightarrow> {}
      | CreateMetadataAccountV3 metadata mnt authority payer update data \<Rightarrow> {authority, payer}
      | MintTo mnt destination authority n \<Rightarrow> {authority}
      | SetAuthority account authority kind new \<Rightarrow> {authority}
      | SetComputeUnitLimit n \<Rightarrow> {}
      | PackageIx name ks \<Rightarrow> set ks)"

definition requiredSigners :: "transaction \<Rightarrow> pubkey set" where
  "requiredSigners tx = insert (tx_feePayer tx) (\<Union>ix \<in> set (tx_instructions tx). ixSignatures ix)"

lemma ataIxs_concat: "ataIxs atas = concat (map (\<lambda>a. push_opt [] (snd a)) atas)"
proof -
  have "foldl (\<lambda>ixs a. push_opt ixs (snd a)) pre xs = pre @ concat (map (\<lambda>a. push_opt [] (snd a)) xs)"
    for pre and xs :: "(pubkey \<times> instruction option) list"
    by (induction xs arbitrary: pre) (simp_all add: push_opt_def)
  then show ?thesis by (simp add: ataIxs_def)
qed

lemma remaining_not_signers: "list_all (\<lambda>x. \<not> am_isSigner x) (curve_getRemainingAccounts c)"
  by (auto simp: curve_getRemainingAccounts_def CP_getRemainingAccounts_def SS_getRemainingAccounts_def readonly_def
      split: swapCurve.splits)

lemma no_signer: "list_all (\<lambda>x. \<not> am_isSigner x) ks \<Longrightarrow> filter am_isSigner ks = []"
  by (simp add: list_all_iff filter_empty_conv)

lemmas call_ix_defs = swapIx_def depositIx_def depositMethod_def withdrawIx_def partnerClaimFeeIx_def claimFeeIx_def
  claimAccounts_def Let_def

lemmas call_idl_defs = idl_swap_def idl_addBalanceLiquidity_def idl_addImbalanceLiquidity_def
  idl_bootstrapLiquidity_def idl_removeBalanceLiquidity_def idl_removeLiquiditySingleSide_def
  idl_partnerClaimFee_def idl_claimFee_def

lemma call_ix_matches [simp]:
  "ix_matches_idl (swapIx self k x y us ud fee rem)"
  "ix_matches_idl (depositIx self k x y lp ua ub ul)"
  "ix_matches_idl (withdrawIx self k lp x y ua ub ul)"
  "ix_matches_idl (partnerClaimFeeIx self k x y ua ub)"
  "ix_matches_idl (claimFeeIx self n (claimAccounts self k le ua ea ta tb))"
  by (simp_all add: match_simps call_ix_defs call_idl_defs)

text \<open>
  A predicate on instructions that holds of whatever the signers in a set may issue; of a claim of
  partner fees it may ask for the caller to be \<open>partner_ok\<close>.
\<close>

locale call_predicate =
  fixes ch :: chain and p :: "instruction \<Rightarrow> bool" and S :: "pubkey set" and partner_ok :: "ammImpl \<Rightarrow> pubkey \<Rightarrow> bool"
  assumes c_ata: "k \<in> S \<Longrightarrow> p (CreateAssociatedTokenAccount k a own m)"
    and c_transfer: "k \<in> S \<Longrightarrow> p (SystemTransfer k to n)"
    and c_raw: "p (RawInstruction [\<lparr>am_pubkey = to, am_isWritable = True, am_isSigner = False\<rparr>] [17] TOKEN_PROGRAM_ID)"
    and c_close: "k \<in> S \<Longrightarrow> p (CloseAccount a r k)"
    and c_swap: "k \<in> S \<Longrightarrow> list_all (\<lambda>x. \<not> am_isSigner x) rem \<Longrightarrow> p (swapIx self k x y us ud fee rem)"
    and c_deposit: "k \<in> S \<Longrightarrow> p (depositIx self k x y lp ua ub ul)"
    and c_withdraw: "k \<in> S \<Longrightarrow> p (withdrawIx self k lp x y ua ub ul)"
    and c_partner: "k \<in> S \<Longrightarrow> partner_ok self k \<Longrightarrow> p (partnerClaimFeeIx self k x y ua ub)"
    and c_escrow: "k \<in> S \<Longrightarrow> p (createLockEscrowIx program pool (deriveLockEscrowPda ch pool own program) own lpM k)"
    and c_lock: "k \<in> S \<Longrightarrow> p (lockIx program n pool le k lpM src esc v)"
    and c_claim: "k \<in> S \<Longrightarrow> p (claimFeeIx self n (claimAccounts self k le ua ea ta tb))"
begin

lemma c_ata_opt:
  "getOrCreateATAInstruction ch m own (Some k) = Inr (a, i) \<Longrightarrow> k \<in> S \<Longrightarrow> pred_option p i"
  "getOrCreateATAInstruction ch m k None = Inr (a, i) \<Longrightarrow> k \<in> S \<Longrightarrow> pred_option p i"
  using c_ata by (auto simp: getOrCreateATAInstruction_def split: option.splits)

lemma c_atas: "createATAPreInstructions ch k ms = Inr atas \<Longrightarrow> k \<in> S \<Longrightarrow> list_all p (ataIxs atas)"
  unfolding createATAPreInstructions_def
proof (induction ms arbitrary: atas)
  case (Cons m ms)
  then obtain a i rest where "getOrCreateATAInstruction ch m k None = Inr (a, i)"
    "rmap (\<lambda>m. getOrCreateATAInstruction ch m k None) ms = Inr rest" "atas = (a, i) # rest" by auto
  with Cons c_ata_opt(2) show ?case by (auto simp: ataIxs_concat)
qed (simp add: ataIxs_concat)

lemma c_wrap [simp]: "k \<in> S \<Longrightarrow> list_all p (wrapSOLInstruction k a n)" "k \<in> S \<Longrightarrow> list_all p (wrapIfNative k m a n)"
  using c_transfer c_raw by (simp_all add: wrapIfNative_def wrapSOLInstruction_def)

lemma c_unwrap: "unwrapIf ch c k r = Inr ixs \<Longrightarrow> k \<in> S \<Longrightarrow> list_all p ixs"
  "unwrapSOLInstruction ch k r = Inr ix \<Longrightarrow> k \<in> S \<Longrightarrow> p ix"
  using c_close by (auto simp: unwrapIf_def unwrapSOLInstruction_def split: if_splits)

lemma all_swap:
  assumes "swap ch self k m x y referral = Inr tx" "k \<in> S"
  shows "txs_all p [tx]"
proof (cases referral)
  case None
  with assms show ?thesis
    by (auto simp: swap_def Let_def c_swap remaining_not_signers split: if_splits dest!: c_atas c_unwrap(1))
next
  case (Some r)
  with assms show ?thesis
    by (auto simp: swap_def Let_def c_swap remaining_not_signers split: if_splits
        dest!: c_atas c_unwrap(1) c_ata_opt(1) [OF _ assms(2)])
qed

lemma all_deposit:
  assumes "deposit ch self k x y lp = Inr tx" "k \<in> S"
  shows "txs_all p [tx]"
  using assms by (auto simp: deposit_def Let_def c_deposit dest!: c_atas c_unwrap(1))

lemma all_withdraw:
  assumes "withdraw ch self k lp x y = Inr tx" "k \<in> S"
  shows "txs_all p [tx]"
  using assms by (auto simp: withdraw_def Let_def c_withdraw dest!: c_atas c_unwrap(1))

lemma all_partner:
  assumes "partnerClaimFees ch self k x y = Inr tx" "k \<in> S" "partner_ok self k"
  shows "txs_all p [tx]"
  using assms by (auto simp: partnerClaimFees_def Let_def c_partner dest!: c_atas)

lemma c_lock_opt [simp]: "k \<in> S \<Longrightarrow> list_all p (case fetchLockEscrow ch le of
    None \<Rightarrow> [createLockEscrowIx program pool (deriveLockEscrowPda ch pool own program) own lpM k] | Some _ \<Rightarrow> [])"
  by (simp add: c_escrow split: option.splits)

lemma all_lock:
  assumes "lockLiquidity ch L self own n feePayer ratio = Inr tx" "k \<in> S" "k = (case feePayer of Some q \<Rightarrow> q | None \<Rightarrow> own)"
  shows "txs_all p [tx]"
  using assms(1,2) unfolding lockLiquidity_def Let_def assms(3) [symmetric]
  apply (simp only: rbind_Inr_iff case_prod_unfold)
  apply (elim exE conjE)
  apply (auto simp: c_lock addAll_def split: if_splits dest!: c_ata_opt(1) [OF _ assms(2)])
  done

lemma c_claimAtas:
  assumes "claimAtas ch self own k le oa ob = Inr (accounts, pre)" "k \<in> S" "own \<in> S"
  shows "list_all p pre \<and> (\<forall>n. p (claimFeeIx self n accounts))"
  using assms(1,3) by (auto simp: claimAtas_def Let_def c_claim dest!: c_ata_opt(1) [OF _ assms(2)])

lemma all_claim2:
  assumes "claimLockFee2 ch self own n k r = Inr tx" "k \<in> S" "own \<in> S"
  shows "txs_all p [tx]"
  using assms(1) by (auto simp: claimLockFee2_def Let_def dest!: c_claimAtas [OF _ assms(2,3)] c_unwrap(1) [OF _ assms(3)])

lemma c_claimSol:
  assumes "claimWithQuoteMintSol ch self own k r t le = Inr (accounts, pre, post)" "k \<in> S" "own \<in> S" "t \<in> S"
  shows "list_all p pre \<and> list_all p post \<and> (\<forall>n. p (claimFeeIx self n accounts))"
  using assms(1) unfolding claimWithQuoteMintSol_def Let_def
  by (auto dest!: c_claimAtas [OF _ assms(2,3)] c_unwrap(2) [OF _ assms(4)])

lemma all_claim:
  assumes "claimLockFee ch self own n k receiver temp = Inr tx" "k \<in> S" "own \<in> S" "set_option temp \<subseteq> S"
  shows "txs_all p [tx]"
proof (cases "tokenAMint (am_poolState self) = NATIVE_MINT \<or> tokenBMint (am_poolState self) = NATIVE_MINT")
  case True
  from assms(1) obtain t accounts pre post where
    t: "(if receiver \<noteq> None \<and> (case receiver of Some r \<Rightarrow> r | None \<Rightarrow> own) \<noteq> own
         then of_option (Error ''tempWSolAcc is required when receiver is different from owner for native token pools'') temp
         else Inr own) = Inr t"
    and c: "claimWithQuoteMintSol ch self own k (case receiver of Some r \<Rightarrow> r | None \<Rightarrow> own) t
        (deriveLockEscrowPda ch (am_address self) own (am_program self)) = Inr (accounts, pre, post)"
    and tx: "tx = newTransaction ch k (methodTx (claimFeeIx self n accounts) pre post)"
    unfolding claimLockFee_def Let_def if_P [OF True]
    by (auto simp only: rbind_Inr_iff case_prod_unfold prod.collapse Inr_inject fst_conv snd_conv)
  from t assms(3,4) have "t \<in> S" by (auto simp: of_option_def split: if_splits option.splits)
  from c_claimSol [OF c assms(2,3) this] tx show ?thesis by simp
next
  case False
  with assms(1) show ?thesis
    by (auto simp: claimLockFee_def claimWithQuoteMintNotSol_def Let_def dest!: c_claimAtas [OF _ assms(2,3)])
qed

end

interpretation call_matches: call_predicate ch ix_matches_idl UNIV "\<lambda>_ _. True" for ch
  by unfold_locales simp_all

interpretation call_signs: call_predicate ch "\<lambda>ix. ixSignatures ix \<subseteq> S" S "\<lambda>_ _. True" for ch S
  by unfold_locales
    (simp_all add: ixSignatures_def ix_signers_def call_ix_defs call_idl_defs createLockEscrowIx_def lockIx_def
      idl_createLockEscrow_def idl_lock_def no_signer remaining_not_signers)

section \<open>The calls do not fail\<close>

context chain_laws
begin

lemma ata_total: "\<exists>a i. getOrCreateATAInstruction ch m own q = Inr (a, i)"
proof -
  obtain a where "getAssociatedTokenAddressSync ch m own True = Inr a" using ata_allowed by blast
  then show ?thesis
    by (cases "getAccountInfo ch a") (simp_all add: getOrCreateATAInstruction_def getAssociatedTokenAccount_def)
qed

lemma atas_total: "\<exists>atas. createATAPreInstructions ch own ms = Inr atas"
  unfolding createATAPreInstructions_def
proof (induction ms)
  case (Cons m ms)
  then show ?case using ata_total [of m own None] by auto
qed simp

lemma unwrap_total: "\<exists>ixs. unwrapIf ch c k r = Inr ixs" "\<exists>ix. unwrapSOLInstruction ch k r = Inr ix"
  using ata_allowed [of NATIVE_MINT k]
  by (auto simp: unwrapIf_def unwrapSOLInstruction_def getAssociatedTokenAccount_def)

lemma swap_total: "\<exists>tx. swap ch self owner m x y referral = Inr tx"
proof -
  let ?ps = "am_poolState self"
  obtain atas1 atas2 where 1: "createATAPreInstructions ch owner [tokenAMint ?ps, tokenBMint ?ps] = Inr atas1"
      "createATAPreInstructions ch owner [tokenBMint ?ps, tokenAMint ?ps] = Inr atas2"
    using atas_total by blast
  obtain post1 post2 where 2: "unwrapIf ch (NATIVE_MINT = tokenBMint ?ps) owner owner = Inr post1"
      "unwrapIf ch (NATIVE_MINT = tokenAMint ?ps) owner owner = Inr post2"
    using unwrap_total by blast
  have 3: "\<exists>a i. getOrCreateATAInstruction ch m r (Some owner) = Inr (a, i)" for r by (rule ata_total)
  show ?thesis
  proof (cases referral)
    case (Some r)
    from 3 [of r] obtain a i where "getOrCreateATAInstruction ch m r (Some owner) = Inr (a, i)" by blast
    with 1 2 Some show ?thesis by (simp add: swap_def Let_def)
  qed (use 1 2 in \<open>simp add: swap_def Let_def\<close>)
qed

lemma deposit_total: "\<exists>tx. deposit ch self owner x y lp = Inr tx"
proof -
  let ?ps = "am_poolState self"
  obtain atas ixs where "createATAPreInstructions ch owner [tokenAMint ?ps, tokenBMint ?ps, lpMint ?ps] = Inr atas"
      "unwrapIf ch (hasNative self) owner owner = Inr ixs"
    using atas_total unwrap_total(1) by metis
  then show ?thesis by (simp add: deposit_def Let_def)
qed

lemma withdraw_total: "\<exists>tx. withdraw ch self owner lp x y = Inr tx"
  using atas_total [of owner "[tokenAMint (am_poolState self), tokenBMint (am_poolState self), lpMint (am_poolState self)]"]
    unwrap_total(1) [of "hasNative self" owner owner]
  by (auto simp: withdraw_def Let_def)

lemma partner_total: "\<exists>tx. partnerClaimFees ch self owner x y = Inr tx"
  using atas_total [of owner "[tokenAMint (am_poolState self), tokenBMint (am_poolState self)]"]
  by (auto simp: partnerClaimFees_def Let_def)

lemma claimAtas_total: "\<exists>accounts pre. claimAtas ch self owner payer le oa ob = Inr (accounts, pre)"
proof -
  let ?ps = "am_poolState self"
  obtain a1 i1 a2 i2 a3 i3 a4 i4 where
    "getOrCreateATAInstruction ch (lpMint ?ps) owner (Some payer) = Inr (a1, i1)"
    "getOrCreateATAInstruction ch (lpMint ?ps) le (Some payer) = Inr (a2, i2)"
    "getOrCreateATAInstruction ch (tokenAMint ?ps) oa (Some payer) = Inr (a3, i3)"
    "getOrCreateATAInstruction ch (tokenBMint ?ps) ob (Some payer) = Inr (a4, i4)"
    using ata_total by metis
  then show ?thesis by (simp add: claimAtas_def Let_def)
qed

lemma claim2_total: "\<exists>tx. claimLockFee2 ch self owner n payer r = Inr tx"
proof -
  let ?own = "\<lambda>m. if mint_address m = NATIVE_MINT then owner else r"
  obtain acc pre where "claimAtas ch self owner payer (deriveLockEscrowPda ch (am_address self) owner (am_program self))
      (?own (am_tokenAMint self)) (?own (am_tokenBMint self)) = Inr (acc, pre)"
    using claimAtas_total by blast
  moreover obtain post where "unwrapIf ch (tokenAMint (am_poolState self) = NATIVE_MINT \<or>
      tokenBMint (am_poolState self) = NATIVE_MINT) owner r = Inr post"
    using unwrap_total(1) by blast
  ultimately show ?thesis by (simp add: claimLockFee2_def Let_def)
qed

end

section \<open>Amounts in the calls\<close>

lemma measure_ata_opt:
  assumes "getOrCreateATAInstruction ch m own q = Inr (a, i)" "\<And>w x y z. f (CreateAssociatedTokenAccount w x y z) = 0"
  shows "(case i of None \<Rightarrow> 0 | Some x \<Rightarrow> f x) = (0 :: int)"
  using assms by (auto simp: getOrCreateATAInstruction_def split: option.splits)

lemma measure_atas:
  assumes "createATAPreInstructions ch own ms = Inr atas" "\<And>w x y z. f (CreateAssociatedTokenAccount w x y z) = 0"
  shows "ixs_sum f (ataIxs atas) = 0"
  using assms(1) unfolding createATAPreInstructions_def
proof (induction ms arbitrary: atas)
  case (Cons m ms)
  then obtain a i rest where "getOrCreateATAInstruction ch m own None = Inr (a, i)"
    "rmap (\<lambda>m. getOrCreateATAInstruction ch m own None) ms = Inr rest" "atas = (a, i) # rest" by auto
  with Cons measure_ata_opt [of ch m own None a i f] assms(2) show ?case by (simp add: ataIxs_concat)
qed (simp add: ataIxs_concat)

lemma lamports_simps [simp]:
  "lamports (CreateAssociatedTokenAccount w a b c) = 0" "lamports (SystemTransfer s t n) = n"
  "lamports (RawInstruction ks d q) = 0" "lamports (CloseAccount a r k) = 0" "lamports (ProgramIx q nm args accs rem) = 0"
  by (simp_all add: lamports_def)

lemma lamports_call [simp]:
  "lamports (swapIx self k x y us ud fee rem) = 0" "lamports (depositIx self k x y lp ua ub ul) = 0"
  "lamports (withdrawIx self k lp x y ua ub ul) = 0"
  by (simp_all add: lamports_def call_ix_defs)

lemma lamports_wrap [simp]: "ixs_sum lamports (wrapSOLInstruction k a n) = n"
  "ixs_sum lamports (wrapIfNative k m a n) = (if m = NATIVE_MINT then n else 0)"
  by (simp_all add: wrapSOLInstruction_def wrapIfNative_def)

lemma lamports_unwrap: "unwrapIf ch c k r = Inr ixs \<Longrightarrow> ixs_sum lamports ixs = 0"
  by (auto simp: unwrapIf_def unwrapSOLInstruction_def split: if_splits)

lemma txs_sum_newTransaction [simp]: "txs_sum f [newTransaction ch payer ixs] = ixs_sum f ixs"
  by (simp add: txs_sum_def newTransaction_def)

lemmas lamports_dest = measure_atas [where f = lamports, OF _ lamports_simps(1)]
  measure_ata_opt [where f = lamports, OF _ lamports_simps(1)] lamports_unwrap

lemma swap_lamports:
  assumes "swap ch self owner m x y referral = Inr tx"
  shows "txs_sum lamports [tx] =
    (if (if mint_address (am_tokenAMint self) = m then tokenAMint (am_poolState self) else tokenBMint (am_poolState self)) = NATIVE_MINT
     then x else 0)"
proof (cases referral)
  case None
  with assms show ?thesis by (auto simp: swap_def Let_def split: if_splits dest!: lamports_dest)
next
  case (Some r)
  with assms show ?thesis by (auto simp: swap_def Let_def split: if_splits dest!: lamports_dest)
qed

lemma deposit_lamports:
  assumes "deposit ch self owner x y lp = Inr tx"
  shows "txs_sum lamports [tx] = (if mint_address (am_tokenAMint self) = NATIVE_MINT then x else 0) +
    (if mint_address (am_tokenBMint self) = NATIVE_MINT then y else 0)"
  using assms by (auto simp: deposit_def Let_def dest!: lamports_dest)

lemma withdraw_lamports: "withdraw ch self owner lp x y = Inr tx \<Longrightarrow> txs_sum lamports [tx] = 0"
  by (auto simp: withdraw_def Let_def dest!: lamports_dest)

text \<open>The lock of an amount, by cases of what the share of the fee vault asks for.\<close>

lemma lockedLp_simps [simp]:
  "lockedLp (CreateAssociatedTokenAccount w a b c) = 0" "lockedLp (lockIx program n pool le own lpM src esc v) = n"
  "lockedLp (createLockEscrowIx program pool le own lpM k) = 0"
  by (simp_all add: lockedLp_def lockIx_def createLockEscrowIx_def)

lemma lockedLp_escrow [simp]: "ixs_sum lockedLp (case fetchLockEscrow ch le of
    None \<Rightarrow> [createLockEscrowIx program pool le own lpM k] | Some _ \<Rightarrow> []) = 0"
  by (simp split: option.splits)

context chain_laws
begin

lemma lockLiquidity_cases:
  assumes amounts: "calculateLockAmounts L amount (case ratio of Some r \<Rightarrow> r | None \<Rightarrow> 0) = Inr (f, u)" and "0 \<le> f" "0 \<le> u"
    and payer: "payer = (case feePayer of Some q \<Rightarrow> q | None \<Rightarrow> owner)"
    and vault: "vault = deriveFeeVault ch (am_address self) (STAKE_FOR_FEE_PROGRAM_ID ch)"
  shows "f = 0 \<Longrightarrow> u = 0 \<Longrightarrow> lockLiquidity ch L self owner amount feePayer ratio = Inl (Error ''No instructions'')"
    and "0 < f \<Longrightarrow> \<not> fetchFeeVault ch vault \<Longrightarrow> lockLiquidity ch L self owner amount feePayer ratio =
      Inl (Error (''Fee vault not found for pool '' @ toBase58 (am_address self)))"
    and "0 < f + u \<Longrightarrow> 0 < f \<longrightarrow> fetchFeeVault ch vault \<Longrightarrow>
      \<exists>tx. lockLiquidity ch L self owner amount feePayer ratio = Inr tx \<and> txs_sum lockedLp [tx] = f + u"
proof -
  let ?lp = "lpMint (am_poolState self)"
  obtain a1 i1 where 1: "getOrCreateATAInstruction ch ?lp payer (Some payer) = Inr (a1, i1)" using ata_total by blast
  obtain a2 i2 where 2: "getOrCreateATAInstruction ch ?lp (deriveLockEscrowPda ch (am_address self) owner (am_program self))
      (Some payer) = Inr (a2, i2)" using ata_total by blast
  obtain a3 i3 where 3: "getOrCreateATAInstruction ch ?lp (deriveLockEscrowPda ch (am_address self) vault (am_program self))
      (Some payer) = Inr (a3, i3)" using ata_total by blast
  note zero = measure_ata_opt [where f = lockedLp, OF _ lockedLp_simps(1)]
  note unfold = lockLiquidity_def Let_def payer [symmetric] vault [symmetric] 1 2 3 amounts getFeeVaultState_def
  show "f = 0 \<Longrightarrow> u = 0 \<Longrightarrow> lockLiquidity ch L self owner amount feePayer ratio = Inl (Error ''No instructions'')"
    by (simp add: unfold addAll_def)
  show "0 < f \<Longrightarrow> \<not> fetchFeeVault ch vault \<Longrightarrow> lockLiquidity ch L self owner amount feePayer ratio =
      Inl (Error (''Fee vault not found for pool '' @ toBase58 (am_address self)))"
    by (simp add: unfold)
  show "0 < f + u \<Longrightarrow> 0 < f \<longrightarrow> fetchFeeVault ch vault \<Longrightarrow>
      \<exists>tx. lockLiquidity ch L self owner amount feePayer ratio = Inr tx \<and> txs_sum lockedLp [tx] = f + u"
    using assms(2,3) zero [OF 1] zero [OF 2] zero [OF 3]
    by (cases "0 < f"; cases "0 < u") (auto simp: unfold addAll_def)
qed

lemma lockLiquidity_refuses_ratio:
  assumes "calculateLockAmounts L amount (case ratio of Some r \<Rightarrow> r | None \<Rightarrow> 0) = Inl e"
  shows "lockLiquidity ch L self owner amount feePayer ratio = Inl e"
proof -
  let ?lp = "lpMint (am_poolState self)"
  let ?payer = "case feePayer of Some q \<Rightarrow> q | None \<Rightarrow> owner"
  obtain a1 i1 a2 i2 where "getOrCreateATAInstruction ch ?lp ?payer (Some ?payer) = Inr (a1, i1)"
    "getOrCreateATAInstruction ch ?lp (deriveLockEscrowPda ch (am_address self) owner (am_program self))
      (Some ?payer) = Inr (a2, i2)" using ata_total by metis
  then show ?thesis by (simp add: lockLiquidity_def Let_def assms)
qed

lemma moveLockedLP_throws: "moveLockedLP ch self owner newOwner n payer = Inl (Error ''TokenOwnerOffCurveError'')"
proof -
  have "\<not> isOnCurve ch (deriveLockEscrowPda ch (am_address self) owner (am_program self))"
    unfolding deriveLockEscrowPda_def by (rule program_address_off_curve)
  then show ?thesis by (simp add: moveLockedLP_def Let_def ata_off_curve)
qed

end

lemma signers_of:
  assumes "txs_all (\<lambda>ix. ixSignatures ix \<subseteq> S) [tx]" "tx_feePayer tx \<in> S"
  shows "requiredSigners tx \<subseteq> S"
  using assms by (auto simp: requiredSigners_def txs_all_def list_all_iff)

lemma newTransaction_feePayer [simp]: "tx_feePayer (newTransaction ch payer ixs) = payer"
  by (simp add: newTransaction_def)

lemma call_feePayer:
  "swap ch self owner m x y referral = Inr tx \<Longrightarrow> tx_feePayer tx = owner"
  "deposit ch self owner x y lp = Inr tx \<Longrightarrow> tx_feePayer tx = owner"
  "withdraw ch self owner lp x y = Inr tx \<Longrightarrow> tx_feePayer tx = owner"
  "partnerClaimFees ch self owner x y = Inr tx \<Longrightarrow> tx_feePayer tx = owner"
  "claimLockFee2 ch self owner n payer r = Inr tx \<Longrightarrow> tx_feePayer tx = payer"
  "claimLockFee ch self owner n payer receiver temp = Inr tx \<Longrightarrow> tx_feePayer tx = payer"
  "lockLiquidity ch L self owner n feePayer ratio = Inr tx \<Longrightarrow> tx_feePayer tx = (case feePayer of Some q \<Rightarrow> q | None \<Rightarrow> owner)"
  by (auto simp: swap_def deposit_def withdraw_def partnerClaimFees_def claimLockFee2_def Let_def split: if_splits)
    (auto simp: claimLockFee_def lockLiquidity_def addAll_def Let_def split: if_splits)

lemma signers_single: "requiredSigners tx \<subseteq> {k} \<Longrightarrow> tx_feePayer tx = k \<Longrightarrow> requiredSigners tx = {k}"
  by (auto simp: requiredSigners_def)

context chain_laws
begin

lemma call_signers:
  "\<exists>tx. swap ch self owner m x y referral = Inr tx \<and> requiredSigners tx = {owner}"
  "\<exists>tx. deposit ch self owner x y lp = Inr tx \<and> requiredSigners tx = {owner}"
  "\<exists>tx. withdraw ch self owner lp x y = Inr tx \<and> requiredSigners tx = {owner}"
  "\<exists>tx. partnerClaimFees ch self owner x y = Inr tx \<and> requiredSigners tx = {owner}"
  "\<exists>tx. claimLockFee2 ch self owner n payer r = Inr tx \<and> requiredSigners tx \<subseteq> {owner, payer}"
proof -
  show "\<exists>tx. swap ch self owner m x y referral = Inr tx \<and> requiredSigners tx = {owner}"
    using swap_total [of self owner m x y referral] call_signs.all_swap [where S = "{owner}"] call_feePayer(1) signers_of signers_single
    by (metis singletonI)
  show "\<exists>tx. deposit ch self owner x y lp = Inr tx \<and> requiredSigners tx = {owner}"
    using deposit_total [of self owner x y lp] call_signs.all_deposit [where S = "{owner}"] call_feePayer(2) signers_of signers_single
    by (metis singletonI)
  show "\<exists>tx. withdraw ch self owner lp x y = Inr tx \<and> requiredSigners tx = {owner}"
    using withdraw_total [of self owner lp x y] call_signs.all_withdraw [where S = "{owner}"] call_feePayer(3) signers_of signers_single
    by (metis singletonI)
  show "\<exists>tx. partnerClaimFees ch self owner x y = Inr tx \<and> requiredSigners tx = {owner}"
    using partner_total [of self owner x y] call_signs.all_partner [where S = "{owner}"] call_feePayer(4) signers_of signers_single
    by (metis singletonI)
  show "\<exists>tx. claimLockFee2 ch self owner n payer r = Inr tx \<and> requiredSigners tx \<subseteq> {owner, payer}"
    using claim2_total [of self owner n payer r] call_signs.all_claim2 [where S = "{owner, payer}"] call_feePayer(5) signers_of
    by (metis insertCI)
qed

end

text \<open>A pool of the sample whose second token is wrapped SOL.\<close>

definition solAmm :: ammImpl where
  "solAmm = (sampleAmm ConstantProductCurve)
     \<lparr>am_tokenBMint := \<lparr>mint_address = NATIVE_MINT, mint_decimals = 9\<rparr>,
      am_poolState := (samplePool ConstantProductCurve)\<lparr>tokenBMint := NATIVE_MINT\<rparr>\<rparr>"

lemma solAmm_mints: "mint_address (am_tokenAMint solAmm) = tokenAMint (am_poolState solAmm)"
  "mint_address (am_tokenBMint solAmm) = tokenBMint (am_poolState solAmm)" "tokenBMint (am_poolState solAmm) = NATIVE_MINT"
  "tokenAMint (am_poolState solAmm) \<noteq> NATIVE_MINT"
  by (simp_all add: solAmm_def sampleAmm_def sampleImplA_def samplePool_def NATIVE_MINT_def)

section \<open>Properties\<close>



text \<open>
  C31. Every instruction of the program in the transactions that a loaded pool builds names exactly
  the accounts that the program's description lists for it and passes arguments of the described
  types.
\<close>

theorem calls_match_idl:
  "(swap ch self owner inTokenMint x y referral = Inr tx \<longrightarrow> txs_all ix_matches_idl [tx]) \<and>
   (deposit ch self owner x y lp = Inr tx \<longrightarrow> txs_all ix_matches_idl [tx]) \<and>
   (withdraw ch self owner lp x y = Inr tx \<longrightarrow> txs_all ix_matches_idl [tx]) \<and>
   (partnerClaimFees ch self owner x y = Inr tx \<longrightarrow> txs_all ix_matches_idl [tx]) \<and>
   (lockLiquidity ch L self owner n feePayer ratio = Inr tx \<longrightarrow> txs_all ix_matches_idl [tx]) \<and>
   (claimLockFee ch self owner n payer receiver temp = Inr tx \<longrightarrow> txs_all ix_matches_idl [tx]) \<and>
   (claimLockFee2 ch self owner n payer r = Inr tx \<longrightarrow> txs_all ix_matches_idl [tx])"
  by (auto dest: call_matches.all_swap call_matches.all_deposit call_matches.all_withdraw call_matches.all_partner
      call_matches.all_lock [OF _ UNIV_I refl] call_matches.all_claim call_matches.all_claim2)

theorem calls_match_idl_witness:
  "\<exists>tx. deposit liveChain (sampleAmm sampleStableCurve) FEE_OWNER 1000 2000 30 = Inr tx \<and> txs_all ix_matches_idl [tx]"
proof -
  obtain tx where "deposit liveChain (sampleAmm sampleStableCurve) FEE_OWNER 1000 2000 30 = Inr tx"
    using chain_laws.deposit_total [OF sample.chain_laws_axioms] by blast
  then show ?thesis using calls_match_idl [THEN conjunct2, THEN conjunct1] by blast
qed

text \<open>
  C34. Calls wrap exactly what they spend: a swap moves the amount in when its source is wrapped SOL
  and nothing otherwise, a deposit moves the amount of each native side, and a withdrawal moves
  no lamports.
\<close>

theorem calls_wrap_what_they_spend:
  assumes "chain_laws ch"
    and "mint_address (am_tokenAMint self) = tokenAMint (am_poolState self)"
    and "mint_address (am_tokenBMint self) = tokenBMint (am_poolState self)"
    and "inTokenMint \<in> {tokenAMint (am_poolState self), tokenBMint (am_poolState self)}"
  shows "(\<exists>tx. swap ch self owner inTokenMint x y referral = Inr tx \<and>
      txs_sum lamports [tx] = (if inTokenMint = NATIVE_MINT then x else 0)) \<and>
    (\<exists>tx. deposit ch self owner x y lp = Inr tx \<and>
      txs_sum lamports [tx] = (if tokenAMint (am_poolState self) = NATIVE_MINT then x else 0) +
        (if tokenBMint (am_poolState self) = NATIVE_MINT then y else 0)) \<and>
    (\<exists>tx. withdraw ch self owner lp x y = Inr tx \<and> txs_sum lamports [tx] = 0)"
proof (intro conjI)
  obtain tx where "swap ch self owner inTokenMint x y referral = Inr tx"
    using chain_laws.swap_total [OF assms(1)] by blast
  with swap_lamports [OF this] assms(2-4)
  show "\<exists>tx. swap ch self owner inTokenMint x y referral = Inr tx \<and>
      txs_sum lamports [tx] = (if inTokenMint = NATIVE_MINT then x else 0)" by auto
  obtain tx' where "deposit ch self owner x y lp = Inr tx'"
    using chain_laws.deposit_total [OF assms(1)] by blast
  with deposit_lamports [OF this] assms(2,3)
  show "\<exists>tx. deposit ch self owner x y lp = Inr tx \<and>
      txs_sum lamports [tx] = (if tokenAMint (am_poolState self) = NATIVE_MINT then x else 0) +
        (if tokenBMint (am_poolState self) = NATIVE_MINT then y else 0)" by auto
  show "\<exists>tx. withdraw ch self owner lp x y = Inr tx \<and> txs_sum lamports [tx] = 0"
    using chain_laws.withdraw_total [OF assms(1)] withdraw_lamports by blast
qed

theorem calls_wrap_what_they_spend_witness:
  "\<exists>tx. deposit liveChain solAmm FEE_OWNER 7000 1000 30 = Inr tx \<and> txs_sum lamports [tx] = 1000"
  using calls_wrap_what_they_spend [OF sample.chain_laws_axioms solAmm_mints(1,2), of NATIVE_MINT]
  by (simp add: solAmm_mints)

text \<open>
  C29. Locking liquidity locks exactly the amount asked for, over the lock for the owner and the
  one for the fee vault, with the payer as the only signer. It is refused when the share of the
  fee vault is not between 0 and 1, when there is nothing to lock, and when the fee vault has a
  share and does not exist.
\<close>

theorem lockLiquidity_locks_the_amount:
  assumes "chain_laws ch" "math_lib L" "0 \<le> amount"
    and r_def: "r = (case ratio of Some x \<Rightarrow> x | None \<Rightarrow> 0)"
    and vault_def: "vault = deriveFeeVault ch (am_address self) (STAKE_FOR_FEE_PROGRAM_ID ch)"
  shows "if r < 0 \<or> r > 1 then lockLiquidity ch L self owner amount feePayer ratio =
      Inl (Error ''Fee wrapper ratio should be between 0 and 1'')
    else if amount = 0 then lockLiquidity ch L self owner amount feePayer ratio = Inl (Error ''No instructions'')
    else if 0 < decMulDown L amount r \<and> \<not> fetchFeeVault ch vault
    then lockLiquidity ch L self owner amount feePayer ratio =
      Inl (Error (''Fee vault not found for pool '' @ toBase58 (am_address self)))
    else \<exists>tx. lockLiquidity ch L self owner amount feePayer ratio = Inr tx \<and> txs_sum lockedLp [tx] = amount \<and>
      requiredSigners tx = {case feePayer of Some q \<Rightarrow> q | None \<Rightarrow> owner}"
proof (cases "r < 0 \<or> r > 1")
  case True
  then have "calculateLockAmounts L amount r = Inl (Error ''Fee wrapper ratio should be between 0 and 1'')"
    by (simp add: calculateLockAmounts_def)
  with True show ?thesis using chain_laws.lockLiquidity_refuses_ratio [OF assms(1)] by (auto simp: r_def)
next
  case False
  let ?f = "decMulDown L amount r"
  have range: "0 \<le> ?f" "?f \<le> amount" using math_lib.decMulDown_range [OF assms(2,3)] False by auto
  have amounts: "calculateLockAmounts L amount (case ratio of Some r \<Rightarrow> r | None \<Rightarrow> 0) = Inr (?f, amount - ?f)"
    using False by (simp add: calculateLockAmounts_def r_def Let_def)
  note cases = chain_laws.lockLiquidity_cases [OF assms(1) amounts range(1) _ refl vault_def]
  have sign: "requiredSigners tx = {case feePayer of Some q \<Rightarrow> q | None \<Rightarrow> owner}"
    if "lockLiquidity ch L self owner amount feePayer ratio = Inr tx" for tx
    using call_signs.all_lock [OF that singletonI refl] call_feePayer(7) [OF that] signers_of signers_single
    by (metis singletonI)
  consider "amount = 0" | "0 < amount" "0 < ?f" "\<not> fetchFeeVault ch vault" | "0 < amount" "0 < ?f \<longrightarrow> fetchFeeVault ch vault"
    using assms(3) by linarith
  then show ?thesis
  proof cases
    case 1
    then show ?thesis using cases(1) range False by auto
  next
    case 2
    then show ?thesis using cases(2) range False by auto
  next
    case 3
    then obtain tx where "lockLiquidity ch L self owner amount feePayer ratio = Inr tx" "txs_sum lockedLp [tx] = amount"
      using cases(3) [of owner feePayer] range by auto
    with 3 False sign show ?thesis by auto
  qed
qed

theorem lockLiquidity_locks_the_amount_witness:
  "\<exists>tx. lockLiquidity liveChain referenceLib solAmm FEE_OWNER 1000 None (Some (1 / 4)) = Inr tx \<and>
     txs_sum lockedLp [tx] = 1000 \<and> requiredSigners tx = {FEE_OWNER}"
proof -
  have "fetchFeeVault liveChain v" for v by (simp add: sampleChain_def)
  then show ?thesis
    using lockLiquidity_locks_the_amount [where ch = liveChain and amount = 1000 and ratio = "Some (1 / 4)" and
        self = solAmm and owner = FEE_OWNER and feePayer = None,
        OF sample.chain_laws_axioms reference.math_lib_axioms _ refl refl] by simp
qed

text \<open>
  The two claims of locked fees agree: claiming to a receiver through the owner's own wrapped
  SOL account builds the transaction that \<^verbatim>\<open>claimLockFee2\<close> builds.
\<close>

lemma claims_agree:
  assumes "mint_address (am_tokenAMint self) = tokenAMint (am_poolState self)"
    and "mint_address (am_tokenBMint self) = tokenBMint (am_poolState self)"
  shows "claimLockFee ch self owner n payer (Some receiver) (Some owner) = claimLockFee2 ch self owner n payer receiver"
  using assms
  by (simp add: claimLockFee_def claimLockFee2_def claimWithQuoteMintSol_def claimWithQuoteMintNotSol_def unwrapIf_def
      Let_def rbind_assoc case_prod_unfold)

text \<open>
  Moving locked liquidity always throws: it asks for the token account of the owner's escrow
  without allowing an owner off the curve, and an escrow's address is a program address.
\<close>

lemma moveLockedLP_always_throws:
  assumes "chain_laws ch"
  shows "moveLockedLP ch self owner newOwner maxAmount payer = Inl (Error ''TokenOwnerOffCurveError'')"
  by (rule chain_laws.moveLockedLP_throws [OF assms])

end
