(* ===== verification/Examples.thy ===== *)
theory Examples
  imports AmmTransactions
begin

text \<open>
  The scripts of ts-client/src/examples, which put the client's methods together: a swap at its
  quote, a pool created and its liquidity locked for a list of owners, a pool created with an
  authorized configuration, and the readings they print. A script reads the chain again after
  every transaction that it sends and waits for, so it takes a snapshot for each of these
  moments; its result is what it sends, for the case that all of it is confirmed.
\<close>

section \<open>Allocations\<close>

record allocationByPercentage =
  ap_address :: pubkey
  ap_percentage :: rat

record allocationByAmount =
  aa_address :: pubkey
  aa_amount :: int

text \<open>The loop over all but the last allocation: the amounts and their sum.\<close>

fun allocate :: "int \<Rightarrow> rat \<Rightarrow> allocationByPercentage list \<Rightarrow> (allocationByAmount list \<times> int) res" where
  "allocate lpAmount sumPercentage [] = Inr ([], 0)"
| "allocate lpAmount sumPercentage (a # as) =
     rbind (BN_of_number (ap_percentage a)) (\<lambda>p.
     rbind (BN_of_number sumPercentage) (\<lambda>s.
     rbind (bn_div (lpAmount * p) s) (\<lambda>amount.
     rbind (allocate lpAmount sumPercentage as) (\<lambda>(amounts, sum).
     Inr (\<lparr>aa_address = ap_address a, aa_amount = amount\<rparr> # amounts, amount + sum)))))"

definition fromAllocationsToAmount :: "int \<Rightarrow> allocationByPercentage list \<Rightarrow> allocationByAmount list res" where
  "fromAllocationsToAmount lpAmount allocations =
     (let sumPercentage = foldl (\<lambda>partialSum a. js_add partialSum (ap_percentage a)) 0 allocations in
      if sumPercentage = 0 then Inl (Error ''sumPercentage is zero'')
      else rbind (allocate lpAmount sumPercentage (butlast allocations)) (\<lambda>(amounts, sum).
        Inr (amounts @ [\<lparr>aa_address = ap_address (last allocations), aa_amount = lpAmount - sum\<rparr>])))"

section \<open>The scripts\<close>

definition noCreatePoolOpt :: createPoolOpt where
  "noCreatePoolOpt = \<lparr>opt_programId = None, opt_lockLiquidity = False, opt_swapLiquidity = None,
     opt_stakeLiquidity = None, opt_activationPoint = None, opt_skipAAta = False, opt_skipBAta = False,
     opt_feeVault = None\<rparr>"

text \<open>
  \<open>chs 0\<close> is the chain at the start, \<open>chs 1\<close> after the creation, and the chain after each further lock
  follows.
\<close>

fun lockAll :: "(nat \<Rightarrow> chain) \<Rightarrow> mathLib \<Rightarrow> ammImpl \<Rightarrow> pubkey \<Rightarrow> nat \<Rightarrow> allocationByAmount list \<Rightarrow> transaction list res" where
  "lockAll chs L pool payer i [] = Inr []"
| "lockAll chs L pool payer i (a # as) =
     rbind (lockLiquidity (chs i) L pool (aa_address a) (aa_amount a) (Some payer) None) (\<lambda>transaction.
     rbind (lockAll chs L pool payer (Suc i) as) (\<lambda>transactions.
     Inr (transaction # transactions)))"

definition createPoolAndLockLiquidity ::
  "(nat \<Rightarrow> chain) \<Rightarrow> vaultSdk \<Rightarrow> mathLib \<Rightarrow> pubkey \<Rightarrow> pubkey \<Rightarrow> pubkey \<Rightarrow> int \<Rightarrow> int \<Rightarrow> pubkey \<Rightarrow>
    allocationByPercentage list \<Rightarrow> (transaction list \<times> transaction list) res" where
  "createPoolAndLockLiquidity chs V L payer mintA mintB amountA amountB config allocations =
     (let programID = PublicKey PROGRAM_ID;
          poolPubkey = derivePoolAddressWithConfig (chs 0) mintA mintB config programID in
      rbind (createPermissionlessConstantProductPoolWithConfig (chs 0) payer mintA mintB amountA
               amountB config noCreatePoolOpt) (\<lambda>transactions.
      let lpM = findProgramAddressSync (chs 1) [Buffer_from SEEDS_LP_MINT, toBuffer (chs 1) poolPubkey] programID in
      rbind (getAssociatedTokenAccount (chs 1) lpM payer) (\<lambda>payerPoolLp.
      rbind (getTokenAccountBalance (chs 1) payerPoolLp) (\<lambda>payerPoolLpBalance.
      rbind (fromAllocationsToAmount payerPoolLpBalance allocations) (\<lambda>allocationByAmounts.
      rbind (create (chs 1) V L poolPubkey None None None) (\<lambda>pool.
      rbind (lockAll chs L pool payer 1 allocationByAmounts) (\<lambda>locks.
      Inr (transactions, locks))))))))"

text \<open>\<^verbatim>\<open>configs[0]\<close> of no configurations is undefined, and so has no public key.\<close>

definition createPoolWithAuthorizedConfig ::
  "chain \<Rightarrow> pubkey \<Rightarrow> pubkey \<Rightarrow> pubkey \<Rightarrow> int \<Rightarrow> int \<Rightarrow> transaction list res" where
  "createPoolWithAuthorizedConfig ch wallet mintA mintB tokenADepositAmount tokenBDepositAmount =
     (case getPoolConfigsWithPoolCreatorAuthority ch wallet of
        [] \<Rightarrow> Inl TypeError
      | (publicKey, _) # _ \<Rightarrow>
          createPermissionlessConstantProductPoolWithConfig ch wallet mintA mintB tokenADepositAmount
            tokenBDepositAmount publicKey noCreatePoolOpt)"

text \<open>What the scripts print of a pool goes through \<^verbatim>\<open>toNumber\<close>.\<close>

definition printedSupply :: "chain \<Rightarrow> ammImpl \<Rightarrow> int res" where
  "printedSupply ch pool = rbind (getLpSupply ch pool) bn_toNumber"

definition printedAmounts :: "ammImpl \<Rightarrow> (int \<times> int) res" where
  "printedAmounts pool =
     rbind (bn_toNumber (tokenAAmount (am_poolInfo pool))) (\<lambda>a.
     rbind (bn_toNumber (tokenBAmount (am_poolInfo pool))) (\<lambda>b. Inr (a, b)))"

definition exampleSwap :: "chain \<Rightarrow> vaultSdk \<Rightarrow> mathLib \<Rightarrow> pubkey \<Rightarrow> pubkey \<Rightarrow> int \<Rightarrow> bool \<Rightarrow> transaction res" where
  "exampleSwap ch V L wallet poolAddress swapAmount swapAtoB =
     rbind (create ch V L poolAddress None None None) (\<lambda>pool.
     rbind (printedSupply ch pool) (\<lambda>_.
     rbind (bn_toNumber (getLockedLpAmount ch pool)) (\<lambda>_.
     rbind (printedAmounts pool) (\<lambda>_.
     let swapInToken = (if swapAtoB then am_tokenAMint pool else am_tokenBMint pool);
         inTokenMint = mint_address swapInToken in
     rbind (getSwapQuote V L pool inTokenMint swapAmount 100 None) (\<lambda>(pool', swapQuote).
     rbind (bn_toNumber (sq_swapInAmount swapQuote)) (\<lambda>_.
     rbind (bn_toNumber (sq_swapOutAmount swapQuote)) (\<lambda>_.
     rbind (bn_toNumber (sq_fee swapQuote)) (\<lambda>_.
     swap ch pool' wallet (mint_address swapInToken) swapAmount (sq_minSwapOutAmount swapQuote) None))))))))"

definition exampleSwapQuote :: "chain \<Rightarrow> vaultSdk \<Rightarrow> mathLib \<Rightarrow> pubkey \<Rightarrow> int \<Rightarrow> bool \<Rightarrow> swapQuote res" where
  "exampleSwapQuote ch V L poolAddress swapAmount swapAtoB =
     rbind (of_option (Error (''Account does not exist or has no data '' @ toBase58 poolAddress))
             (fetchPool ch poolAddress)) (\<lambda>poolState.
     rbind (create ch V L poolAddress None None None) (\<lambda>pool.
     let inTokenMint = (if swapAtoB then tokenAMint poolState else tokenBMint poolState) in
     rbind (getSwapQuote V L pool inTokenMint swapAmount 100 None) (\<lambda>(_, swapQuote). Inr swapQuote)))"

definition exampleClaimableFee :: "chain \<Rightarrow> vaultSdk \<Rightarrow> mathLib \<Rightarrow> pubkey \<Rightarrow> pubkey \<Rightarrow> lockEscrow option res" where
  "exampleClaimableFee ch V L poolAddress owner =
     rbind (create ch V L poolAddress None None None) (\<lambda>pool. getUserLockEscrow ch V L pool owner)"

definition examplePoolInfo :: "chain \<Rightarrow> vaultSdk \<Rightarrow> mathLib \<Rightarrow> pubkey \<Rightarrow> (pubkey \<times> int \<times> int \<times> int \<times> int) res" where
  "examplePoolInfo ch V L poolAddress =
     rbind (create ch V L poolAddress None None None) (\<lambda>pool.
     let poolTokenAddress = getPoolTokenMint pool in
     rbind (bn_toNumber (getLockedLpAmount ch pool)) (\<lambda>lockedLpAmount.
     rbind (printedSupply ch pool) (\<lambda>lpSupply.
     rbind (printedAmounts pool) (\<lambda>(a, b).
     Inr (poolTokenAddress, lockedLpAmount, lpSupply, a, b)))))"

section \<open>What the allocations give\<close>

text \<open>Whole percentages are added exactly up to 53 bits.\<close>

lemma percentages_add:
  assumes "\<forall>a \<in> set as. ap_percentage a = of_int (pct a) \<and> 0 \<le> pct a" "0 \<le> s" "s + sum_list (map pct as) < 2 ^ 53"
  shows "foldl (\<lambda>partialSum a. js_add partialSum (ap_percentage a)) (of_int s) as = of_int (s + sum_list (map pct as))"
  using assms
proof (induction as arbitrary: s)
  case (Cons a as)
  have "0 \<le> sum_list (map pct as)" using Cons.prems(1) by (intro sum_list_nonneg) auto
  with Cons.prems have "js_add (of_int s) (ap_percentage a) = of_int (s + pct a)"
    using js_round_int [of "s + pct a"] by (simp add: js_add_def)
  with Cons.IH [of "s + pct a"] Cons.prems show ?case by (simp add: add.assoc)
qed simp

lemma shares_bounds:
  assumes "0 < (t::int)"
  shows "t * (\<Sum>a\<leftarrow>as. lp * pct a div t) \<le> lp * sum_list (map pct as) \<and>
    lp * sum_list (map pct as) \<le> t * (\<Sum>a\<leftarrow>as. lp * pct a div t) + int (length as) * (t - 1)"
proof (induction as)
  case (Cons a as)
  define q where "q = lp * pct a div t"
  define r where "r = lp * pct a mod t"
  define s where "s = sum_list (map pct as)"
  define u where "u = (\<Sum>a\<leftarrow>as. lp * pct a div t)"
  have e: "lp * pct a = t * q + r" by (simp add: q_def r_def)
  have r: "0 \<le> r" "r < t" using assms by (simp_all add: r_def)
  have "lp * (pct a + s) = t * q + r + lp * s" by (simp add: e distrib_left)
  moreover have "t * (q + u) = t * q + t * u" by (simp add: distrib_left)
  moreover have "int (length (a # as)) * (t - 1) = int (length as) * (t - 1) + (t - 1)" by (simp add: algebra_simps)
  ultimately have "t * (q + u) \<le> lp * (pct a + s) \<and> lp * (pct a + s) \<le> t * (q + u) + int (length (a # as)) * (t - 1)"
    using Cons r unfolding s_def [symmetric] u_def [symmetric] by linarith
  then show ?case by (simp add: q_def s_def u_def)
qed simp

lemma rest_bound:
  fixes t :: int
  assumes "0 < t" "lp * s \<le> t * u + int n * (t - 1)" "lp * p = lp * t - lp * s" "lp * p < t * (q + 1)"
  shows "lp - u < q + (int n + 1)"
proof -
  have "t * (lp - u) < t * (q + (int n + 1))" using assms(2-4) by (simp add: algebra_simps)
  then show ?thesis using assms(1) by simp
qed

lemma BN_of_int: "0 \<le> n \<Longrightarrow> n < 2 ^ 53 \<Longrightarrow> BN_of_number (of_int n) = Inr n"
proof -
  assume n: "0 \<le> n" "n < 2 ^ 53"
  then have "(of_int n :: rat) < of_int (2 ^ 53)" by (simp only: of_int_less_iff)
  with n show ?thesis by (subst BN_of_number_nonneg) simp_all
qed

lemma allocate_shares:
  assumes "\<forall>a \<in> set as. ap_percentage a = of_int (pct a) \<and> 0 \<le> pct a \<and> pct a \<le> t" "0 < t" "t < 2 ^ 53" "0 \<le> lp"
  shows "allocate lp (of_int t) as =
    Inr (map (\<lambda>a. \<lparr>aa_address = ap_address a, aa_amount = lp * pct a div t\<rparr>) as, \<Sum>a\<leftarrow>as. lp * pct a div t)"
  using assms(1)
proof (induction as)
  case (Cons a as)
  then have "BN_of_number (ap_percentage a) = Inr (pct a)" using assms(3) by (simp add: BN_of_int)
  moreover have "BN_of_number (of_int t) = Inr t" using assms(2,3) by (simp add: BN_of_int)
  moreover have "bn_div (lp * pct a) t = Inr (lp * pct a div t)"
    using Cons.prems assms(2,4) by (simp add: bn_div_def sdiv_nonneg_eq_div)
  ultimately show ?case using Cons by simp
qed simp

text \<open>The amounts as the script means them: each share rounded down, and the rest to the last.\<close>

definition shares :: "(allocationByPercentage \<Rightarrow> int) \<Rightarrow> int \<Rightarrow> allocationByPercentage list \<Rightarrow> int list" where
  "shares pct lp as = map (\<lambda>a. lp * pct a div sum_list (map pct as)) as"

lemma allocations:
  assumes "\<forall>a \<in> set as. ap_percentage a = of_int (pct a) \<and> 0 \<le> pct a"
    and "0 < sum_list (map pct as)" "sum_list (map pct as) < 2 ^ 53" "0 \<le> lp"
  shows "\<exists>amounts. fromAllocationsToAmount lp as = Inr amounts \<and> map aa_address amounts = map ap_address as \<and>
    sum_list (map aa_amount amounts) = lp \<and> butlast (map aa_amount amounts) = butlast (shares pct lp as) \<and>
    last (shares pct lp as) \<le> last (map aa_amount amounts) \<and>
    last (map aa_amount amounts) < last (shares pct lp as) + int (length as)"
proof -
  let ?t = "sum_list (map pct as)" and ?b = "butlast as"
  have ne: "as \<noteq> []" using assms(2) by auto
  then have as: "as = ?b @ [last as]" by simp
  have "pct a \<le> ?t" if "a \<in> set as" for a
    using that assms(1) by (intro member_le_sum_list) auto
  then have alloc: "allocate lp (of_int ?t) ?b =
      Inr (map (\<lambda>a. \<lparr>aa_address = ap_address a, aa_amount = lp * pct a div ?t\<rparr>) ?b, \<Sum>a\<leftarrow>?b. lp * pct a div ?t)"
    using assms by (intro allocate_shares) (auto dest: in_set_butlastD)
  have sum: "foldl (\<lambda>partialSum a. js_add partialSum (ap_percentage a)) 0 as = of_int ?t"
    using percentages_add [of as pct 0] assms(1,3) by simp
  have t: "?t = sum_list (map pct ?b) + pct (last as)"
    by (subst as, simp only: map_append sum_list_append) simp
  let ?r = "lp - (\<Sum>a\<leftarrow>?b. lp * pct a div ?t)"
  have from_def: "fromAllocationsToAmount lp as =
      Inr (map (\<lambda>a. \<lparr>aa_address = ap_address a, aa_amount = lp * pct a div ?t\<rparr>) ?b @
        [\<lparr>aa_address = ap_address (last as), aa_amount = ?r\<rparr>])"
    using assms(2) by (simp add: fromAllocationsToAmount_def sum alloc)
  have b: "?t * (\<Sum>a\<leftarrow>?b. lp * pct a div ?t) \<le> lp * sum_list (map pct ?b)"
    "lp * sum_list (map pct ?b) \<le> ?t * (\<Sum>a\<leftarrow>?b. lp * pct a div ?t) + int (length ?b) * (?t - 1)"
    using shares_bounds [OF assms(2), of lp pct ?b] by blast+
  have l: "lp * pct (last as) = lp * ?t - lp * sum_list (map pct ?b)" by (simp add: t algebra_simps)
  have lo: "lp * pct (last as) \<le> ?t * ?r" using b(1) l by (simp add: algebra_simps)
  then have "lp * pct (last as) div ?t \<le> ?r"
    using assms(2) by (metis nonzero_mult_div_cancel_left less_irrefl zdiv_mono1)
  moreover have "?r < lp * pct (last as) div ?t + int (length as)"
  proof -
    have "lp * pct (last as) < ?t * (lp * pct (last as) div ?t + 1)"
      using assms(2) by (metis add.commute distrib_left mult.right_neutral mult_div_mod_eq add_less_cancel_left pos_mod_bound)
    note r = rest_bound [OF assms(2) b(2) l this]
    have "int (length ?b) + 1 = int (length as)" using ne by (cases as) simp_all
    then show ?thesis using r by (simp only:)
  qed
  moreover have "last (shares pct lp as) = lp * pct (last as) div ?t" "butlast (shares pct lp as) = map (\<lambda>a. lp * pct a div ?t) ?b"
    using ne by (simp_all add: shares_def last_map map_butlast)
  moreover have "map ap_address as = map ap_address ?b @ [ap_address (last as)]" by (subst as) simp
  ultimately show ?thesis by (simp add: from_def comp_def)
qed

lemma allocations_nonneg:
  assumes "\<forall>a \<in> set as. ap_percentage a = of_int (pct a) \<and> 0 \<le> pct a"
    and "0 < sum_list (map pct as)" "sum_list (map pct as) < 2 ^ 53" "0 \<le> lp"
  shows "\<exists>amounts. fromAllocationsToAmount lp as = Inr amounts \<and> map aa_address amounts = map ap_address as \<and>
    sum_list (map aa_amount amounts) = lp \<and> (\<forall>a \<in> set amounts. 0 \<le> aa_amount a)"
proof -
  obtain amounts where a: "fromAllocationsToAmount lp as = Inr amounts" "map aa_address amounts = map ap_address as"
    "sum_list (map aa_amount amounts) = lp" "butlast (map aa_amount amounts) = butlast (shares pct lp as)"
    "last (shares pct lp as) \<le> last (map aa_amount amounts)"
    using allocations [OF assms] by blast
  have "as \<noteq> []" using assms(2) by auto
  then have ne: "shares pct lp as \<noteq> []" "map aa_amount amounts \<noteq> []"
    using a(2) by (auto simp: shares_def)
  have pos: "\<forall>n \<in> set (shares pct lp as). 0 \<le> n"
    using assms by (auto simp: shares_def pos_imp_zdiv_nonneg_iff)
  have "map aa_amount amounts = butlast (shares pct lp as) @ [last (map aa_amount amounts)]"
    using append_butlast_last_id [OF ne(2)] a(4) by simp
  moreover have "0 \<le> last (map aa_amount amounts)" using a(5) pos last_in_set [OF ne(1)] by fastforce
  ultimately have "\<forall>n \<in> set (map aa_amount amounts). 0 \<le> n"
    using pos by (metis in_set_butlastD set_append Un_iff empty_iff empty_set insert_iff list.simps(15))
  with a show ?thesis by auto
qed

section \<open>What the script locks\<close>

text \<open>Without a ratio the fee vault gets a share of zero.\<close>

locale lock_math = math_lib +
  assumes decMulDown_zero: "decMulDown L n 0 = 0"

interpretation reference_lock: lock_math referenceLib
  by unfold_locales (simp add: referenceLib_def)

text \<open>A transaction locks an amount for an owner in the owner's escrow of the pool.\<close>

definition locks_for :: "chain \<Rightarrow> ammImpl \<Rightarrow> pubkey \<Rightarrow> int \<Rightarrow> transaction \<Rightarrow> bool" where
  "locks_for ch pool owner n tx \<longleftrightarrow>
     list_ex (\<lambda>ix. case ix of
         ProgramIx program name args accounts remaining \<Rightarrow>
           program = am_program pool \<and> name = ''lock'' \<and> args = [BNArg n] \<and>
           map_of accounts ''pool'' = Some (am_address pool) \<and>
           map_of accounts ''lockEscrow'' = Some (deriveLockEscrowPda ch (am_address pool) owner (am_program pool))
       | _ \<Rightarrow> False) (tx_instructions tx)"

definition locks_part :: "chain \<Rightarrow> ammImpl \<Rightarrow> pubkey \<Rightarrow> allocationByAmount \<Rightarrow> transaction \<Rightarrow> bool" where
  "locks_part ch pool payer a tx \<longleftrightarrow> locks_for ch pool (aa_address a) (aa_amount a) tx \<and>
     txs_sum lockedLp [tx] = aa_amount a \<and> requiredSigners tx = {payer}"

lemma lock_part:
  assumes "chain_laws ch" "lock_math L" "0 \<le> aa_amount a"
  shows "if aa_amount a = 0
    then lockLiquidity ch L pool (aa_address a) (aa_amount a) (Some payer) None = Inl (Error ''No instructions'')
    else \<exists>tx. lockLiquidity ch L pool (aa_address a) (aa_amount a) (Some payer) None = Inr tx \<and> locks_part ch pool payer a tx"
proof -
  have amounts: "calculateLockAmounts L (aa_amount a) (case None of Some r \<Rightarrow> r | None \<Rightarrow> 0) = Inr (0, aa_amount a)"
    using lock_math.decMulDown_zero [OF assms(2)] by (simp add: calculateLockAmounts_def)
  note cases = chain_laws.lockLiquidity_cases [OF assms(1) amounts _ _ refl refl, simplified]
  have "requiredSigners tx = {payer}" if "lockLiquidity ch L pool (aa_address a) (aa_amount a) (Some payer) None = Inr tx" for tx
    using call_signs.all_lock [OF that, of payer "{payer}"] call_feePayer(7) [OF that] signers_of signers_single by auto
  moreover have "locks_for ch pool (aa_address a) (aa_amount a) tx"
    if "0 < aa_amount a" "lockLiquidity ch L pool (aa_address a) (aa_amount a) (Some payer) None = Inr tx" for tx
    using that amounts
    by (auto simp: lockLiquidity_def Let_def locks_for_def newTransaction_def methodTx_def lockIx_def split: prod.splits)
  moreover have "\<exists>tx. lockLiquidity ch L pool (aa_address a) (aa_amount a) (Some payer) None = Inr tx \<and>
      txs_sum lockedLp [tx] = aa_amount a" if "0 < aa_amount a"
    using cases(3) assms(3) that by auto
  ultimately show ?thesis using cases(1) assms(3)
    by (cases "aa_amount a = 0") (simp, fastforce simp: locks_part_def)
qed

lemma lockAll_parts:
  assumes "\<forall>i. chain_laws (chs i)" "lock_math L" "\<forall>a \<in> set as. 0 \<le> aa_amount a"
  shows "if 0 \<in> aa_amount ` set as then lockAll chs L pool payer i as = Inl (Error ''No instructions'')
    else \<exists>locks. lockAll chs L pool payer i as = Inr locks \<and> length locks = length as \<and>
      (\<forall>k < length as. locks_part (chs (i + k)) pool payer (as ! k) (locks ! k)) \<and>
      txs_sum lockedLp locks = sum_list (map aa_amount as)"
  using assms(3)
proof (induction as arbitrary: i)
  case Nil
  then show ?case by (simp add: txs_sum_def)
next
  case (Cons a as)
  note IH = Cons.IH [of "Suc i"]
  have "chain_laws (chs i)" "0 \<le> aa_amount a" using assms(1) Cons.prems by auto
  from lock_part [OF this(1) assms(2) this(2), of pool payer] show ?case
  proof (cases "aa_amount a = 0")
    case False
    with \<open>if aa_amount a = 0 then _ else _\<close> obtain tx where tx:
      "lockLiquidity (chs i) L pool (aa_address a) (aa_amount a) (Some payer) None = Inr tx" "locks_part (chs i) pool payer a tx"
      by auto
    have "txs_sum lockedLp (tx # locks) = txs_sum lockedLp [tx] + txs_sum lockedLp locks" for locks
      by (simp add: txs_sum_def)
    moreover have "txs_sum lockedLp [tx] = aa_amount a" using tx(2) by (simp add: locks_part_def)
    ultimately show ?thesis using False IH Cons.prems tx
      by (auto simp: nth_Cons' less_Suc_eq_0_disj split: if_splits)
  qed simp
qed

section \<open>Properties\<close>

text \<open>
  C35. Whole percentages that add up to less than 53 bits split an amount without loss: one amount
  for each owner in the order given, adding up to the whole; every owner but the last gets the
  share rounded down, and the last the rest, which is less than the number of owners above it.
\<close>

theorem allocations_add_up:
  assumes "\<forall>a \<in> set allocations. ap_percentage a = of_int (pct a) \<and> 0 \<le> pct a"
    and "0 < sum_list (map pct allocations)" "sum_list (map pct allocations) < 2 ^ 53" "0 \<le> lpAmount"
  shows "\<exists>amounts. fromAllocationsToAmount lpAmount allocations = Inr amounts \<and>
    map aa_address amounts = map ap_address allocations \<and> sum_list (map aa_amount amounts) = lpAmount \<and>
    butlast (map aa_amount amounts) = butlast (shares pct lpAmount allocations) \<and>
    last (shares pct lpAmount allocations) \<le> last (map aa_amount amounts) \<and>
    last (map aa_amount amounts) < last (shares pct lpAmount allocations) + int (length allocations)"
  by (rule allocations [OF assms])

theorem allocations_add_up_witness:
  "\<exists>amounts. fromAllocationsToAmount 1001
       [\<lparr>ap_address = FEE_OWNER, ap_percentage = 80\<rparr>, \<lparr>ap_address = METAPLEX_PROGRAM, ap_percentage = 20\<rparr>] = Inr amounts \<and>
     map aa_address amounts = [FEE_OWNER, METAPLEX_PROGRAM] \<and> sum_list (map aa_amount amounts) = 1001 \<and>
     butlast (map aa_amount amounts) = [800]"
  using allocations_add_up [where pct = "\<lambda>a. \<lfloor>ap_percentage a\<rfloor>" and lpAmount = 1001 and
      allocations = "[\<lparr>ap_address = FEE_OWNER, ap_percentage = 80\<rparr>, \<lparr>ap_address = METAPLEX_PROGRAM, ap_percentage = 20\<rparr>]"]
  by (auto simp: shares_def)

text \<open>
  C15. The script that creates a pool locks the whole balance of the payer for the owners it is
  given: after the creation and the loading of the pool it builds one transaction for each, in
  order, which locks the owner's part in the owner's escrow of the created pool and needs only
  the payer's signature, and the parts add up to the balance. It stops with an error exactly when
  a part is zero, as nothing can be added to its transaction.
\<close>

theorem script_locks_whole_balance:
  assumes "\<forall>i. chain_laws (chs i)" "lock_math L"
    and pct: "\<forall>a \<in> set allocations. ap_percentage a = of_int (pct a) \<and> 0 \<le> pct a"
      "0 < sum_list (map pct allocations)" "sum_list (map pct allocations) < 2 ^ 53"
    and pool: "poolPubkey = derivePoolAddressWithConfig (chs 0) mintA mintB config (PublicKey PROGRAM_ID)"
      "createPermissionlessConstantProductPoolWithConfig (chs 0) payer mintA mintB amountA amountB config noCreatePoolOpt =
        Inr transactions"
      "create (chs 1) V L poolPubkey None None None = Inr pool"
    and balance: "getAssociatedTokenAccount (chs 1)
        (findProgramAddressSync (chs 1) [Buffer_from SEEDS_LP_MINT, toBuffer (chs 1) poolPubkey] (PublicKey PROGRAM_ID)) payer =
        Inr account" "getTokenAccountBalance (chs 1) account = Inr balance" "0 \<le> balance"
  shows "\<exists>parts. fromAllocationsToAmount balance allocations = Inr parts \<and> map aa_address parts = map ap_address allocations \<and>
    (if 0 \<in> aa_amount ` set parts
     then createPoolAndLockLiquidity chs V L payer mintA mintB amountA amountB config allocations = Inl (Error ''No instructions'')
     else \<exists>locks. createPoolAndLockLiquidity chs V L payer mintA mintB amountA amountB config allocations =
         Inr (transactions, locks) \<and> am_address pool = poolPubkey \<and> length locks = length parts \<and>
       (\<forall>k < length parts. locks_part (chs (Suc k)) pool payer (parts ! k) (locks ! k)) \<and>
       txs_sum lockedLp locks = balance)"
proof -
  obtain parts where parts: "fromAllocationsToAmount balance allocations = Inr parts"
    "map aa_address parts = map ap_address allocations" "sum_list (map aa_amount parts) = balance"
    "\<forall>a \<in> set parts. 0 \<le> aa_amount a"
    using allocations_nonneg [OF pct balance(3)] by blast
  have "am_address pool = poolPubkey" using create_inv [OF pool(3)] by simp
  moreover have "createPoolAndLockLiquidity chs V L payer mintA mintB amountA amountB config allocations =
      rbind (lockAll chs L pool payer 1 parts) (\<lambda>locks. Inr (transactions, locks))"
    using pool(2,3) balance parts(1) by (simp add: createPoolAndLockLiquidity_def Let_def flip: pool(1))
  ultimately show ?thesis
    using lockAll_parts [OF assms(1,2) parts(4), of pool payer 1] parts(1-3) by (auto split: if_splits)
qed

text \<open>The sample chain after a creation: every address of the AMM holds the sample pool.\<close>

abbreviation createdChain :: chain where
  "createdChain \<equiv> sampleChain sampleAccounts (\<lambda>_. Some (samplePool ConstantProductCurve)) sampleVaults (\<lambda>_. None) []"

lemma created_loads: "\<exists>amm. create createdChain programSdk referenceLib p None None None = Inr amm"
proof -
  let ?ps = "samplePool ConstantProductCurve"
  have vaults: "aVault ?ps = PublicKey ''aVault''" "bVault ?ps = PublicKey ''bVault''" by (simp_all add: samplePool_def)
  have state: "getPoolState createdChain p = Inr (?ps, 30000000000)"
    by (simp add: getPoolState_def live_defs read_bytes SYSVAR_CLOCK_PUBKEY_def)
  have "length (clockBytes 200000000 1700000000) = 40" by (simp add: clockBytes_def)
  then have clock: "clockOf createdChain = Inr (200000000, 1700000000)"
    "accountOf createdChain SYSVAR_CLOCK SYSVAR_CLOCK_PUBKEY = Inr 1700000000"
    by (simp_all add: clockOf_def accountOf_def decodeAccountTypeMapper_def sampleAccounts_def layout_decode_u64_def
        layout_decode_i64_def readBigInt64LE_def read_bytes)
  have info: "loadedInfo createdChain sampleImplA sampleImplB ?ps (200000000, 1700000000) = Inr sampleInfo"
    by (simp add: loadedInfo_def poolAccountTypes_def accountOf_def decodeAccountTypeMapper_def live_defs read_bytes sampleInfo_def
        SYSVAR_CLOCK_PUBKEY_def)
  have "typed sampleKind (poolAccountTypes sampleImplA sampleImplB ?ps @ [(SYSVAR_CLOCK, SYSVAR_CLOCK_PUBKEY)])"
    by (auto simp: sample_defs live_vaults typed_def poolAccountTypes_def sampleKind_def
        sampleImplA_def sampleImplB_def vaultStateA_def vaultStateB_def SYSVAR_CLOCK_PUBKEY_def)
  then have read: "readPoolAccounts createdChain sampleImplA sampleImplB ?ps = Inr sampleInfo"
    using sample.readPoolAccounts_eq clock info by auto
  have "getStakePubkey ?ps = None" by (auto simp: getStakePubkey_def sample_defs)
  then have dep: "getDepegAccounts createdChain [?ps] = Inr Map.empty"
    by (simp add: sample.depeg_accounts List.map_filter_simps)
  have "case poolInfoOf programSdk referenceLib sampleInfo ConstantProductSwap sampleImplA sampleImplB of Inl _ \<Rightarrow> False | Inr _ \<Rightarrow> True"
    by code_simp
  then have "\<exists>a. newAmmImpl programSdk referenceLib (createProgram createdChain None) ''mainnet-beta'' Map.empty p
      (?ps, 30000000000) sampleImplA sampleImplB sampleInfo = Inr a"
    by (auto simp: newAmmImpl_def newSwapCurve_def samplePool_def split: sum.splits)
  moreover have "create createdChain programSdk referenceLib p None None None =
      newAmmImpl programSdk referenceLib (createProgram createdChain None) ''mainnet-beta'' Map.empty p
        (?ps, 30000000000) sampleImplA sampleImplB sampleInfo"
    by (simp add: sample.create_eq state vaults live_vaults read dep)
  ultimately show ?thesis by simp
qed

lemma created_pool:
  "\<exists>txs. createPermissionlessConstantProductPoolWithConfig createdChain payer a b x y config noCreatePoolOpt = Inr txs"
proof -
  let ?prog = "createProgram createdChain None"
  obtain k ia ib where "poolAccountsOf createdChain ?prog payer (derivePoolAddressWithConfig createdChain a b config (ammProgramId ?prog))
      a b (setupVault createdChain ?prog payer a) (setupVault createdChain ?prog payer b) = Inr (k, ia, ib)"
    using sample_accounts by metis
  then show ?thesis
    by (auto simp: createPermissionlessConstantProductPoolWithConfig_def Let_def noCreatePoolOpt_def createTransactions_def
        swapTxs_def createPoolIxs_def methodTx_def addAll_def)
qed

theorem script_locks_whole_balance_witness:
  "\<exists>transactions locks. createPoolAndLockLiquidity (\<lambda>_. createdChain) programSdk referenceLib FEE_OWNER METAPLEX_PROGRAM
       NATIVE_MINT 100000 500000 (sampleKey 1)
       [\<lparr>ap_address = FEE_OWNER, ap_percentage = 80\<rparr>, \<lparr>ap_address = METAPLEX_PROGRAM, ap_percentage = 20\<rparr>] =
     Inr (transactions, locks) \<and> length locks = 2 \<and> txs_sum lockedLp locks = 1000000"
proof -
  let ?as = "[\<lparr>ap_address = FEE_OWNER, ap_percentage = 80\<rparr>, \<lparr>ap_address = METAPLEX_PROGRAM, ap_percentage = 20\<rparr>]"
  let ?pool = "derivePoolAddressWithConfig createdChain METAPLEX_PROGRAM NATIVE_MINT (sampleKey 1) (PublicKey PROGRAM_ID)"
  obtain transactions where 1: "createPermissionlessConstantProductPoolWithConfig createdChain FEE_OWNER METAPLEX_PROGRAM NATIVE_MINT
      100000 500000 (sampleKey 1) noCreatePoolOpt = Inr transactions" using created_pool by blast
  obtain amm where 2: "create createdChain programSdk referenceLib ?pool None None None = Inr amm" using created_loads by blast
  have 3: "getAssociatedTokenAccount createdChain (findProgramAddressSync createdChain
      [Buffer_from SEEDS_LP_MINT, toBuffer createdChain ?pool] (PublicKey PROGRAM_ID)) FEE_OWNER =
      Inr (THE a. getAssociatedTokenAccount createdChain (findProgramAddressSync createdChain
      [Buffer_from SEEDS_LP_MINT, toBuffer createdChain ?pool] (PublicKey PROGRAM_ID)) FEE_OWNER = Inr a)"
    by (simp add: getAssociatedTokenAccount_def token_address_def)
  have "fromAllocationsToAmount 1000000 ?as = Inr [\<lparr>aa_address = FEE_OWNER, aa_amount = 800000\<rparr>,
      \<lparr>aa_address = METAPLEX_PROGRAM, aa_amount = 200000\<rparr>]"
    by code_simp
  with script_locks_whole_balance [where chs = "\<lambda>_. createdChain" and allocations = ?as and pct = "\<lambda>a. \<lfloor>ap_percentage a\<rfloor>",
      OF _ reference_lock.lock_math_axioms _ _ _ refl 1 2 3 sample_reads(4)] sample.chain_laws_axioms
  show ?thesis by auto
qed

text \<open>
  The example of a swap passes 100 as the slippage, which is a percentage: the minimum it sends is
  zero, and the swap is executed at any price.
\<close>

lemma full_slippage: "getMinAmountWithSlippage amount 100 = Inr 0"
proof -
  have "BN_of_number (js_mul (js_div (js_sub 100 100) 100) 10000) = Inr 0" by code_simp
  then show ?thesis by (simp add: getMinAmountWithSlippage_def bn_div_def)
qed

lemma example_swap_has_no_minimum:
  assumes "exampleSwap ch V L wallet poolAddress swapAmount swapAtoB = Inr tx"
  shows "\<exists>pool m. swap ch pool wallet m swapAmount 0 None = Inr tx \<and> am_address pool = poolAddress"
proof -
  obtain pool pool' q m where 1: "create ch V L poolAddress None None None = Inr pool"
    "getSwapQuote V L pool m swapAmount 100 None = Inr (pool', q)"
    "swap ch pool' wallet m swapAmount (sq_minSwapOutAmount q) None = Inr tx"
    using assms by (auto simp: exampleSwap_def Let_def)
  have "sq_minSwapOutAmount q = 0" "am_address pool' = am_address pool"
    using 1(2) by (auto simp: getSwapQuote_def full_slippage setPoolState_def)
  with 1(3) create_inv [OF 1(1)] show ?thesis by metis
qed

end
