(* ===== verification/RustQuote.thy ===== *)
theory RustQuote
  imports SwapQuote "HOL-Library.Mapping" "HOL-Library.AList_Mapping" "HOL-Library.Monad_Syntax"
begin

text \<open>
  The quote of the Rust library dynamic-amm-quote (lib.rs, math, depeg) over the fee and
  multiplier arithmetic of the program's state (programs/dynamic-amm/src/state.rs). Amounts are
  integers of which every operation that the code checks is checked at its width: \<open>checked 64\<close>
  for a u64, \<open>checked 128\<close> for a u128. The crates the library calls (spl-token-swap,
  meteora-stable-swap, marinade-sdk) are the parameter \<open>rustLib\<close>, with the locale \<open>rust_crates\<close>
  for what the proofs rely on.
\<close>

section \<open>Errors and state\<close>

text \<open>
  What a call can fail with: an error of the crate anyhow with its message, a conversion between
  integer types out of range, an error of the program, or a panic (a slice out of range).
\<close>

datatype rust_error = Anyhow string | TryFromIntError | PoolError string | Panic

type_synonym 'a rust = "rust_error + 'a"

abbreviation context_of :: "'a option \<Rightarrow> string \<Rightarrow> 'a rust" where
  "context_of x m \<equiv> of_option (Anyhow m) x"

definition try_into_u64 :: "int \<Rightarrow> int rust" where
  "try_into_u64 n = of_option TryFromIntError (checked 64 n)"

text \<open>\<^verbatim>\<open>as u64\<close> of an i64 wraps.\<close>

definition as_u64 :: "int \<Rightarrow> int" where
  "as_u64 n = n mod 2 ^ 64"

text \<open>
  Of a token account the library reads the amount, of a mint the supply, so \<open>quoteData\<close> holds
  these. The state of a pool and of a vault is that of the accounts the client decodes.
\<close>

record clock =
  clk_slot :: int
  clk_unix_timestamp :: int

record vaultInfo =
  vi_lp_amount :: int
  vi_lp_supply :: int
  vi_vault :: vaultState

record quoteData =
  qd_pool :: poolState
  qd_vault_a :: vaultState
  qd_vault_b :: vaultState
  qd_pool_vault_a_lp_token :: int
  qd_pool_vault_b_lp_token :: int
  qd_vault_a_lp_mint :: int
  qd_vault_b_lp_mint :: int
  qd_vault_a_token :: int
  qd_vault_b_token :: int
  qd_clock :: clock
  qd_stake_data :: "(pubkey, bytes) mapping"

record quoteResult =
  qr_out_amount :: int
  qr_fee :: int

section \<open>The crates\<close>

datatype saberStableSwap =
  SaberStableSwap_new int int int int int \<comment> \<open>initial and target amp, current, start and stop time of the ramp\<close>

text \<open>The fields the library sets; the others are those of \<^verbatim>\<open>Default::default()\<close>.\<close>

record saberFeesRs =
  admin_trade_fee_denominator :: int
  admin_withdraw_fee_denominator :: int
  trade_fee_denominator :: int
  withdraw_fee_denominator :: int

record rustLib =
  spl_swap :: "int \<Rightarrow> int \<Rightarrow> int \<Rightarrow> (int \<times> int) option" \<comment> \<open>source and destination amount swapped\<close>
  saber_swap_to2 :: "saberStableSwap \<Rightarrow> int \<Rightarrow> int \<Rightarrow> int \<Rightarrow> saberFeesRs \<Rightarrow> int option" \<comment> \<open>\<^verbatim>\<open>amount_swapped\<close>\<close>
  marinade_msol_price :: "bytes \<Rightarrow> int option" \<comment> \<open>\<^verbatim>\<open>State::deserialize(bytes)\<close>, \<^verbatim>\<open>msol_price\<close>\<close>
  marinade_PRICE_DENOMINATOR :: int

section \<open>Fees and multipliers of the program\<close>

definition HOST_TRADE_FEE_NUMERATOR :: int where "HOST_TRADE_FEE_NUMERATOR = 20000"
definition FEE_DENOMINATOR :: int where "FEE_DENOMINATOR = 100000"
definition depeg_BASE_CACHE_EXPIRES :: int where "depeg_BASE_CACHE_EXPIRES = 60 * 10"
definition depeg_PRECISION :: int where "depeg_PRECISION = 10 ^ 6"

definition ActivationType_try_from :: "int \<Rightarrow> string + activationType" where
  "ActivationType_try_from s =
     (if s = 0 then Inr Slot else if s = 1 then Inr Timestamp else Inl ''Invalid value'')"

definition DepegType_is_none :: "depegType \<Rightarrow> bool" where
  "DepegType_is_none t = (case t of DepegNone \<Rightarrow> True | _ \<Rightarrow> False)"

definition calculate_fee :: "int \<Rightarrow> int \<Rightarrow> int \<Rightarrow> int option" where
  "calculate_fee token_amount fee_numerator fee_denominator =
     (if fee_numerator = 0 \<or> token_amount = 0 then Some 0
      else do {
        p \<leftarrow> checked 128 (token_amount * fee_numerator);
        fee \<leftarrow> checked_div p fee_denominator;
        if fee = 0 then Some 1 else Some fee
      })"

definition host_trading_fee :: "int \<Rightarrow> int option" where
  "host_trading_fee trading_tokens = do {
     p \<leftarrow> checked 128 (trading_tokens * HOST_TRADE_FEE_NUMERATOR);
     checked_div p FEE_DENOMINATOR
   }"

definition trading_fee :: "poolFees \<Rightarrow> int \<Rightarrow> int option" where
  "trading_fee self trading_tokens =
     calculate_fee trading_tokens (tradeFeeNumerator self) (tradeFeeDenominator self)"

definition protocol_trading_fee :: "poolFees \<Rightarrow> int \<Rightarrow> int option" where
  "protocol_trading_fee self trading_tokens =
     calculate_fee trading_tokens (protocolTradeFeeNumerator self) (protocolTradeFeeDenominator self)"

definition multiplier_upscale_token_a :: "tokenMultiplier \<Rightarrow> int \<Rightarrow> int option" where
  "multiplier_upscale_token_a self token_amount = checked 128 (token_amount * tokenAMultiplier self)"

definition multiplier_upscale_token_b :: "tokenMultiplier \<Rightarrow> int \<Rightarrow> int option" where
  "multiplier_upscale_token_b self token_amount = checked 128 (token_amount * tokenBMultiplier self)"

definition multiplier_downscale_token_a :: "tokenMultiplier \<Rightarrow> int \<Rightarrow> int option" where
  "multiplier_downscale_token_a self token_amount = checked_div token_amount (tokenAMultiplier self)"

definition multiplier_downscale_token_b :: "tokenMultiplier \<Rightarrow> int \<Rightarrow> int option" where
  "multiplier_downscale_token_b self token_amount = checked_div token_amount (tokenBMultiplier self)"

section \<open>The curves\<close>

record rsSwapResult =
  new_swap_source_amount :: int
  new_swap_destination_amount :: int
  source_amount_swapped :: int
  destination_amount_swapped :: int

record rsStableSwap =
  rs_amp :: int
  rs_token_multiplier :: tokenMultiplier
  rs_depeg :: depeg
  rs_last_amp_updated_timestamp :: int

datatype rsSwapCurve = RsConstantProduct | RsStableSwap rsStableSwap

definition get_swap_curve :: "curveType \<Rightarrow> rsSwapCurve" where
  "get_swap_curve curve_type =
     (case curve_type of
        ConstantProductCurve \<Rightarrow> RsConstantProduct
      | StableSwapCurve c \<Rightarrow>
          RsStableSwap \<lparr>rs_amp = amp c, rs_token_multiplier = curveTokenMultiplier c, rs_depeg = curveDepeg c,
            rs_last_amp_updated_timestamp = lastAmpUpdatedTimestamp c\<rparr>)"

definition ConstantProduct_swap :: "rustLib \<Rightarrow> int \<Rightarrow> int \<Rightarrow> int \<Rightarrow> rsSwapResult option" where
  "ConstantProduct_swap R source_amount swap_source_amount swap_destination_amount = do {
     (source_swapped, destination_swapped) \<leftarrow> spl_swap R source_amount swap_source_amount swap_destination_amount;
     new_source \<leftarrow> checked 128 (swap_source_amount + source_swapped);
     new_destination \<leftarrow> checked 128 (swap_destination_amount - destination_swapped);
     Some \<lparr>new_swap_source_amount = new_source, new_swap_destination_amount = new_destination,
       source_amount_swapped = source_swapped, destination_amount_swapped = destination_swapped\<rparr>
   }"

definition upscale_token_a :: "rsStableSwap \<Rightarrow> int \<Rightarrow> int option" where
  "upscale_token_a self token_amount = do {
     normalized \<leftarrow> multiplier_upscale_token_a (rs_token_multiplier self) token_amount;
     if depegType (rs_depeg self) \<noteq> DepegNone then checked 128 (normalized * depeg_PRECISION) else Some normalized
   }"

definition downscale_token_a :: "rsStableSwap \<Rightarrow> int \<Rightarrow> int option" where
  "downscale_token_a self token_amount = do {
     denormalized \<leftarrow> multiplier_downscale_token_a (rs_token_multiplier self) token_amount;
     if depegType (rs_depeg self) \<noteq> DepegNone then checked_div denormalized depeg_PRECISION else Some denormalized
   }"

definition upscale_token_b :: "rsStableSwap \<Rightarrow> int \<Rightarrow> int option" where
  "upscale_token_b self token_amount = do {
     normalized \<leftarrow> multiplier_upscale_token_b (rs_token_multiplier self) token_amount;
     if depegType (rs_depeg self) \<noteq> DepegNone then checked 128 (normalized * baseVirtualPrice (rs_depeg self))
     else Some normalized
   }"

definition downscale_token_b :: "rsStableSwap \<Rightarrow> int \<Rightarrow> int option" where
  "downscale_token_b self token_amount = do {
     denormalized \<leftarrow> multiplier_downscale_token_b (rs_token_multiplier self) token_amount;
     if depegType (rs_depeg self) \<noteq> DepegNone then checked_div denormalized (baseVirtualPrice (rs_depeg self))
     else Some denormalized
   }"

definition saber_of :: "rsStableSwap \<Rightarrow> saberStableSwap" where
  "saber_of stable_swap = SaberStableSwap_new (rs_amp stable_swap) (rs_amp stable_swap) 0 0 0"

definition saber_no_fees :: saberFeesRs where
  "saber_no_fees = \<lparr>admin_trade_fee_denominator = FEE_DENOMINATOR, admin_withdraw_fee_denominator = FEE_DENOMINATOR,
     trade_fee_denominator = FEE_DENOMINATOR, withdraw_fee_denominator = FEE_DENOMINATOR\<rparr>"

definition StableSwap_swap ::
  "rustLib \<Rightarrow> rsStableSwap \<Rightarrow> int \<Rightarrow> int \<Rightarrow> int \<Rightarrow> tradeDirection \<Rightarrow> rsSwapResult option" where
  "StableSwap_swap R self source_amount swap_source_amount swap_destination_amount trade_direction = do {
     (upscaled_source, upscaled_swap_source, upscaled_swap_destination) \<leftarrow>
       (case trade_direction of
          AToB \<Rightarrow> do {
            x \<leftarrow> upscale_token_a self source_amount;
            y \<leftarrow> upscale_token_a self swap_source_amount;
            z \<leftarrow> upscale_token_b self swap_destination_amount;
            Some (x, y, z)
          }
        | BToA \<Rightarrow> do {
            x \<leftarrow> upscale_token_b self source_amount;
            y \<leftarrow> upscale_token_b self swap_source_amount;
            z \<leftarrow> upscale_token_a self swap_destination_amount;
            Some (x, y, z)
          });
     amount_swapped \<leftarrow> saber_swap_to2 R (saber_of self) upscaled_source upscaled_swap_source
                         upscaled_swap_destination saber_no_fees;
     downscaled \<leftarrow>
       (case trade_direction of
          AToB \<Rightarrow> downscale_token_b self amount_swapped
        | BToA \<Rightarrow> downscale_token_a self amount_swapped);
     new_source \<leftarrow> checked 128 (swap_source_amount + source_amount);
     new_destination \<leftarrow> checked 128 (swap_destination_amount - downscaled);
     Some \<lparr>new_swap_source_amount = new_source, new_swap_destination_amount = new_destination,
       source_amount_swapped = source_amount, destination_amount_swapped = downscaled\<rparr>
   }"

definition rs_curve_swap ::
  "rustLib \<Rightarrow> rsSwapCurve \<Rightarrow> int \<Rightarrow> int \<Rightarrow> int \<Rightarrow> tradeDirection \<Rightarrow> rsSwapResult option" where
  "rs_curve_swap R curve source_amount swap_source_amount swap_destination_amount trade_direction =
     (case curve of
        RsConstantProduct \<Rightarrow> ConstantProduct_swap R source_amount swap_source_amount swap_destination_amount
      | RsStableSwap self \<Rightarrow>
          StableSwap_swap R self source_amount swap_source_amount swap_destination_amount trade_direction)"

section \<open>Virtual prices of staked tokens\<close>

text \<open>
  The functions return an option and can panic, where they index a slice. \<open>slice_u64\<close> reads the
  eight bytes from an offset, \<^verbatim>\<open>u64::from_le_bytes\<close> of \<^verbatim>\<open>bytes[n..n + 8]\<close>.
\<close>

definition slice_u64 :: "bytes \<Rightarrow> nat \<Rightarrow> int rust" where
  "slice_u64 data n = (if n + 8 \<le> length data then Inr (int (le_nat (take 8 (drop n data)))) else Inl Panic)"

definition price_of :: "int \<Rightarrow> int \<Rightarrow> int option" where
  "price_of value_of_tokens tokens = do {
     p \<leftarrow> checked 128 (value_of_tokens * depeg_PRECISION);
     q \<leftarrow> checked_div p tokens;
     checked 64 q
   }"

definition marinade_get_virtual_price :: "rustLib \<Rightarrow> bytes \<Rightarrow> int option rust" where
  "marinade_get_virtual_price R data =
     rbind (guard (8 \<le> length data) Panic) (\<lambda>_.
     Inr (do {
       msol_price \<leftarrow> marinade_msol_price R (drop 8 data);
       price_of msol_price (marinade_PRICE_DENOMINATOR R)
     }))"

definition solido_get_virtual_price :: "bytes \<Rightarrow> int option rust" where
  "solido_get_virtual_price data =
     rbind (slice_u64 data 73) (\<lambda>stsol_supply.
     rbind (slice_u64 data 81) (\<lambda>sol_balance.
     Inr (price_of sol_balance stsol_supply)))"

definition spl_stake_get_virtual_price :: "bytes \<Rightarrow> int option rust" where
  "spl_stake_get_virtual_price data =
     (if length data < 274 then Inr None
      else
        rbind (slice_u64 data 258) (\<lambda>total_lamports.
        rbind (slice_u64 data 266) (\<lambda>pool_token_supply.
        if pool_token_supply = 0 then Inr None else Inr (price_of total_lamports pool_token_supply))))"

definition solido_stake_ID :: pubkey where
  "solido_stake_ID = PublicKey ''49Yi1TKkNyYjPAFdR9LBvoHcUjuPX4Df5T5yv39w2XTn''"

definition marinade_stake_ID :: pubkey where
  "marinade_stake_ID = PublicKey ''8szGkuLTAux9XMgZ2vtY39jVSowEcpBfFfD8hXSEqdGC''"

definition get_stake_pool_virtual_price ::
  "rustLib \<Rightarrow> depegType \<Rightarrow> pubkey \<Rightarrow> (pubkey, bytes) mapping \<Rightarrow> int option rust" where
  "get_stake_pool_virtual_price R depeg_type spl_stake_pool stake_data =
     (let with_data = (\<lambda>k f. case Mapping.lookup stake_data k of None \<Rightarrow> Inr None | Some data \<Rightarrow> f data) in
      case depeg_type of
        DepegLido \<Rightarrow> with_data solido_stake_ID solido_get_virtual_price
      | DepegMarinade \<Rightarrow> with_data marinade_stake_ID (marinade_get_virtual_price R)
      | DepegSplStake \<Rightarrow> with_data spl_stake_pool spl_stake_get_virtual_price
      | DepegNone \<Rightarrow> Inr None)"

definition update_base_virtual_price :: "rustLib \<Rightarrow> poolState \<Rightarrow> clock \<Rightarrow> (pubkey, bytes) mapping \<Rightarrow> poolState rust" where
  "update_base_virtual_price R pool clk stake_data =
     (case curveType pool of
        ConstantProductCurve \<Rightarrow> Inr pool
      | StableSwapCurve c \<Rightarrow>
          (let dp = curveDepeg c in
           if \<not> DepegType_is_none (depegType dp) then
             rbind (context_of (checked 64 (baseCacheUpdated dp + depeg_BASE_CACHE_EXPIRES)) ''Math overflow'')
               (\<lambda>cache_expire_time.
             if as_u64 (clk_unix_timestamp clk) > cache_expire_time then
               rbind (get_stake_pool_virtual_price R (depegType dp) (stake pool) stake_data) (\<lambda>price.
               rbind (context_of price ''Fail to get stake pool virtual price'') (\<lambda>virtual_price.
               Inr (pool\<lparr>curveType := StableSwapCurve (c\<lparr>curveDepeg :=
                 dp\<lparr>baseCacheUpdated := as_u64 (clk_unix_timestamp clk), baseVirtualPrice := virtual_price\<rparr>\<rparr>)\<rparr>)))
             else Inr pool)
           else Inr pool))"

section \<open>The quote\<close>

text \<open>
  From the two sides of the trade to the result: \<open>i_\<close> for the vault the input goes to, \<open>o_\<close> for
  the one the output comes from.
\<close>

definition compute_quote_trade ::
  "rustLib \<Rightarrow> poolState \<Rightarrow> int \<Rightarrow> int \<Rightarrow> tradeDirection \<Rightarrow> vaultState \<Rightarrow> vaultState \<Rightarrow> int \<Rightarrow> int \<Rightarrow> int \<Rightarrow> int \<Rightarrow>
    int \<Rightarrow> int \<Rightarrow> quoteResult rust" where
  "compute_quote_trade R pool current_time in_amount trade_direction in_vault out_vault in_vault_lp in_vault_lp_mint
     out_vault_lp_mint out_vault_token_account in_token_total_amount out_token_total_amount =
     rbind (context_of (trading_fee (fees pool) in_amount) ''Fail to calculate trading fee'') (\<lambda>trade_fee0.
     rbind (context_of (protocol_trading_fee (fees pool) trade_fee0) ''Fail to calculate protocol trading fee'')
       (\<lambda>protocol_fee.
     rbind (context_of (checked 128 (trade_fee0 - protocol_fee)) ''Fail to calculate trade fee'') (\<lambda>trade_fee.
     rbind (try_into_u64 protocol_fee) (\<lambda>protocol_fee_u64.
     rbind (context_of (checked 64 (in_amount - protocol_fee_u64)) ''Fail to calculate in_amount_after_protocol_fee'')
       (\<lambda>in_amount_after_protocol_fee.
     let before_in_token_total_amount = in_token_total_amount in
     rbind (context_of (get_unmint_amount in_vault current_time in_amount_after_protocol_fee in_vault_lp_mint)
              ''Fail to get in_vault_lp'') (\<lambda>in_lp.
     rbind (context_of (checked 64 (v_totalAmount in_vault + in_amount_after_protocol_fee))
              ''Fail to add in_vault.total_amount'') (\<lambda>total_amount'.
     let in_vault' = in_vault\<lparr>v_totalAmount := total_amount'\<rparr> in
     rbind (context_of (checked 64 (in_lp + in_vault_lp)) ''Fail to get new in_vault_lp'') (\<lambda>new_lp.
     rbind (context_of (checked 64 (in_vault_lp_mint + in_lp)) ''Fail to get new in_vault_lp_mint'') (\<lambda>new_lp_mint.
     rbind (context_of (get_amount_by_share in_vault' current_time new_lp new_lp_mint)
              ''Fail to get after_in_token_total_amount'') (\<lambda>after_in_token_total_amount.
     rbind (context_of (checked 64 (after_in_token_total_amount - before_in_token_total_amount))
              ''Fail to get actual_in_amount'') (\<lambda>actual_in_amount.
     rbind (try_into_u64 trade_fee) (\<lambda>trade_fee_u64.
     rbind (context_of (checked 64 (actual_in_amount - trade_fee_u64)) ''Fail to calculate in_amount_after_fee'')
       (\<lambda>actual_in_amount_after_fee.
     rbind (context_of (rs_curve_swap R (get_swap_curve (curveType pool)) actual_in_amount_after_fee
              in_token_total_amount out_token_total_amount trade_direction) ''Fail to get swap result'') (\<lambda>swap_result.
     rbind (try_into_u64 (destination_amount_swapped swap_result)) (\<lambda>destination.
     rbind (context_of (get_unmint_amount out_vault current_time destination out_vault_lp_mint)
              ''Fail to get out_vault_lp'') (\<lambda>out_vault_lp.
     rbind (context_of (get_amount_by_share out_vault current_time out_vault_lp out_vault_lp_mint)
              ''Fail to get out_amount'') (\<lambda>out_amount.
     rbind (guard (out_amount < out_vault_token_account) (Anyhow ''Out amount > vault reserve'')) (\<lambda>_.
     Inr \<lparr>qr_out_amount = out_amount, qr_fee = trade_fee_u64\<rparr>))))))))))))))))))"

text \<open>The sides of the trade, by its direction.\<close>

definition compute_quote_sides ::
  "rustLib \<Rightarrow> poolState \<Rightarrow> int \<Rightarrow> pubkey \<Rightarrow> int \<Rightarrow> quoteData \<Rightarrow> int \<Rightarrow> int \<Rightarrow> quoteResult rust" where
  "compute_quote_sides R pool current_time in_token_mint in_amount qd token_a_amount token_b_amount =
     (let trade_direction = (if in_token_mint = tokenAMint pool then AToB else BToA) in
      case trade_direction of
        AToB \<Rightarrow>
          compute_quote_trade R pool current_time in_amount AToB (qd_vault_a qd) (qd_vault_b qd)
            (qd_pool_vault_a_lp_token qd) (qd_vault_a_lp_mint qd) (qd_vault_b_lp_mint qd) (qd_vault_b_token qd)
            token_a_amount token_b_amount
      | BToA \<Rightarrow>
          compute_quote_trade R pool current_time in_amount BToA (qd_vault_b qd) (qd_vault_a qd)
            (qd_pool_vault_b_lp_token qd) (qd_vault_b_lp_mint qd) (qd_vault_a_lp_mint qd) (qd_vault_a_token qd)
            token_b_amount token_a_amount)"

definition compute_quote :: "rustLib \<Rightarrow> pubkey \<Rightarrow> int \<Rightarrow> quoteData \<Rightarrow> quoteResult rust" where
  "compute_quote R in_token_mint in_amount qd =
     (let pool0 = qd_pool qd; clk = qd_clock qd in
      rbind (case ActivationType_try_from (activationType (bootstrapping pool0)) of
               Inl e \<Rightarrow> Inl (Anyhow e) | Inr t \<Rightarrow> Inr t) (\<lambda>activation_type.
      let current_point = (case activation_type of
             Slot \<Rightarrow> clk_slot clk | Timestamp \<Rightarrow> as_u64 (clk_unix_timestamp clk)) in
      rbind (guard (enabled pool0) (Anyhow ''Pool disabled'')) (\<lambda>_.
      rbind (guard (current_point \<ge> activationPoint (bootstrapping pool0)) (Anyhow ''Swap is disabled'')) (\<lambda>_.
      rbind (if \<not> Mapping.is_empty (qd_stake_data qd) then update_base_virtual_price R pool0 clk (qd_stake_data qd)
             else Inr pool0) (\<lambda>pool.
      rbind (try_into_u64 (clk_unix_timestamp clk)) (\<lambda>current_time.
      rbind (guard (in_token_mint = tokenAMint pool \<or> in_token_mint = tokenBMint pool)
               (Anyhow ''In token mint not matches with pool token mints'')) (\<lambda>_.
      rbind (context_of (get_amount_by_share (qd_vault_a qd) current_time (qd_pool_vault_a_lp_token qd)
               (qd_vault_a_lp_mint qd)) ''Fail to get token a amount'') (\<lambda>token_a_amount.
      rbind (context_of (get_amount_by_share (qd_vault_b qd) current_time (qd_pool_vault_b_lp_token qd)
               (qd_vault_b_lp_mint qd)) ''Fail to get token b amount'') (\<lambda>token_b_amount.
      compute_quote_sides R pool current_time in_token_mint in_amount qd token_a_amount token_b_amount)))))))))"

definition compute_pool_tokens :: "int \<Rightarrow> vaultInfo \<Rightarrow> vaultInfo \<Rightarrow> (int \<times> int) rust" where
  "compute_pool_tokens current_time vault_a vault_b =
     rbind (of_option (PoolError ''MathOverflow'')
              (get_amount_by_share (vi_vault vault_a) current_time (vi_lp_amount vault_a) (vi_lp_supply vault_a)))
       (\<lambda>token_a_amount.
     rbind (of_option (PoolError ''MathOverflow'')
              (get_amount_by_share (vi_vault vault_b) current_time (vi_lp_amount vault_b) (vi_lp_supply vault_b)))
       (\<lambda>token_b_amount.
     Inr (token_a_amount, token_b_amount)))"

section \<open>What the crates promise\<close>

text \<open>
  \<^verbatim>\<open>swap\<close> of spl-token-swap pays the largest amount, not zero, that does not lower the product of
  the reserves, and refuses a trade that would leave a quotient below one; \<^verbatim>\<open>swap_to2\<close> of
  meteora-stable-swap, with a constant amplification and without fees, pays what the two Newton
  iterations leave, less one; the Marinade state follows an account discriminator of eight bytes,
  and its price counts 2^32 for one.
\<close>

locale rust_crates =
  fixes R :: rustLib and L :: mathLib
  assumes spl_swap_largest: "spl_swap R i s d = Some (i', x) \<Longrightarrow> 0 \<le> i \<Longrightarrow> 0 \<le> s \<Longrightarrow> 0 \<le> d \<Longrightarrow>
      s + i \<le> s * d \<and> 0 < x \<and> s * d \<le> (s + i) * (d - x) \<and> (s + i) * (d - (x + 1)) < s * d"
    and saber_swap_leaves: "saber_swap_to2 R (SaberStableSwap_new a a 0 0 0) i s d saber_no_fees = Some x \<Longrightarrow>
      0 \<le> i \<Longrightarrow> 0 \<le> s \<Longrightarrow> 0 \<le> d \<Longrightarrow>
      \<exists>D y. computeD a s d = Inr D \<and> computeY a (s + i) D = Inr y \<and> x = d - y - 1 \<and> 0 \<le> x"
    and msol_price: "marinade_msol_price R (drop 8 data) = Some p \<Longrightarrow> 8 \<le> length data \<Longrightarrow>
      decodeMsolPrice L data = Inr p \<and> 0 \<le> p"
    and msol_denominator: "marinade_PRICE_DENOMINATOR R = 0x100000000"

lemma unmint_nonneg: "get_unmint_amount v t amt tot = Some sh \<Longrightarrow> 0 \<le> sh"
  by (auto simp: get_unmint_amount_def bind_eq_Some_conv)

lemma redeem_le:
  assumes "get_unmint_amount v t amt tot = Some sh" "get_amount_by_share v t sh tot = Some a" "0 \<le> amt" "0 \<le> tot"
  shows "a \<le> amt"
proof -
  obtain w where w: "get_unlocked_amount v t = Some w" "w \<noteq> 0" "sh = amt * tot div w" "tot \<noteq> 0" "a = sh * w div tot"
    using assms(1,2) by (auto simp: get_unmint_amount_def get_amount_by_share_def bind_eq_Some_conv)
  with assms unlocked_nonneg [OF w(1)] show ?thesis by (simp add: floor_share_roundtrip)
qed

text \<open>The vault package takes the unlocked amount of the program as withdrawable.\<close>

locale vault_program = vault_sdk +
  assumes withdrawable_unlocked: "get_unlocked_amount v t = Some w \<Longrightarrow> calculateWithdrawableAmount V t v = w"
begin

lemma share_agrees:
  assumes "get_amount_by_share v t sh tot = Some a" "0 \<le> sh" "0 \<le> tot"
  shows "sdk_getAmountByShare V sh (calculateWithdrawableAmount V t v) tot = Inr a"
proof -
  obtain w where w: "get_unlocked_amount v t = Some w" "tot \<noteq> 0" "a = sh * w div tot"
    using assms(1) by (auto simp: get_amount_by_share_def bind_eq_Some_conv)
  with assms show ?thesis
    using unlocked_nonneg [OF w(1)] withdrawable_unlocked [OF w(1)] by (simp add: amount_by_share_nonneg)
qed

lemma unmint_agrees:
  assumes "get_unmint_amount v t amt tot = Some a" "0 \<le> amt" "0 \<le> tot"
  shows "getUnmintAmount V amt (calculateWithdrawableAmount V t v) tot = Inr a"
proof -
  obtain w where w: "get_unlocked_amount v t = Some w" "w \<noteq> 0" "a = amt * tot div w"
    using assms(1) by (auto simp: get_unmint_amount_def bind_eq_Some_conv)
  with assms show ?thesis
    using unlocked_nonneg [OF w(1)] withdrawable_unlocked [OF w(1)] by (simp add: unmint_amount_nonneg)
qed

text \<open>The program adds a deposit to the vault before it values the shares, the client to what is withdrawable.\<close>

lemma share_after_deposit_agrees:
  assumes "get_unmint_amount v t amt tot = Some m"
    and "get_amount_by_share (v\<lparr>v_totalAmount := v_totalAmount v + amt\<rparr>) t sh tot' = Some a" "0 \<le> amt" "0 \<le> sh" "0 \<le> tot'"
  shows "sdk_getAmountByShare V sh (calculateWithdrawableAmount V t v + amt) tot' = Inr a"
proof -
  obtain w where w: "get_unlocked_amount v t = Some w"
    using assms(1) by (auto simp: get_unmint_amount_def bind_eq_Some_conv)
  with assms(3) have "get_unlocked_amount (v\<lparr>v_totalAmount := v_totalAmount v + amt\<rparr>) t = Some w'
      \<Longrightarrow> w' = w + amt" for w'
    by (auto simp: get_unlocked_amount_def bind_eq_Some_conv)
  then show ?thesis
    using assms unlocked_nonneg [OF w] withdrawable_unlocked [OF w] amount_by_share_nonneg [of sh "w + amt" tot']
    by (auto simp: get_amount_by_share_def bind_eq_Some_conv)
qed

end

interpretation program: vault_program programSdk
  by unfold_locales (simp_all add: programSdk_def)

section \<open>An executable instance\<close>

definition referenceCrates :: rustLib where
  "referenceCrates =
     \<lparr>spl_swap = (\<lambda>i s d.
        if s + i = 0 \<or> s * d div (s + i) = 0 \<or> 2 ^ 128 \<le> s * d then None
        else let new_d = ceil_div (s * d) (s + i) in
          if d \<le> new_d then None else Some (ceil_div (s * d) new_d - s, d - new_d)),
      saber_swap_to2 = (\<lambda>curve i s d f.
        case curve of SaberStableSwap_new a _ _ _ _ \<Rightarrow>
          (case rbind (computeD a s d) (\<lambda>D. computeY a (s + i) D) of
             Inl e \<Rightarrow> None
           | Inr y \<Rightarrow> checked 128 (d - y - 1))),
      marinade_msol_price = (\<lambda>bs. case readBigUInt64LE bs 0 of Inl e \<Rightarrow> None | Inr p \<Rightarrow> Some p),
      marinade_PRICE_DENOMINATOR = 0x100000000\<rparr>"

lemma reference_spl_swap:
  assumes "spl_swap referenceCrates i s d = Some (i', x)" "0 \<le> i" "0 \<le> s" "0 \<le> d"
  shows "s + i \<le> s * d \<and> 0 < x \<and> s * d \<le> (s + i) * (d - x) \<and> (s + i) * (d - (x + 1)) < s * d"
proof -
  let ?n = "ceil_div (s * d) (s + i)"
  have *: "s + i \<noteq> 0" "s * d div (s + i) \<noteq> 0" "x = d - ?n" "?n < d"
    using assms(1) by (auto simp: referenceCrates_def Let_def split: if_splits)
  with assms have k: "0 < s + i" by linarith
  have "0 < s * d div (s + i)" using * k assms by (simp add: order_less_le)
  then have "s + i \<le> s * d" using k by (simp add: pos_imp_zdiv_pos_iff)
  moreover have "d - x = ?n" "d - (x + 1) = ?n - 1" using * by auto
  ultimately show ?thesis using * ceil_div_bounds [OF k, of "s * d"] by (simp add: mult.commute)
qed

interpretation reference_crates: rust_crates referenceCrates referenceLib
proof
  show "\<exists>D y. computeD a s d = Inr D \<and> computeY a (s + i) D = Inr y \<and> x = d - y - 1 \<and> 0 \<le> x"
    if "saber_swap_to2 referenceCrates (SaberStableSwap_new a a 0 0 0) i s d saber_no_fees = Some x" for a i s d x
    using that by (auto simp: referenceCrates_def split: sum.splits)
  show "decodeMsolPrice referenceLib data = Inr p \<and> 0 \<le> p"
    if "marinade_msol_price referenceCrates (drop 8 data) = Some p" "8 \<le> length data" for data p
    using that by (auto simp: referenceCrates_def referenceLib_def readBigUInt64LE_def add.commute split: if_splits)
  show "marinade_PRICE_DENOMINATOR referenceCrates = 0x100000000" by (simp add: referenceCrates_def)
qed (use reference_spl_swap in blast)

section \<open>Fees\<close>

text \<open>
  The program charges at least one token where the client charges the whole part, which can be
  zero; elsewhere they charge the same.
\<close>

definition above_minimum :: "int \<Rightarrow> int \<Rightarrow> int \<Rightarrow> bool" where
  "above_minimum token_amount fee_numerator fee_denominator \<longleftrightarrow>
     token_amount * fee_numerator = 0 \<or> fee_denominator \<le> token_amount * fee_numerator"

definition fees_above_minimum :: "poolFees \<Rightarrow> int \<Rightarrow> bool" where
  "fees_above_minimum f amt \<longleftrightarrow>
     above_minimum amt (tradeFeeNumerator f) (tradeFeeDenominator f) \<and>
     above_minimum (amt * tradeFeeNumerator f div tradeFeeDenominator f)
       (protocolTradeFeeNumerator f) (protocolTradeFeeDenominator f)"

lemma calculate_fee_cases:
  assumes "calculate_fee amt n d = Some t" "0 \<le> amt" "0 \<le> n" "0 < d"
  shows "t = (if above_minimum amt n d then amt * n div d else 1)" "0 \<le> t"
proof -
  have *: "0 \<le> amt * n" using assms by simp
  have "t = (if above_minimum amt n d then amt * n div d else 1) \<and> 0 \<le> t"
  proof (cases "n = 0 \<or> amt = 0")
    case True
    with assms show ?thesis by (auto simp: calculate_fee_def above_minimum_def)
  next
    case False
    have "x div d = 0 \<longleftrightarrow> x < d" if "0 \<le> x" for x using that assms(4) by (auto simp: zdiv_eq_0_iff)
    from this [OF *] have "amt * n div d = 0 \<longleftrightarrow> amt * n < d" .
    moreover have "0 \<le> amt * n div d" using * assms(4) by (rule div_nonneg)
    ultimately show ?thesis using False assms(1) *
      by (auto simp: calculate_fee_def above_minimum_def bind_eq_Some_conv split: if_splits)
  qed
  then show "t = (if above_minimum amt n d then amt * n div d else 1)" "0 \<le> t" by auto
qed

lemma fees_agree:
  assumes "trading_fee f amt = Some t" "protocol_trading_fee f t = Some p"
    and "fees_ok f" "0 \<le> amt" "fees_above_minimum f amt"
  shows "calculateTradingFee amt f = Inr t" "calculateProtocolTradingFee t f = Inr p" "0 \<le> p"
proof -
  have f: "0 \<le> tradeFeeNumerator f" "0 < tradeFeeDenominator f" "0 \<le> protocolTradeFeeNumerator f"
    "0 < protocolTradeFeeDenominator f"
    using assms(3) by (auto simp: fees_ok_def)
  have t: "t = amt * tradeFeeNumerator f div tradeFeeDenominator f" "0 \<le> t"
    using calculate_fee_cases [of amt "tradeFeeNumerator f" "tradeFeeDenominator f" t] assms f
    by (auto simp: trading_fee_def fees_above_minimum_def)
  have p: "p = t * protocolTradeFeeNumerator f div protocolTradeFeeDenominator f" "0 \<le> p"
    using calculate_fee_cases [of t "protocolTradeFeeNumerator f" "protocolTradeFeeDenominator f" p] assms f t
    by (auto simp: protocol_trading_fee_def fees_above_minimum_def)
  show "calculateTradingFee amt f = Inr t" "calculateProtocolTradingFee t f = Inr p" "0 \<le> p"
    using t p f assms(4) by (simp_all add: calculateTradingFee_def calculateProtocolTradingFee_def)
qed

lemma trading_fee_off_by_one:
  assumes "trading_fee f amt = Some t" "calculateTradingFee amt f = Inr t'" "fees_ok f" "0 \<le> amt"
  shows "t' \<le> t" "t \<le> t' + 1"
  using calculate_fee_cases [of amt "tradeFeeNumerator f" "tradeFeeDenominator f" t] assms
  by (auto simp: trading_fee_def calculateTradingFee_def fees_ok_def above_minimum_def zdiv_eq_0_iff split: if_splits)

lemma minimum_fee_differs:
  "trading_fee sampleFees 399 = Some 1 \<and> calculateTradingFee 399 sampleFees = Inr 0"
  by code_simp

end
