(* ===== verification/RustPda.thy ===== *)
theory RustPda
  imports PoolCreation RustQuote "HOL-Library.List_Lexorder"
begin

text \<open>
  The addresses that the Rust crates derive: those of the AMM program (the helpers of
  programs/dynamic-amm/src/instructions, which its account constraints call) and those of the
  crate common (dynamic_amm/pda.rs, dynamic_vault/pda.rs), which has the same helpers again. The
  record \<open>rustEnv\<close> holds what the Solana crates compute; the locale \<open>same_keys\<close> states that the
  Solana packages for TypeScript compute the same, and \<open>vault_addresses\<close> what the client relies
  on of the vault package. The lemmas show that both clients derive the same addresses.
\<close>

section \<open>Outside the repository\<close>

record rustEnv =
  rs_to_bytes :: "pubkey \<Rightarrow> bytes" \<comment> \<open>\<^verbatim>\<open>Pubkey::as_ref\<close>\<close>
  rs_find_program_address :: "bytes list \<Rightarrow> pubkey \<Rightarrow> pubkey" \<comment> \<open>\<^verbatim>\<open>Pubkey::find_program_address(..).0\<close>\<close>
  rs_get_associated_token_address :: "pubkey \<Rightarrow> pubkey \<Rightarrow> pubkey" \<comment> \<open>wallet, mint\<close>
  mpl_token_metadata_ID :: pubkey
  mpl_Metadata_find_pda :: "pubkey \<Rightarrow> pubkey" \<comment> \<open>\<^verbatim>\<open>Metadata::find_pda(mint).0\<close>\<close>

section \<open>Keys, fees and curves\<close>

definition dynamic_amm_ID :: pubkey where
  "dynamic_amm_ID = PublicKey ''Eo7WjKq67rjJQSZxS6z3YkapzY3eMj6Xy8X5EQVn5UaB''"

definition dynamic_vault_ID :: pubkey where
  "dynamic_vault_ID = PublicKey ''24Uqj9JCLxUeoC3hGfh5W3s9FM9uCHDS2SG3LYwBpyTi''"

definition get_base_address :: pubkey where
  "get_base_address = PublicKey ''HWzXGcGHy4tcpYfaRDCyLNzXqBTv3E6BttpCH2vJxArv''"

definition VAULT_PREFIX :: string where "VAULT_PREFIX = ''vault''"
definition TOKEN_VAULT_PREFIX :: string where "TOKEN_VAULT_PREFIX = ''token_vault''"
definition LP_MINT_PREFIX :: string where "LP_MINT_PREFIX = ''lp_mint''"

definition METAPLEX_PROGRAM_ID :: pubkey where
  "METAPLEX_PROGRAM_ID = PublicKey ''metaqbxxUerdq28cj1RbAWkYQm3ybzjb6a8bt518x1s''"

definition get_first_key :: "rustEnv \<Rightarrow> pubkey \<Rightarrow> pubkey \<Rightarrow> pubkey" where
  "get_first_key E key1 key2 = (if rs_to_bytes E key1 > rs_to_bytes E key2 then key1 else key2)"

definition get_second_key :: "rustEnv \<Rightarrow> pubkey \<Rightarrow> pubkey \<Rightarrow> pubkey" where
  "get_second_key E key1 key2 = (if rs_to_bytes E key1 > rs_to_bytes E key2 then key2 else key1)"

definition get_curve_type :: "curveType \<Rightarrow> nat" where
  "get_curve_type curve_type = (case curve_type of ConstantProductCurve \<Rightarrow> 0 | _ \<Rightarrow> 1)"

definition MAX_BASIS_POINT :: int where "MAX_BASIS_POINT = 10000"

definition to_bps :: "int \<Rightarrow> int \<Rightarrow> int option" where
  "to_bps numerator denominator = do {
     p \<leftarrow> checked 128 (numerator * MAX_BASIS_POINT);
     bps \<leftarrow> checked_div p denominator;
     checked 64 bps
   }"

text \<open>The unwrapped default is 25 basis points, whatever the curve.\<close>

definition default_fees :: poolFees where
  "default_fees = \<lparr>tradeFeeNumerator = 250, tradeFeeDenominator = 100000, protocolTradeFeeNumerator = 0,
     protocolTradeFeeDenominator = 100000\<rparr>"

definition u64_to_le_bytes :: "int \<Rightarrow> bytes" where
  "u64_to_le_bytes n = le_bytes 8 (nat n)"

definition get_trade_fee_bps_bytes :: "int \<Rightarrow> bytes" where
  "get_trade_fee_bps_bytes trade_fee_bps =
     (let default_trade_fee_bps = the (to_bps (tradeFeeNumerator default_fees) (tradeFeeDenominator default_fees)) in
      if default_trade_fee_bps = trade_fee_bps then [] else u64_to_le_bytes trade_fee_bps)"

text \<open>The fees of a curve, as the quote library has them (dynamic-amm-quote/src/curve/curve_type.rs).\<close>

definition is_same_type :: "curveType \<Rightarrow> curveType \<Rightarrow> bool" where
  "is_same_type self other =
     (case (self, other) of
        (StableSwapCurve _, StableSwapCurve _) \<Rightarrow> True
      | (ConstantProductCurve, ConstantProductCurve) \<Rightarrow> True
      | _ \<Rightarrow> False)"

definition get_default_fee :: "curveType \<Rightarrow> poolFees" where
  "get_default_fee self =
     (case self of
        ConstantProductCurve \<Rightarrow> \<lparr>tradeFeeNumerator = 250, tradeFeeDenominator = FEE_DENOMINATOR,
          protocolTradeFeeNumerator = 0, protocolTradeFeeDenominator = FEE_DENOMINATOR\<rparr>
      | StableSwapCurve _ \<Rightarrow> \<lparr>tradeFeeNumerator = 10, tradeFeeDenominator = FEE_DENOMINATOR,
          protocolTradeFeeNumerator = 0, protocolTradeFeeDenominator = FEE_DENOMINATOR\<rparr>)"

definition get_allowed_trade_fee_bps :: "curveType \<Rightarrow> int list" where
  "get_allowed_trade_fee_bps self =
     (case self of ConstantProductCurve \<Rightarrow> [25, 100, 400, 600] | StableSwapCurve _ \<Rightarrow> [1, 4, 10, 100])"

section \<open>Addresses of the AMM\<close>

text \<open>Pools and vaults from before their LP mints were program addresses.\<close>

definition POOL_WITH_NON_PDA_BASED_LP_MINT :: "(pubkey \<times> pubkey) list" where
  "POOL_WITH_NON_PDA_BASED_LP_MINT =
     [(PublicKey ''H49XALURUKbXRysVXYvHKsd5h4TRbZA2iq9kChVi1JvF'', PublicKey ''3GgCMTyddNhZd29rKLLfQ86wQcer1CcksEgvYpraF2UH''),
      (PublicKey ''HcjZvfeSNJbNkfLD4eEcRBr96AD3w1GpmMppaeRZf7ur'', PublicKey ''B2uEs9zjnz222hfUaUuRgesryUEYwy3JGuWe31sE9gsG''),
      (PublicKey ''7EJSgV2pthhDfb4UiER9vzTqe2eojei9GEQAQnkqJ96e'', PublicKey ''9Gpvqcua3hLps1AhtTSVEFSgKG2Dni6yLyXtEeZGLR3y''),
      (PublicKey ''486t886mRYmo29uubn59PND69ApSbn9ukeLeL2aemLAS'', PublicKey ''BNqkJsPE1GraPokMMQXoVaZSoAjL1RTNwDcdmsfcjqf4''),
      (PublicKey ''Aw1MJ31SHEEYmzg9vE4bXa5ZURS5HDvMZjhXmt7Tu8yJ'', PublicKey ''CVLS1XdDzNBVnQGwhLG5fz3mUur4Zb1KvUbAUa3SJEZN''),
      (PublicKey ''pvgGDMNpxapbVM8YNao5f6i6mioMzZBHjzDeEcYf9iZ'', PublicKey ''FdpRVskpa3uR8CR7ggLs7RjpVH1iF5kog6maKTHcTqK1''),
      (PublicKey ''5fMmLVAtAtMjaXtAWtHPQT83trtDx7kxmgcgJkVPny1K'', PublicKey ''Bpa1RdNV7ScuaPdVVosQ2UCcHbpr4b9KWQvXJGGKCJ3F''),
      (PublicKey ''6ZLKLjMd2KzH7PPHCXUPgbMAtdTT37VgTtdeXWLoJppr'', PublicKey ''3mtMyBrCf48tJ1XmMnoYZgQqqn6VNEYAfKHzGZnfAZPt''),
      (PublicKey ''Gyv8znLzPb44XatDar8ebx1zG6VvvuPHtaJP8MdCjNoQ'', PublicKey ''FmQSveFkR6Z2hbkA5WDNwLdo4xdsS1C8gR5bCu8Zpdsu''),
      (PublicKey ''2X2my7iZEKE7BgqfRVC2a5c5VxekZa2HxGctHyoXxe2m'', PublicKey ''GX9SZ81En5uSDB5PTL9AAfKfKuqVHiBYJMY5wsex4Zu4''),
      (PublicKey ''5NLrRmfjaBHj2DpGNihVis6yVv236P8m5AdR838vGMWK'', PublicKey ''mXZy4YFSKWZ3BdnHjbG9NJknL2PcmAXxF2neUDoFcNq''),
      (PublicKey ''5kYoik2SHAQxtK82jeHfkwTb1UrStJJUqBteXcU5csP8'', PublicKey ''B1J8bDBxoUXWk6hpdbcLDw1WQFeBUuiFMyJFwpnxujmp''),
      (PublicKey ''HCuxikDxMaSvJHoWVy2WaJyvZ5SPnFYZQhRDmtonHrv2'', PublicKey ''2jWz3vZzCTxLsPjGsuQLLY9hB7RKtA8KiwtBJziqJz9v''),
      (PublicKey ''4xqyRGWMRkfVo7GH74aryKjSLcpQiVHGAZY4u1n6wAbZ'', PublicKey ''36F4LM4tK5xSteQnv7DGjkgoyeb7iWjzwGwmxiEUixPC''),
      (PublicKey ''EdCfPu6685kto9w9xJnwyAsrB1xPVcAzLzyVNW9EwdQS'', PublicKey ''9i6M6o2NCqUG8jinGrqKb6w172YfX5KBVPFSsSnv1ZXi''),
      (PublicKey ''5yuefgbJJpmFNK2iiYbLSpv1aZXq7F9AUKkZKErTYCvs'', PublicKey ''4x76pkvNJYy9YRZM6Y6RZXJckRpsHQEWoD6sM9HEpmB''),
      (PublicKey ''5NQTw1WqVEt6wP1LmohsrYDyJp2NDipdv6eULVNByXMb'', PublicKey ''472wjciN9cdAdMAWA3aQXBqTeoX6UV1ahTVELdrcncD2''),
      (PublicKey ''32D4zRxNc1EssbJieVHfPhZM3rH6CzfUPrWUuWxD9prG'', PublicKey ''xLebAypjbaQ9tmxUKHV6DZU4mY8ATAAP2sfkNNQLXjf''),
      (PublicKey ''9CopBY6iQBaZKAhhQANfy7g4VXZkx9zKm8AisPd5Ufay'', PublicKey ''48w8Bdsz15PzFLuow9bvo3HQWZW4bxdivvpRoTRc3prg''),
      (PublicKey ''RBtHAB7TS7EDaGVRQHDG6AzK5whz1pQtMiXtrMa5Srn'', PublicKey ''DkcS27SzJ4sN94eS3Y84u6QPLJ3LM3RfmfDM7NVnwee1''),
      (PublicKey ''3y6k8aeJxeRX7i3mYtd8G12oqzko1wdjxLJ91roJRnsP'', PublicKey ''8TEL6fscLwefNbCEKdCNBuVUSSD9JX6aZ6hSP1oqqiY6''),
      (PublicKey ''GXy2cEDWFodXuXpEZZizVzcyiqF2QZCiMqfZX9BGx1vz'', PublicKey ''2nqgDcgfTzXJSckrVdqZGFpSfAAUY7NJKhCeikioaP5m''),
      (PublicKey ''2GPECnGQbXgBBPmmLdw8daxu6A1VJUyuHGWPyJH6U56h'', PublicKey ''FMnK5dTHUDR9iLvcshaaxnnEtYN1Ly5Gv8e3vccQ8k9K''),
      (PublicKey ''3PSrJVm8CYJ9R1eJUT9iMikjWD6b8xHWp8VGUnMdr5yF'', PublicKey ''cu45VVBLEjpwufw4A4FRLmfyckJNwwxmNrf86burdvy''),
      (PublicKey ''FZgdEqq6rwsWnsZ83Ez2pyJqPdPGfDvzYhrbvcboTPtf'', PublicKey ''2qWv8R6EBibqTsBCfyiqKaDh3HU8TxwD26cr5zGkFMJs''),
      (PublicKey ''AyRTAzaXPamTMTRG8dny9jqG3EGWte8FrY5g9Ds3Gtr2'', PublicKey ''8J65QEAV5c6CREDBpNBYhrKn7zGdoodMj2Nk1mSeUpPz''),
      (PublicKey ''HK7b7P3goViFkSLQ7rTKRemsGa8LKNKt2t9D4buzbxq2'', PublicKey ''BJUsjgYod77LrvTpTATwPQwjuk7hHPyNGKYUSVRJmgvN''),
      (PublicKey ''BAHscmu1NncGS7t4rc5gSBPv1UFEMkvLaon1Ahdd5rHi'', PublicKey ''3A2DuLdNFyeVFVsumFEVWKFoLaeTryZ4PQSJowD38Le7''),
      (PublicKey ''2rkn2yM4wJcHPV57T8fPWeBksrfSpiNZoEjRgjtxNDEQ'', PublicKey ''ENoFQvqrk6LnxRUmPX1cJzHyrsicJCrbZ2WEtGMY9y6N''),
      (PublicKey ''Bgf1Sy5kfeDgib4go4NgzHuZwek8wE8NZus56z6uizzi'', PublicKey ''2xSpdNRwDjkx2BJAtdu2zArWybzeEHqPqP1m63tFakNU'')]"

definition VAULT_WITH_NON_PDA_BASED_LP_MINT :: "(pubkey \<times> pubkey) list" where
  "VAULT_WITH_NON_PDA_BASED_LP_MINT =
     [(PublicKey ''BFJP6RYDxJa4FmFtBpPDYcrPozjC98CELrXqVL7rGMVW'', PublicKey ''5CuhvouXVx6t5XPiyhRkrfgK5omAf8XnqY1ef6CLjw7o''),
      (PublicKey ''AzrUPWWyT9ZoAuMTgGHxYCnnWD2veh98FsCcMknVjg3Q'', PublicKey ''9MSsSzDKq8VzokicRom6ciYPLhhZf65bCCBQLjnC7jUH''),
      (PublicKey ''GGQfASSnFaqPu83jWrL1DMJBJEzG3rdwsDARDGt6Gxmj'', PublicKey ''4da9saTYgDs37wRSuS8mnFoiWzSYeRtvSWaFRe8rtkFc''),
      (PublicKey ''GofttAxULhp5NE9faWNngsnDM1iJiL75AJ2AkSaaC2CC'', PublicKey ''Bma9RZx1AjNGcojNJpstGe9Wcytxz17YA6rd2Lq1UirT''),
      (PublicKey ''671JaLe2zDgBeXK3UtFHBiid7WFCHAKZTmLqAaQxx7cL'', PublicKey ''9NywobBSCyntrPSZxEZpUbJXLfgUzKbUF2ZqBBkJLEgB''),
      (PublicKey ''2dH3aSpt5aEwhoeSaThKRNtNppEpg2DhGKGa1C5Wecc1'', PublicKey ''Afe5fiLmbKw7aBi1VgWZb9hEY8nRYtib6LNr5RGUJibP''),
      (PublicKey ''BVJACEffKRHvKbQT9VfEqoxrUWJN2UVdonTKYB2c4MgK'', PublicKey ''FFmYsMk5xQq3zQf1r4A6Yyf3kaKd3LUQokeVa776rKWH''),
      (PublicKey ''5XCP3oD3JAuQyDpfBFFVUxsBxNjPQojpKuL4aVhHsDok'', PublicKey ''EZun6G5514FeqYtUv26cBHWLqXjAEdjGuoX6ThBpBtKj''),
      (PublicKey ''mPWBpKzzchEjitz7x4Q2d7cbQ3fHibF2BHWbWk8YGnH'', PublicKey ''4nCGSVN8ZGuewX36TznzisceaNYzURWPesxyGtDvA2iP''),
      (PublicKey ''8p1VKP45hhqq5iZG5fNGoi7ucme8nFLeChoDWNy7rWFm'', PublicKey ''21bR3D4QR4GzopVco44PVMBXwHFpSYrbrdeNwdKk7umb''),
      (PublicKey ''CGY4XQq8U4VAJpbkaFPHZeXpW3o4KQ5LowVsn6hnMwKe'', PublicKey ''28KR3goEditLnzBZShRk2H7xvgzc176EoFwMogjdfSkn''),
      (PublicKey ''FERjPVNEa7Udq8CEv68h6tPL46Tq7ieE49HrE2wea3XT'', PublicKey ''FZN7QZ8ZUUAxMPfxYEYkH3cXUASzH8EqA6B4tyCL8f1j''),
      (PublicKey ''3ESUFCnRNgZ7Mn2mPPUMmXYaKU8jpnV9VtA17M7t2mHQ'', PublicKey ''3RpEekjLE5cdcG15YcXJUpxSepemvq2FpmMcgo342BwC''),
      (PublicKey ''2u9ycJ7KEiWeR9vUhaHnohi5RdP2uLwuS1o8LynxhNBa'', PublicKey ''DDrvEcscZagpLE361HqpaiTiwyTtyNnWPhE8xKuqgXKY''),
      (PublicKey ''sr5nfQgnAmn2bTkxmpPSQS1iEDGN4Bnk48xxcEAqUsi'', PublicKey ''3UhvDzg4dYtgE69QzjPaH94CoTJbLkczmYJWhq1P3MqC''),
      (PublicKey ''G5qooe1TGxzsNCefw1xycto4SNy7H4Ad2AiPTCUJnM8W'', PublicKey ''C1XV8Wd4zdDAy3VTGd6GBJn3KYkSE8MwNyFrPQUEW9py''),
      (PublicKey ''2FiYEM3EVtUNj6soptXZJdxjBjNWHtUUUKh79QaywYRg'', PublicKey ''Dq6j7SuMPhHh4eajA8WS1Nby9sbNynJfxyM3p7vxes9f''),
      (PublicKey ''ATeQUJkKFRiWUfV76k5P5TfAyXwjWgBdck54z2sGvuNK'', PublicKey ''BgPb3pzLMmSwECCPjTHoKLYQR3iirXBw3bVgF8ZaR7sc''),
      (PublicKey ''FERjPVNEa7Udq8CEv68h6tPL46Tq7ieE49HrE2wea3XT'', PublicKey ''BvoAjwEDhpLzs3jtu4H72j96ShKT5rvZE9RP1vgpfSM''),
      (PublicKey ''8p1VKP45hhqq5iZG5fNGoi7ucme8nFLeChoDWNy7rWFm'', PublicKey ''8YE7s4oCbsEUzH71hVwe9DBCyemprwAjyDzksZ8d9bPz''),
      (PublicKey ''4cX1amsBFy9by77uPuTbhN9Qw3oEaMu4J3pAyPa2gmku'', PublicKey ''2iGUnZPUPgjpjG6rT5Fi4VEeMoFw9DAwMJ8UFjXDpVs1''),
      (PublicKey ''9Fze2yguDHYvX1KVfj1rgA9Q5moboWQFkw67wLGc61Z8'', PublicKey ''CNJoMWip1hX5mq2zHQ88LeC5gGMrVbGdQ9ZP6jB3qvkn''),
      (PublicKey ''BPNKnFRAi9jfbD4xNAUavZmCbkn9DxGc1FCy4cYWHTXf'', PublicKey ''tewho86AFqTGmMvtKEvnNegHZfce4tTzDYENa58TLCq''),
      (PublicKey ''DZwqzesnbNhoP5iPaxQkPG37JfDuqpZBfmsBw2wCpwQ1'', PublicKey ''GDK7uxgtQYYnwHwSXE83T6pxiJbKAV2jDMAa3bmc3Qzm''),
      (PublicKey ''CyAd2PPVUCytnCiMztYFqu7v56Df3KiXdrx94rCyWeJz'', PublicKey ''HQU6SZNTTReKLXGyyPp9tt9tcBRo75yV9PgPMZavzXRG'')]"

definition derive_permissionless_pool_key :: "rustEnv \<Rightarrow> curveType \<Rightarrow> pubkey \<Rightarrow> pubkey \<Rightarrow> pubkey" where
  "derive_permissionless_pool_key E curve_type token_a_mint token_b_mint =
     rs_find_program_address E
       [[word_of_nat (get_curve_type curve_type)],
        rs_to_bytes E (get_first_key E token_a_mint token_b_mint),
        rs_to_bytes E (get_second_key E token_a_mint token_b_mint)] dynamic_amm_ID"

definition derive_customizable_permissionless_constant_product_pool_key :: "rustEnv \<Rightarrow> pubkey \<Rightarrow> pubkey \<Rightarrow> pubkey" where
  "derive_customizable_permissionless_constant_product_pool_key E mint_a mint_b =
     rs_find_program_address E
       [Buffer_from ''pool'', rs_to_bytes E (get_first_key E mint_a mint_b),
        rs_to_bytes E (get_second_key E mint_a mint_b)] dynamic_amm_ID"

definition derive_protocol_fee_key :: "rustEnv \<Rightarrow> pubkey \<Rightarrow> pubkey \<Rightarrow> pubkey" where
  "derive_protocol_fee_key E mint_key pool_key =
     rs_find_program_address E [Buffer_from ''fee'', rs_to_bytes E mint_key, rs_to_bytes E pool_key] dynamic_amm_ID"

definition derive_metadata_key :: "rustEnv \<Rightarrow> pubkey \<Rightarrow> pubkey" where
  "derive_metadata_key E lpM =
     rs_find_program_address E
       [Buffer_from ''metadata'', rs_to_bytes E METAPLEX_PROGRAM_ID, rs_to_bytes E lpM] METAPLEX_PROGRAM_ID"

definition derive_vault_lp_key :: "rustEnv \<Rightarrow> pubkey \<Rightarrow> pubkey \<Rightarrow> pubkey" where
  "derive_vault_lp_key E vault_key pool_key =
     rs_find_program_address E [rs_to_bytes E vault_key, rs_to_bytes E pool_key] dynamic_amm_ID"

definition derive_lp_mint_key :: "rustEnv \<Rightarrow> pubkey \<Rightarrow> pubkey" where
  "derive_lp_mint_key E pool_key =
     (case map_of POOL_WITH_NON_PDA_BASED_LP_MINT pool_key of
        Some lpM \<Rightarrow> lpM
      | None \<Rightarrow> rs_find_program_address E [Buffer_from ''lp_mint'', rs_to_bytes E pool_key] dynamic_amm_ID)"

definition derive_lock_escrow_key :: "rustEnv \<Rightarrow> pubkey \<Rightarrow> pubkey \<Rightarrow> pubkey" where
  "derive_lock_escrow_key E pool_key owner_key =
     rs_find_program_address E [Buffer_from ''lock_escrow'', rs_to_bytes E pool_key, rs_to_bytes E owner_key] dynamic_amm_ID"

definition derive_permissionless_constant_product_pool_with_config_key :: "rustEnv \<Rightarrow> pubkey \<Rightarrow> pubkey \<Rightarrow> pubkey \<Rightarrow> pubkey" where
  "derive_permissionless_constant_product_pool_with_config_key E mint_a mint_b config =
     rs_find_program_address E
       [rs_to_bytes E (get_first_key E mint_a mint_b), rs_to_bytes E (get_second_key E mint_a mint_b),
        rs_to_bytes E config] dynamic_amm_ID"

definition derive_permissionless_pool_key_with_fee_tier :: "rustEnv \<Rightarrow> curveType \<Rightarrow> pubkey \<Rightarrow> pubkey \<Rightarrow> int \<Rightarrow> pubkey" where
  "derive_permissionless_pool_key_with_fee_tier E curve_type token_a_mint token_b_mint trade_fee_bps =
     rs_find_program_address E
       [[word_of_nat (get_curve_type curve_type)],
        rs_to_bytes E (get_first_key E token_a_mint token_b_mint),
        rs_to_bytes E (get_second_key E token_a_mint token_b_mint),
        get_trade_fee_bps_bytes trade_fee_bps] dynamic_amm_ID"

section \<open>Addresses of the vaults\<close>

definition derive_vault_key :: "rustEnv \<Rightarrow> pubkey \<Rightarrow> pubkey" where
  "derive_vault_key E m =
     rs_find_program_address E [Buffer_from VAULT_PREFIX, rs_to_bytes E m, rs_to_bytes E get_base_address] dynamic_vault_ID"

definition derive_token_vault_key :: "rustEnv \<Rightarrow> pubkey \<Rightarrow> pubkey" where
  "derive_token_vault_key E vault =
     rs_find_program_address E [Buffer_from TOKEN_VAULT_PREFIX, rs_to_bytes E vault] dynamic_vault_ID"

definition vault_derive_lp_mint_key :: "rustEnv \<Rightarrow> pubkey \<Rightarrow> pubkey" where
  "vault_derive_lp_mint_key E vault =
     (case map_of VAULT_WITH_NON_PDA_BASED_LP_MINT vault of
        Some lpM \<Rightarrow> lpM
      | None \<Rightarrow> rs_find_program_address E [Buffer_from LP_MINT_PREFIX, rs_to_bytes E vault] dynamic_vault_ID)"

section \<open>Both clients compute the same\<close>

text \<open>
  A vault that the connection knows names the LP mint that the Rust crates have for it, from the
  table or derived; a vault of the table exists.
\<close>

locale same_keys = chain_laws +
  fixes E :: rustEnv
  assumes same_bytes: "rs_to_bytes E = toBuffer ch"
    and same_address: "rs_find_program_address E = findProgramAddressSync ch"
    and same_token_account: "getAssociatedTokenAddressSync ch m owner True = Inr (rs_get_associated_token_address E owner m)"
    and metadata_program: "mpl_token_metadata_ID E = METAPLEX_PROGRAM"
    and metadata_pda: "mpl_Metadata_find_pda E m = deriveMintMetadata ch m"

locale vault_addresses = same_keys +
  assumes vault_program: "VAULT_PROGRAM_ID ch = dynamic_vault_ID"
    and vault_pdas: "getVaultPdas ch m dynamic_vault_ID =
      \<lparr>vaultPda = derive_vault_key E m, tokenVaultPda = derive_token_vault_key E (derive_vault_key E m),
       lpMintPda = rs_find_program_address E [Buffer_from LP_MINT_PREFIX, rs_to_bytes E (derive_vault_key E m)] dynamic_vault_ID\<rparr>"
    and new_vault: "fetchVault ch (derive_vault_key E m) = None \<Longrightarrow>
      map_of VAULT_WITH_NON_PDA_BASED_LP_MINT (derive_vault_key E m) = None"
    and old_vault: "fetchVault ch (derive_vault_key E m) = Some v \<Longrightarrow>
      v_lpMint v = vault_derive_lp_mint_key E (derive_vault_key E m)"

lemma Buffer_compare_less: "Buffer_compare xs ys = 1 \<longleftrightarrow> ys < xs"
  by (induction xs ys rule: Buffer_compare.induct) auto

lemma program_IDs: "dynamic_amm_ID = PublicKey PROGRAM_ID" "METAPLEX_PROGRAM_ID = METAPLEX_PROGRAM"
  by (simp_all add: dynamic_amm_ID_def PROGRAM_ID_def METAPLEX_PROGRAM_ID_def METAPLEX_PROGRAM_def)

lemma get_curve_type_encode: "get_curve_type c = encodeCurveType c"
  by (simp add: get_curve_type_def encodeCurveType_def split: curveType.split)

lemma default_bps [simp]: "to_bps (tradeFeeNumerator default_fees) (tradeFeeDenominator default_fees) = Some 25"
  by (simp add: to_bps_def default_fees_def MAX_BASIS_POINT_def checked_def checked_div_def)

text \<open>
  The seed for the fee agrees between the clients but for a stable pool with a fee of 1 or 25 basis
  points: the TypeScript client leaves out the default of the curve, the Rust crates and the
  program that of the constant product curve.
\<close>

lemma fee_seed_agrees:
  assumes "0 \<le> fee" "fee < 2 ^ 64"
  shows "getTradeFeeBpsBuffer curve fee = Inr (get_trade_fee_bps_bytes fee) \<longleftrightarrow>
    curve = ConstantProductCurve \<or> fee \<noteq> 1 \<and> fee \<noteq> 25"
proof -
  have "le_bytes 8 n \<noteq> []" "[] \<noteq> le_bytes 8 n" for n
    using le_bytes_length [of 8 n] by (metis list.size(3) zero_neq_numeral)+
  with assms show ?thesis
    by (cases curve) (auto simp: getTradeFeeBpsBuffer_def get_trade_fee_bps_bytes_def u64_to_le_bytes_def bn_toBuffer_le8_def
        CONSTANT_PRODUCT_DEFAULT_TRADE_FEE_BPS_def STABLE_SWAP_DEFAULT_TRADE_FEE_BPS_def)
qed

lemma defaults_of_curves:
  "to_bps (tradeFeeNumerator (get_default_fee ConstantProductCurve)) (tradeFeeDenominator (get_default_fee ConstantProductCurve)) =
     Some CONSTANT_PRODUCT_DEFAULT_TRADE_FEE_BPS"
  "to_bps (tradeFeeNumerator (get_default_fee (StableSwapCurve c))) (tradeFeeDenominator (get_default_fee (StableSwapCurve c))) =
     Some STABLE_SWAP_DEFAULT_TRADE_FEE_BPS"
  "get_allowed_trade_fee_bps ConstantProductCurve = CONSTANT_PRODUCT_ALLOWED_TRADE_FEE_BPS"
  "get_allowed_trade_fee_bps (StableSwapCurve c) = STABLE_SWAP_ALLOWED_TRADE_FEE_BPS"
  by (simp_all add: to_bps_def get_default_fee_def FEE_DENOMINATOR_def MAX_BASIS_POINT_def checked_def checked_div_def
      CONSTANT_PRODUCT_DEFAULT_TRADE_FEE_BPS_def STABLE_SWAP_DEFAULT_TRADE_FEE_BPS_def get_allowed_trade_fee_bps_def
      CONSTANT_PRODUCT_ALLOWED_TRADE_FEE_BPS_def STABLE_SWAP_ALLOWED_TRADE_FEE_BPS_def)

context same_keys
begin

lemma keys_agree:
  "toBuffer ch (get_first_key E a b) = getFirstKey ch a b" "toBuffer ch (get_second_key E a b) = getSecondKey ch a b"
  by (simp_all add: get_first_key_def get_second_key_def getFirstKey_def getSecondKey_def same_bytes Let_def
      flip: Buffer_compare_less)

lemma pool_keys_agree:
  "derive_permissionless_constant_product_pool_with_config_key E a b config = derivePoolAddressWithConfig ch a b config dynamic_amm_ID"
  "derive_customizable_permissionless_constant_product_pool_key E a b =
     deriveCustomizablePermissionlessConstantProductPoolAddress ch a b dynamic_amm_ID"
  by (simp_all add: derive_permissionless_constant_product_pool_with_config_key_def derivePoolAddressWithConfig_def configSeeds_def
      derive_customizable_permissionless_constant_product_pool_key_def customizableSeeds_def
      deriveCustomizablePermissionlessConstantProductPoolAddress_def same_bytes same_address keys_agree)

lemma fee_tier_key_agrees:
  assumes "poolSeeds ch a b curve fee = Inr seeds" "getTradeFeeBpsBuffer curve fee = Inr (get_trade_fee_bps_bytes fee)"
  shows "derive_permissionless_pool_key_with_fee_tier E curve a b fee = findProgramAddressSync ch seeds dynamic_amm_ID"
  using assms by (auto simp: poolSeeds_def derive_permissionless_pool_key_with_fee_tier_def same_bytes same_address keys_agree
      get_curve_type_encode)

lemma account_keys_agree:
  "derive_protocol_fee_key E m pool = deriveProtocolTokenFee ch pool m dynamic_amm_ID"
  "derive_metadata_key E lpM = deriveMintMetadata ch lpM"
  "derive_lock_escrow_key E pool owner = deriveLockEscrowPda ch pool owner dynamic_amm_ID"
  by (simp_all add: derive_protocol_fee_key_def deriveProtocolTokenFee_def derive_metadata_key_def deriveMintMetadata_def
      derive_lock_escrow_key_def deriveLockEscrowPda_def SEEDS_LOCK_ESCROW_def same_bytes same_address program_IDs)

end

context vault_addresses
begin

lemma vaults_agree:
  assumes "vaultProgramId prog = VAULT_PROGRAM_ID ch"
  shows "vs_vault (setupVault ch prog payer m) = derive_vault_key E m"
    "vs_tokenVault (setupVault ch prog payer m) = derive_token_vault_key E (derive_vault_key E m)"
    "vs_lpMint (setupVault ch prog payer m) = vault_derive_lp_mint_key E (derive_vault_key E m)"
  by (cases "fetchVault ch (derive_vault_key E m)";
      simp add: setupVault_def assms vault_program vault_pdas vault_derive_lp_mint_key_def Let_def new_vault old_vault)+

end

section \<open>A concrete environment\<close>

text \<open>The Rust crates over the addresses of the concrete chain, on which the vaults of the table exist.\<close>

definition sampleEnv :: rustEnv where
  "sampleEnv = \<lparr>rs_to_bytes = key_bytes, rs_find_program_address = program_address,
     rs_get_associated_token_address = (\<lambda>owner m. program_address [key_bytes owner, key_bytes TOKEN_PROGRAM_ID, key_bytes m]
       ASSOCIATED_TOKEN_PROGRAM_ID),
     mpl_token_metadata_ID = METAPLEX_PROGRAM,
     mpl_Metadata_find_pda = (\<lambda>m. program_address [Buffer_from ''metadata'', key_bytes METAPLEX_PROGRAM, key_bytes m] METAPLEX_PROGRAM)\<rparr>"

definition tableVaults :: "pubkey \<Rightarrow> vaultState option" where
  "tableVaults v = map_option (\<lambda>lpM. (sampleVault 0)\<lparr>v_lpMint := lpM\<rparr>) (map_of VAULT_WITH_NON_PDA_BASED_LP_MINT v)"

interpretation sample_keys: same_keys "sampleChain accounts pools vaults escrows configs" sampleEnv
  for accounts pools vaults escrows configs
  by unfold_locales (simp_all add: sampleEnv_def token_address_def deriveMintMetadata_def)

interpretation sample_addresses: vault_addresses "sampleChain accounts pools tableVaults escrows configs" sampleEnv
  for accounts pools escrows configs
proof
  fix m v
  let ?ch = "sampleChain accounts pools tableVaults escrows configs"
  show "VAULT_PROGRAM_ID ?ch = dynamic_vault_ID" by (simp add: sampleChain_def dynamic_vault_ID_def)
  show "getVaultPdas ?ch m dynamic_vault_ID =
      \<lparr>vaultPda = derive_vault_key sampleEnv m, tokenVaultPda = derive_token_vault_key sampleEnv (derive_vault_key sampleEnv m),
       lpMintPda = rs_find_program_address sampleEnv [Buffer_from LP_MINT_PREFIX, rs_to_bytes sampleEnv (derive_vault_key sampleEnv m)]
         dynamic_vault_ID\<rparr>"
    by (simp add: sampleChain_def sampleVaultPdas_def sampleEnv_def derive_vault_key_def derive_token_vault_key_def Let_def
        VAULT_PREFIX_def TOKEN_VAULT_PREFIX_def LP_MINT_PREFIX_def get_base_address_def)
  show "map_of VAULT_WITH_NON_PDA_BASED_LP_MINT (derive_vault_key sampleEnv m) = None"
    if "fetchVault ?ch (derive_vault_key sampleEnv m) = None"
    using that by (simp add: tableVaults_def)
  show "v_lpMint v = vault_derive_lp_mint_key sampleEnv (derive_vault_key sampleEnv m)"
    if "fetchVault ?ch (derive_vault_key sampleEnv m) = Some v"
    using that by (auto simp: tableVaults_def vault_derive_lp_mint_key_def)
qed

text \<open>No pool of the table is an address that the concrete chain derives: those end in a byte of one.\<close>

lemma b58_digits:
  "b58_digit (CHR ''1'') = 0"
  "b58_digit (CHR ''2'') = 1"
  "b58_digit (CHR ''3'') = 2"
  "b58_digit (CHR ''4'') = 3"
  "b58_digit (CHR ''5'') = 4"
  "b58_digit (CHR ''6'') = 5"
  "b58_digit (CHR ''7'') = 6"
  "b58_digit (CHR ''8'') = 7"
  "b58_digit (CHR ''9'') = 8"
  "b58_digit (CHR ''A'') = 9"
  "b58_digit (CHR ''B'') = 10"
  "b58_digit (CHR ''C'') = 11"
  "b58_digit (CHR ''D'') = 12"
  "b58_digit (CHR ''E'') = 13"
  "b58_digit (CHR ''F'') = 14"
  "b58_digit (CHR ''G'') = 15"
  "b58_digit (CHR ''H'') = 16"
  "b58_digit (CHR ''J'') = 17"
  "b58_digit (CHR ''K'') = 18"
  "b58_digit (CHR ''L'') = 19"
  "b58_digit (CHR ''M'') = 20"
  "b58_digit (CHR ''N'') = 21"
  "b58_digit (CHR ''P'') = 22"
  "b58_digit (CHR ''Q'') = 23"
  "b58_digit (CHR ''R'') = 24"
  "b58_digit (CHR ''S'') = 25"
  "b58_digit (CHR ''T'') = 26"
  "b58_digit (CHR ''U'') = 27"
  "b58_digit (CHR ''V'') = 28"
  "b58_digit (CHR ''W'') = 29"
  "b58_digit (CHR ''X'') = 30"
  "b58_digit (CHR ''Y'') = 31"
  "b58_digit (CHR ''Z'') = 32"
  "b58_digit (CHR ''a'') = 33"
  "b58_digit (CHR ''b'') = 34"
  "b58_digit (CHR ''c'') = 35"
  "b58_digit (CHR ''d'') = 36"
  "b58_digit (CHR ''e'') = 37"
  "b58_digit (CHR ''f'') = 38"
  "b58_digit (CHR ''g'') = 39"
  "b58_digit (CHR ''h'') = 40"
  "b58_digit (CHR ''i'') = 41"
  "b58_digit (CHR ''j'') = 42"
  "b58_digit (CHR ''k'') = 43"
  "b58_digit (CHR ''m'') = 44"
  "b58_digit (CHR ''n'') = 45"
  "b58_digit (CHR ''o'') = 46"
  "b58_digit (CHR ''p'') = 47"
  "b58_digit (CHR ''q'') = 48"
  "b58_digit (CHR ''r'') = 49"
  "b58_digit (CHR ''s'') = 50"
  "b58_digit (CHR ''t'') = 51"
  "b58_digit (CHR ''u'') = 52"
  "b58_digit (CHR ''v'') = 53"
  "b58_digit (CHR ''w'') = 54"
  "b58_digit (CHR ''x'') = 55"
  "b58_digit (CHR ''y'') = 56"
  "b58_digit (CHR ''z'') = 57"
  by (simp_all add: b58_digit_def b58_alphabet_def)

lemma b58_value_mod: "b58_value s mod 256 = foldl (\<lambda>n c. (58 * n + b58_digit c) mod 256) 0 s"
proof (induction s rule: rev_induct)
  case (snoc c s)
  have "b58_value (s @ [c]) mod 256 = (58 * (b58_value s mod 256) + b58_digit c) mod 256"
    by (metis b58_value_append mod_add_left_eq mod_mult_right_eq)
  then show ?case by (simp add: snoc)
qed (simp add: b58_value_def)

lemma on_curve_key: "on_curve (PublicKey s) \<longleftrightarrow> foldl (\<lambda>n c. (58 * n + b58_digit c) mod 256) 0 s \<noteq> 1"
proof -
  have "le_bytes 32 m = word_of_nat (m mod 256) # le_bytes 31 (m div 256)" for m
    using le_bytes.simps(2) [of 31 m] by simp
  then have "last (key_bytes (PublicKey s)) = word_of_nat (b58_value s mod 2 ^ 256 mod 256)"
    unfolding key_bytes_def pubkey.case by simp
  also have "b58_value s mod 2 ^ 256 mod 256 = b58_value s mod 256"
    by (rule mod_mod_cancel) simp
  finally have "on_curve (PublicKey s) \<longleftrightarrow> (word_of_nat (b58_value s mod 256) :: 8 word) \<noteq> 1"
    by (simp add: on_curve_def)
  also have "\<dots> \<longleftrightarrow> b58_value s mod 256 \<noteq> 1"
    by (simp add: word_unat_eq_iff unat_of_nat)
  finally show ?thesis by (simp add: b58_value_mod)
qed

lemma table_pools_on_curve: "list_all (\<lambda>(pool, lpM). on_curve pool) POOL_WITH_NON_PDA_BASED_LP_MINT"
  by (simp add: POOL_WITH_NON_PDA_BASED_LP_MINT_def on_curve_key b58_digits)

lemma sample_pool_not_in_table: "map_of POOL_WITH_NON_PDA_BASED_LP_MINT (program_address seeds program) = None"
proof -
  have "\<not> on_curve (program_address seeds program)"
    by (simp add: on_curve_def program_address_def key_bytes_of_bytes)
  then show ?thesis
    using table_pools_on_curve by (auto simp: map_of_eq_None_iff list_all_iff)
qed

end
