(* ===== verification/ProgramInterface.thy ===== *)
theory ProgramInterface
  imports Idl
begin

text \<open>
  What the Rust sources of the AMM program declare (programs/dynamic-amm/src): the accounts of
  every instruction with the constraints Anchor checks, the instructions with their arguments,
  the structs and enums of the state, the events and the errors. The bodies of the instructions
  are not in the repository. \<open>describe\<close> is the description Anchor derives of an instruction,
  which the client's idl.ts holds a copy of; the lemmas compare the two.
\<close>

section \<open>Declarations\<close>

text \<open>
  The type of an account, with \<^verbatim>\<open>Box\<close> and the lifetime left out; \<^verbatim>\<open>UncheckedAccount\<close> and \<^verbatim>\<open>AccountInfo\<close>
  are the same to Anchor. Field types are written as the description writes them.
\<close>

datatype rsType = RsAccount string | RsProgram string | RsSysvar string | RsSigner | RsUnchecked

datatype rsSeed =
    SeedText string
  | SeedKey string \<comment> \<open>\<^verbatim>\<open>x.key().as_ref()\<close>\<close>
  | SeedFirstKey string string \<comment> \<open>\<^verbatim>\<open>get_first_key(x.key(), y.key()).as_ref()\<close>\<close>
  | SeedSecondKey string string
  | SeedCurveType \<comment> \<open>\<^verbatim>\<open>&get_curve_type(curve_type).to_le_bytes()\<close>\<close>
  | SeedTradeFeeBps \<comment> \<open>\<^verbatim>\<open>get_trade_fee_bps_bytes(trade_fee_bps).as_ref()\<close>\<close>
  | SeedConfigIndex \<comment> \<open>\<^verbatim>\<open>config_parameters.index.to_le_bytes().as_ref()\<close>\<close>

datatype rsConstraint =
    RsMut
  | RsInit string \<comment> \<open>\<^verbatim>\<open>init\<close> with its payer\<close>
  | RsSeeds "rsSeed list" \<comment> \<open>\<^verbatim>\<open>seeds\<close> with \<^verbatim>\<open>bump\<close>\<close>
  | RsAssociatedToken string string \<comment> \<open>mint, authority\<close>
  | RsToken string string \<comment> \<open>mint, authority\<close>
  | RsMint string string string \<comment> \<open>decimals \<^verbatim>\<open>get_lp_mint_decimal\<close> of two mints, authority\<close>
  | RsHasOne string
  | RsClose string
  | RsKeysDiffer string string string \<comment> \<open>\<^verbatim>\<open>x.key() != y.key()\<close>, error\<close>
  | RsPartnerAuthority string string \<comment> \<open>\<^verbatim>\<open>pool.partner_info.partner_authority == x.key()\<close>, error\<close>
  | RsTogglesEnabled \<comment> \<open>\<^verbatim>\<open>pool.enabled != enable\<close>\<close>
  | RsSpace string \<comment> \<open>eight bytes and the size of a type\<close>

datatype rsAccount =
  RsAccountDecl (ra_name: string) (ra_type: rsType) (ra_constraints: "rsConstraint list")

datatype rsFn =
  RsFn (fn_name: string) (fn_accounts: "rsAccount list") (fn_args: "(string \<times> idlType) list")

section \<open>The accounts of every instruction\<close>

definition accounts_AddOrRemoveBalanceLiquidity :: "rsAccount list" where
  "accounts_AddOrRemoveBalanceLiquidity =
     [RsAccountDecl ''pool'' RsUnchecked [RsMut],
      RsAccountDecl ''lp_mint'' RsUnchecked [RsMut],
      RsAccountDecl ''user_pool_lp'' RsUnchecked [RsMut],
      RsAccountDecl ''a_vault_lp'' RsUnchecked [RsMut],
      RsAccountDecl ''b_vault_lp'' RsUnchecked [RsMut],
      RsAccountDecl ''a_vault'' RsUnchecked [RsMut],
      RsAccountDecl ''b_vault'' RsUnchecked [RsMut],
      RsAccountDecl ''a_vault_lp_mint'' RsUnchecked [RsMut],
      RsAccountDecl ''b_vault_lp_mint'' RsUnchecked [RsMut],
      RsAccountDecl ''a_token_vault'' RsUnchecked [RsMut],
      RsAccountDecl ''b_token_vault'' RsUnchecked [RsMut],
      RsAccountDecl ''user_a_token'' RsUnchecked [RsMut],
      RsAccountDecl ''user_b_token'' RsUnchecked [RsMut],
      RsAccountDecl ''user'' RsSigner [],
      RsAccountDecl ''vault_program'' RsUnchecked [],
      RsAccountDecl ''token_program'' RsUnchecked []]"

definition accounts_BootstrapLiquidity :: "rsAccount list" where
  "accounts_BootstrapLiquidity =
     [RsAccountDecl ''pool'' RsUnchecked [RsMut],
      RsAccountDecl ''lp_mint'' RsUnchecked [RsMut],
      RsAccountDecl ''user_pool_lp'' RsUnchecked [RsMut],
      RsAccountDecl ''a_vault_lp'' RsUnchecked [RsMut],
      RsAccountDecl ''b_vault_lp'' RsUnchecked [RsMut],
      RsAccountDecl ''a_vault'' RsUnchecked [RsMut],
      RsAccountDecl ''b_vault'' RsUnchecked [RsMut],
      RsAccountDecl ''a_vault_lp_mint'' RsUnchecked [RsMut],
      RsAccountDecl ''b_vault_lp_mint'' RsUnchecked [RsMut],
      RsAccountDecl ''a_token_vault'' RsUnchecked [RsMut],
      RsAccountDecl ''b_token_vault'' RsUnchecked [RsMut],
      RsAccountDecl ''user_a_token'' RsUnchecked [RsMut],
      RsAccountDecl ''user_b_token'' RsUnchecked [RsMut],
      RsAccountDecl ''user'' RsSigner [],
      RsAccountDecl ''vault_program'' RsUnchecked [],
      RsAccountDecl ''token_program'' RsUnchecked []]"

definition accounts_ClaimFee :: "rsAccount list" where
  "accounts_ClaimFee =
     [RsAccountDecl ''pool'' RsUnchecked [RsMut],
      RsAccountDecl ''lp_mint'' RsUnchecked [RsMut],
      RsAccountDecl ''lock_escrow'' RsUnchecked [RsMut],
      RsAccountDecl ''owner'' RsSigner [RsMut],
      RsAccountDecl ''source_tokens'' RsUnchecked [RsMut],
      RsAccountDecl ''escrow_vault'' RsUnchecked [RsMut],
      RsAccountDecl ''token_program'' RsUnchecked [],
      RsAccountDecl ''a_token_vault'' RsUnchecked [RsMut],
      RsAccountDecl ''b_token_vault'' RsUnchecked [RsMut],
      RsAccountDecl ''a_vault'' RsUnchecked [RsMut],
      RsAccountDecl ''b_vault'' RsUnchecked [RsMut],
      RsAccountDecl ''a_vault_lp'' RsUnchecked [RsMut],
      RsAccountDecl ''b_vault_lp'' RsUnchecked [RsMut],
      RsAccountDecl ''a_vault_lp_mint'' RsUnchecked [RsMut],
      RsAccountDecl ''b_vault_lp_mint'' RsUnchecked [RsMut],
      RsAccountDecl ''user_a_token'' RsUnchecked [RsMut],
      RsAccountDecl ''user_b_token'' RsUnchecked [RsMut],
      RsAccountDecl ''vault_program'' RsUnchecked []]"

definition accounts_CloseConfig :: "rsAccount list" where
  "accounts_CloseConfig =
     [RsAccountDecl ''config'' (RsAccount ''Config'') [RsMut, RsClose ''rent_receiver''],
      RsAccountDecl ''admin'' RsSigner [RsMut],
      RsAccountDecl ''rent_receiver'' RsUnchecked [RsMut]]"

definition accounts_CreateConfig :: "rsAccount list" where
  "accounts_CreateConfig =
     [RsAccountDecl ''config'' (RsAccount ''Config'') [RsInit ''admin'', RsSeeds [SeedText ''config'', SeedConfigIndex], RsSpace ''Config''],
      RsAccountDecl ''admin'' RsSigner [RsMut],
      RsAccountDecl ''system_program'' (RsProgram ''System'') []]"

definition accounts_CreateLockEscrow :: "rsAccount list" where
  "accounts_CreateLockEscrow =
     [RsAccountDecl ''pool'' RsUnchecked [],
      RsAccountDecl ''lock_escrow'' RsUnchecked [RsInit ''payer'', RsSeeds [SeedText ''lock_escrow'', SeedKey ''pool'', SeedKey ''owner''], RsSpace ''LockEscrow''],
      RsAccountDecl ''owner'' RsUnchecked [],
      RsAccountDecl ''lp_mint'' RsUnchecked [],
      RsAccountDecl ''payer'' RsSigner [RsMut],
      RsAccountDecl ''system_program'' RsUnchecked []]"

definition accounts_CreateMintMetadata :: "rsAccount list" where
  "accounts_CreateMintMetadata =
     [RsAccountDecl ''pool'' (RsAccount ''Pool'') [],
      RsAccountDecl ''lp_mint'' (RsAccount ''Mint'') [],
      RsAccountDecl ''a_vault_lp'' (RsAccount ''TokenAccount'') [],
      RsAccountDecl ''mint_metadata'' RsUnchecked [RsMut],
      RsAccountDecl ''metadata_program'' RsUnchecked [],
      RsAccountDecl ''system_program'' (RsProgram ''System'') [],
      RsAccountDecl ''payer'' RsSigner [RsMut]]"

definition accounts_EnableOrDisablePool :: "rsAccount list" where
  "accounts_EnableOrDisablePool =
     [RsAccountDecl ''pool'' (RsAccount ''Pool'') [RsMut, RsTogglesEnabled],
      RsAccountDecl ''admin'' RsSigner []]"

definition accounts_GetPoolInfo :: "rsAccount list" where
  "accounts_GetPoolInfo =
     [RsAccountDecl ''pool'' RsUnchecked [],
      RsAccountDecl ''lp_mint'' RsUnchecked [],
      RsAccountDecl ''a_vault_lp'' RsUnchecked [],
      RsAccountDecl ''b_vault_lp'' RsUnchecked [],
      RsAccountDecl ''a_vault'' RsUnchecked [],
      RsAccountDecl ''b_vault'' RsUnchecked [],
      RsAccountDecl ''a_vault_lp_mint'' RsUnchecked [],
      RsAccountDecl ''b_vault_lp_mint'' RsUnchecked []]"

definition accounts_InitializeCustomizablePermissionlessConstantProductPool :: "rsAccount list" where
  "accounts_InitializeCustomizablePermissionlessConstantProductPool =
     [RsAccountDecl ''pool'' (RsAccount ''Pool'') [RsInit ''payer'', RsSeeds [SeedText ''pool'', SeedFirstKey ''token_a_mint'' ''token_b_mint'', SeedSecondKey ''token_a_mint'' ''token_b_mint''], RsSpace ''Pool''],
      RsAccountDecl ''lp_mint'' (RsAccount ''Mint'') [RsInit ''payer'', RsSeeds [SeedText ''lp_mint'', SeedKey ''pool''], RsMint ''token_a_mint'' ''token_b_mint'' ''a_vault_lp''],
      RsAccountDecl ''token_a_mint'' (RsAccount ''Mint'') [],
      RsAccountDecl ''token_b_mint'' (RsAccount ''Mint'') [RsKeysDiffer ''token_b_mint'' ''token_a_mint'' ''MismatchedTokenMint''],
      RsAccountDecl ''a_vault'' RsUnchecked [RsMut],
      RsAccountDecl ''b_vault'' RsUnchecked [RsMut],
      RsAccountDecl ''a_token_vault'' (RsAccount ''TokenAccount'') [RsMut],
      RsAccountDecl ''b_token_vault'' (RsAccount ''TokenAccount'') [RsMut],
      RsAccountDecl ''a_vault_lp_mint'' (RsAccount ''Mint'') [RsMut],
      RsAccountDecl ''b_vault_lp_mint'' (RsAccount ''Mint'') [RsMut],
      RsAccountDecl ''a_vault_lp'' (RsAccount ''TokenAccount'') [RsInit ''payer'', RsSeeds [SeedKey ''a_vault'', SeedKey ''pool''], RsToken ''a_vault_lp_mint'' ''a_vault_lp''],
      RsAccountDecl ''b_vault_lp'' (RsAccount ''TokenAccount'') [RsInit ''payer'', RsSeeds [SeedKey ''b_vault'', SeedKey ''pool''], RsToken ''b_vault_lp_mint'' ''a_vault_lp''],
      RsAccountDecl ''payer_token_a'' (RsAccount ''TokenAccount'') [RsMut],
      RsAccountDecl ''payer_token_b'' (RsAccount ''TokenAccount'') [RsMut],
      RsAccountDecl ''payer_pool_lp'' (RsAccount ''TokenAccount'') [RsInit ''payer'', RsAssociatedToken ''lp_mint'' ''payer''],
      RsAccountDecl ''protocol_token_a_fee'' (RsAccount ''TokenAccount'') [RsInit ''payer'', RsSeeds [SeedText ''fee'', SeedKey ''token_a_mint'', SeedKey ''pool''], RsToken ''token_a_mint'' ''a_vault_lp''],
      RsAccountDecl ''protocol_token_b_fee'' (RsAccount ''TokenAccount'') [RsInit ''payer'', RsSeeds [SeedText ''fee'', SeedKey ''token_b_mint'', SeedKey ''pool''], RsToken ''token_b_mint'' ''a_vault_lp''],
      RsAccountDecl ''payer'' RsSigner [RsMut],
      RsAccountDecl ''rent'' (RsSysvar ''Rent'') [],
      RsAccountDecl ''mint_metadata'' RsUnchecked [RsMut],
      RsAccountDecl ''metadata_program'' RsUnchecked [],
      RsAccountDecl ''vault_program'' RsUnchecked [],
      RsAccountDecl ''token_program'' (RsProgram ''Token'') [],
      RsAccountDecl ''associated_token_program'' (RsProgram ''AssociatedToken'') [],
      RsAccountDecl ''system_program'' (RsProgram ''System'') []]"

definition accounts_InitializePermissionedPool :: "rsAccount list" where
  "accounts_InitializePermissionedPool =
     [RsAccountDecl ''pool'' (RsAccount ''Pool'') [RsInit ''admin'', RsSpace ''Pool''],
      RsAccountDecl ''lp_mint'' (RsAccount ''Mint'') [RsInit ''admin'', RsSeeds [SeedText ''lp_mint'', SeedKey ''pool''], RsMint ''token_a_mint'' ''token_b_mint'' ''a_vault_lp''],
      RsAccountDecl ''token_a_mint'' (RsAccount ''Mint'') [],
      RsAccountDecl ''token_b_mint'' (RsAccount ''Mint'') [],
      RsAccountDecl ''a_vault'' RsUnchecked [RsMut],
      RsAccountDecl ''b_vault'' RsUnchecked [RsMut],
      RsAccountDecl ''a_vault_lp_mint'' (RsAccount ''Mint'') [RsMut],
      RsAccountDecl ''b_vault_lp_mint'' (RsAccount ''Mint'') [RsMut],
      RsAccountDecl ''a_vault_lp'' (RsAccount ''TokenAccount'') [RsInit ''admin'', RsSeeds [SeedKey ''a_vault'', SeedKey ''pool''], RsToken ''a_vault_lp_mint'' ''a_vault_lp''],
      RsAccountDecl ''b_vault_lp'' (RsAccount ''TokenAccount'') [RsInit ''admin'', RsSeeds [SeedKey ''b_vault'', SeedKey ''pool''], RsToken ''b_vault_lp_mint'' ''a_vault_lp''],
      RsAccountDecl ''admin_token_a'' (RsAccount ''TokenAccount'') [RsMut],
      RsAccountDecl ''admin_token_b'' (RsAccount ''TokenAccount'') [RsMut],
      RsAccountDecl ''admin_pool_lp'' (RsAccount ''TokenAccount'') [RsInit ''admin'', RsAssociatedToken ''lp_mint'' ''admin''],
      RsAccountDecl ''protocol_token_a_fee'' (RsAccount ''TokenAccount'') [RsInit ''admin'', RsSeeds [SeedText ''fee'', SeedKey ''token_a_mint'', SeedKey ''pool''], RsToken ''token_a_mint'' ''a_vault_lp''],
      RsAccountDecl ''protocol_token_b_fee'' (RsAccount ''TokenAccount'') [RsInit ''admin'', RsSeeds [SeedText ''fee'', SeedKey ''token_b_mint'', SeedKey ''pool''], RsToken ''token_b_mint'' ''a_vault_lp''],
      RsAccountDecl ''admin'' RsSigner [RsMut],
      RsAccountDecl ''fee_owner'' RsUnchecked [],
      RsAccountDecl ''rent'' (RsSysvar ''Rent'') [],
      RsAccountDecl ''mint_metadata'' RsUnchecked [RsMut],
      RsAccountDecl ''metadata_program'' RsUnchecked [],
      RsAccountDecl ''vault_program'' RsUnchecked [],
      RsAccountDecl ''token_program'' (RsProgram ''Token'') [],
      RsAccountDecl ''associated_token_program'' (RsProgram ''AssociatedToken'') [],
      RsAccountDecl ''system_program'' (RsProgram ''System'') []]"

definition accounts_InitializePermissionlessPool :: "rsAccount list" where
  "accounts_InitializePermissionlessPool =
     [RsAccountDecl ''pool'' (RsAccount ''Pool'') [RsInit ''payer'', RsSeeds [SeedCurveType, SeedFirstKey ''token_a_mint'' ''token_b_mint'', SeedSecondKey ''token_a_mint'' ''token_b_mint''], RsSpace ''Pool''],
      RsAccountDecl ''lp_mint'' (RsAccount ''Mint'') [RsInit ''payer'', RsSeeds [SeedText ''lp_mint'', SeedKey ''pool''], RsMint ''token_a_mint'' ''token_b_mint'' ''a_vault_lp''],
      RsAccountDecl ''token_a_mint'' (RsAccount ''Mint'') [],
      RsAccountDecl ''token_b_mint'' (RsAccount ''Mint'') [],
      RsAccountDecl ''a_vault'' RsUnchecked [RsMut],
      RsAccountDecl ''b_vault'' RsUnchecked [RsMut],
      RsAccountDecl ''a_token_vault'' (RsAccount ''TokenAccount'') [RsMut],
      RsAccountDecl ''b_token_vault'' (RsAccount ''TokenAccount'') [RsMut],
      RsAccountDecl ''a_vault_lp_mint'' (RsAccount ''Mint'') [RsMut],
      RsAccountDecl ''b_vault_lp_mint'' (RsAccount ''Mint'') [RsMut],
      RsAccountDecl ''a_vault_lp'' (RsAccount ''TokenAccount'') [RsInit ''payer'', RsSeeds [SeedKey ''a_vault'', SeedKey ''pool''], RsToken ''a_vault_lp_mint'' ''a_vault_lp''],
      RsAccountDecl ''b_vault_lp'' (RsAccount ''TokenAccount'') [RsInit ''payer'', RsSeeds [SeedKey ''b_vault'', SeedKey ''pool''], RsToken ''b_vault_lp_mint'' ''a_vault_lp''],
      RsAccountDecl ''payer_token_a'' (RsAccount ''TokenAccount'') [RsMut],
      RsAccountDecl ''payer_token_b'' (RsAccount ''TokenAccount'') [RsMut],
      RsAccountDecl ''payer_pool_lp'' (RsAccount ''TokenAccount'') [RsInit ''payer'', RsAssociatedToken ''lp_mint'' ''payer''],
      RsAccountDecl ''protocol_token_a_fee'' (RsAccount ''TokenAccount'') [RsInit ''payer'', RsSeeds [SeedText ''fee'', SeedKey ''token_a_mint'', SeedKey ''pool''], RsToken ''token_a_mint'' ''a_vault_lp''],
      RsAccountDecl ''protocol_token_b_fee'' (RsAccount ''TokenAccount'') [RsInit ''payer'', RsSeeds [SeedText ''fee'', SeedKey ''token_b_mint'', SeedKey ''pool''], RsToken ''token_b_mint'' ''a_vault_lp''],
      RsAccountDecl ''payer'' RsSigner [RsMut],
      RsAccountDecl ''fee_owner'' RsUnchecked [],
      RsAccountDecl ''rent'' (RsSysvar ''Rent'') [],
      RsAccountDecl ''mint_metadata'' RsUnchecked [RsMut],
      RsAccountDecl ''metadata_program'' RsUnchecked [],
      RsAccountDecl ''vault_program'' RsUnchecked [],
      RsAccountDecl ''token_program'' RsUnchecked [],
      RsAccountDecl ''associated_token_program'' RsUnchecked [],
      RsAccountDecl ''system_program'' RsUnchecked []]"

definition accounts_InitializePermissionlessPoolWithFeeTier :: "rsAccount list" where
  "accounts_InitializePermissionlessPoolWithFeeTier =
     [RsAccountDecl ''pool'' (RsAccount ''Pool'') [RsInit ''payer'', RsSeeds [SeedCurveType, SeedFirstKey ''token_a_mint'' ''token_b_mint'', SeedSecondKey ''token_a_mint'' ''token_b_mint'', SeedTradeFeeBps], RsSpace ''Pool''],
      RsAccountDecl ''lp_mint'' (RsAccount ''Mint'') [RsInit ''payer'', RsSeeds [SeedText ''lp_mint'', SeedKey ''pool''], RsMint ''token_a_mint'' ''token_b_mint'' ''a_vault_lp''],
      RsAccountDecl ''token_a_mint'' (RsAccount ''Mint'') [],
      RsAccountDecl ''token_b_mint'' (RsAccount ''Mint'') [],
      RsAccountDecl ''a_vault'' RsUnchecked [RsMut],
      RsAccountDecl ''b_vault'' RsUnchecked [RsMut],
      RsAccountDecl ''a_token_vault'' (RsAccount ''TokenAccount'') [RsMut],
      RsAccountDecl ''b_token_vault'' (RsAccount ''TokenAccount'') [RsMut],
      RsAccountDecl ''a_vault_lp_mint'' (RsAccount ''Mint'') [RsMut],
      RsAccountDecl ''b_vault_lp_mint'' (RsAccount ''Mint'') [RsMut],
      RsAccountDecl ''a_vault_lp'' (RsAccount ''TokenAccount'') [RsInit ''payer'', RsSeeds [SeedKey ''a_vault'', SeedKey ''pool''], RsToken ''a_vault_lp_mint'' ''a_vault_lp''],
      RsAccountDecl ''b_vault_lp'' (RsAccount ''TokenAccount'') [RsInit ''payer'', RsSeeds [SeedKey ''b_vault'', SeedKey ''pool''], RsToken ''b_vault_lp_mint'' ''a_vault_lp''],
      RsAccountDecl ''payer_token_a'' (RsAccount ''TokenAccount'') [RsMut],
      RsAccountDecl ''payer_token_b'' (RsAccount ''TokenAccount'') [RsMut],
      RsAccountDecl ''payer_pool_lp'' (RsAccount ''TokenAccount'') [RsInit ''payer'', RsAssociatedToken ''lp_mint'' ''payer''],
      RsAccountDecl ''protocol_token_a_fee'' (RsAccount ''TokenAccount'') [RsInit ''payer'', RsSeeds [SeedText ''fee'', SeedKey ''token_a_mint'', SeedKey ''pool''], RsToken ''token_a_mint'' ''a_vault_lp''],
      RsAccountDecl ''protocol_token_b_fee'' (RsAccount ''TokenAccount'') [RsInit ''payer'', RsSeeds [SeedText ''fee'', SeedKey ''token_b_mint'', SeedKey ''pool''], RsToken ''token_b_mint'' ''a_vault_lp''],
      RsAccountDecl ''payer'' RsSigner [RsMut],
      RsAccountDecl ''fee_owner'' RsUnchecked [],
      RsAccountDecl ''rent'' (RsSysvar ''Rent'') [],
      RsAccountDecl ''mint_metadata'' RsUnchecked [RsMut],
      RsAccountDecl ''metadata_program'' RsUnchecked [],
      RsAccountDecl ''vault_program'' RsUnchecked [],
      RsAccountDecl ''token_program'' RsUnchecked [],
      RsAccountDecl ''associated_token_program'' RsUnchecked [],
      RsAccountDecl ''system_program'' RsUnchecked []]"

definition accounts_InitializePermissionlessConstantProductPoolWithConfig :: "rsAccount list" where
  "accounts_InitializePermissionlessConstantProductPoolWithConfig =
     [RsAccountDecl ''pool'' (RsAccount ''Pool'') [RsInit ''payer'', RsSeeds [SeedFirstKey ''token_a_mint'' ''token_b_mint'', SeedSecondKey ''token_a_mint'' ''token_b_mint'', SeedKey ''config''], RsSpace ''Pool''],
      RsAccountDecl ''config'' (RsAccount ''Config'') [],
      RsAccountDecl ''lp_mint'' (RsAccount ''Mint'') [RsInit ''payer'', RsSeeds [SeedText ''lp_mint'', SeedKey ''pool''], RsMint ''token_a_mint'' ''token_b_mint'' ''a_vault_lp''],
      RsAccountDecl ''token_a_mint'' (RsAccount ''Mint'') [],
      RsAccountDecl ''token_b_mint'' (RsAccount ''Mint'') [],
      RsAccountDecl ''a_vault'' RsUnchecked [RsMut],
      RsAccountDecl ''b_vault'' RsUnchecked [RsMut],
      RsAccountDecl ''a_token_vault'' (RsAccount ''TokenAccount'') [RsMut],
      RsAccountDecl ''b_token_vault'' (RsAccount ''TokenAccount'') [RsMut],
      RsAccountDecl ''a_vault_lp_mint'' (RsAccount ''Mint'') [RsMut],
      RsAccountDecl ''b_vault_lp_mint'' (RsAccount ''Mint'') [RsMut],
      RsAccountDecl ''a_vault_lp'' (RsAccount ''TokenAccount'') [RsInit ''payer'', RsSeeds [SeedKey ''a_vault'', SeedKey ''pool''], RsToken ''a_vault_lp_mint'' ''a_vault_lp''],
      RsAccountDecl ''b_vault_lp'' (RsAccount ''TokenAccount'') [RsInit ''payer'', RsSeeds [SeedKey ''b_vault'', SeedKey ''pool''], RsToken ''b_vault_lp_mint'' ''a_vault_lp''],
      RsAccountDecl ''payer_token_a'' (RsAccount ''TokenAccount'') [RsMut],
      RsAccountDecl ''payer_token_b'' (RsAccount ''TokenAccount'') [RsMut],
      RsAccountDecl ''payer_pool_lp'' (RsAccount ''TokenAccount'') [RsInit ''payer'', RsAssociatedToken ''lp_mint'' ''payer''],
      RsAccountDecl ''protocol_token_a_fee'' (RsAccount ''TokenAccount'') [RsInit ''payer'', RsSeeds [SeedText ''fee'', SeedKey ''token_a_mint'', SeedKey ''pool''], RsToken ''token_a_mint'' ''a_vault_lp''],
      RsAccountDecl ''protocol_token_b_fee'' (RsAccount ''TokenAccount'') [RsInit ''payer'', RsSeeds [SeedText ''fee'', SeedKey ''token_b_mint'', SeedKey ''pool''], RsToken ''token_b_mint'' ''a_vault_lp''],
      RsAccountDecl ''payer'' RsSigner [RsMut],
      RsAccountDecl ''rent'' (RsSysvar ''Rent'') [],
      RsAccountDecl ''mint_metadata'' RsUnchecked [RsMut],
      RsAccountDecl ''metadata_program'' RsUnchecked [],
      RsAccountDecl ''vault_program'' RsUnchecked [],
      RsAccountDecl ''token_program'' (RsProgram ''Token'') [],
      RsAccountDecl ''associated_token_program'' (RsProgram ''AssociatedToken'') [],
      RsAccountDecl ''system_program'' (RsProgram ''System'') []]"

definition accounts_Lock :: "rsAccount list" where
  "accounts_Lock =
     [RsAccountDecl ''pool'' RsUnchecked [RsMut],
      RsAccountDecl ''lp_mint'' RsUnchecked [],
      RsAccountDecl ''lock_escrow'' RsUnchecked [RsMut],
      RsAccountDecl ''owner'' RsSigner [RsMut],
      RsAccountDecl ''source_tokens'' RsUnchecked [RsMut],
      RsAccountDecl ''escrow_vault'' RsUnchecked [RsMut],
      RsAccountDecl ''token_program'' RsUnchecked [],
      RsAccountDecl ''a_vault'' RsUnchecked [],
      RsAccountDecl ''b_vault'' RsUnchecked [],
      RsAccountDecl ''a_vault_lp'' RsUnchecked [],
      RsAccountDecl ''b_vault_lp'' RsUnchecked [],
      RsAccountDecl ''a_vault_lp_mint'' RsUnchecked [],
      RsAccountDecl ''b_vault_lp_mint'' RsUnchecked []]"

definition accounts_MoveLockedLp :: "rsAccount list" where
  "accounts_MoveLockedLp =
     [RsAccountDecl ''pool'' RsUnchecked [RsMut],
      RsAccountDecl ''lp_mint'' RsUnchecked [],
      RsAccountDecl ''from_lock_escrow'' RsUnchecked [RsMut],
      RsAccountDecl ''to_lock_escrow'' RsUnchecked [RsMut],
      RsAccountDecl ''owner'' RsSigner [],
      RsAccountDecl ''from_escrow_vault'' RsUnchecked [RsMut],
      RsAccountDecl ''to_escrow_vault'' RsUnchecked [RsMut],
      RsAccountDecl ''token_program'' RsUnchecked [],
      RsAccountDecl ''a_vault'' RsUnchecked [],
      RsAccountDecl ''b_vault'' RsUnchecked [],
      RsAccountDecl ''a_vault_lp'' RsUnchecked [],
      RsAccountDecl ''b_vault_lp'' RsUnchecked [],
      RsAccountDecl ''a_vault_lp_mint'' RsUnchecked [],
      RsAccountDecl ''b_vault_lp_mint'' RsUnchecked []]"

definition accounts_OverrideCurveParam :: "rsAccount list" where
  "accounts_OverrideCurveParam =
     [RsAccountDecl ''pool'' (RsAccount ''Pool'') [RsMut],
      RsAccountDecl ''admin'' RsSigner []]"

definition accounts_PartnerClaimFees :: "rsAccount list" where
  "accounts_PartnerClaimFees =
     [RsAccountDecl ''pool'' (RsAccount ''Pool'') [RsMut, RsHasOne ''protocol_token_a_fee'', RsHasOne ''protocol_token_b_fee'', RsHasOne ''a_vault_lp'', RsPartnerAuthority ''partner_authority'' ''InvalidFeeOwner''],
      RsAccountDecl ''a_vault_lp'' (RsAccount ''TokenAccount'') [],
      RsAccountDecl ''protocol_token_a_fee'' (RsAccount ''TokenAccount'') [RsMut],
      RsAccountDecl ''protocol_token_b_fee'' (RsAccount ''TokenAccount'') [RsMut],
      RsAccountDecl ''partner_token_a'' (RsAccount ''TokenAccount'') [RsMut],
      RsAccountDecl ''partner_token_b'' (RsAccount ''TokenAccount'') [RsMut],
      RsAccountDecl ''token_program'' (RsProgram ''Token'') [],
      RsAccountDecl ''partner_authority'' RsSigner []]"

definition accounts_RemoveLiquiditySingleSide :: "rsAccount list" where
  "accounts_RemoveLiquiditySingleSide =
     [RsAccountDecl ''pool'' RsUnchecked [RsMut],
      RsAccountDecl ''lp_mint'' RsUnchecked [RsMut],
      RsAccountDecl ''user_pool_lp'' RsUnchecked [RsMut],
      RsAccountDecl ''a_vault_lp'' RsUnchecked [RsMut],
      RsAccountDecl ''b_vault_lp'' RsUnchecked [RsMut],
      RsAccountDecl ''a_vault'' RsUnchecked [RsMut],
      RsAccountDecl ''b_vault'' RsUnchecked [RsMut],
      RsAccountDecl ''a_vault_lp_mint'' RsUnchecked [RsMut],
      RsAccountDecl ''b_vault_lp_mint'' RsUnchecked [RsMut],
      RsAccountDecl ''a_token_vault'' RsUnchecked [RsMut],
      RsAccountDecl ''b_token_vault'' RsUnchecked [RsMut],
      RsAccountDecl ''user_destination_token'' RsUnchecked [RsMut],
      RsAccountDecl ''user'' RsSigner [],
      RsAccountDecl ''vault_program'' RsUnchecked [],
      RsAccountDecl ''token_program'' RsUnchecked []]"

definition accounts_SetPoolFees :: "rsAccount list" where
  "accounts_SetPoolFees =
     [RsAccountDecl ''pool'' (RsAccount ''Pool'') [RsMut],
      RsAccountDecl ''fee_operator'' RsSigner []]"

definition accounts_Swap :: "rsAccount list" where
  "accounts_Swap =
     [RsAccountDecl ''pool'' RsUnchecked [RsMut],
      RsAccountDecl ''user_source_token'' RsUnchecked [RsMut],
      RsAccountDecl ''user_destination_token'' RsUnchecked [RsMut],
      RsAccountDecl ''a_vault'' RsUnchecked [RsMut],
      RsAccountDecl ''b_vault'' RsUnchecked [RsMut],
      RsAccountDecl ''a_token_vault'' RsUnchecked [RsMut],
      RsAccountDecl ''b_token_vault'' RsUnchecked [RsMut],
      RsAccountDecl ''a_vault_lp_mint'' RsUnchecked [RsMut],
      RsAccountDecl ''b_vault_lp_mint'' RsUnchecked [RsMut],
      RsAccountDecl ''a_vault_lp'' RsUnchecked [RsMut],
      RsAccountDecl ''b_vault_lp'' RsUnchecked [RsMut],
      RsAccountDecl ''protocol_token_fee'' RsUnchecked [RsMut],
      RsAccountDecl ''user'' RsSigner [],
      RsAccountDecl ''vault_program'' RsUnchecked [],
      RsAccountDecl ''token_program'' RsUnchecked []]"

definition accounts_UpdateActivationPoint :: "rsAccount list" where
  "accounts_UpdateActivationPoint =
     [RsAccountDecl ''pool'' (RsAccount ''Pool'') [RsMut],
      RsAccountDecl ''admin'' RsSigner []]"

section \<open>The instructions\<close>

definition fn_initialize_permissionless_pool :: rsFn where
  "fn_initialize_permissionless_pool = RsFn ''initialize_permissionless_pool'' accounts_InitializePermissionlessPool
     [(''curve_type'', IdlDefined ''CurveType''), (''token_a_amount'', IdlU64), (''token_b_amount'', IdlU64)]"

definition fn_initialize_customizable_permissionless_constant_product_pool :: rsFn where
  "fn_initialize_customizable_permissionless_constant_product_pool = RsFn ''initialize_customizable_permissionless_constant_product_pool'' accounts_InitializeCustomizablePermissionlessConstantProductPool
     [(''token_a_amount'', IdlU64), (''token_b_amount'', IdlU64), (''params'', IdlDefined ''CustomizableParams'')]"

definition fn_initialize_permissionless_pool_with_fee_tier :: rsFn where
  "fn_initialize_permissionless_pool_with_fee_tier = RsFn ''initialize_permissionless_pool_with_fee_tier'' accounts_InitializePermissionlessPoolWithFeeTier
     [(''curve_type'', IdlDefined ''CurveType''), (''trade_fee_bps'', IdlU64), (''token_a_amount'', IdlU64), (''token_b_amount'', IdlU64)]"

definition fn_partner_claim_fee :: rsFn where
  "fn_partner_claim_fee = RsFn ''partner_claim_fee'' accounts_PartnerClaimFees
     [(''max_amount_a'', IdlU64), (''max_amount_b'', IdlU64)]"

definition fn_remove_liquidity_single_side :: rsFn where
  "fn_remove_liquidity_single_side = RsFn ''remove_liquidity_single_side'' accounts_RemoveLiquiditySingleSide
     [(''pool_token_amount'', IdlU64), (''minimum_out_amount'', IdlU64)]"

definition fn_add_imbalance_liquidity :: rsFn where
  "fn_add_imbalance_liquidity = RsFn ''add_imbalance_liquidity'' accounts_AddOrRemoveBalanceLiquidity
     [(''minimum_pool_token_amount'', IdlU64), (''token_a_amount'', IdlU64), (''token_b_amount'', IdlU64)]"

definition fn_swap :: rsFn where
  "fn_swap = RsFn ''swap'' accounts_Swap
     [(''in_amount'', IdlU64), (''minimum_out_amount'', IdlU64)]"

definition fn_remove_balance_liquidity :: rsFn where
  "fn_remove_balance_liquidity = RsFn ''remove_balance_liquidity'' accounts_AddOrRemoveBalanceLiquidity
     [(''pool_token_amount'', IdlU64), (''minimum_a_token_out'', IdlU64), (''minimum_b_token_out'', IdlU64)]"

definition fn_add_balance_liquidity :: rsFn where
  "fn_add_balance_liquidity = RsFn ''add_balance_liquidity'' accounts_AddOrRemoveBalanceLiquidity
     [(''pool_token_amount'', IdlU64), (''maximum_token_a_amount'', IdlU64), (''maximum_token_b_amount'', IdlU64)]"

definition fn_get_pool_info :: rsFn where
  "fn_get_pool_info = RsFn ''get_pool_info'' accounts_GetPoolInfo
     []"

definition fn_bootstrap_liquidity :: rsFn where
  "fn_bootstrap_liquidity = RsFn ''bootstrap_liquidity'' accounts_BootstrapLiquidity
     [(''token_a_amount'', IdlU64), (''token_b_amount'', IdlU64)]"

definition fn_create_lock_escrow :: rsFn where
  "fn_create_lock_escrow = RsFn ''create_lock_escrow'' accounts_CreateLockEscrow
     []"

definition fn_lock :: rsFn where
  "fn_lock = RsFn ''lock'' accounts_Lock
     [(''amount'', IdlU64)]"

definition fn_claim_fee :: rsFn where
  "fn_claim_fee = RsFn ''claim_fee'' accounts_ClaimFee
     [(''max_amount'', IdlU64)]"

definition fn_initialize_permissioned_pool :: rsFn where
  "fn_initialize_permissioned_pool = RsFn ''initialize_permissioned_pool'' accounts_InitializePermissionedPool
     [(''curve_type'', IdlDefined ''CurveType'')]"

definition fn_enable_or_disable_pool :: rsFn where
  "fn_enable_or_disable_pool = RsFn ''enable_or_disable_pool'' accounts_EnableOrDisablePool
     [(''enable'', IdlBool)]"

definition fn_set_pool_fees :: rsFn where
  "fn_set_pool_fees = RsFn ''set_pool_fees'' accounts_SetPoolFees
     [(''fees'', IdlDefined ''PoolFees''), (''new_partner_fee_numerator'', IdlU64)]"

definition fn_override_curve_param :: rsFn where
  "fn_override_curve_param = RsFn ''override_curve_param'' accounts_OverrideCurveParam
     [(''curve_type'', IdlDefined ''CurveType'')]"

definition fn_create_mint_metadata :: rsFn where
  "fn_create_mint_metadata = RsFn ''create_mint_metadata'' accounts_CreateMintMetadata
     []"

definition fn_create_config :: rsFn where
  "fn_create_config = RsFn ''create_config'' accounts_CreateConfig
     [(''config_parameters'', IdlDefined ''ConfigParameters'')]"

definition fn_close_config :: rsFn where
  "fn_close_config = RsFn ''close_config'' accounts_CloseConfig
     []"

definition fn_update_activation_point :: rsFn where
  "fn_update_activation_point = RsFn ''update_activation_point'' accounts_UpdateActivationPoint
     [(''new_activation_point'', IdlU64)]"

definition fn_initialize_permissionless_constant_product_pool_with_config :: rsFn where
  "fn_initialize_permissionless_constant_product_pool_with_config = RsFn ''initialize_permissionless_constant_product_pool_with_config'' accounts_InitializePermissionlessConstantProductPoolWithConfig
     [(''token_a_amount'', IdlU64), (''token_b_amount'', IdlU64)]"

definition fn_initialize_permissionless_constant_product_pool_with_config2 :: rsFn where
  "fn_initialize_permissionless_constant_product_pool_with_config2 = RsFn ''initialize_permissionless_constant_product_pool_with_config2'' accounts_InitializePermissionlessConstantProductPoolWithConfig
     [(''token_a_amount'', IdlU64), (''token_b_amount'', IdlU64), (''activation_point'', IdlOption IdlU64)]"

definition fn_move_locked_lp :: rsFn where
  "fn_move_locked_lp = RsFn ''move_locked_lp'' accounts_MoveLockedLp
     [(''max_amount'', IdlU64)]"

definition program_functions :: "rsFn list" where
  "program_functions =
     [fn_initialize_permissionless_pool,
      fn_initialize_customizable_permissionless_constant_product_pool,
      fn_initialize_permissionless_pool_with_fee_tier,
      fn_partner_claim_fee,
      fn_remove_liquidity_single_side,
      fn_add_imbalance_liquidity,
      fn_swap,
      fn_remove_balance_liquidity,
      fn_add_balance_liquidity,
      fn_get_pool_info,
      fn_bootstrap_liquidity,
      fn_create_lock_escrow,
      fn_lock,
      fn_claim_fee,
      fn_initialize_permissioned_pool,
      fn_enable_or_disable_pool,
      fn_set_pool_fees,
      fn_override_curve_param,
      fn_create_mint_metadata,
      fn_create_config,
      fn_close_config,
      fn_update_activation_point,
      fn_initialize_permissionless_constant_product_pool_with_config,
      fn_initialize_permissionless_constant_product_pool_with_config2,
      fn_move_locked_lp]"

section \<open>The state, the parameters and the events\<close>

definition struct_Padding :: "(string \<times> idlType) list" where
  "struct_Padding =
     [(''padding_0'', IdlArray IdlU8 6),
      (''padding_1'', IdlArray IdlU64 21),
      (''padding_2'', IdlArray IdlU64 21)]"

definition struct_Pool :: "(string \<times> idlType) list" where
  "struct_Pool =
     [(''lp_mint'', IdlPublicKey),
      (''token_a_mint'', IdlPublicKey),
      (''token_b_mint'', IdlPublicKey),
      (''a_vault'', IdlPublicKey),
      (''b_vault'', IdlPublicKey),
      (''a_vault_lp'', IdlPublicKey),
      (''b_vault_lp'', IdlPublicKey),
      (''a_vault_lp_bump'', IdlU8),
      (''enabled'', IdlBool),
      (''protocol_token_a_fee'', IdlPublicKey),
      (''protocol_token_b_fee'', IdlPublicKey),
      (''fee_last_updated_at'', IdlU64),
      (''_padding0'', IdlArray IdlU8 24),
      (''fees'', IdlDefined ''PoolFees''),
      (''pool_type'', IdlDefined ''PoolType''),
      (''stake'', IdlPublicKey),
      (''total_locked_lp'', IdlU64),
      (''bootstrapping'', IdlDefined ''Bootstrapping''),
      (''partner_info'', IdlDefined ''PartnerInfo''),
      (''padding'', IdlDefined ''Padding''),
      (''curve_type'', IdlDefined ''CurveType'')]"

definition struct_PartnerInfo :: "(string \<times> idlType) list" where
  "struct_PartnerInfo =
     [(''fee_numerator'', IdlU64),
      (''partner_authority'', IdlPublicKey),
      (''pending_fee_a'', IdlU64),
      (''pending_fee_b'', IdlU64)]"

definition struct_Bootstrapping :: "(string \<times> idlType) list" where
  "struct_Bootstrapping =
     [(''activation_point'', IdlU64),
      (''whitelisted_vault'', IdlPublicKey),
      (''pool_creator'', IdlPublicKey),
      (''activation_type'', IdlU8)]"

definition struct_LockEscrow :: "(string \<times> idlType) list" where
  "struct_LockEscrow =
     [(''pool'', IdlPublicKey),
      (''owner'', IdlPublicKey),
      (''escrow_vault'', IdlPublicKey),
      (''bump'', IdlU8),
      (''total_locked_amount'', IdlU64),
      (''lp_per_token'', IdlU128),
      (''unclaimed_fee_pending'', IdlU64),
      (''a_fee'', IdlU64),
      (''b_fee'', IdlU64)]"

definition struct_PoolFees :: "(string \<times> idlType) list" where
  "struct_PoolFees =
     [(''trade_fee_numerator'', IdlU64),
      (''trade_fee_denominator'', IdlU64),
      (''protocol_trade_fee_numerator'', IdlU64),
      (''protocol_trade_fee_denominator'', IdlU64)]"

definition struct_TokenMultiplier :: "(string \<times> idlType) list" where
  "struct_TokenMultiplier =
     [(''token_a_multiplier'', IdlU64),
      (''token_b_multiplier'', IdlU64),
      (''precision_factor'', IdlU8)]"

definition struct_Depeg :: "(string \<times> idlType) list" where
  "struct_Depeg =
     [(''base_virtual_price'', IdlU64),
      (''base_cache_updated'', IdlU64),
      (''depeg_type'', IdlDefined ''DepegType'')]"

definition struct_Config :: "(string \<times> idlType) list" where
  "struct_Config =
     [(''pool_fees'', IdlDefined ''PoolFees''),
      (''activation_duration'', IdlU64),
      (''vault_config_key'', IdlPublicKey),
      (''pool_creator_authority'', IdlPublicKey),
      (''activation_type'', IdlU8),
      (''partner_fee_numerator'', IdlU64),
      (''_padding'', IdlArray IdlU8 219)]"

definition struct_ConfigParameters :: "(string \<times> idlType) list" where
  "struct_ConfigParameters =
     [(''trade_fee_numerator'', IdlU64),
      (''protocol_trade_fee_numerator'', IdlU64),
      (''activation_duration'', IdlU64),
      (''pool_creator_authority'', IdlPublicKey),
      (''activation_type'', IdlU8),
      (''index'', IdlU64),
      (''partner_fee_numerator'', IdlU64)]"

definition struct_CustomizableParams :: "(string \<times> idlType) list" where
  "struct_CustomizableParams =
     [(''trade_fee_numerator'', IdlU32),
      (''activation_point'', IdlOption IdlU64),
      (''has_alpha_vault'', IdlBool),
      (''activation_type'', IdlU8),
      (''padding'', IdlArray IdlU8 90)]"

definition enum_PoolType :: "(string \<times> (string \<times> idlType) list) list" where
  "enum_PoolType =
     [(''Permissioned'', []),
      (''Permissionless'', [])]"

definition enum_ActivationType :: "(string \<times> (string \<times> idlType) list) list" where
  "enum_ActivationType =
     [(''Slot'', []),
      (''Timestamp'', [])]"

definition enum_CurveType :: "(string \<times> (string \<times> idlType) list) list" where
  "enum_CurveType =
     [(''ConstantProduct'', []),
      (''Stable'', [(''amp'', IdlU64),
        (''token_multiplier'', IdlDefined ''TokenMultiplier''),
        (''depeg'', IdlDefined ''Depeg''),
        (''last_amp_updated_timestamp'', IdlU64)])]"

definition enum_DepegType :: "(string \<times> (string \<times> idlType) list) list" where
  "enum_DepegType =
     [(''None'', []),
      (''Marinade'', []),
      (''Lido'', []),
      (''SplStake'', [])]"

definition event_AddLiquidity :: "(string \<times> idlType) list" where
  "event_AddLiquidity =
     [(''lp_mint_amount'', IdlU64),
      (''token_a_amount'', IdlU64),
      (''token_b_amount'', IdlU64)]"

definition event_RemoveLiquidity :: "(string \<times> idlType) list" where
  "event_RemoveLiquidity =
     [(''lp_unmint_amount'', IdlU64),
      (''token_a_out_amount'', IdlU64),
      (''token_b_out_amount'', IdlU64)]"

definition event_BootstrapLiquidity :: "(string \<times> idlType) list" where
  "event_BootstrapLiquidity =
     [(''lp_mint_amount'', IdlU64),
      (''token_a_amount'', IdlU64),
      (''token_b_amount'', IdlU64),
      (''pool'', IdlPublicKey)]"

definition event_Swap :: "(string \<times> idlType) list" where
  "event_Swap =
     [(''in_amount'', IdlU64),
      (''out_amount'', IdlU64),
      (''trade_fee'', IdlU64),
      (''protocol_fee'', IdlU64),
      (''host_fee'', IdlU64)]"

definition event_SetPoolFees :: "(string \<times> idlType) list" where
  "event_SetPoolFees =
     [(''trade_fee_numerator'', IdlU64),
      (''trade_fee_denominator'', IdlU64),
      (''protocol_trade_fee_numerator'', IdlU64),
      (''protocol_trade_fee_denominator'', IdlU64),
      (''pool'', IdlPublicKey)]"

definition event_PoolInfo :: "(string \<times> idlType) list" where
  "event_PoolInfo =
     [(''token_a_amount'', IdlU64),
      (''token_b_amount'', IdlU64),
      (''virtual_price'', IdlF64),
      (''current_timestamp'', IdlU64)]"

definition event_TransferAdmin :: "(string \<times> idlType) list" where
  "event_TransferAdmin =
     [(''admin'', IdlPublicKey),
      (''new_admin'', IdlPublicKey),
      (''pool'', IdlPublicKey)]"

definition event_OverrideCurveParam :: "(string \<times> idlType) list" where
  "event_OverrideCurveParam =
     [(''new_amp'', IdlU64),
      (''updated_timestamp'', IdlU64),
      (''pool'', IdlPublicKey)]"

definition event_PoolCreated :: "(string \<times> idlType) list" where
  "event_PoolCreated =
     [(''lp_mint'', IdlPublicKey),
      (''token_a_mint'', IdlPublicKey),
      (''token_b_mint'', IdlPublicKey),
      (''pool_type'', IdlDefined ''PoolType''),
      (''pool'', IdlPublicKey)]"

definition event_PoolEnabled :: "(string \<times> idlType) list" where
  "event_PoolEnabled =
     [(''pool'', IdlPublicKey),
      (''enabled'', IdlBool)]"

definition event_MigrateFeeAccount :: "(string \<times> idlType) list" where
  "event_MigrateFeeAccount =
     [(''pool'', IdlPublicKey),
      (''new_admin_token_a_fee'', IdlPublicKey),
      (''new_admin_token_b_fee'', IdlPublicKey),
      (''token_a_amount'', IdlU64),
      (''token_b_amount'', IdlU64)]"

definition event_CreateLockEscrow :: "(string \<times> idlType) list" where
  "event_CreateLockEscrow =
     [(''pool'', IdlPublicKey),
      (''owner'', IdlPublicKey)]"

definition event_Lock :: "(string \<times> idlType) list" where
  "event_Lock =
     [(''pool'', IdlPublicKey),
      (''owner'', IdlPublicKey),
      (''amount'', IdlU64)]"

definition event_ClaimFee :: "(string \<times> idlType) list" where
  "event_ClaimFee =
     [(''pool'', IdlPublicKey),
      (''owner'', IdlPublicKey),
      (''amount'', IdlU64),
      (''a_fee'', IdlU64),
      (''b_fee'', IdlU64)]"

definition event_CreateConfig :: "(string \<times> idlType) list" where
  "event_CreateConfig =
     [(''trade_fee_numerator'', IdlU64),
      (''protocol_trade_fee_numerator'', IdlU64),
      (''config'', IdlPublicKey)]"

definition event_CloseConfig :: "(string \<times> idlType) list" where
  "event_CloseConfig =
     [(''config'', IdlPublicKey)]"

definition event_WithdrawProtocolFees :: "(string \<times> idlType) list" where
  "event_WithdrawProtocolFees =
     [(''pool'', IdlPublicKey),
      (''protocol_a_fee'', IdlU64),
      (''protocol_b_fee'', IdlU64),
      (''protocol_a_fee_owner'', IdlPublicKey),
      (''protocol_b_fee_owner'', IdlPublicKey)]"

definition event_PartnerClaimFees :: "(string \<times> idlType) list" where
  "event_PartnerClaimFees =
     [(''pool'', IdlPublicKey),
      (''fee_a'', IdlU64),
      (''fee_b'', IdlU64),
      (''partner'', IdlPublicKey)]"

section \<open>The errors\<close>

definition PoolError_low :: "(string \<times> string) list" where
  "PoolError_low =
     [(''MathOverflow'', ''Math operation overflow''),
      (''InvalidFee'', ''Invalid fee setup''),
      (''InvalidInvariant'', ''Invalid invariant d''),
      (''FeeCalculationFailure'', ''Fee calculation failure''),
      (''ExceededSlippage'', ''Exceeded slippage tolerance''),
      (''InvalidCalculation'', ''Invalid curve calculation''),
      (''ZeroTradingTokens'', ''Given pool token amount results in zero trading tokens''),
      (''ConversionError'', ''Math conversion overflow''),
      (''FaultyLpMint'', ''LP mint authority must be 'A' vault lp, without freeze authority, and 0 supply''),
      (''MismatchedTokenMint'', ''Token mint mismatched''),
      (''MismatchedLpMint'', ''LP mint mismatched''),
      (''MismatchedOwner'', ''Invalid lp token owner''),
      (''InvalidVaultAccount'', ''Invalid vault account''),
      (''InvalidVaultLpAccount'', ''Invalid vault lp account''),
      (''InvalidPoolLpMintAccount'', ''Invalid pool lp mint account''),
      (''PoolDisabled'', ''Pool disabled''),
      (''InvalidAdminAccount'', ''Invalid admin account''),
      (''InvalidProtocolFeeAccount'', ''Invalid protocol fee account''),
      (''SameAdminAccount'', ''Same admin account''),
      (''IdenticalSourceDestination'', ''Identical user source and destination token account''),
      (''ApyCalculationError'', ''Apy calculation error''),
      (''InsufficientSnapshot'', ''Insufficient virtual price snapshot''),
      (''NonUpdatableCurve'', ''Current curve is non-updatable''),
      (''MisMatchedCurve'', ''New curve is mismatched with old curve''),
      (''InvalidAmplification'', ''Amplification is invalid''),
      (''UnsupportedOperation'', ''Operation is not supported''),
      (''ExceedMaxAChanges'', ''Exceed max amplification changes'')]"

definition PoolError_high :: "(string \<times> string) list" where
  "PoolError_high =
     [(''InvalidRemainingAccountsLen'', ''Invalid remaining accounts length''),
      (''InvalidRemainingAccounts'', ''Invalid remaining account''),
      (''MismatchedDepegMint'', ''Token mint B doesn't matches depeg type token mint''),
      (''InvalidApyAccount'', ''Invalid APY account''),
      (''InvalidTokenMultiplier'', ''Invalid token multiplier''),
      (''InvalidDepegInformation'', ''Invalid depeg information''),
      (''UpdateTimeConstraint'', ''Update time constraint violated''),
      (''ExceedMaxFeeBps'', ''Exceeded max fee bps''),
      (''InvalidAdmin'', ''Invalid admin''),
      (''PoolIsNotPermissioned'', ''Pool is not permissioned''),
      (''InvalidDepositAmount'', ''Invalid deposit amount''),
      (''InvalidFeeOwner'', ''Invalid fee owner''),
      (''NonDepletedPool'', ''Pool is not depleted''),
      (''AmountNotPeg'', ''Token amount is not 1:1''),
      (''AmountIsZero'', ''Amount is zero''),
      (''TypeCastFailed'', ''Type cast error''),
      (''AmountIsNotEnough'', ''Amount is not enough''),
      (''InvalidActivationDuration'', ''Invalid activation duration''),
      (''PoolIsNotLaunchPool'', ''Pool is not launch pool''),
      (''UnableToModifyActivationPoint'', ''Unable to modify activation point''),
      (''InvalidAuthorityToCreateThePool'', ''Invalid authority to create the pool''),
      (''InvalidActivationType'', ''Invalid activation type''),
      (''InvalidActivationPoint'', ''Invalid activation point''),
      (''PreActivationSwapStarted'', ''Pre activation swap window started''),
      (''InvalidPoolType'', ''Invalid pool type''),
      (''InvalidQuoteMint'', ''Quote token must be SOL,USDC'')]"

definition PoolErrors :: "(string \<times> string) list" where
  "PoolErrors = PoolError_low @ PoolError_high"

section \<open>The description of a declaration\<close>

text \<open>Anchor writes a snake case name in mixed case: the words joined, all but the first capitalised.\<close>

definition upper :: "char \<Rightarrow> char" where
  "upper c = (let n = of_char c :: nat in if 97 \<le> n \<and> n \<le> 122 then char_of (n - 32) else c)"

fun camel_from :: "bool \<Rightarrow> string \<Rightarrow> string" where
  "camel_from up [] = []"
| "camel_from up (c # cs) =
     (if c = CHR ''_'' then camel_from True cs else (if up then upper c else c) # camel_from False cs)"

definition camel :: "string \<Rightarrow> string" where
  "camel s = camel_from False (dropWhile (\<lambda>c. c = CHR ''_'') s)"

text \<open>
  An account is writable when it is \<^verbatim>\<open>mut\<close> or created; it signs when it is a \<^verbatim>\<open>Signer\<close>, or when it is
  created at an address that is neither a program address nor an associated token account.
\<close>

definition ra_isMut :: "rsAccount \<Rightarrow> bool" where
  "ra_isMut a \<longleftrightarrow> list_ex (\<lambda>c. case c of RsMut \<Rightarrow> True | RsInit _ \<Rightarrow> True | _ \<Rightarrow> False) (ra_constraints a)"

definition ra_isSigner :: "rsAccount \<Rightarrow> bool" where
  "ra_isSigner a \<longleftrightarrow> ra_type a = RsSigner \<or>
     (list_ex (\<lambda>c. case c of RsInit _ \<Rightarrow> True | _ \<Rightarrow> False) (ra_constraints a) \<and>
      \<not> list_ex (\<lambda>c. case c of RsSeeds _ \<Rightarrow> True | RsAssociatedToken _ _ \<Rightarrow> True | _ \<Rightarrow> False) (ra_constraints a))"

definition describe_fields :: "(string \<times> idlType) list \<Rightarrow> (string \<times> idlType) list" where
  "describe_fields fs = map (\<lambda>(n, t). (camel n, t)) fs"

definition describe_account :: "rsAccount \<Rightarrow> idlAccount" where
  "describe_account a = IdlAccount (camel (ra_name a)) (ra_isMut a) (ra_isSigner a)"

definition describe :: "rsFn \<Rightarrow> idlInstruction" where
  "describe f =
     IdlInstruction (camel (fn_name f)) (map describe_account (fn_accounts f)) (describe_fields (fn_args f))"

text \<open>Anchor numbers the errors of a program from 6000.\<close>

fun describe_errors :: "int \<Rightarrow> (string \<times> string) list \<Rightarrow> idlError list" where
  "describe_errors code [] = []"
| "describe_errors code ((n, m) # es) = IdlError code n m # describe_errors (code + 1) es"

section \<open>Comparison\<close>

text \<open>The names of the declarations in mixed case, computed once.\<close>

lemma camel_names [simp]:
  "camel ''_padding'' = ''padding''"
  "camel ''_padding0'' = ''padding0''"
  "camel ''a_fee'' = ''aFee''"
  "camel ''a_token_vault'' = ''aTokenVault''"
  "camel ''a_vault'' = ''aVault''"
  "camel ''a_vault_lp'' = ''aVaultLp''"
  "camel ''a_vault_lp_bump'' = ''aVaultLpBump''"
  "camel ''a_vault_lp_mint'' = ''aVaultLpMint''"
  "camel ''activation_duration'' = ''activationDuration''"
  "camel ''activation_point'' = ''activationPoint''"
  "camel ''activation_type'' = ''activationType''"
  "camel ''add_balance_liquidity'' = ''addBalanceLiquidity''"
  "camel ''add_imbalance_liquidity'' = ''addImbalanceLiquidity''"
  "camel ''admin_pool_lp'' = ''adminPoolLp''"
  "camel ''admin_token_a'' = ''adminTokenA''"
  "camel ''admin_token_b'' = ''adminTokenB''"
  "camel ''associated_token_program'' = ''associatedTokenProgram''"
  "camel ''b_fee'' = ''bFee''"
  "camel ''b_token_vault'' = ''bTokenVault''"
  "camel ''b_vault'' = ''bVault''"
  "camel ''b_vault_lp'' = ''bVaultLp''"
  "camel ''b_vault_lp_mint'' = ''bVaultLpMint''"
  "camel ''base_cache_updated'' = ''baseCacheUpdated''"
  "camel ''base_virtual_price'' = ''baseVirtualPrice''"
  "camel ''bootstrap_liquidity'' = ''bootstrapLiquidity''"
  "camel ''claim_fee'' = ''claimFee''"
  "camel ''close_config'' = ''closeConfig''"
  "camel ''config_parameters'' = ''configParameters''"
  "camel ''create_config'' = ''createConfig''"
  "camel ''create_lock_escrow'' = ''createLockEscrow''"
  "camel ''create_mint_metadata'' = ''createMintMetadata''"
  "camel ''current_timestamp'' = ''currentTimestamp''"
  "camel ''curve_type'' = ''curveType''"
  "camel ''depeg_type'' = ''depegType''"
  "camel ''enable_or_disable_pool'' = ''enableOrDisablePool''"
  "camel ''escrow_vault'' = ''escrowVault''"
  "camel ''fee_a'' = ''feeA''"
  "camel ''fee_b'' = ''feeB''"
  "camel ''fee_last_updated_at'' = ''feeLastUpdatedAt''"
  "camel ''fee_numerator'' = ''feeNumerator''"
  "camel ''fee_operator'' = ''feeOperator''"
  "camel ''fee_owner'' = ''feeOwner''"
  "camel ''from_escrow_vault'' = ''fromEscrowVault''"
  "camel ''from_lock_escrow'' = ''fromLockEscrow''"
  "camel ''get_pool_info'' = ''getPoolInfo''"
  "camel ''has_alpha_vault'' = ''hasAlphaVault''"
  "camel ''host_fee'' = ''hostFee''"
  "camel ''in_amount'' = ''inAmount''"
  "camel ''initialize_customizable_permissionless_constant_product_pool'' = ''initializeCustomizablePermissionlessConstantProductPool''"
  "camel ''initialize_permissioned_pool'' = ''initializePermissionedPool''"
  "camel ''initialize_permissionless_constant_product_pool_with_config'' = ''initializePermissionlessConstantProductPoolWithConfig''"
  "camel ''initialize_permissionless_constant_product_pool_with_config2'' = ''initializePermissionlessConstantProductPoolWithConfig2''"
  "camel ''initialize_permissionless_pool'' = ''initializePermissionlessPool''"
  "camel ''initialize_permissionless_pool_with_fee_tier'' = ''initializePermissionlessPoolWithFeeTier''"
  "camel ''lock_escrow'' = ''lockEscrow''"
  "camel ''lp_mint'' = ''lpMint''"
  "camel ''lp_mint_amount'' = ''lpMintAmount''"
  "camel ''lp_per_token'' = ''lpPerToken''"
  "camel ''lp_unmint_amount'' = ''lpUnmintAmount''"
  "camel ''max_amount'' = ''maxAmount''"
  "camel ''max_amount_a'' = ''maxAmountA''"
  "camel ''max_amount_b'' = ''maxAmountB''"
  "camel ''maximum_token_a_amount'' = ''maximumTokenAAmount''"
  "camel ''maximum_token_b_amount'' = ''maximumTokenBAmount''"
  "camel ''metadata_program'' = ''metadataProgram''"
  "camel ''minimum_a_token_out'' = ''minimumATokenOut''"
  "camel ''minimum_b_token_out'' = ''minimumBTokenOut''"
  "camel ''minimum_out_amount'' = ''minimumOutAmount''"
  "camel ''minimum_pool_token_amount'' = ''minimumPoolTokenAmount''"
  "camel ''mint_metadata'' = ''mintMetadata''"
  "camel ''move_locked_lp'' = ''moveLockedLp''"
  "camel ''new_activation_point'' = ''newActivationPoint''"
  "camel ''new_admin'' = ''newAdmin''"
  "camel ''new_admin_token_a_fee'' = ''newAdminTokenAFee''"
  "camel ''new_admin_token_b_fee'' = ''newAdminTokenBFee''"
  "camel ''new_amp'' = ''newAmp''"
  "camel ''new_partner_fee_numerator'' = ''newPartnerFeeNumerator''"
  "camel ''out_amount'' = ''outAmount''"
  "camel ''override_curve_param'' = ''overrideCurveParam''"
  "camel ''padding_0'' = ''padding0''"
  "camel ''padding_1'' = ''padding1''"
  "camel ''padding_2'' = ''padding2''"
  "camel ''partner_authority'' = ''partnerAuthority''"
  "camel ''partner_claim_fee'' = ''partnerClaimFee''"
  "camel ''partner_fee_numerator'' = ''partnerFeeNumerator''"
  "camel ''partner_info'' = ''partnerInfo''"
  "camel ''partner_token_a'' = ''partnerTokenA''"
  "camel ''partner_token_b'' = ''partnerTokenB''"
  "camel ''payer_pool_lp'' = ''payerPoolLp''"
  "camel ''payer_token_a'' = ''payerTokenA''"
  "camel ''payer_token_b'' = ''payerTokenB''"
  "camel ''pending_fee_a'' = ''pendingFeeA''"
  "camel ''pending_fee_b'' = ''pendingFeeB''"
  "camel ''pool_creator'' = ''poolCreator''"
  "camel ''pool_creator_authority'' = ''poolCreatorAuthority''"
  "camel ''pool_fees'' = ''poolFees''"
  "camel ''pool_token_amount'' = ''poolTokenAmount''"
  "camel ''pool_type'' = ''poolType''"
  "camel ''precision_factor'' = ''precisionFactor''"
  "camel ''protocol_a_fee'' = ''protocolAFee''"
  "camel ''protocol_a_fee_owner'' = ''protocolAFeeOwner''"
  "camel ''protocol_b_fee'' = ''protocolBFee''"
  "camel ''protocol_b_fee_owner'' = ''protocolBFeeOwner''"
  "camel ''protocol_fee'' = ''protocolFee''"
  "camel ''protocol_token_a_fee'' = ''protocolTokenAFee''"
  "camel ''protocol_token_b_fee'' = ''protocolTokenBFee''"
  "camel ''protocol_token_fee'' = ''protocolTokenFee''"
  "camel ''protocol_trade_fee_denominator'' = ''protocolTradeFeeDenominator''"
  "camel ''protocol_trade_fee_numerator'' = ''protocolTradeFeeNumerator''"
  "camel ''remove_balance_liquidity'' = ''removeBalanceLiquidity''"
  "camel ''remove_liquidity_single_side'' = ''removeLiquiditySingleSide''"
  "camel ''rent_receiver'' = ''rentReceiver''"
  "camel ''set_pool_fees'' = ''setPoolFees''"
  "camel ''source_tokens'' = ''sourceTokens''"
  "camel ''system_program'' = ''systemProgram''"
  "camel ''to_escrow_vault'' = ''toEscrowVault''"
  "camel ''to_lock_escrow'' = ''toLockEscrow''"
  "camel ''token_a_amount'' = ''tokenAAmount''"
  "camel ''token_a_mint'' = ''tokenAMint''"
  "camel ''token_a_multiplier'' = ''tokenAMultiplier''"
  "camel ''token_a_out_amount'' = ''tokenAOutAmount''"
  "camel ''token_b_amount'' = ''tokenBAmount''"
  "camel ''token_b_mint'' = ''tokenBMint''"
  "camel ''token_b_multiplier'' = ''tokenBMultiplier''"
  "camel ''token_b_out_amount'' = ''tokenBOutAmount''"
  "camel ''token_program'' = ''tokenProgram''"
  "camel ''total_locked_amount'' = ''totalLockedAmount''"
  "camel ''total_locked_lp'' = ''totalLockedLp''"
  "camel ''trade_fee'' = ''tradeFee''"
  "camel ''trade_fee_bps'' = ''tradeFeeBps''"
  "camel ''trade_fee_denominator'' = ''tradeFeeDenominator''"
  "camel ''trade_fee_numerator'' = ''tradeFeeNumerator''"
  "camel ''unclaimed_fee_pending'' = ''unclaimedFeePending''"
  "camel ''update_activation_point'' = ''updateActivationPoint''"
  "camel ''updated_timestamp'' = ''updatedTimestamp''"
  "camel ''user_a_token'' = ''userAToken''"
  "camel ''user_b_token'' = ''userBToken''"
  "camel ''user_destination_token'' = ''userDestinationToken''"
  "camel ''user_pool_lp'' = ''userPoolLp''"
  "camel ''user_source_token'' = ''userSourceToken''"
  "camel ''vault_config_key'' = ''vaultConfigKey''"
  "camel ''vault_program'' = ''vaultProgram''"
  "camel ''virtual_price'' = ''virtualPrice''"
  "camel ''whitelisted_vault'' = ''whitelistedVault''"
  "camel ''admin'' = ''admin''"
  "camel ''amount'' = ''amount''"
  "camel ''bootstrapping'' = ''bootstrapping''"
  "camel ''bump'' = ''bump''"
  "camel ''config'' = ''config''"
  "camel ''enable'' = ''enable''"
  "camel ''enabled'' = ''enabled''"
  "camel ''fees'' = ''fees''"
  "camel ''index'' = ''index''"
  "camel ''lock'' = ''lock''"
  "camel ''owner'' = ''owner''"
  "camel ''padding'' = ''padding''"
  "camel ''params'' = ''params''"
  "camel ''partner'' = ''partner''"
  "camel ''payer'' = ''payer''"
  "camel ''pool'' = ''pool''"
  "camel ''rent'' = ''rent''"
  "camel ''stake'' = ''stake''"
  "camel ''swap'' = ''swap''"
  "camel ''user'' = ''user''"
  by code_simp+

lemmas account_lists =
  accounts_AddOrRemoveBalanceLiquidity_def
  accounts_BootstrapLiquidity_def
  accounts_ClaimFee_def
  accounts_CloseConfig_def
  accounts_CreateConfig_def
  accounts_CreateLockEscrow_def
  accounts_CreateMintMetadata_def
  accounts_EnableOrDisablePool_def
  accounts_GetPoolInfo_def
  accounts_InitializeCustomizablePermissionlessConstantProductPool_def
  accounts_InitializePermissionedPool_def
  accounts_InitializePermissionlessPool_def
  accounts_InitializePermissionlessPoolWithFeeTier_def
  accounts_InitializePermissionlessConstantProductPoolWithConfig_def
  accounts_Lock_def
  accounts_MoveLockedLp_def
  accounts_OverrideCurveParam_def
  accounts_PartnerClaimFees_def
  accounts_RemoveLiquiditySingleSide_def
  accounts_SetPoolFees_def
  accounts_Swap_def
  accounts_UpdateActivationPoint_def

lemmas function_defs =
  fn_initialize_permissionless_pool_def
  fn_initialize_customizable_permissionless_constant_product_pool_def
  fn_initialize_permissionless_pool_with_fee_tier_def
  fn_partner_claim_fee_def
  fn_remove_liquidity_single_side_def
  fn_add_imbalance_liquidity_def
  fn_swap_def
  fn_remove_balance_liquidity_def
  fn_add_balance_liquidity_def
  fn_get_pool_info_def
  fn_bootstrap_liquidity_def
  fn_create_lock_escrow_def
  fn_lock_def
  fn_claim_fee_def
  fn_initialize_permissioned_pool_def
  fn_enable_or_disable_pool_def
  fn_set_pool_fees_def
  fn_override_curve_param_def
  fn_create_mint_metadata_def
  fn_create_config_def
  fn_close_config_def
  fn_update_activation_point_def
  fn_initialize_permissionless_constant_product_pool_with_config_def
  fn_initialize_permissionless_constant_product_pool_with_config2_def
  fn_move_locked_lp_def

lemmas describe_simps = describe_def describe_account_def describe_fields_def ra_isMut_def ra_isSigner_def

text \<open>The description of every instruction, but for those whose declaration differs, is the one the client holds.\<close>

lemma described:
  "describe fn_initialize_permissionless_pool = idl_initializePermissionlessPool"
  "describe fn_initialize_customizable_permissionless_constant_product_pool = idl_initializeCustomizablePermissionlessConstantProductPool"
  "describe fn_initialize_permissionless_pool_with_fee_tier = idl_initializePermissionlessPoolWithFeeTier"
  "describe fn_partner_claim_fee = idl_partnerClaimFee"
  "describe fn_remove_liquidity_single_side = idl_removeLiquiditySingleSide"
  "describe fn_add_imbalance_liquidity = idl_addImbalanceLiquidity"
  "describe fn_swap = idl_swap"
  "describe fn_remove_balance_liquidity = idl_removeBalanceLiquidity"
  "describe fn_add_balance_liquidity = idl_addBalanceLiquidity"
  "describe fn_get_pool_info = idl_getPoolInfo"
  "describe fn_bootstrap_liquidity = idl_bootstrapLiquidity"
  "describe fn_create_lock_escrow = idl_createLockEscrow"
  "describe fn_claim_fee = idl_claimFee"
  "describe fn_initialize_permissioned_pool = idl_initializePermissionedPool"
  "describe fn_enable_or_disable_pool = idl_enableOrDisablePool"
  "describe fn_set_pool_fees = idl_setPoolFees"
  "describe fn_override_curve_param = idl_overrideCurveParam"
  "describe fn_create_mint_metadata = idl_createMintMetadata"
  "describe fn_create_config = idl_createConfig"
  "describe fn_close_config = idl_closeConfig"
  "describe fn_update_activation_point = idl_updateActivationPoint"
  "describe fn_initialize_permissionless_constant_product_pool_with_config = idl_initializePermissionlessConstantProductPoolWithConfig"
  "describe fn_initialize_permissionless_constant_product_pool_with_config2 = idl_initializePermissionlessConstantProductPoolWithConfig2"
  by (simp_all add: describe_simps function_defs account_lists
      idl_initializePermissionlessPool_def
      idl_initializeCustomizablePermissionlessConstantProductPool_def
      idl_initializePermissionlessPoolWithFeeTier_def
      idl_partnerClaimFee_def
      idl_removeLiquiditySingleSide_def
      idl_addImbalanceLiquidity_def
      idl_swap_def
      idl_removeBalanceLiquidity_def
      idl_addBalanceLiquidity_def
      idl_getPoolInfo_def
      idl_bootstrapLiquidity_def
      idl_createLockEscrow_def
      idl_claimFee_def
      idl_initializePermissionedPool_def
      idl_enableOrDisablePool_def
      idl_setPoolFees_def
      idl_overrideCurveParam_def
      idl_createMintMetadata_def
      idl_createConfig_def
      idl_closeConfig_def
      idl_updateActivationPoint_def
      idl_initializePermissionlessConstantProductPoolWithConfig_def
      idl_initializePermissionlessConstantProductPoolWithConfig2_def)

text \<open>
  Two declarations differ from the client's copy: the argument of \<^verbatim>\<open>lock\<close> is named \<^verbatim>\<open>amount\<close> instead of
  \<^verbatim>\<open>maxAmount\<close>, and \<^verbatim>\<open>move_locked_lp\<close> takes the pool writable while the client marks it read-only.
\<close>

lemma described_lock:
  "describe fn_lock = IdlInstruction ''lock'' (ii_accounts idl_lock) [(''amount'', IdlU64)]"
  "ii_args idl_lock = [(''maxAmount'', IdlU64)]"
  by (simp_all add: describe_simps fn_lock_def accounts_Lock_def idl_lock_def)

lemma described_move_locked_lp:
  "describe fn_move_locked_lp =
     IdlInstruction ''moveLockedLp'' (IdlAccount ''pool'' True False # tl (ii_accounts idl_moveLockedLp)) (ii_args idl_moveLockedLp)"
  "hd (ii_accounts idl_moveLockedLp) = IdlAccount ''pool'' False False"
  by (simp_all add: describe_simps fn_move_locked_lp_def accounts_MoveLockedLp_def idl_moveLockedLp_def)

lemma program_names:
  "map (\<lambda>f. camel (fn_name f)) program_functions =
     [''initializePermissionlessPool'',
      ''initializeCustomizablePermissionlessConstantProductPool'',
      ''initializePermissionlessPoolWithFeeTier'',
      ''partnerClaimFee'',
      ''removeLiquiditySingleSide'',
      ''addImbalanceLiquidity'',
      ''swap'',
      ''removeBalanceLiquidity'',
      ''addBalanceLiquidity'',
      ''getPoolInfo'',
      ''bootstrapLiquidity'',
      ''createLockEscrow'',
      ''lock'',
      ''claimFee'',
      ''initializePermissionedPool'',
      ''enableOrDisablePool'',
      ''setPoolFees'',
      ''overrideCurveParam'',
      ''createMintMetadata'',
      ''createConfig'',
      ''closeConfig'',
      ''updateActivationPoint'',
      ''initializePermissionlessConstantProductPoolWithConfig'',
      ''initializePermissionlessConstantProductPoolWithConfig2'',
      ''moveLockedLp'']"
  by (simp add: program_functions_def function_defs)

lemma described_errors: "describe_errors 6000 PoolErrors = idl_errors"
  by (simp add: PoolErrors_def PoolError_low_def PoolError_high_def idl_errors_def idl_errors_low_def idl_errors_high_def)

lemma described_structs:
  "describe_fields struct_Padding = idl_type_Padding"
  "describe_fields struct_PartnerInfo = idl_type_PartnerInfo"
  "describe_fields struct_Bootstrapping = idl_type_Bootstrapping"
  "describe_fields struct_PoolFees = idl_type_PoolFees"
  "describe_fields struct_TokenMultiplier = idl_type_TokenMultiplier"
  "describe_fields struct_Depeg = idl_type_Depeg"
  "describe_fields struct_CustomizableParams = idl_type_CustomizableParams"
  by (simp_all add: describe_fields_def struct_Padding_def idl_type_Padding_def struct_PartnerInfo_def idl_type_PartnerInfo_def struct_Bootstrapping_def idl_type_Bootstrapping_def struct_PoolFees_def idl_type_PoolFees_def struct_TokenMultiplier_def idl_type_TokenMultiplier_def struct_Depeg_def idl_type_Depeg_def struct_CustomizableParams_def idl_type_CustomizableParams_def)

lemma described_enums:
  "enum_PoolType = idl_enum_PoolType"
  "enum_ActivationType = idl_enum_ActivationType"
  "enum_CurveType = idl_enum_CurveType"
  "enum_DepegType = idl_enum_DepegType"
  by (simp_all add: enum_PoolType_def idl_enum_PoolType_def enum_ActivationType_def idl_enum_ActivationType_def enum_CurveType_def idl_enum_CurveType_def enum_DepegType_def idl_enum_DepegType_def)

lemma described_events:
  "describe_fields event_AddLiquidity = idl_event_AddLiquidity"
  "describe_fields event_RemoveLiquidity = idl_event_RemoveLiquidity"
  "describe_fields event_BootstrapLiquidity = idl_event_BootstrapLiquidity"
  "describe_fields event_Swap = idl_event_Swap"
  "describe_fields event_SetPoolFees = idl_event_SetPoolFees"
  "describe_fields event_PoolInfo = idl_event_PoolInfo"
  "describe_fields event_TransferAdmin = idl_event_TransferAdmin"
  "describe_fields event_OverrideCurveParam = idl_event_OverrideCurveParam"
  "describe_fields event_PoolCreated = idl_event_PoolCreated"
  "describe_fields event_PoolEnabled = idl_event_PoolEnabled"
  "describe_fields event_MigrateFeeAccount = idl_event_MigrateFeeAccount"
  "describe_fields event_CreateLockEscrow = idl_event_CreateLockEscrow"
  "describe_fields event_Lock = idl_event_Lock"
  "describe_fields event_ClaimFee = idl_event_ClaimFee"
  "describe_fields event_CreateConfig = idl_event_CreateConfig"
  "describe_fields event_CloseConfig = idl_event_CloseConfig"
  "describe_fields event_WithdrawProtocolFees = idl_event_WithdrawProtocolFees"
  "describe_fields event_PartnerClaimFees = idl_event_PartnerClaimFees"
  by (simp_all add: describe_fields_def event_AddLiquidity_def idl_event_AddLiquidity_def
      event_RemoveLiquidity_def idl_event_RemoveLiquidity_def
      event_BootstrapLiquidity_def idl_event_BootstrapLiquidity_def
      event_Swap_def idl_event_Swap_def
      event_SetPoolFees_def idl_event_SetPoolFees_def
      event_PoolInfo_def idl_event_PoolInfo_def
      event_TransferAdmin_def idl_event_TransferAdmin_def
      event_OverrideCurveParam_def idl_event_OverrideCurveParam_def
      event_PoolCreated_def idl_event_PoolCreated_def
      event_PoolEnabled_def idl_event_PoolEnabled_def
      event_MigrateFeeAccount_def idl_event_MigrateFeeAccount_def
      event_CreateLockEscrow_def idl_event_CreateLockEscrow_def
      event_Lock_def idl_event_Lock_def
      event_ClaimFee_def idl_event_ClaimFee_def
      event_CreateConfig_def idl_event_CreateConfig_def
      event_CloseConfig_def idl_event_CloseConfig_def
      event_WithdrawProtocolFees_def idl_event_WithdrawProtocolFees_def
      event_PartnerClaimFees_def idl_event_PartnerClaimFees_def)

text \<open>
  The accounts of a pool and of a lock escrow end in padding that the Rust structs do not have; the
  parameters of a new configuration have a vault key that the Rust struct does not have, so
  the fields behind it lie 32 bytes further in what the client sends.
\<close>

lemma described_accounts:
  "\<exists>padding. idl_account_pool = describe_fields struct_Pool @ padding \<and> list_all (\<lambda>(n, t). \<exists>k. t = IdlArray IdlU8 k) padding"
  "\<exists>padding. idl_account_lockEscrow = describe_fields struct_LockEscrow @ padding \<and> list_all (\<lambda>(n, t). \<exists>k. t = IdlArray IdlU8 k) padding"
  "idl_account_config = describe_fields struct_Config"
  by (simp_all add: describe_fields_def idl_account_pool_def struct_Pool_def idl_account_lockEscrow_def
      struct_LockEscrow_def idl_account_config_def struct_Config_def)

lemma config_parameters_differ:
  "describe_fields struct_ConfigParameters = filter (\<lambda>(n, t). n \<noteq> ''vaultConfigKey'') idl_type_ConfigParameters"
  "field_offset struct_ConfigParameters ''index'' = Some 57"
  "field_offset idl_type_ConfigParameters ''index'' = Some 89"
  by (simp_all add: describe_fields_def struct_ConfigParameters_def idl_type_ConfigParameters_def)

lemma declared_found:
  "list_all (\<lambda>f. f = fn_lock \<or> f = fn_move_locked_lp \<or> find_instruction (camel (fn_name f)) = Some (describe f)) program_functions"
  unfolding program_functions_def list.pred_inject
  apply (intro conjI)
  apply (simp_all only: described)
  apply (simp_all add: function_defs)
  done

section \<open>Properties\<close>



end
