(* ===== verification/RustAccounts.thy ===== *)
theory RustAccounts
  imports RustPda ProgramInterface
begin

text \<open>
  The accounts with which the Rust crate common initializes pools
  (common/src/dynamic_amm/ix_account_builder.rs), as lists of a field of the accounts struct and
  its key. The lemmas show that the TypeScript client names the same accounts in every pool it
  creates.
\<close>

section \<open>The account builder\<close>

datatype curveTypeIx = IxConstantProduct | IxStable

definition CurveType_from :: "curveTypeIx \<Rightarrow> curveType" where
  "CurveType_from v =
     (case v of
        IxConstantProduct \<Rightarrow> ConstantProductCurve
      | IxStable \<Rightarrow> StableSwapCurve \<lparr>amp = 0,
          curveTokenMultiplier = \<lparr>tokenAMultiplier = 0, tokenBMultiplier = 0, precisionFactor = 0\<rparr>,
          curveDepeg = \<lparr>baseVirtualPrice = 0, baseCacheUpdated = 0, depegType = DepegNone\<rparr>,
          lastAmpUpdatedTimestamp = 0\<rparr>)"

record initPoolRelatedKeys =
  ik_vault_a :: pubkey
  ik_vault_a_token_vault :: pubkey
  ik_vault_a_lp_mint :: pubkey
  ik_vault_a_lp :: pubkey
  ik_vault_b :: pubkey
  ik_vault_b_token_vault :: pubkey
  ik_vault_b_lp_mint :: pubkey
  ik_vault_b_lp :: pubkey
  ik_lp_mint :: pubkey
  ik_protocol_token_a_fee :: pubkey
  ik_protocol_token_b_fee :: pubkey
  ik_mint_metadata :: pubkey
  ik_payer_token_a :: pubkey
  ik_payer_pool_lp :: pubkey
  ik_payer_token_b :: pubkey

definition get_or_derive_initialize_pool_related_keys ::
  "rustEnv \<Rightarrow> pubkey \<Rightarrow> pubkey \<Rightarrow> pubkey \<Rightarrow> pubkey \<Rightarrow> initPoolRelatedKeys" where
  "get_or_derive_initialize_pool_related_keys E pool_key token_a_mint token_b_mint payer =
     (let vault_a_key = derive_vault_key E token_a_mint;
          vault_b_key = derive_vault_key E token_b_mint;
          lpM = derive_lp_mint_key E pool_key in
     \<lparr>ik_vault_a = vault_a_key,
      ik_vault_a_token_vault = derive_token_vault_key E vault_a_key,
      ik_vault_a_lp_mint = vault_derive_lp_mint_key E vault_a_key,
      ik_vault_a_lp = derive_vault_lp_key E vault_a_key pool_key,
      ik_vault_b = vault_b_key,
      ik_vault_b_token_vault = derive_token_vault_key E vault_b_key,
      ik_vault_b_lp_mint = vault_derive_lp_mint_key E vault_b_key,
      ik_vault_b_lp = derive_vault_lp_key E vault_b_key pool_key,
      ik_lp_mint = lpM,
      ik_protocol_token_a_fee = derive_protocol_fee_key E token_a_mint pool_key,
      ik_protocol_token_b_fee = derive_protocol_fee_key E token_b_mint pool_key,
      ik_mint_metadata = derive_metadata_key E lpM,
      ik_payer_token_a = rs_get_associated_token_address E payer token_a_mint,
      ik_payer_pool_lp = rs_get_associated_token_address E payer lpM,
      ik_payer_token_b = rs_get_associated_token_address E payer token_b_mint\<rparr>)"

definition initialize_permissionless_pool_with_fee_tier_accounts ::
  "rustEnv \<Rightarrow> curveTypeIx \<Rightarrow> int \<Rightarrow> pubkey \<Rightarrow> pubkey \<Rightarrow> pubkey \<Rightarrow> namedAccounts" where
  "initialize_permissionless_pool_with_fee_tier_accounts E curve_type_ix trade_fee_bps token_a_mint token_b_mint payer =
     (let pool_key = derive_permissionless_pool_key_with_fee_tier E (CurveType_from curve_type_ix) token_a_mint token_b_mint trade_fee_bps;
          keys = get_or_derive_initialize_pool_related_keys E pool_key token_a_mint token_b_mint payer in
     [(''pool'', pool_key),
      (''token_a_mint'', token_a_mint),
      (''token_b_mint'', token_b_mint),
      (''lp_mint'', ik_lp_mint keys),
      (''a_vault'', ik_vault_a keys),
      (''a_token_vault'', ik_vault_a_token_vault keys),
      (''a_vault_lp'', ik_vault_a_lp keys),
      (''a_vault_lp_mint'', ik_vault_a_lp_mint keys),
      (''b_vault'', ik_vault_b keys),
      (''b_token_vault'', ik_vault_b_token_vault keys),
      (''b_vault_lp'', ik_vault_b_lp keys),
      (''b_vault_lp_mint'', ik_vault_b_lp_mint keys),
      (''protocol_token_a_fee'', ik_protocol_token_a_fee keys),
      (''protocol_token_b_fee'', ik_protocol_token_b_fee keys),
      (''mint_metadata'', ik_mint_metadata keys),
      (''payer_token_a'', ik_payer_token_a keys),
      (''payer_pool_lp'', ik_payer_pool_lp keys),
      (''payer_token_b'', ik_payer_token_b keys),
      (''payer'', payer),
      (''fee_owner'', payer),
      (''vault_program'', dynamic_vault_ID),
      (''metadata_program'', mpl_token_metadata_ID E),
      (''rent'', SYSVAR_RENT_PUBKEY),
      (''associated_token_program'', ASSOCIATED_TOKEN_PROGRAM_ID),
      (''system_program'', SystemProgram_programId),
      (''token_program'', TOKEN_PROGRAM_ID)])"

definition initialize_permissionless_pool_accounts ::
  "rustEnv \<Rightarrow> curveTypeIx \<Rightarrow> pubkey \<Rightarrow> pubkey \<Rightarrow> pubkey \<Rightarrow> namedAccounts" where
  "initialize_permissionless_pool_accounts E curve_type_ix token_a_mint token_b_mint payer =
     (let pool_key = derive_permissionless_pool_key E (CurveType_from curve_type_ix) token_a_mint token_b_mint;
          keys = get_or_derive_initialize_pool_related_keys E pool_key token_a_mint token_b_mint payer in
     [(''pool'', pool_key),
      (''token_a_mint'', token_a_mint),
      (''token_b_mint'', token_b_mint),
      (''lp_mint'', ik_lp_mint keys),
      (''a_vault'', ik_vault_a keys),
      (''a_token_vault'', ik_vault_a_token_vault keys),
      (''a_vault_lp'', ik_vault_a_lp keys),
      (''a_vault_lp_mint'', ik_vault_a_lp_mint keys),
      (''b_vault'', ik_vault_b keys),
      (''b_token_vault'', ik_vault_b_token_vault keys),
      (''b_vault_lp'', ik_vault_b_lp keys),
      (''b_vault_lp_mint'', ik_vault_b_lp_mint keys),
      (''protocol_token_a_fee'', ik_protocol_token_a_fee keys),
      (''protocol_token_b_fee'', ik_protocol_token_b_fee keys),
      (''mint_metadata'', ik_mint_metadata keys),
      (''payer_token_a'', ik_payer_token_a keys),
      (''payer_pool_lp'', ik_payer_pool_lp keys),
      (''payer_token_b'', ik_payer_token_b keys),
      (''payer'', payer),
      (''fee_owner'', payer),
      (''vault_program'', dynamic_vault_ID),
      (''metadata_program'', mpl_token_metadata_ID E),
      (''rent'', SYSVAR_RENT_PUBKEY),
      (''associated_token_program'', ASSOCIATED_TOKEN_PROGRAM_ID),
      (''system_program'', SystemProgram_programId),
      (''token_program'', TOKEN_PROGRAM_ID)])"

definition initialize_permissionless_constant_product_pool_with_config_accounts ::
  "rustEnv \<Rightarrow> pubkey \<Rightarrow> pubkey \<Rightarrow> pubkey \<Rightarrow> pubkey \<Rightarrow> namedAccounts" where
  "initialize_permissionless_constant_product_pool_with_config_accounts E token_a_mint token_b_mint config payer =
     (let pool_key = derive_permissionless_constant_product_pool_with_config_key E token_a_mint token_b_mint config;
          keys = get_or_derive_initialize_pool_related_keys E pool_key token_a_mint token_b_mint payer in
     [(''pool'', pool_key),
      (''token_a_mint'', token_a_mint),
      (''token_b_mint'', token_b_mint),
      (''lp_mint'', ik_lp_mint keys),
      (''a_vault'', ik_vault_a keys),
      (''a_token_vault'', ik_vault_a_token_vault keys),
      (''a_vault_lp'', ik_vault_a_lp keys),
      (''a_vault_lp_mint'', ik_vault_a_lp_mint keys),
      (''b_vault'', ik_vault_b keys),
      (''b_token_vault'', ik_vault_b_token_vault keys),
      (''b_vault_lp'', ik_vault_b_lp keys),
      (''b_vault_lp_mint'', ik_vault_b_lp_mint keys),
      (''protocol_token_a_fee'', ik_protocol_token_a_fee keys),
      (''protocol_token_b_fee'', ik_protocol_token_b_fee keys),
      (''mint_metadata'', ik_mint_metadata keys),
      (''payer_token_a'', ik_payer_token_a keys),
      (''payer_pool_lp'', ik_payer_pool_lp keys),
      (''payer_token_b'', ik_payer_token_b keys),
      (''payer'', payer),
      (''config'', config),
      (''vault_program'', dynamic_vault_ID),
      (''metadata_program'', mpl_token_metadata_ID E),
      (''rent'', SYSVAR_RENT_PUBKEY),
      (''associated_token_program'', ASSOCIATED_TOKEN_PROGRAM_ID),
      (''system_program'', SystemProgram_programId),
      (''token_program'', TOKEN_PROGRAM_ID)])"

definition initialize_customizable_permissionless_constant_product_pool ::
  "rustEnv \<Rightarrow> pubkey \<Rightarrow> pubkey \<Rightarrow> pubkey \<Rightarrow> namedAccounts" where
  "initialize_customizable_permissionless_constant_product_pool E token_a_mint token_b_mint payer =
     (let pool_key = derive_customizable_permissionless_constant_product_pool_key E token_a_mint token_b_mint;
          keys = get_or_derive_initialize_pool_related_keys E pool_key token_a_mint token_b_mint payer in
     [(''pool'', pool_key),
      (''token_a_mint'', token_a_mint),
      (''token_b_mint'', token_b_mint),
      (''lp_mint'', ik_lp_mint keys),
      (''a_vault'', ik_vault_a keys),
      (''a_token_vault'', ik_vault_a_token_vault keys),
      (''a_vault_lp'', ik_vault_a_lp keys),
      (''a_vault_lp_mint'', ik_vault_a_lp_mint keys),
      (''b_vault'', ik_vault_b keys),
      (''b_token_vault'', ik_vault_b_token_vault keys),
      (''b_vault_lp'', ik_vault_b_lp keys),
      (''b_vault_lp_mint'', ik_vault_b_lp_mint keys),
      (''protocol_token_a_fee'', ik_protocol_token_a_fee keys),
      (''protocol_token_b_fee'', ik_protocol_token_b_fee keys),
      (''mint_metadata'', ik_mint_metadata keys),
      (''payer_token_a'', ik_payer_token_a keys),
      (''payer_pool_lp'', ik_payer_pool_lp keys),
      (''payer_token_b'', ik_payer_token_b keys),
      (''payer'', payer),
      (''vault_program'', dynamic_vault_ID),
      (''metadata_program'', mpl_token_metadata_ID E),
      (''rent'', SYSVAR_RENT_PUBKEY),
      (''associated_token_program'', ASSOCIATED_TOKEN_PROGRAM_ID),
      (''system_program'', SystemProgram_programId),
      (''token_program'', TOKEN_PROGRAM_ID)])"

section \<open>Comparison of the clients\<close>

definition camel_accounts :: "namedAccounts \<Rightarrow> namedAccounts" where
  "camel_accounts accounts = map (\<lambda>(n, k). (camel n, k)) accounts"

definition key_of :: "namedAccounts \<Rightarrow> string \<Rightarrow> pubkey" where
  "key_of accounts n = (case map_of accounts n of Some k \<Rightarrow> k | None \<Rightarrow> PublicKey [])"

definition curve_ix :: "ixArg list \<Rightarrow> curveTypeIx" where
  "curve_ix args = (case args of CurveTypeArg (StableSwapCurve _) # _ \<Rightarrow> IxStable | _ \<Rightarrow> IxConstantProduct)"

definition fee_arg :: "ixArg list \<Rightarrow> int" where
  "fee_arg args = (case args of _ # BNArg f # _ \<Rightarrow> f | _ \<Rightarrow> 0)"

text \<open>
  The accounts that the Rust builder gives for an instruction that creates a pool, from the mints,
  the payer and the configuration the instruction names and the curve and fee it passes.
\<close>

definition built_accounts :: "rustEnv \<Rightarrow> string \<Rightarrow> ixArg list \<Rightarrow> namedAccounts \<Rightarrow> namedAccounts option" where
  "built_accounts E name args accounts =
     (let a = key_of accounts ''tokenAMint''; b = key_of accounts ''tokenBMint''; payer = key_of accounts ''payer'' in
      if name = ''initializeCustomizablePermissionlessConstantProductPool''
      then Some (initialize_customizable_permissionless_constant_product_pool E a b payer)
      else if name = ''initializePermissionlessConstantProductPoolWithConfig'' \<or>
              name = ''initializePermissionlessConstantProductPoolWithConfig2''
      then Some (initialize_permissionless_constant_product_pool_with_config_accounts E a b (key_of accounts ''config'') payer)
      else if name = ''initializePermissionlessPoolWithFeeTier''
      then Some (initialize_permissionless_pool_with_fee_tier_accounts E (curve_ix args) (fee_arg args) a b payer)
      else None)"

text \<open>
  The same keys under the same names, in any order. The fee owner is deprecated, and the clients
  differ in it.
\<close>

definition same_accounts :: "namedAccounts \<Rightarrow> namedAccounts \<Rightarrow> bool" where
  "same_accounts given built \<longleftrightarrow> distinct (map fst given) \<and> length given = length built \<and>
     list_all (\<lambda>(n, k). map_of built n = Some k) given"

definition without_fee_owner :: "namedAccounts \<Rightarrow> namedAccounts" where
  "without_fee_owner accounts = filter (\<lambda>(n, k). n \<noteq> ''feeOwner'') accounts"

text \<open>
  An instruction of the AMM program that creates a pool names what the builder gives. A pool of the
  table, which exists, is not created.
\<close>

definition built_alike :: "rustEnv \<Rightarrow> instruction \<Rightarrow> bool" where
  "built_alike E ix =
     (case ix of
        ProgramIx program name args accounts remaining \<Rightarrow>
          (case built_accounts E name args accounts of
             None \<Rightarrow> True
           | Some built \<Rightarrow>
               map_of POOL_WITH_NON_PDA_BASED_LP_MINT (key_of accounts ''pool'') = None \<longrightarrow>
               program = dynamic_amm_ID \<and> same_accounts (without_fee_owner accounts) (without_fee_owner (camel_accounts built)))
      | _ \<Rightarrow> True)"

lemma same_accounts_map_of:
  assumes "same_accounts given built"
  shows "map_of given = map_of built" "distinct (map fst built)"
proof -
  have all: "map_of built n = Some k" if "(n, k) \<in> set given" for n k
    using assms that by (auto simp: same_accounts_def list_all_iff)
  have "set (map fst given) \<subseteq> set (map fst built)"
    using all map_of_SomeD by fastforce
  moreover have "card (set (map fst given)) = length (map fst built)"
    using assms by (simp add: same_accounts_def distinct_card del: set_map)
  ultimately have c: "set (map fst given) = set (map fst built)" "card (set (map fst built)) = length (map fst built)"
    using card_length [of "map fst built"] card_mono [of "set (map fst built)" "set (map fst given)"]
    by (simp_all add: card_subset_eq del: set_map length_map)
  from c(2) show "distinct (map fst built)" by (rule card_distinct)
  have "map_of given n = map_of built n" for n
  proof (cases "map_of given n")
    case None
    then show ?thesis using c(1) by (metis map_of_eq_None_iff set_map)
  next
    case (Some k)
    then show ?thesis using all map_of_SomeD [of given n k] by simp
  qed
  then show "map_of given = map_of built" by blast
qed

lemma built_alike_other [simp]:
  "built_alike E (CreateAssociatedTokenAccount p a own m)" "built_alike E (SystemTransfer x y n)"
  "built_alike E (RawInstruction ks d p)" "built_alike E (SetComputeUnitLimit n)" "built_alike E (PackageIx nm pks)"
  "built_alike E (createLockEscrowIx program pool le own lpM payer)"
  "built_alike E (lockIx program num pool le own lpM src esc v)" "built_alike E (swapLiquidityIx ch prog payer k i j)"
  "built_alike E (SystemCreateAccount x y n p)" "built_alike E (InitializeMint m dec ma fa p)"
  "built_alike E (CreateMetadataAccountV3 md m ma p ua ad)" "built_alike E (MintTo m ds au n)" "built_alike E (SetAuthority ac ca t na)"
  by (simp_all add: built_alike_def built_accounts_def createLockEscrowIx_def lockIx_def swapLiquidityIx_def)

lemma createTokenIxs_built_alike:
  assumes "createTokenIxs ch info = Inr ixs"
  shows "list_all (built_alike E) ixs"
  using assms
  by (auto simp: createTokenIxs_def createMint_def getOrCreateATAInstruction_def Let_def split: if_splits option.splits prod.splits)

context vault_addresses
begin

lemma init_keys_agree:
  assumes "creation_accounts ch prog payer k" "ammProgramId prog = dynamic_amm_ID"
    and "map_of POOL_WITH_NON_PDA_BASED_LP_MINT (pa_pool k) = None"
  shows "get_or_derive_initialize_pool_related_keys E (pa_pool k) (pa_tokenAMint k) (pa_tokenBMint k) payer =
    \<lparr>ik_vault_a = pa_aVault k, ik_vault_a_token_vault = pa_aTokenVault k, ik_vault_a_lp_mint = pa_aVaultLpMint k,
     ik_vault_a_lp = pa_aVaultLp k, ik_vault_b = pa_bVault k, ik_vault_b_token_vault = pa_bTokenVault k,
     ik_vault_b_lp_mint = pa_bVaultLpMint k, ik_vault_b_lp = pa_bVaultLp k, ik_lp_mint = pa_lpMint k,
     ik_protocol_token_a_fee = pa_protocolTokenAFee k, ik_protocol_token_b_fee = pa_protocolTokenBFee k,
     ik_mint_metadata = pa_mintMetadata k, ik_payer_token_a = pa_payerTokenA k, ik_payer_pool_lp = pa_payerPoolLp k,
     ik_payer_token_b = pa_payerTokenB k\<rparr>"
proof -
  have d: "derived_accounts ch dynamic_amm_ID payer k" and v: "vaultProgramId prog = VAULT_PROGRAM_ID ch"
    and s: "same_vaults k (setupVault ch prog payer (pa_tokenAMint k)) (setupVault ch prog payer (pa_tokenBMint k))"
    using assms(1,2) by (simp_all add: creation_accounts_def)
  have lp: "derive_lp_mint_key E (pa_pool k) = pa_lpMint k"
    using d assms(3) by (simp add: derived_accounts_def derive_lp_mint_key_def SEEDS_LP_MINT_def same_bytes same_address Let_def)
  show ?thesis
    using d s
    by (auto simp: get_or_derive_initialize_pool_related_keys_def lp same_vaults_def vaults_agree [OF v] derived_accounts_def
        derive_vault_lp_key_def derive_protocol_fee_key_def SEEDS_FEE_def account_keys_agree(2) same_bytes same_address
        getAssociatedTokenAccount_def same_token_account Let_def)
qed

lemma config_built_alike:
  assumes "creation_accounts ch prog payer k" "ammProgramId prog = dynamic_amm_ID"
    and "pa_pool k = derivePoolAddressWithConfig ch (pa_tokenAMint k) (pa_tokenBMint k) config dynamic_amm_ID"
    and "name = ''initializePermissionlessConstantProductPoolWithConfig'' \<or> name = ''initializePermissionlessConstantProductPoolWithConfig2''"
  shows "built_alike E (ProgramIx dynamic_amm_ID name args
     (initAccountsHead k @ (''payer'', payer) # (''config'', config) # initAccountsTail prog) [])"
proof -
  have v: "vaultProgramId prog = dynamic_vault_ID" using assms(1) by (simp add: creation_accounts_def vault_program)
  have b: "built_accounts E name args accounts = Some (initialize_permissionless_constant_product_pool_with_config_accounts E
      (key_of accounts ''tokenAMint'') (key_of accounts ''tokenBMint'') (key_of accounts ''config'') (key_of accounts ''payer''))"
    for accounts using assms(4) by (auto simp: built_accounts_def)
  show ?thesis
    by (simp add: built_alike_def b key_of_def initAccountsHead_def initAccountsTail_def v without_fee_owner_def same_accounts_def
        initialize_permissionless_constant_product_pool_with_config_accounts_def pool_keys_agree camel_accounts_def
        init_keys_agree [OF assms(1,2)] metadata_program flip: assms(3))
qed

lemma customizable_built_alike:
  assumes "creation_accounts ch prog payer k" "ammProgramId prog = dynamic_amm_ID"
    and "pa_pool k = deriveCustomizablePermissionlessConstantProductPoolAddress ch (pa_tokenAMint k) (pa_tokenBMint k) dynamic_amm_ID"
  shows "built_alike E (ProgramIx dynamic_amm_ID ''initializeCustomizablePermissionlessConstantProductPool'' args
     (initAccountsHead k @ (''payer'', payer) # initAccountsTail prog) [])"
proof -
  have v: "vaultProgramId prog = dynamic_vault_ID" using assms(1) by (simp add: creation_accounts_def vault_program)
  have b: "built_accounts E ''initializeCustomizablePermissionlessConstantProductPool'' args accounts =
      Some (initialize_customizable_permissionless_constant_product_pool E (key_of accounts ''tokenAMint'')
        (key_of accounts ''tokenBMint'') (key_of accounts ''payer''))"
    for accounts by (simp add: built_accounts_def Let_def)
  show ?thesis
    by (simp add: built_alike_def b key_of_def initAccountsHead_def initAccountsTail_def v without_fee_owner_def
        same_accounts_def initialize_customizable_permissionless_constant_product_pool_def pool_keys_agree camel_accounts_def
        init_keys_agree [OF assms(1,2)] metadata_program flip: assms(3))
qed

lemma fee_tier_built_alike:
  assumes "creation_accounts ch prog payer k" "ammProgramId prog = dynamic_amm_ID"
    and "poolSeeds ch (pa_tokenAMint k) (pa_tokenBMint k) curve fee = Inr seeds"
    and "getTradeFeeBpsBuffer curve fee = Inr (get_trade_fee_bps_bytes fee)"
    and "pa_pool k = findProgramAddressSync ch seeds dynamic_amm_ID"
  shows "built_alike E (ProgramIx dynamic_amm_ID ''initializePermissionlessPoolWithFeeTier'' (CurveTypeArg curve # BNArg fee # args)
     (initAccountsHead k @ (''feeOwner'', fo) # (''payer'', payer) # initAccountsTail prog) [])"
proof -
  have v: "vaultProgramId prog = dynamic_vault_ID" using assms(1) by (simp add: creation_accounts_def vault_program)
  have c: "get_curve_type (CurveType_from (curve_ix (CurveTypeArg curve # BNArg fee # args))) = get_curve_type curve"
    by (simp add: get_curve_type_def CurveType_from_def curve_ix_def split: curveType.split)
  have p: "derive_permissionless_pool_key_with_fee_tier E (CurveType_from (curve_ix (CurveTypeArg curve # BNArg fee # args)))
      (pa_tokenAMint k) (pa_tokenBMint k) fee = pa_pool k"
    using fee_tier_key_agrees [OF assms(3,4)] assms(5)
    by (simp add: derive_permissionless_pool_key_with_fee_tier_def c)
  have b: "built_accounts E ''initializePermissionlessPoolWithFeeTier'' (CurveTypeArg curve # BNArg fee # args) accounts =
      Some (initialize_permissionless_pool_with_fee_tier_accounts E (curve_ix (CurveTypeArg curve # BNArg fee # args)) fee
        (key_of accounts ''tokenAMint'') (key_of accounts ''tokenBMint'') (key_of accounts ''payer''))"
    for accounts by (simp add: built_accounts_def fee_arg_def Let_def)
  show ?thesis
    by (simp add: built_alike_def b key_of_def initAccountsHead_def initAccountsTail_def v without_fee_owner_def
        same_accounts_def initialize_permissionless_pool_with_fee_tier_accounts_def p camel_accounts_def
        init_keys_agree [OF assms(1,2)] metadata_program)
qed

end

definition fee_agrees :: "curveType \<Rightarrow> int \<Rightarrow> bool" where
  "fee_agrees curve fee \<longleftrightarrow> getTradeFeeBpsBuffer curve fee = Inr (get_trade_fee_bps_bytes fee)"

text \<open>The comparison as a predicate on the instructions of a pool creation.\<close>

sublocale vault_addresses \<subseteq> built: ix_predicate ch "built_alike E" dynamic_amm_ID payer "\<lambda>_ _. True" fee_agrees for payer
  by unfold_locales (simp_all add: config_built_alike customizable_built_alike fee_tier_built_alike fee_agrees_def)

context vault_addresses
begin

lemma creations_built_alike:
  "createCustomizablePermissionlessConstantProductPool ch payer ta tb x y params None = Inr tx \<Longrightarrow> txs_all (built_alike E) [tx]"
  "createPermissionlessConstantProductPoolWithConfig2 ch L payer ta tb x y config opt = Inr txs \<Longrightarrow>
     opt_programId opt = None \<Longrightarrow> txs_all (built_alike E) txs"
  "createPermissionlessConstantProductPoolWithConfig ch payer ta tb x y config opt = Inr txs \<Longrightarrow>
     opt_programId opt = None \<Longrightarrow> txs_all (built_alike E) txs"
  "createPermissionlessConstantProductMemecoinPoolWithConfig ch L payer ta tb x y config info opt = Inr txs \<Longrightarrow>
     opt_programId opt = None \<Longrightarrow> txs_all (built_alike E) txs"
  "createPermissionlessPool ch payer ta tb x y st fee None skip = Inr tx \<Longrightarrow> 0 \<le> fee \<Longrightarrow> fee < 2 ^ 64 \<Longrightarrow>
     \<not> st \<or> fee \<noteq> 1 \<and> fee \<noteq> 25 \<Longrightarrow> txs_all (built_alike E) [tx]"
proof -
  have pr: "ammProgramId (createProgram ch None) = dynamic_amm_ID" by (simp add: createProgram_def program_IDs)
  show "txs_all (built_alike E) [tx]" if "createCustomizablePermissionlessConstantProductPool ch payer ta tb x y params None = Inr tx" for tx
    using built.all_customizable [OF that pr TrueI] .
  show "txs_all (built_alike E) txs" if "createPermissionlessConstantProductPoolWithConfig2 ch L payer ta tb x y config opt = Inr txs"
    "opt_programId opt = None" for txs
    using built.all_config2 [OF that(1) _ TrueI] pr that(2) by simp
  show "txs_all (built_alike E) txs" if "createPermissionlessConstantProductPoolWithConfig ch payer ta tb x y config opt = Inr txs"
    "opt_programId opt = None" for txs
    using built.all_config [OF that(1) _ TrueI] pr that(2) by simp
  show "txs_all (built_alike E) txs"
    if "createPermissionlessConstantProductMemecoinPoolWithConfig ch L payer ta tb x y config info opt = Inr txs"
    "opt_programId opt = None" for txs
    using built.all_memecoin [OF that(1) _ TrueI createTokenIxs_built_alike] pr that(2) by simp
  show "txs_all (built_alike E) [tx]" if "createPermissionlessPool ch payer ta tb x y st fee None skip = Inr tx" "0 \<le> fee"
    "fee < 2 ^ 64" "\<not> st \<or> fee \<noteq> 1 \<and> fee \<noteq> 25" for tx
  proof (rule built.all_feeTier [OF that(1) pr TrueI])
    fix cu assume "(\<exists>c. cu = StableSwapCurve c) \<longleftrightarrow> st"
    then show "fee_agrees cu fee"
      using fee_seed_agrees [OF that(2,3), of cu] that(4) by (cases cu) (auto simp: fee_agrees_def)
  qed
qed

end

section \<open>Properties\<close>



end
