(* ===== verification/ProgramAccounts.thy ===== *)
theory ProgramAccounts
  imports RustAccounts AmmTransactions
begin

text \<open>
  What the AMM program checks of the accounts of an instruction before it runs: the types and
  constraints that its Rust sources declare (ProgramInterface), evaluated on the keys that a
  client names. The properties state that the checks let through what the TypeScript client
  builds, and when they do not.
\<close>

section \<open>Evaluating the declarations\<close>

text \<open>
  Seeds read the arguments by position, as \<^verbatim>\<open>#[instruction(..)]\<close> does, and the accounts by name.
\<close>

definition curve_arg :: "ixArg list \<Rightarrow> curveType" where
  "curve_arg args = (case args of CurveTypeArg c # _ \<Rightarrow> c | _ \<Rightarrow> ConstantProductCurve)"

definition index_arg :: "ixArg list \<Rightarrow> int" where
  "index_arg args = (case args of ConfigParametersArg p # _ \<Rightarrow> cp_index p | _ \<Rightarrow> 0)"

fun seed_bytes :: "rustEnv \<Rightarrow> ixArg list \<Rightarrow> (string \<Rightarrow> pubkey) \<Rightarrow> rsSeed \<Rightarrow> bytes" where
  "seed_bytes E args key (SeedText s) = Buffer_from s"
| "seed_bytes E args key (SeedKey n) = rs_to_bytes E (key n)"
| "seed_bytes E args key (SeedFirstKey x y) = rs_to_bytes E (get_first_key E (key x) (key y))"
| "seed_bytes E args key (SeedSecondKey x y) = rs_to_bytes E (get_second_key E (key x) (key y))"
| "seed_bytes E args key SeedCurveType = [word_of_nat (get_curve_type (curve_arg args))]"
| "seed_bytes E args key SeedTradeFeeBps = get_trade_fee_bps_bytes (fee_arg args)"
| "seed_bytes E args key SeedConfigIndex = u64_to_le_bytes (index_arg args)"

text \<open>The fields of a pool that a \<^verbatim>\<open>has_one\<close> compares.\<close>

definition pool_field :: "poolState \<Rightarrow> string \<Rightarrow> pubkey option" where
  "pool_field pool n =
     (if n = ''protocol_token_a_fee'' then Some (protocolTokenAFee pool)
      else if n = ''protocol_token_b_fee'' then Some (protocolTokenBFee pool)
      else if n = ''a_vault_lp'' then Some (aVaultLp pool)
      else None)"

text \<open>
  The checks on the account \<open>n\<close>. A program account has the address of the program, a sysvar that of
  the sysvar; the content of an account is read only where a constraint asks for a field of the
  pool. What the program creates or closes is not checked, and no instruction with a boolean
  argument is modelled, so the constraint on it does not hold.
\<close>

fun type_holds :: "pubkey \<Rightarrow> rsType \<Rightarrow> bool" where
  "type_holds k (RsProgram p) =
     (if p = ''System'' then k = SystemProgram_programId
      else if p = ''Token'' then k = TOKEN_PROGRAM_ID
      else p = ''AssociatedToken'' \<and> k = ASSOCIATED_TOKEN_PROGRAM_ID)"
| "type_holds k (RsSysvar s) = (s = ''Rent'' \<and> k = SYSVAR_RENT_PUBKEY)"
| "type_holds k t = True"

fun constraint_holds ::
  "rustEnv \<Rightarrow> (pubkey \<Rightarrow> poolState option) \<Rightarrow> pubkey \<Rightarrow> ixArg list \<Rightarrow> (string \<Rightarrow> pubkey) \<Rightarrow> string \<Rightarrow> rsConstraint \<Rightarrow> bool" where
  "constraint_holds E pools program args key n (RsSeeds seeds) =
     (key n = rs_find_program_address E (map (seed_bytes E args key) seeds) program)"
| "constraint_holds E pools program args key n (RsAssociatedToken m authority) =
     (key n = rs_get_associated_token_address E (key authority) (key m))"
| "constraint_holds E pools program args key n (RsKeysDiffer x y e) = (key x \<noteq> key y)"
| "constraint_holds E pools program args key n (RsHasOne x) =
     (case pools (key n) of None \<Rightarrow> False | Some pool \<Rightarrow> pool_field pool x = Some (key x))"
| "constraint_holds E pools program args key n (RsPartnerAuthority x e) =
     (case pools (key n) of None \<Rightarrow> False | Some pool \<Rightarrow> partnerAuthority (partnerInfo pool) = key x)"
| "constraint_holds E pools program args key n RsTogglesEnabled = False"
| "constraint_holds E pools program args key n c = True"

definition account_holds ::
  "rustEnv \<Rightarrow> (pubkey \<Rightarrow> poolState option) \<Rightarrow> pubkey \<Rightarrow> ixArg list \<Rightarrow> (string \<Rightarrow> pubkey) \<Rightarrow> rsAccount \<Rightarrow> bool" where
  "account_holds E pools program args key a \<longleftrightarrow> type_holds (key (ra_name a)) (ra_type a) \<and>
     list_all (constraint_holds E pools program args key (ra_name a)) (ra_constraints a)"

definition find_function :: "string \<Rightarrow> rsFn option" where
  "find_function n = List.find (\<lambda>f. camel (fn_name f) = n) program_functions"

text \<open>
  An instruction passes when the program has it, it names the declared accounts once each and passes
  arguments of the declared types, and every account passes.
\<close>

definition accepted :: "rustEnv \<Rightarrow> (pubkey \<Rightarrow> poolState option) \<Rightarrow> instruction \<Rightarrow> bool" where
  "accepted E pools ix =
     (case ix of
        ProgramIx program name args accounts remaining \<Rightarrow>
          (case find_function name of
             None \<Rightarrow> False
           | Some f \<Rightarrow>
               names_match (map fst accounts) (map (\<lambda>a. camel (ra_name a)) (fn_accounts f)) \<and>
               list_all2 arg_matches args (map snd (fn_args f)) \<and>
               list_all (account_holds E pools program args (\<lambda>n. key_of accounts (camel n))) (fn_accounts f))
      | _ \<Rightarrow> True)"

section \<open>What the client builds\<close>

lemma find_function_simps [simp]:
  "find_function ''swap'' = Some fn_swap"
  "find_function ''lock'' = Some fn_lock"
  "find_function ''createLockEscrow'' = Some fn_create_lock_escrow"
  "find_function ''claimFee'' = Some fn_claim_fee"
  "find_function ''partnerClaimFee'' = Some fn_partner_claim_fee"
  "find_function ''bootstrapLiquidity'' = Some fn_bootstrap_liquidity"
  "find_function ''addImbalanceLiquidity'' = Some fn_add_imbalance_liquidity"
  "find_function ''addBalanceLiquidity'' = Some fn_add_balance_liquidity"
  "find_function ''removeBalanceLiquidity'' = Some fn_remove_balance_liquidity"
  "find_function ''removeLiquiditySingleSide'' = Some fn_remove_liquidity_single_side"
  "find_function ''initializePermissionlessPoolWithFeeTier'' = Some fn_initialize_permissionless_pool_with_fee_tier"
  "find_function ''initializeCustomizablePermissionlessConstantProductPool'' =
     Some fn_initialize_customizable_permissionless_constant_product_pool"
  "find_function ''initializePermissionlessConstantProductPoolWithConfig'' =
     Some fn_initialize_permissionless_constant_product_pool_with_config"
  "find_function ''initializePermissionlessConstantProductPoolWithConfig2'' =
     Some fn_initialize_permissionless_constant_product_pool_with_config2"
  by (simp_all add: find_function_def program_functions_def function_defs)

lemmas accepted_simps = accepted_def names_match_def key_of_def account_holds_def pool_field_def

lemmas init_decls =
  fn_initialize_permissionless_constant_product_pool_with_config_def
  fn_initialize_permissionless_constant_product_pool_with_config2_def
  fn_initialize_customizable_permissionless_constant_product_pool_def
  fn_initialize_permissionless_pool_with_fee_tier_def
  accounts_InitializePermissionlessConstantProductPoolWithConfig_def
  accounts_InitializeCustomizablePermissionlessConstantProductPool_def
  accounts_InitializePermissionlessPoolWithFeeTier_def

lemmas init_lists = initAccountsHead_def initAccountsTail_def

lemma accepted_other [simp]:
  "accepted E pools (CreateAssociatedTokenAccount p a own m)" "accepted E pools (SystemTransfer x y n)"
  "accepted E pools (RawInstruction ks d p)" "accepted E pools (SetComputeUnitLimit n)" "accepted E pools (PackageIx nm pks)"
  "accepted E pools (SystemCreateAccount x y n p)" "accepted E pools (InitializeMint m dec ma fa p)"
  "accepted E pools (CreateMetadataAccountV3 md m ma p ua ad)" "accepted E pools (MintTo m ds au n)"
  "accepted E pools (SetAuthority ac ca t na)" "accepted E pools (CloseAccount ac ds au)"
  by (simp_all add: accepted_def)

lemma lock_accepted [simp]: "accepted E pools (lockIx program num pool le own lpM src esc v)"
  by (simp add: accepted_simps lockIx_def fn_lock_def accounts_Lock_def)

lemma first_swap_accepted [simp]: "accepted E pools (swapLiquidityIx ch prog payer k i j)"
  by (simp add: accepted_simps swapLiquidityIx_def fn_swap_def accounts_Swap_def)

context same_keys
begin

lemma escrow_accepted:
  "accepted E pools (createLockEscrowIx program pool (deriveLockEscrowPda ch pool own program) own lpM payer)"
  by (simp add: accepted_simps createLockEscrowIx_def fn_create_lock_escrow_def accounts_CreateLockEscrow_def
      deriveLockEscrowPda_def SEEDS_LOCK_ESCROW_def same_bytes same_address)

lemma init_facts:
  assumes "creation_accounts ch prog payer k"
  defines "address \<equiv> \<lambda>seeds. findProgramAddressSync ch seeds (ammProgramId prog)" and "pool \<equiv> toBuffer ch (pa_pool k)"
  shows "pa_lpMint k = address [Buffer_from ''lp_mint'', pool]"
    "pa_aVaultLp k = address [toBuffer ch (pa_aVault k), pool]"
    "pa_bVaultLp k = address [toBuffer ch (pa_bVault k), pool]"
    "pa_protocolTokenAFee k = address [Buffer_from ''fee'', toBuffer ch (pa_tokenAMint k), pool]"
    "pa_protocolTokenBFee k = address [Buffer_from ''fee'', toBuffer ch (pa_tokenBMint k), pool]"
    "pa_payerPoolLp k = rs_get_associated_token_address E payer (pa_lpMint k)"
  using assms(1) unfolding creation_accounts_def derived_accounts_def address_def pool_def
  by (auto simp: SEEDS_LP_MINT_def SEEDS_FEE_def getAssociatedTokenAccount_def same_token_account Let_def)

lemma config_accepted:
  assumes "creation_accounts ch prog payer k" "ammProgramId prog = program"
    and "pa_pool k = derivePoolAddressWithConfig ch (pa_tokenAMint k) (pa_tokenBMint k) config program"
  shows "accepted E pools (ProgramIx program ''initializePermissionlessConstantProductPoolWithConfig'' [BNArg x, BNArg y]
     (initAccountsHead k @ (''payer'', payer) # (''config'', config) # initAccountsTail prog) [])"
    "accepted E pools (ProgramIx program ''initializePermissionlessConstantProductPoolWithConfig2'' [BNArg x, BNArg y, OptionBNArg z]
     (initAccountsHead k @ (''payer'', payer) # (''config'', config) # initAccountsTail prog) [])"
proof -
  note facts = init_facts [OF assms(1), unfolded assms(2), symmetric]
    assms(3) [unfolded derivePoolAddressWithConfig_def configSeeds_def, symmetric]
  show "accepted E pools (ProgramIx program ''initializePermissionlessConstantProductPoolWithConfig'' [BNArg x, BNArg y]
     (initAccountsHead k @ (''payer'', payer) # (''config'', config) # initAccountsTail prog) [])"
    by (simp add: accepted_simps init_decls init_lists same_bytes same_address keys_agree facts)
  show "accepted E pools (ProgramIx program ''initializePermissionlessConstantProductPoolWithConfig2'' [BNArg x, BNArg y, OptionBNArg z]
     (initAccountsHead k @ (''payer'', payer) # (''config'', config) # initAccountsTail prog) [])"
    by (simp add: accepted_simps init_decls init_lists same_bytes same_address keys_agree facts)
qed

lemma customizable_accepted:
  assumes "creation_accounts ch prog payer k" "ammProgramId prog = program" "pa_tokenAMint k \<noteq> pa_tokenBMint k"
    and "pa_pool k = deriveCustomizablePermissionlessConstantProductPoolAddress ch (pa_tokenAMint k) (pa_tokenBMint k) program"
  shows "accepted E pools (ProgramIx program ''initializeCustomizablePermissionlessConstantProductPool''
     [BNArg x, BNArg y, CustomizableParamsArg c] (initAccountsHead k @ (''payer'', payer) # initAccountsTail prog) [])"
proof -
  note facts = init_facts [OF assms(1), unfolded assms(2), symmetric] assms(3) [symmetric]
    assms(4) [unfolded deriveCustomizablePermissionlessConstantProductPoolAddress_def customizableSeeds_def, symmetric]
  show ?thesis
    by (simp add: accepted_simps init_decls init_lists same_bytes same_address keys_agree facts)
qed

lemma fee_tier_accepted:
  assumes "creation_accounts ch prog payer k" "ammProgramId prog = program"
    and "poolSeeds ch (pa_tokenAMint k) (pa_tokenBMint k) curve fee = Inr seeds" "fee_agrees curve fee"
    and "pa_pool k = findProgramAddressSync ch seeds program"
  shows "accepted E pools (ProgramIx program ''initializePermissionlessPoolWithFeeTier''
     [CurveTypeArg curve, BNArg fee, BNArg x, BNArg y]
     (initAccountsHead k @ (''feeOwner'', fo) # (''payer'', payer) # initAccountsTail prog) [])"
proof -
  have "seeds = [[word_of_nat (get_curve_type curve)], getFirstKey ch (pa_tokenAMint k) (pa_tokenBMint k),
      getSecondKey ch (pa_tokenAMint k) (pa_tokenBMint k), get_trade_fee_bps_bytes fee]"
    using assms(3,4) by (simp add: poolSeeds_def fee_agrees_def get_curve_type_encode)
  note facts = init_facts [OF assms(1), unfolded assms(2), symmetric] assms(5) [unfolded this, symmetric]
  show ?thesis
    by (simp add: accepted_simps init_decls init_lists same_bytes same_address keys_agree facts curve_arg_def fee_arg_def)
qed

end

text \<open>The checks as a predicate on the instructions of a pool creation and of a call.\<close>

sublocale same_keys \<subseteq> checked: ix_predicate ch "accepted E pools" program payer "(\<noteq>)" fee_agrees for pools program payer
  by unfold_locales
    (simp_all add: escrow_accepted config_accepted customizable_accepted fee_tier_accepted)

text \<open>The program as this client loaded the pool, and its partner.\<close>

definition pool_is_loaded :: "(pubkey \<Rightarrow> poolState option) \<Rightarrow> ammImpl \<Rightarrow> bool" where
  "pool_is_loaded pools self \<longleftrightarrow> pools (am_address self) = Some (am_poolState self)"

definition partner_of :: "ammImpl \<Rightarrow> pubkey" where
  "partner_of self = partnerAuthority (partnerInfo (am_poolState self))"

lemma swap_accepted [simp]: "accepted E pools (swapIx self k x y us ud fee rem)"
  by (simp add: accepted_simps swapIx_def fn_swap_def accounts_Swap_def)

lemma deposit_accepted [simp]: "accepted E pools (depositIx self k x y lp ua ub ul)"
  by (simp add: accepted_simps depositIx_def depositMethod_def fn_bootstrap_liquidity_def accounts_BootstrapLiquidity_def
      fn_add_imbalance_liquidity_def fn_add_balance_liquidity_def accounts_AddOrRemoveBalanceLiquidity_def Let_def)

lemma withdraw_accepted [simp]: "accepted E pools (withdrawIx self k lp x y ua ub ul)"
  by (simp add: accepted_simps withdrawIx_def fn_remove_liquidity_single_side_def accounts_RemoveLiquiditySingleSide_def
      fn_remove_balance_liquidity_def accounts_AddOrRemoveBalanceLiquidity_def Let_def)

lemma claim_accepted [simp]: "accepted E pools (claimFeeIx self n (claimAccounts self k le ua ea ta tb))"
  by (simp add: accepted_simps claimFeeIx_def claimAccounts_def fn_claim_fee_def accounts_ClaimFee_def)

lemma partner_accepted:
  assumes "pool_is_loaded pools self"
  shows "accepted E pools (partnerClaimFeeIx self k x y ua ub) \<longleftrightarrow> partner_of self = k"
  using assms by (simp add: accepted_simps pool_is_loaded_def partner_of_def partnerClaimFeeIx_def fn_partner_claim_fee_def
      accounts_PartnerClaimFees_def)

sublocale same_keys \<subseteq> call_checked: call_predicate ch "accepted E pools" UNIV
    "\<lambda>self k. pool_is_loaded pools self \<and> partner_of self = k" for pools
  by unfold_locales (simp_all add: escrow_accepted partner_accepted)

context same_keys
begin

lemma partner_claim_accepted_iff:
  assumes "pool_is_loaded pools self" "partnerClaimFees ch self k x y = Inr tx"
  shows "txs_all (accepted E pools) [tx] \<longleftrightarrow> partner_of self = k"
proof
  assume "partner_of self = k"
  with assms show "txs_all (accepted E pools) [tx]" by (intro call_checked.all_partner [OF assms(2)]) auto
next
  assume "txs_all (accepted E pools) [tx]"
  moreover obtain atas where "tx = newTransaction ch k (methodTx
      (partnerClaimFeeIx self k x y (fst (atas ! 0)) (fst (atas ! 1))) (ataIxs atas) [])"
    using assms(2) by (auto simp: partnerClaimFees_def Let_def)
  then obtain ua ub where "partnerClaimFeeIx self k x y ua ub \<in> set (tx_instructions tx)"
    by (metis UnI1 UnI2 list.set_intros(1) methodTx_def newTransaction_def set_append transaction.select_convs(3))
  ultimately have "accepted E pools (partnerClaimFeeIx self k x y ua ub)" by (auto simp: txs_all_def list_all_iff)
  then show "partner_of self = k" using partner_accepted [OF assms(1)] by blast
qed

lemma calls_accepted:
  "swap ch self k m x y referral = Inr tx \<Longrightarrow> txs_all (accepted E pools) [tx]"
  "deposit ch self k x y lp = Inr tx \<Longrightarrow> txs_all (accepted E pools) [tx]"
  "withdraw ch self k lp x y = Inr tx \<Longrightarrow> txs_all (accepted E pools) [tx]"
  "lockLiquidity ch L self k n feePayer ratio = Inr tx \<Longrightarrow> txs_all (accepted E pools) [tx]"
  "claimLockFee ch self k n payer receiver temp = Inr tx \<Longrightarrow> txs_all (accepted E pools) [tx]"
  "claimLockFee2 ch self k n payer r = Inr tx \<Longrightarrow> txs_all (accepted E pools) [tx]"
  using call_checked.all_swap [of self k m x y referral tx] call_checked.all_deposit [of self k x y lp tx]
    call_checked.all_withdraw [of self k lp x y tx] call_checked.all_lock [of L self k n feePayer ratio tx, OF _ UNIV_I refl]
    call_checked.all_claim [of self k n payer receiver temp tx] call_checked.all_claim2 [of self k n payer r tx]
  by simp_all

lemma creation_checked: "ix_predicate ch (accepted E pools) program payer (\<noteq>) fee_agrees"
  by (rule checked.ix_predicate_axioms)

lemma token_ixs_accepted:
  assumes "createTokenIxs ch info = Inr ixs"
  shows "list_all (accepted E pools) ixs"
  using assms
  by (auto simp: createTokenIxs_def createMint_def getOrCreateATAInstruction_def Let_def split: if_splits option.splits prod.splits)

end

section \<open>Properties\<close>





end
