(* ===== verification/EventLog.thy ===== *)
theory EventLog
  imports RustQuote
begin

text \<open>
  The reader of event logs of the Rust client (rust-client/src/transaction_utils.rs): it follows
  the program calls in the log of a transaction on a stack and returns the first event of the
  wanted type that the wanted program logs. A line is a list of 8-bit characters; base64 and the
  decoding of an event are an argument.
\<close>

section \<open>The patterns\<close>

definition has_prefix :: "string \<Rightarrow> string \<Rightarrow> bool" where
  "has_prefix p s \<longleftrightarrow> take (length p) s = p"

text \<open>\<^verbatim>\<open>.*\<close> before what \<open>P\<close> matches does not cross a line break; a pattern matches anywhere in a line.\<close>

fun after_any :: "(string \<Rightarrow> bool) \<Rightarrow> string \<Rightarrow> bool" where
  "after_any P [] \<longleftrightarrow> P []"
| "after_any P (c # s) \<longleftrightarrow> P (c # s) \<or> c \<noteq> CHR 0x0A \<and> after_any P s"

fun anywhere :: "(string \<Rightarrow> bool) \<Rightarrow> string \<Rightarrow> bool" where
  "anywhere P [] \<longleftrightarrow> P []"
| "anywhere P (c # s) \<longleftrightarrow> P (c # s) \<or> anywhere P s"

definition invoke_part :: "string \<Rightarrow> bool" where
  "invoke_part s \<longleftrightarrow> has_prefix '' invoke ['' s \<and>
     (case drop 9 s of d # c # _ \<Rightarrow> d \<in> set ''0123456789'' \<and> c = CHR '']'' | _ \<Rightarrow> False)"

definition program_start_pattern :: "string \<Rightarrow> bool" where
  "program_start_pattern = anywhere (\<lambda>s. has_prefix ''Program '' s \<and> after_any invoke_part (drop 8 s))"

definition program_end_pattern :: "string \<Rightarrow> bool" where
  "program_end_pattern = anywhere (\<lambda>s. has_prefix ''Program '' s \<and> after_any (has_prefix '' success'') (drop 8 s))"

definition whitespace :: "char set" where
  "whitespace = {CHR '' '', CHR 0x09, CHR 0x0A, CHR 0x0B, CHR 0x0C, CHR 0x0D}"

definition trim :: "string \<Rightarrow> string" where
  "trim s = rev (dropWhile (\<lambda>c. c \<in> whitespace) (rev (dropWhile (\<lambda>c. c \<in> whitespace) s)))"

section \<open>The reader\<close>

text \<open>What a data line decodes to: \<^verbatim>\<open>log_buf[0..8]\<close> of fewer than eight bytes panics.\<close>

datatype 'e decoded = NotBase64 | TooShort | OtherEvent | Decoded "'e option"

fun parse_from :: "(string \<Rightarrow> 'e decoded) \<Rightarrow> string \<Rightarrow> string list \<Rightarrow> string list \<Rightarrow> 'e option rust" where
  "parse_from decode program_id execution_stack [] = Inr None"
| "parse_from decode program_id execution_stack (line # logs) =
     (let stack1 = (if program_start_pattern line then trim (take 44 (drop 8 line)) # execution_stack else execution_stack);
          stack2 = (if program_end_pattern line then tl stack1 else stack1);
          continue = parse_from decode program_id stack2 logs in
      if has_prefix ''Program data:'' line then
        (case stack2 of
           [] \<Rightarrow> Inr None
         | running # _ \<Rightarrow>
             if running = program_id then
               (case decode (drop 14 line) of
                  NotBase64 \<Rightarrow> continue
                | TooShort \<Rightarrow> Inl Panic
                | OtherEvent \<Rightarrow> continue
                | Decoded e \<Rightarrow> Inr e)
             else continue)
      else continue)"

definition parse_event_log :: "(string \<Rightarrow> 'e decoded) \<Rightarrow> string list \<Rightarrow> string \<Rightarrow> 'e option rust" where
  "parse_event_log decode logs program_id = parse_from decode program_id [] logs"

section \<open>What a log means\<close>

text \<open>
  A call of a program with what it logs, in order: data, other lines, and the calls it makes.
  \<open>print_log\<close> is the log the runtime writes at a depth of calls; \<open>data_of\<close> the data that a program
  logs itself, with the program that is running.
\<close>

datatype frame = Data string | Line string | Call string "frame list"

fun print_log :: "nat \<Rightarrow> frame \<Rightarrow> string list" where
  "print_log d (Data s) = [''Program data: '' @ s]"
| "print_log d (Line l) = [l]"
| "print_log d (Call p fs) =
     (''Program '' @ p @ '' invoke ['' @ [''0123456789'' ! d] @ '']'') #
     concat (map (print_log (Suc d)) fs) @ [''Program '' @ p @ '' success'']"

fun data_of :: "string \<Rightarrow> string \<Rightarrow> frame \<Rightarrow> string list" where
  "data_of running p (Data s) = (if running = p then [s] else [])"
| "data_of running p (Line l) = []"
| "data_of running p (Call q fs) = concat (map (data_of q p) fs)"

text \<open>The first of the data that decodes to the wanted event, or what follows.\<close>

fun first_event :: "(string \<Rightarrow> 'e decoded) \<Rightarrow> string list \<Rightarrow> 'e option rust \<Rightarrow> 'e option rust" where
  "first_event decode [] r = r"
| "first_event decode (s # ss) r =
     (case decode s of
        NotBase64 \<Rightarrow> first_event decode ss r
      | TooShort \<Rightarrow> Inl Panic
      | OtherEvent \<Rightarrow> first_event decode ss r
      | Decoded e \<Rightarrow> Inr e)"

text \<open>
  Logs the reader can follow: a program id has 32 to 44 characters without blanks and colons, calls
  are at most nine deep, data has no blank and does not start like \<^verbatim>\<open>success\<close>, and no other line
  looks like one that the reader knows.
\<close>

definition program_id_ok :: "string \<Rightarrow> bool" where
  "program_id_ok p \<longleftrightarrow> 32 \<le> length p \<and> length p \<le> 44 \<and> list_all (\<lambda>c. c \<notin> whitespace \<and> c \<noteq> CHR '':'') p"

fun frame_ok :: "nat \<Rightarrow> frame \<Rightarrow> bool" where
  "frame_ok d (Data s) \<longleftrightarrow> CHR '' '' \<notin> set s \<and> \<not> has_prefix ''success'' s"
| "frame_ok d (Line l) \<longleftrightarrow> \<not> program_start_pattern l \<and> \<not> program_end_pattern l \<and> \<not> has_prefix ''Program data:'' l"
| "frame_ok d (Call p fs) \<longleftrightarrow> d \<le> 9 \<and> program_id_ok p \<and> list_all (frame_ok (Suc d)) fs"

section \<open>Matching\<close>

lemma after_any_anywhere: "after_any P s \<Longrightarrow> anywhere P s"
  by (induction s) auto

lemma after_any_append: "CHR 0x0A \<notin> set a \<Longrightarrow> after_any P b \<Longrightarrow> after_any P (a @ b)"
  by (induction a) auto

lemma anywhere_drop: "anywhere P (drop n s) \<Longrightarrow> anywhere P s"
proof (induction s arbitrary: n)
  case (Cons c s)
  then show ?case by (cases n) auto
qed simp

lemma anywhere_blank:
  assumes "\<And>s. P s \<Longrightarrow> \<exists>r. s = CHR '' '' # r" "CHR '' '' \<notin> set a"
  shows "anywhere P (a @ b) \<longleftrightarrow> anywhere P b"
  using assms(2)
proof (induction a)
  case (Cons c a)
  then have "\<not> P (c # a @ b)" using assms(1) by force
  with Cons show ?case by auto
qed simp

lemma pattern_tail:
  assumes "anywhere (\<lambda>s. has_prefix ''Program '' s \<and> after_any P (drop 8 s)) (''Program '' @ t)"
  shows "anywhere P t"
proof -
  have inner: "anywhere P s" if "anywhere (\<lambda>s. has_prefix ''Program '' s \<and> after_any P (drop 8 s)) s" for s
    using that
  proof (induction s)
    case (Cons c s)
    then consider "after_any P (drop 8 (c # s))" | "anywhere (\<lambda>s. has_prefix ''Program '' s \<and> after_any P (drop 8 s)) s"
      by auto
    then show ?case
    proof cases
      case 1
      then show ?thesis using after_any_anywhere anywhere_drop by blast
    next
      case 2
      then show ?thesis using Cons.IH by simp
    qed
  next
    case Nil
    then show ?case by (simp add: has_prefix_def)
  qed
  have "after_any P t \<or> anywhere (\<lambda>s. has_prefix ''Program '' s \<and> after_any P (drop 8 s)) t"
    using assms by (simp add: has_prefix_def)
  then show ?thesis using after_any_anywhere inner by blast
qed

lemma blank_parts: "invoke_part s \<Longrightarrow> \<exists>r. s = CHR '' '' # r" "has_prefix '' success'' s \<Longrightarrow> \<exists>r. s = CHR '' '' # r"
  by (cases s; auto simp: invoke_part_def has_prefix_def split: if_splits)+

lemma program_id_chars:
  assumes "program_id_ok p"
  shows "CHR '' '' \<notin> set p" "CHR 0x0A \<notin> set p" "CHR '':'' \<notin> set p" "p \<noteq> []" "\<forall>c \<in> set p. c \<notin> whitespace"
proof -
  have all: "\<forall>c \<in> set p. c \<notin> whitespace \<and> c \<noteq> CHR '':''" and len: "32 \<le> length p"
    using assms by (simp_all add: program_id_ok_def list_all_iff)
  have ws: "CHR '' '' \<in> whitespace" "CHR 0x0A \<in> whitespace" by (simp_all add: whitespace_def)
  show "CHR '' '' \<notin> set p" using all ws(1) by metis
  show "CHR 0x0A \<notin> set p" using all ws(2) by metis
  show "CHR '':'' \<notin> set p" using all by metis
  show "p \<noteq> []" using len by (metis list.size(3) not_numeral_le_zero)
  show "\<forall>c \<in> set p. c \<notin> whitespace" using all by metis
qed

lemma not_data_line:
  assumes "program_id_ok p" "CHR '':'' \<notin> set b"
  shows "\<not> has_prefix ''Program data:'' (''Program '' @ p @ b)"
proof
  assume "has_prefix ''Program data:'' (''Program '' @ p @ b)"
  then have "take 5 (p @ b) = ''data:''" by (simp add: has_prefix_def eval_nat_numeral)
  then have "CHR '':'' \<in> set (p @ b)" by (metis in_set_takeD list.set_intros)
  then show False using program_id_chars(3) [OF assms(1)] assms(2) by simp
qed

lemma call_line:
  assumes "program_id_ok p" "c \<in> set ''0123456789''"
  shows "program_start_pattern (''Program '' @ p @ '' invoke ['' @ [c] @ '']'')"
    "\<not> program_end_pattern (''Program '' @ p @ '' invoke ['' @ [c] @ '']'')"
    "\<not> has_prefix ''Program data:'' (''Program '' @ p @ '' invoke ['' @ [c] @ '']'')"
proof -
  note p = program_id_chars [OF assms(1)]
  have "after_any invoke_part ('' invoke ['' @ [c] @ '']'')" using assms(2) by (simp add: invoke_part_def has_prefix_def)
  then have "after_any invoke_part (p @ '' invoke ['' @ [c] @ '']'')" by (rule after_any_append [OF p(2)])
  then show "program_start_pattern (''Program '' @ p @ '' invoke ['' @ [c] @ '']'')"
    by (simp add: program_start_pattern_def has_prefix_def)
  have "\<not> anywhere (has_prefix '' success'') ('' invoke ['' @ [c] @ '']'')" using assms(2) by (auto simp: has_prefix_def)
  then have "\<not> anywhere (has_prefix '' success'') (p @ '' invoke ['' @ [c] @ '']'')"
    by (subst anywhere_blank [OF blank_parts(2) p(1)])
  then show "\<not> program_end_pattern (''Program '' @ p @ '' invoke ['' @ [c] @ '']'')"
    unfolding program_end_pattern_def using pattern_tail by blast
  show "\<not> has_prefix ''Program data:'' (''Program '' @ p @ '' invoke ['' @ [c] @ '']'')"
    using not_data_line [OF assms(1), of "'' invoke ['' @ [c] @ '']''"] assms(2) by auto
qed

lemma return_line:
  assumes "program_id_ok p"
  shows "\<not> program_start_pattern (''Program '' @ p @ '' success'')" "program_end_pattern (''Program '' @ p @ '' success'')"
    "\<not> has_prefix ''Program data:'' (''Program '' @ p @ '' success'')"
proof -
  note p = program_id_chars [OF assms]
  have "after_any (has_prefix '' success'') '' success''" by (simp add: has_prefix_def)
  then have "after_any (has_prefix '' success'') (p @ '' success'')" by (rule after_any_append [OF p(2)])
  then show "program_end_pattern (''Program '' @ p @ '' success'')"
    by (simp add: program_end_pattern_def has_prefix_def)
  have "\<not> anywhere invoke_part '' success''" by (simp add: invoke_part_def has_prefix_def)
  then have "\<not> anywhere invoke_part (p @ '' success'')"
    by (subst anywhere_blank [OF blank_parts(1) p(1)])
  then show "\<not> program_start_pattern (''Program '' @ p @ '' success'')"
    unfolding program_start_pattern_def using pattern_tail by blast
  show "\<not> has_prefix ''Program data:'' (''Program '' @ p @ '' success'')"
    using not_data_line [OF assms, of "'' success''"] by simp
qed

lemma data_line:
  assumes "CHR '' '' \<notin> set s" "\<not> has_prefix ''success'' s"
  shows "\<not> program_start_pattern (''Program data: '' @ s)" "\<not> program_end_pattern (''Program data: '' @ s)"
    "has_prefix ''Program data:'' (''Program data: '' @ s)" "drop 14 (''Program data: '' @ s) = s"
proof -
  have tail: "''Program data: '' @ s = ''Program '' @ ''data: '' @ s" by simp
  have none: "\<not> anywhere P s" if "\<And>s. P s \<Longrightarrow> \<exists>r. s = CHR '' '' # r" for P
    using anywhere_blank [of P s "[]", OF that assms(1)] that by (auto dest: that)
  have s: "\<not> anywhere invoke_part s" "\<not> anywhere (has_prefix '' success'') s" using none blank_parts by blast+
  have "\<not> invoke_part (CHR '' '' # s)"
  proof
    assume "invoke_part (CHR '' '' # s)"
    then have "take 8 s = ''invoke [''" by (simp add: invoke_part_def has_prefix_def eval_nat_numeral)
    then have "CHR '' '' \<in> set (take 8 s)" by simp
    then show False using assms(1) by (meson in_set_takeD)
  qed
  with s(1) have "\<not> anywhere invoke_part (''data: '' @ s)" by (simp add: invoke_part_def has_prefix_def)
  then show "\<not> program_start_pattern (''Program data: '' @ s)"
    unfolding program_start_pattern_def tail using pattern_tail by blast
  have "\<not> has_prefix '' success'' (CHR '' '' # s)" using assms(2) by (simp add: has_prefix_def)
  with s(2) have "\<not> anywhere (has_prefix '' success'') (''data: '' @ s)" by (simp add: has_prefix_def)
  then show "\<not> program_end_pattern (''Program data: '' @ s)"
    unfolding program_end_pattern_def tail using pattern_tail by blast
qed (simp_all add: has_prefix_def)

section \<open>The stack\<close>

lemma dropWhile_keeps: "\<not> P a \<Longrightarrow> set (a # zs) \<subseteq> set (dropWhile P (xs @ a # zs))"
  by (induction xs) auto

lemma trim_word:
  assumes "program_id_ok p"
  shows "trim p = p" "trim (p @ '' '') = p" "CHR '' '' \<in> set (trim (p @ '' i'' @ r))"
proof -
  obtain c q where p: "p = c # q" "c \<notin> whitespace" using program_id_chars(4,5) [OF assms] by (cases p) auto
  have "rev p \<noteq> []" "\<forall>c \<in> set (rev p). c \<notin> whitespace" using program_id_chars(4,5) [OF assms] by auto
  then obtain d w where w: "rev p = d # w" "d \<notin> whitespace" by (cases "rev p") auto
  have ws: "CHR '' '' \<in> whitespace" "CHR ''i'' \<notin> whitespace" by (simp_all add: whitespace_def)
  have left: "dropWhile (\<lambda>c. c \<in> whitespace) (p @ x) = p @ x" for x using p by simp
  have p_rev: "rev (d # w) = p" using w(1) by (metis rev_rev_ident)
  have right: "rev (dropWhile (\<lambda>c. c \<in> whitespace) (rev p)) = p"
    unfolding w(1) using w(2) p_rev by simp
  have blank: "dropWhile (\<lambda>c. c \<in> whitespace) (rev (p @ '' '')) = dropWhile (\<lambda>c. c \<in> whitespace) (rev p)"
    using ws(1) by simp
  show "trim p = p" unfolding trim_def using left [of "[]"] right by simp
  show "trim (p @ '' '') = p" unfolding trim_def left blank by (rule right)
  have "CHR '' '' \<in> set (dropWhile (\<lambda>c. c \<in> whitespace) (rev r @ CHR ''i'' # CHR '' '' # rev p))"
    using dropWhile_keeps [of "\<lambda>c. c \<in> whitespace", OF ws(2)] by fastforce
  then show "CHR '' '' \<in> set (trim (p @ '' i'' @ r))" by (simp add: trim_def left)
qed

lemma pushed:
  assumes "program_id_ok p" "program_id_ok program_id" "43 \<le> length program_id"
  shows "trim (take 44 (drop 8 (''Program '' @ p @ '' invoke ['' @ b))) = program_id \<longleftrightarrow> p = program_id"
proof -
  have d: "drop 8 (''Program '' @ p @ '' invoke ['' @ b) = p @ CHR '' '' # CHR ''i'' # ''nvoke ['' @ b" by simp
  consider "length p = 44" | "length p = 43" | "length p \<le> 42" using assms(1) unfolding program_id_ok_def by linarith
  then show ?thesis
  proof cases
    case 1
    then show ?thesis unfolding d by (simp add: trim_word(1) [OF assms(1)])
  next
    case 2
    then have "take 44 (p @ CHR '' '' # CHR ''i'' # ''nvoke ['' @ b) = p @ '' ''" by simp
    then show ?thesis unfolding d by (simp only: trim_word(2) [OF assms(1)])
  next
    case 3
    then obtain n where n: "44 = length p + Suc (Suc n)" by (auto dest!: le_Suc_ex)
    have "take 44 (p @ CHR '' '' # CHR ''i'' # ''nvoke ['' @ b) = p @ '' i'' @ take n (''nvoke ['' @ b)"
      unfolding n by simp
    then have "CHR '' '' \<in> set (trim (take 44 (p @ CHR '' '' # CHR ''i'' # ''nvoke ['' @ b)))"
      using trim_word(3) [OF assms(1)] by metis
    then show ?thesis using program_id_chars(1) [OF assms(2)] 3 assms(3) unfolding d by auto
  qed
qed

lemma first_event_append: "first_event decode (xs @ ys) r = first_event decode xs (first_event decode ys r)"
  by (induction xs) (auto split: decoded.split)

text \<open>
  What is logged under a stack: data is read under the program on its top, calls leave the stack as
  it was.
\<close>

definition stack_shows :: "string \<Rightarrow> string \<Rightarrow> string list \<Rightarrow> bool" where
  "stack_shows program_id running st \<longleftrightarrow> st \<noteq> [] \<and> (hd st = program_id \<longleftrightarrow> running = program_id)"

lemma parse_frame:
  assumes "program_id_ok program_id" "43 \<le> length program_id" "frame_ok d f"
    and "stack_shows program_id running st \<or> (\<forall>s. f \<noteq> Data s)"
  shows "parse_from decode program_id st (print_log d f @ logs) =
    first_event decode (data_of running program_id f) (parse_from decode program_id st logs)"
  using assms(3,4)
proof (induction f arbitrary: d running st logs)
  case (Data s)
  then obtain t ts where "st = t # ts" "t = program_id \<longleftrightarrow> running = program_id"
    by (cases st) (auto simp: stack_shows_def)
  with Data data_line [of s] show ?case by (auto split: decoded.split)
next
  case (Line l)
  then show ?case by simp
next
  case (Call p fs)
  have "d < length ''0123456789''" using Call.prems(1) by simp
  then have digit: "''0123456789'' ! d \<in> set ''0123456789''" by (rule nth_mem)
  have p: "program_id_ok p" and ok: "list_all (frame_ok (Suc d)) fs" using Call.prems(1) by simp_all
  let ?push = "trim (take 44 (drop 8 (''Program '' @ p @ '' invoke ['' @ [''0123456789'' ! d] @ '']'')))"
  have "?push = program_id \<longleftrightarrow> p = program_id" by (rule pushed [OF p assms(1,2)])
  then have shows_p: "stack_shows program_id p (?push # st)" by (simp add: stack_shows_def)
  have inner: "parse_from decode program_id (?push # st) (concat (map (print_log (Suc d)) fs) @ rest) =
      first_event decode (concat (map (data_of p program_id) fs)) (parse_from decode program_id (?push # st) rest)" for rest
    using ok Call.IH
  proof (induction fs arbitrary: rest)
    case (Cons f fs)
    have "parse_from decode program_id (?push # st) (print_log (Suc d) f @ concat (map (print_log (Suc d)) fs) @ rest) =
        first_event decode (data_of p program_id f)
          (parse_from decode program_id (?push # st) (concat (map (print_log (Suc d)) fs) @ rest))"
      using Cons.prems shows_p by (intro Cons.prems(2)) auto
    with Cons show ?case by (simp add: first_event_append)
  qed simp
  have start: "parse_from decode program_id st ((''Program '' @ p @ '' invoke ['' @ [''0123456789'' ! d] @ '']'') # rest) =
      parse_from decode program_id (?push # st) rest" for rest
    using call_line [OF p digit] by (simp del: append.simps append_Cons)
  have return: "parse_from decode program_id (?push # st) ((''Program '' @ p @ '' success'') # rest) =
      parse_from decode program_id st rest" for rest
    using return_line [OF p] by (simp del: append.simps append_Cons)
  have "print_log d (Call p fs) @ logs = (''Program '' @ p @ '' invoke ['' @ [''0123456789'' ! d] @ '']'') #
      concat (map (print_log (Suc d)) fs) @ (''Program '' @ p @ '' success'') # logs"
    by simp
  then show ?case by (simp only: start inner return data_of.simps)
qed

lemma parse_frames:
  assumes "program_id_ok program_id" "43 \<le> length program_id" "\<forall>f \<in> set frames. frame_ok d f \<and> (\<forall>s. f \<noteq> Data s)"
  shows "parse_from decode program_id st (concat (map (print_log d) frames) @ logs) =
    first_event decode (concat (map (data_of running program_id) frames)) (parse_from decode program_id st logs)"
  using assms(3)
proof (induction frames)
  case (Cons f frames)
  then show ?case
    using parse_frame [OF assms(1,2), where decode = decode and d = d and f = f and running = running and st = st]
    by (simp add: first_event_append)
qed simp

text \<open>A line of a program that says success takes it off the stack, and its event is not found.\<close>

definition amm_id :: string where
  "amm_id = ''Eo7WjKq67rjJQSZxS6z3YkapzY3eMj6Xy8X5EQVn5UaB''"

lemma success_line_hides_event:
  "parse_event_log (\<lambda>s. Decoded (Some s))
     [''Program '' @ amm_id @ '' invoke [1]'', ''Program log: swap success'', ''Program data: AAAA'',
      ''Program '' @ amm_id @ '' success''] amm_id = Inr None"
  by code_simp

section \<open>Properties\<close>

text \<open>
  C13. The reader of event logs finds what it is for: of a log that the runtime writes for any nesting
  of program calls, it returns the first event of the wanted type that the wanted program logs
  itself, at any depth of calls, and never one that another program logs; it returns nothing when
  there is none, and panics on data shorter than the tag of an event before it. Program ids have
  their length of 32 to 44 characters, the wanted one at least 43, and no other line looks like a
  call, a return or data.
\<close>

theorem event_reader_finds_own_event:
  assumes "program_id_ok program_id" "43 \<le> length program_id" "\<forall>f \<in> set frames. frame_ok 1 f \<and> (\<forall>s. f \<noteq> Data s)"
  shows "parse_event_log decode (concat (map (print_log 1) frames)) program_id =
    first_event decode (concat (map (data_of running program_id) frames)) (Inr None)"
  using parse_frames [OF assms, of decode "[]" "[]" running] by (simp add: parse_event_log_def)

theorem event_reader_finds_own_event_witness:
  "parse_event_log (\<lambda>s. if s = ''other'' then OtherEvent else Decoded (Some s))
     (concat (map (print_log 1) [Call (replicate 32 CHR ''1'') [Line ''Program log: a'', Data ''taken'',
        Call amm_id [Data ''other'', Call (replicate 32 CHR ''2'') [Data ''foreign''], Data ''wanted'']]])) amm_id =
   Inr (Some ''wanted'')"
proof -
  let ?frames = "[Call (replicate 32 CHR ''1'') [Line ''Program log: a'', Data ''taken'',
        Call amm_id [Data ''other'', Call (replicate 32 CHR ''2'') [Data ''foreign''], Data ''wanted'']]]"
  let ?decode = "\<lambda>s. if s = ''other'' then OtherEvent else Decoded (Some s)"
  have "program_id_ok amm_id" "43 \<le> length amm_id" by code_simp+
  moreover have "\<forall>f \<in> set ?frames. frame_ok 1 f \<and> (\<forall>s. f \<noteq> Data s)"
  proof -
    have "list_all (frame_ok 1) ?frames" by code_simp
    then show ?thesis by simp
  qed
  moreover have "first_event ?decode (concat (map (data_of [] amm_id) ?frames)) (Inr None) = Inr (Some ''wanted'')"
    by code_simp
  ultimately show ?thesis using event_reader_finds_own_event [of amm_id ?frames ?decode "[]"] by (simp only:)
qed

end
