(* ===== verification/RustClient.thy ===== *)
theory RustClient
  imports ProgramAccounts EventLog
begin

text \<open>
  The commands of the Rust command line client (rust-client/src/instructions/dynamic_amm): the
  instructions that a swap, a deposit, a withdrawal and a pool creation send, and what the pool
  info and quote commands print. What the connection returns is the record \<open>rustRpc\<close>; an \<^verbatim>\<open>unwrap\<close>
  of nothing panics. With them come the estimate of fees and the retries (fee_estimation.rs, rpc.rs).
  The lemmas compare the instructions with those of the TypeScript client.
\<close>

section \<open>Instructions and the connection\<close>

datatype rsInstruction =
    RsSetComputeUnitPrice int
  | RsSetComputeUnitLimit int
  | RsCreateAta pubkey pubkey pubkey pubkey \<comment> \<open>payer, wallet, mint, token program\<close>
  | RsProgramIx pubkey string "ixArg list" namedAccounts \<comment> \<open>program, method, arguments, accounts\<close>

text \<open>The signed instructions of \<^verbatim>\<open>Transaction::new_signed_with_payer\<close> are its list here.\<close>

record rustRpc =
  rpc_pool :: "pubkey \<Rightarrow> poolState option"
  rpc_vault :: "pubkey \<Rightarrow> vaultState option"
  rpc_exists :: "pubkey \<Rightarrow> bool" \<comment> \<open>\<^verbatim>\<open>get_account\<close> does not fail\<close>
  rpc_token_amount :: "pubkey \<Rightarrow> int option"
  rpc_mint_supply :: "pubkey \<Rightarrow> int option"
  rpc_data :: "pubkey \<Rightarrow> bytes option"
  rpc_clock :: "clock option"
  rpc_simulate :: "rsInstruction list \<Rightarrow> string list option option" \<comment> \<open>an error, or the logs if any\<close>

definition DEFAULT_COMPUTE_UNIT :: int where "DEFAULT_COMPUTE_UNIT = 200000"
definition CREATE_POOL_COMPUTE_UNIT :: int where "CREATE_POOL_COMPUTE_UNIT = 400000"

abbreviation unwrap :: "'a option \<Rightarrow> 'a rust" where
  "unwrap x \<equiv> of_option Panic x"

text \<open>\<^verbatim>\<open>unwrap\<close> of a result panics whatever the error.\<close>

definition unwrap_result :: "'a rust \<Rightarrow> 'a rust" where
  "unwrap_result r = (case r of Inl _ \<Rightarrow> Inl Panic | Inr x \<Rightarrow> Inr x)"

section \<open>Swap\<close>

definition rs_swap_accounts ::
  "rustEnv \<Rightarrow> pubkey \<Rightarrow> poolState \<Rightarrow> vaultState \<Rightarrow> vaultState \<Rightarrow> pubkey \<Rightarrow> pubkey \<Rightarrow> pubkey \<Rightarrow> pubkey \<Rightarrow> namedAccounts" where
  "rs_swap_accounts E pool ps a_vault_state b_vault_state user source_token user_destination_token protocol_token_fee =
     [(''pool'', pool),
      (''user_source_token'', rs_get_associated_token_address E user source_token),
      (''user_destination_token'', user_destination_token),
      (''a_vault_lp'', aVaultLp ps),
      (''b_vault_lp'', bVaultLp ps),
      (''a_vault'', aVault ps),
      (''b_vault'', bVault ps),
      (''a_vault_lp_mint'', v_lpMint a_vault_state),
      (''b_vault_lp_mint'', v_lpMint b_vault_state),
      (''a_token_vault'', v_tokenVault a_vault_state),
      (''b_token_vault'', v_tokenVault b_vault_state),
      (''user'', user),
      (''vault_program'', dynamic_vault_ID),
      (''token_program'', TOKEN_PROGRAM_ID),
      (''protocol_token_fee'', protocol_token_fee)]"

definition process_swap_dynamic_pool ::
  "rustEnv \<Rightarrow> rustRpc \<Rightarrow> int \<Rightarrow> pubkey \<Rightarrow> pubkey \<Rightarrow> int \<Rightarrow> int \<Rightarrow> pubkey \<Rightarrow> rsInstruction list rust" where
  "process_swap_dynamic_pool E rpc priority_fee keypair pool in_amount minimum_out_amount source_token =
     rbind (unwrap (rpc_pool rpc pool)) (\<lambda>ps.
     rbind (unwrap (rpc_vault rpc (aVault ps))) (\<lambda>a_vault_state.
     rbind (unwrap (rpc_vault rpc (bVault ps))) (\<lambda>b_vault_state.
     let (user_destination_token, protocol_token_fee, destination_mint) =
           (if source_token = tokenAMint ps
            then (rs_get_associated_token_address E keypair (tokenBMint ps), protocolTokenAFee ps, tokenBMint ps)
            else (rs_get_associated_token_address E keypair (tokenAMint ps), protocolTokenBFee ps, tokenAMint ps)) in
     Inr ([RsSetComputeUnitPrice priority_fee, RsSetComputeUnitLimit DEFAULT_COMPUTE_UNIT] @
          (if rpc_exists rpc user_destination_token then []
           else [RsCreateAta keypair keypair destination_mint TOKEN_PROGRAM_ID]) @
          [RsProgramIx dynamic_amm_ID ''swap'' [BNArg in_amount, BNArg minimum_out_amount]
             (rs_swap_accounts E pool ps a_vault_state b_vault_state keypair source_token user_destination_token
                protocol_token_fee)]))))"

section \<open>Deposit and withdrawal\<close>

definition balance_liquidity_accounts ::
  "rustEnv \<Rightarrow> pubkey \<Rightarrow> poolState \<Rightarrow> vaultState \<Rightarrow> vaultState \<Rightarrow> pubkey \<Rightarrow> namedAccounts" where
  "balance_liquidity_accounts E pool ps a_vault_state b_vault_state user =
     [(''pool'', pool),
      (''lp_mint'', lpMint ps),
      (''user_pool_lp'', rs_get_associated_token_address E user (lpMint ps)),
      (''a_vault_lp'', aVaultLp ps),
      (''b_vault_lp'', bVaultLp ps),
      (''a_vault'', aVault ps),
      (''b_vault'', bVault ps),
      (''a_vault_lp_mint'', v_lpMint a_vault_state),
      (''b_vault_lp_mint'', v_lpMint b_vault_state),
      (''a_token_vault'', v_tokenVault a_vault_state),
      (''b_token_vault'', v_tokenVault b_vault_state),
      (''user_a_token'', rs_get_associated_token_address E user (tokenAMint ps)),
      (''user_b_token'', rs_get_associated_token_address E user (tokenBMint ps)),
      (''user'', user),
      (''vault_program'', dynamic_vault_ID),
      (''token_program'', TOKEN_PROGRAM_ID)]"

text \<open>The amounts of the event \<^verbatim>\<open>PoolInfo\<close> that the program logs when \<^verbatim>\<open>get_pool_info\<close> is simulated.\<close>

definition get_pool_info_ix :: "pubkey \<Rightarrow> poolState \<Rightarrow> vaultState \<Rightarrow> vaultState \<Rightarrow> rsInstruction" where
  "get_pool_info_ix pool ps a_vault_state b_vault_state =
     RsProgramIx dynamic_amm_ID ''get_pool_info'' []
       [(''a_vault'', aVault ps),
        (''a_vault_lp'', aVaultLp ps),
        (''a_vault_lp_mint'', v_lpMint a_vault_state),
        (''b_vault'', bVault ps),
        (''b_vault_lp'', bVaultLp ps),
        (''b_vault_lp_mint'', v_lpMint b_vault_state),
        (''lp_mint'', lpMint ps),
        (''pool'', pool)]"

definition get_pool_token_amount ::
  "rustRpc \<Rightarrow> (string \<Rightarrow> (int \<times> int) decoded) \<Rightarrow> pubkey \<Rightarrow> poolState \<Rightarrow> vaultState \<Rightarrow> vaultState \<Rightarrow> int \<Rightarrow> int \<Rightarrow> int \<Rightarrow> int rust" where
  "get_pool_token_amount rpc decode pool ps a_vault_state b_vault_state max_token_a_amount max_token_b_amount slippage_rate =
     rbind (context_of (rpc_simulate rpc [get_pool_info_ix pool ps a_vault_state b_vault_state]) ''simulation'') (\<lambda>result.
     rbind (unwrap result) (\<lambda>logs.
     rbind (parse_event_log decode logs (toBase58 dynamic_amm_ID)) (\<lambda>event.
     rbind (unwrap event) (\<lambda>(token_a_amount, token_b_amount).
     rbind (context_of (rpc_mint_supply rpc (lpMint ps)) ''account'') (\<lambda>supply.
     rbind (unwrap (checked 128 (max_token_a_amount * supply))) (\<lambda>product_a.
     rbind (unwrap (checked_div product_a token_a_amount)) (\<lambda>pool_token_by_a.
     rbind (unwrap (checked 128 (max_token_b_amount * supply))) (\<lambda>product_b.
     rbind (unwrap (checked_div product_b token_b_amount)) (\<lambda>pool_token_by_b.
     rbind (unwrap (checked 128 (100 - slippage_rate))) (\<lambda>rate.
     rbind (unwrap (checked 128 (min pool_token_by_a pool_token_by_b * rate))) (\<lambda>scaled.
     rbind (unwrap (checked_div scaled 100)) (\<lambda>pool_token_amount.
     Inr (as_u64 pool_token_amount)))))))))))))"

definition process_deposit_dynamic_pool ::
  "rustEnv \<Rightarrow> rustRpc \<Rightarrow> (string \<Rightarrow> (int \<times> int) decoded) \<Rightarrow> int \<Rightarrow> pubkey \<Rightarrow> pubkey \<Rightarrow> int \<Rightarrow> int \<Rightarrow> int \<Rightarrow> rsInstruction list rust" where
  "process_deposit_dynamic_pool E rpc decode priority_fee keypair pool max_token_a_amount max_token_b_amount slippage_rate =
     rbind (unwrap (rpc_pool rpc pool)) (\<lambda>ps.
     let user_pool_lp = rs_get_associated_token_address E keypair (lpMint ps) in
     rbind (unwrap (rpc_vault rpc (aVault ps))) (\<lambda>a_vault_state.
     rbind (unwrap (rpc_vault rpc (bVault ps))) (\<lambda>b_vault_state.
     rbind (unwrap_result (get_pool_token_amount rpc decode pool ps a_vault_state b_vault_state max_token_a_amount
              max_token_b_amount slippage_rate)) (\<lambda>pool_token_amount.
     Inr ([RsSetComputeUnitPrice priority_fee, RsSetComputeUnitLimit DEFAULT_COMPUTE_UNIT] @
          (if rpc_exists rpc user_pool_lp then [] else [RsCreateAta keypair keypair (lpMint ps) TOKEN_PROGRAM_ID]) @
          [RsProgramIx dynamic_amm_ID ''add_balance_liquidity''
             [BNArg pool_token_amount, BNArg max_token_a_amount, BNArg max_token_b_amount]
             (balance_liquidity_accounts E pool ps a_vault_state b_vault_state keypair)])))))"

definition process_withdraw_dynamic_pool ::
  "rustEnv \<Rightarrow> rustRpc \<Rightarrow> int \<Rightarrow> pubkey \<Rightarrow> pubkey \<Rightarrow> int \<Rightarrow> int \<Rightarrow> int \<Rightarrow> rsInstruction list rust" where
  "process_withdraw_dynamic_pool E rpc priority_fee keypair pool pool_token_amount minimum_a_token_out minimum_b_token_out =
     rbind (unwrap (rpc_pool rpc pool)) (\<lambda>ps.
     rbind (unwrap (rpc_vault rpc (aVault ps))) (\<lambda>a_vault_state.
     rbind (unwrap (rpc_vault rpc (bVault ps))) (\<lambda>b_vault_state.
     Inr [RsSetComputeUnitPrice priority_fee, RsSetComputeUnitLimit DEFAULT_COMPUTE_UNIT,
          RsProgramIx dynamic_amm_ID ''remove_balance_liquidity''
            [BNArg pool_token_amount, BNArg minimum_a_token_out, BNArg minimum_b_token_out]
            (balance_liquidity_accounts E pool ps a_vault_state b_vault_state keypair)])))"

section \<open>Pool creation\<close>

definition vault_initialize_ix :: "rustEnv \<Rightarrow> pubkey \<Rightarrow> pubkey \<Rightarrow> rsInstruction" where
  "vault_initialize_ix E keypair token_mint =
     (let vault = derive_vault_key E token_mint in
      RsProgramIx dynamic_vault_ID ''initialize'' []
        [(''vault'', vault),
         (''token_vault'', derive_token_vault_key E vault),
         (''token_mint'', token_mint),
         (''token_program'', TOKEN_PROGRAM_ID),
         (''lp_mint'', vault_derive_lp_mint_key E vault),
         (''rent'', SYSVAR_RENT_PUBKEY),
         (''system_program'', SystemProgram_programId),
         (''payer'', keypair)])"

definition create_pool_accounts :: "rustEnv \<Rightarrow> pubkey \<Rightarrow> pubkey \<Rightarrow> pubkey \<Rightarrow> int \<Rightarrow> namedAccounts" where
  "create_pool_accounts E keypair token_a_mint token_b_mint trade_fee_bps =
     (let a_vault = derive_vault_key E token_a_mint;
          b_vault = derive_vault_key E token_b_mint;
          pool = derive_permissionless_pool_key_with_fee_tier E ConstantProductCurve token_a_mint token_b_mint trade_fee_bps;
          pool_lp_mint = derive_lp_mint_key E pool in
     [(''pool'', pool),
      (''rent'', SYSVAR_RENT_PUBKEY),
      (''system_program'', SystemProgram_programId),
      (''payer'', keypair),
      (''a_vault'', a_vault),
      (''b_vault'', b_vault),
      (''a_token_vault'', derive_token_vault_key E a_vault),
      (''b_token_vault'', derive_token_vault_key E b_vault),
      (''a_vault_lp_mint'', vault_derive_lp_mint_key E a_vault),
      (''b_vault_lp_mint'', vault_derive_lp_mint_key E b_vault),
      (''lp_mint'', pool_lp_mint),
      (''token_a_mint'', token_a_mint),
      (''token_b_mint'', token_b_mint),
      (''token_program'', TOKEN_PROGRAM_ID),
      (''associated_token_program'', ASSOCIATED_TOKEN_PROGRAM_ID),
      (''a_vault_lp'', derive_vault_lp_key E a_vault pool),
      (''b_vault_lp'', derive_vault_lp_key E b_vault pool),
      (''payer_token_a'', rs_get_associated_token_address E keypair token_a_mint),
      (''payer_token_b'', rs_get_associated_token_address E keypair token_b_mint),
      (''payer_pool_lp'', rs_get_associated_token_address E keypair pool_lp_mint),
      (''protocol_token_a_fee'', derive_protocol_fee_key E token_a_mint pool),
      (''protocol_token_b_fee'', derive_protocol_fee_key E token_b_mint pool),
      (''fee_owner'', PublicKey_default),
      (''vault_program'', dynamic_vault_ID),
      (''metadata_program'', mpl_token_metadata_ID E),
      (''mint_metadata'', mpl_Metadata_find_pda E pool_lp_mint)])"

definition process_new_dynamic_pool ::
  "rustEnv \<Rightarrow> rustRpc \<Rightarrow> int \<Rightarrow> pubkey \<Rightarrow> pubkey \<Rightarrow> pubkey \<Rightarrow> int \<Rightarrow> int \<Rightarrow> int \<Rightarrow> rsInstruction list" where
  "process_new_dynamic_pool E rpc priority_fee keypair token_a_mint token_b_mint trade_fee_bps token_a_amount token_b_amount =
     [RsSetComputeUnitPrice priority_fee, RsSetComputeUnitLimit CREATE_POOL_COMPUTE_UNIT] @
     (if rpc_exists rpc (derive_vault_key E token_a_mint) then [] else [vault_initialize_ix E keypair token_a_mint]) @
     (if rpc_exists rpc (derive_vault_key E token_b_mint) then [] else [vault_initialize_ix E keypair token_b_mint]) @
     [RsProgramIx dynamic_amm_ID ''initialize_permissionless_pool_with_fee_tier''
        [CurveTypeArg ConstantProductCurve, BNArg trade_fee_bps, BNArg token_a_amount, BNArg token_b_amount]
        (create_pool_accounts E keypair token_a_mint token_b_mint trade_fee_bps)]"

section \<open>Pool info and quote\<close>

definition process_get_dynamic_pool_info :: "rustRpc \<Rightarrow> pubkey \<Rightarrow> (int \<times> int) rust" where
  "process_get_dynamic_pool_info rpc pool =
     rbind (unwrap (rpc_pool rpc pool)) (\<lambda>pool_state.
     rbind (unwrap (rpc_vault rpc (aVault pool_state))) (\<lambda>vault_a.
     rbind (unwrap (rpc_vault rpc (bVault pool_state))) (\<lambda>vault_b.
     rbind (unwrap (rpc_token_amount rpc (aVaultLp pool_state))) (\<lambda>pool_vault_a_lp_token.
     rbind (unwrap (rpc_token_amount rpc (bVaultLp pool_state))) (\<lambda>pool_vault_b_lp_token.
     rbind (unwrap (rpc_mint_supply rpc (v_lpMint vault_a))) (\<lambda>vault_a_lp_mint.
     rbind (unwrap (rpc_mint_supply rpc (v_lpMint vault_b))) (\<lambda>vault_b_lp_mint.
     rbind (unwrap (rpc_clock rpc)) (\<lambda>clk.
     rbind (unwrap_result (try_into_u64 (clk_unix_timestamp clk))) (\<lambda>current_time.
     rbind (unwrap (get_amount_by_share vault_a current_time pool_vault_a_lp_token vault_a_lp_mint)) (\<lambda>token_a_amount.
     rbind (unwrap (get_amount_by_share vault_b current_time pool_vault_b_lp_token vault_b_lp_mint)) (\<lambda>token_b_amount.
     Inr (token_a_amount, token_b_amount))))))))))))"

text \<open>Of the staking accounts only the one the pool names is read.\<close>

definition read_quote_data :: "rustRpc \<Rightarrow> pubkey \<Rightarrow> quoteData rust" where
  "read_quote_data rpc pool =
     rbind (unwrap (rpc_pool rpc pool)) (\<lambda>pool_state.
     rbind (unwrap (rpc_vault rpc (aVault pool_state))) (\<lambda>vault_a.
     rbind (unwrap (rpc_vault rpc (bVault pool_state))) (\<lambda>vault_b.
     rbind (unwrap (rpc_token_amount rpc (aVaultLp pool_state))) (\<lambda>pool_vault_a_lp_token.
     rbind (unwrap (rpc_token_amount rpc (bVaultLp pool_state))) (\<lambda>pool_vault_b_lp_token.
     rbind (unwrap (rpc_mint_supply rpc (v_lpMint vault_a))) (\<lambda>vault_a_lp_mint.
     rbind (unwrap (rpc_mint_supply rpc (v_lpMint vault_b))) (\<lambda>vault_b_lp_mint.
     rbind (unwrap (rpc_token_amount rpc (v_tokenVault vault_a))) (\<lambda>vault_a_token.
     rbind (unwrap (rpc_token_amount rpc (v_tokenVault vault_b))) (\<lambda>vault_b_token.
     rbind (unwrap (rpc_clock rpc)) (\<lambda>clk.
     rbind (if stake pool_state \<noteq> PublicKey_default
            then rbind (unwrap (rpc_data rpc (stake pool_state))) (\<lambda>data.
              Inr (Mapping.update (stake pool_state) data Mapping.empty))
            else Inr Mapping.empty) (\<lambda>stake_data.
     Inr \<lparr>qd_pool = pool_state, qd_vault_a = vault_a, qd_vault_b = vault_b,
          qd_pool_vault_a_lp_token = pool_vault_a_lp_token, qd_pool_vault_b_lp_token = pool_vault_b_lp_token,
          qd_vault_a_lp_mint = vault_a_lp_mint, qd_vault_b_lp_mint = vault_b_lp_mint,
          qd_vault_a_token = vault_a_token, qd_vault_b_token = vault_b_token, qd_clock = clk,
          qd_stake_data = stake_data\<rparr>)))))))))))"

definition process_quote_dynamic_pool :: "rustLib \<Rightarrow> rustRpc \<Rightarrow> pubkey \<Rightarrow> pubkey \<Rightarrow> int \<Rightarrow> quoteResult rust" where
  "process_quote_dynamic_pool R rpc pool source_token in_amount =
     rbind (read_quote_data rpc pool) (\<lambda>quote_data. compute_quote R source_token in_amount quote_data)"

section \<open>Fees and sending\<close>

text \<open>Plain arithmetic wraps at 64 bits, as in a release build.\<close>

definition TRANSFER_SOL_COMPUTE_UNIT :: int where "TRANSFER_SOL_COMPUTE_UNIT = 500"
definition DEFAULT_SIGNATURE_FEE :: int where "DEFAULT_SIGNATURE_FEE = 5000"
definition RENT_EXEMPTION_SYSTEM_ACCOUNT :: int where "RENT_EXEMPTION_SYSTEM_ACCOUNT = 890880"
definition MAX_RETRIES :: nat where "MAX_RETRIES = 5"

definition estimate_sol_transfer_fee :: "int \<Rightarrow> int" where
  "estimate_sol_transfer_fee priority_fee = as_u64 (as_u64 (priority_fee * TRANSFER_SOL_COMPUTE_UNIT) + DEFAULT_SIGNATURE_FEE)"

definition unwrap_or :: "'a option \<Rightarrow> 'a \<Rightarrow> 'a" where
  "unwrap_or x d = (case x of Some y \<Rightarrow> y | None \<Rightarrow> d)"

definition get_max_transfer_sol :: "int \<Rightarrow> int \<Rightarrow> int" where
  "get_max_transfer_sol current_balance transfer_fee =
     unwrap_or (checked 64 (unwrap_or (checked 64 (current_balance - transfer_fee)) 0 - RENT_EXEMPTION_SYSTEM_ACCOUNT)) 0"

text \<open>
  What the data of an instruction reads as, as an instruction of the compute budget: the price, the
  limit, or zero for any other. The argument \<open>other\<close> says it for instructions of other programs, and
  is nothing where the data does not decode.
\<close>

definition budget_amount :: "(rsInstruction \<Rightarrow> int option) \<Rightarrow> rsInstruction \<Rightarrow> int rust" where
  "budget_amount other ix =
     (case ix of
        RsSetComputeUnitPrice price \<Rightarrow> Inr price
      | RsSetComputeUnitLimit compute_unit \<Rightarrow> Inr compute_unit
      | _ \<Rightarrow> unwrap (other ix))"

definition estimate_transaction_fee :: "(rsInstruction \<Rightarrow> int option) \<Rightarrow> nat \<Rightarrow> rsInstruction list \<Rightarrow> int rust" where
  "estimate_transaction_fee other num_signature instructions =
     (let base_fee = as_u64 (int num_signature * DEFAULT_SIGNATURE_FEE) in
     rbind (guard (0 < length instructions) Panic) (\<lambda>_.
     rbind (budget_amount other (instructions ! 0)) (\<lambda>x.
     rbind (guard (1 < length instructions) Panic) (\<lambda>_.
     rbind (budget_amount other (instructions ! 1)) (\<lambda>y.
     Inr (if x = 0 \<and> y = 0 then 0 else as_u64 (base_fee + as_u64 (x * y))))))))"

text \<open>An attempt gives nothing when it fails; the attempts are numbered from \<open>i\<close>.\<close>

fun send_transaction :: "(nat \<Rightarrow> bool) \<Rightarrow> 's \<Rightarrow> nat \<Rightarrow> nat \<Rightarrow> 's rust" where
  "send_transaction sent signature i 0 = Inl (Anyhow ''Cannot send transaction'')"
| "send_transaction sent signature i (Suc n) =
     (if sent i then Inr signature else send_transaction sent signature (Suc i) n)"

lemma send_transaction_iff:
  "send_transaction sent signature i n =
     (if \<exists>k < n. sent (i + k) then Inr signature else Inl (Anyhow ''Cannot send transaction''))"
proof (induction n arbitrary: i)
  case (Suc n)
  have "(\<exists>k < Suc n. sent (i + k)) \<longleftrightarrow> sent i \<or> (\<exists>k < n. sent (Suc i + k))"
    by (auto simp: less_Suc_eq_0_disj)
  with Suc show ?case by simp
qed simp

text \<open>What may be transferred leaves the rent and the fee on the account.\<close>

lemma max_transfer_leaves_rent:
  assumes "0 \<le> balance" "balance < 2 ^ 64" "0 \<le> transfer_fee"
  shows "get_max_transfer_sol balance transfer_fee = max 0 (balance - transfer_fee - RENT_EXEMPTION_SYSTEM_ACCOUNT)"
  using assms by (auto simp: get_max_transfer_sol_def checked_def unwrap_or_def RENT_EXEMPTION_SYSTEM_ACCOUNT_def)

text \<open>
  The estimate multiplies the price by the limit; the price of a compute unit is in millionths of a
  lamport, so a swap with a priority fee of 1000 is estimated at 200005000 lamports instead of 5200.
\<close>

lemma estimate_takes_price_as_lamports:
  "estimate_transaction_fee other 1 (RsSetComputeUnitPrice 1000 # RsSetComputeUnitLimit DEFAULT_COMPUTE_UNIT # ixs) = Inr 200005000"
  by (simp add: estimate_transaction_fee_def budget_amount_def DEFAULT_SIGNATURE_FEE_def DEFAULT_COMPUTE_UNIT_def as_u64_def Let_def)

section \<open>Against the TypeScript client\<close>

text \<open>The connection of the Rust client has the state that the TypeScript client has loaded.\<close>

definition same_state :: "rustRpc \<Rightarrow> ammImpl \<Rightarrow> bool" where
  "same_state rpc self \<longleftrightarrow>
     (let ps = am_poolState self in
      rpc_pool rpc (am_address self) = Some ps \<and>
      rpc_vault rpc (aVault ps) = Some (vi_vaultState (am_vaultA self)) \<and>
      rpc_vault rpc (bVault ps) = Some (vi_vaultState (am_vaultB self)) \<and>
      am_program self = dynamic_amm_ID \<and> am_vaultProgram self = dynamic_vault_ID \<and>
      mint_address (am_tokenAMint self) = tokenAMint ps \<and> mint_address (am_tokenBMint self) = tokenBMint ps)"

text \<open>
  Both send the same call of the program: one instruction of the method with the same arguments and
  the same accounts. What the two add around it differs: the TypeScript client creates all token
  accounts, wraps SOL and passes the staking accounts of a curve, the Rust client does not.
\<close>

definition calls_alike :: "transaction \<Rightarrow> rsInstruction list \<Rightarrow> bool" where
  "calls_alike tx ixs \<longleftrightarrow>
     list_ex (\<lambda>ix. case ix of
         ProgramIx program name args accounts remaining \<Rightarrow>
           list_ex (\<lambda>rs. case rs of
               RsProgramIx program' name' args' accounts' \<Rightarrow>
                 program = program' \<and> program = dynamic_amm_ID \<and> name = camel name' \<and> args = args' \<and>
                 same_accounts (without_fee_owner accounts) (without_fee_owner (camel_accounts accounts'))
             | _ \<Rightarrow> False) ixs
       | _ \<Rightarrow> False) (tx_instructions tx)"

lemma calls_alikeI:
  assumes "ProgramIx dynamic_amm_ID (camel name) args accounts remaining \<in> set (tx_instructions tx)"
    and "RsProgramIx dynamic_amm_ID name args accounts' \<in> set ixs"
    and "same_accounts (without_fee_owner accounts) (without_fee_owner (camel_accounts accounts'))"
  shows "calls_alike tx ixs"
  using assms unfolding calls_alike_def list_ex_iff by force

lemma set_methodTx: "ix \<in> set (tx_instructions (newTransaction ch k (methodTx ix pre post)))"
  by (simp add: newTransaction_def methodTx_def)

context same_keys
begin

lemma token_account: "getOrCreateATAInstruction ch m owner q = Inr (a, i) \<Longrightarrow> a = rs_get_associated_token_address E owner m"
  by (auto simp: getOrCreateATAInstruction_def getAssociatedTokenAccount_def same_token_account Let_def split: option.splits)

lemma token_accounts:
  assumes "createATAPreInstructions ch owner ms = Inr atas" "i < length ms"
  shows "fst (atas ! i) = rs_get_associated_token_address E owner (ms ! i)"
  using rmap_Inr_nth [of _ ms atas i] assms token_account
  unfolding createATAPreInstructions_def by (metis prod.collapse)

text \<open>The two name the same accounts; only the order of the fields differs.\<close>

lemma swap_accounts_agree:
  assumes "am_vaultProgram self = dynamic_vault_ID" "us = rs_get_associated_token_address E owner m"
  shows "\<exists>accounts. swapIx self owner x y us ud fee rem =
      ProgramIx (am_program self) ''swap'' [BNArg x, BNArg y] accounts rem \<and>
    same_accounts (without_fee_owner accounts) (without_fee_owner (camel_accounts
      (rs_swap_accounts E (am_address self) (am_poolState self) (vi_vaultState (am_vaultA self))
        (vi_vaultState (am_vaultB self)) owner m ud fee)))"
  using assms by (simp add: swapIx_def rs_swap_accounts_def camel_accounts_def without_fee_owner_def same_accounts_def)

lemma swaps_alike:
  assumes st: "same_state rpc self" and m: "m \<in> {tokenAMint (am_poolState self), tokenBMint (am_poolState self)}"
    and tx: "swap ch self owner m x y None = Inr tx"
  shows "\<exists>ixs. process_swap_dynamic_pool E rpc fee owner (am_address self) x y m = Inr ixs \<and> calls_alike tx ixs"
proof -
  let ?ps = "am_poolState self" and ?ata = "rs_get_associated_token_address E owner"
  define d where "d = (if m = tokenAMint ?ps then tokenBMint ?ps else tokenAMint ?ps)"
  define pf where "pf = (if m = tokenAMint ?ps then protocolTokenAFee ?ps else protocolTokenBFee ?ps)"
  from tx m st obtain atas pre post where
    atas: "createATAPreInstructions ch owner [m, d] = Inr atas" and
    "tx = newTransaction ch owner (methodTx (swapIx self owner x y (fst (atas ! 0)) (fst (atas ! 1)) pf
      (curve_getRemainingAccounts (am_swapCurve self))) pre post)"
    unfolding swap_def Let_def same_state_def d_def pf_def
    by (auto split: if_splits prod.splits)
  then have mem: "swapIx self owner x y (?ata m) (?ata d) pf (curve_getRemainingAccounts (am_swapCurve self))
      \<in> set (tx_instructions tx)"
    using token_accounts [OF atas, of 0] token_accounts [OF atas, of 1] set_methodTx by simp
  from st have prog: "am_program self = dynamic_amm_ID" "am_vaultProgram self = dynamic_vault_ID"
    by (simp_all add: same_state_def Let_def)
  define accounts' where "accounts' = rs_swap_accounts E (am_address self) ?ps (vi_vaultState (am_vaultA self))
    (vi_vaultState (am_vaultB self)) owner m (?ata d) pf"
  obtain ixs where ixs: "process_swap_dynamic_pool E rpc fee owner (am_address self) x y m = Inr ixs"
    and rs: "RsProgramIx dynamic_amm_ID ''swap'' [BNArg x, BNArg y] accounts' \<in> set ixs"
    using st by (cases "m = tokenAMint ?ps") (simp_all add: process_swap_dynamic_pool_def same_state_def Let_def d_def pf_def accounts'_def)
  obtain accounts where "swapIx self owner x y (?ata m) (?ata d) pf (curve_getRemainingAccounts (am_swapCurve self)) =
      ProgramIx (am_program self) ''swap'' [BNArg x, BNArg y] accounts (curve_getRemainingAccounts (am_swapCurve self))"
    and same: "same_accounts (without_fee_owner accounts) (without_fee_owner (camel_accounts accounts'))"
    using swap_accounts_agree [OF prog(2) refl] unfolding accounts'_def by blast
  then have "ProgramIx dynamic_amm_ID (camel ''swap'') [BNArg x, BNArg y] accounts
      (curve_getRemainingAccounts (am_swapCurve self)) \<in> set (tx_instructions tx)"
    using mem prog(1) by simp
  from calls_alikeI [OF this rs same] ixs show ?thesis by blast
qed

lemma liquidity_accounts_agree:
  fixes self owner
  assumes "am_vaultProgram self = dynamic_vault_ID"
  defines "ata \<equiv> rs_get_associated_token_address E owner" and "ps \<equiv> am_poolState self"
  defines "rest \<equiv> curve_getRemainingAccounts (am_swapCurve self)"
    and "built \<equiv> balance_liquidity_accounts E (am_address self) ps (vi_vaultState (am_vaultA self))
      (vi_vaultState (am_vaultB self)) owner"
  shows "am_lpSupply self \<noteq> 0 \<Longrightarrow> \<not> isStablePool self \<Longrightarrow>
      \<exists>accounts. depositIx self owner x y lp (ata (tokenAMint ps)) (ata (tokenBMint ps)) (ata (lpMint ps)) =
        ProgramIx (am_program self) ''addBalanceLiquidity'' [BNArg lp, BNArg x, BNArg y] accounts rest \<and>
      same_accounts (without_fee_owner accounts) (without_fee_owner (camel_accounts built))"
    and "\<not> isStablePool self \<or> x \<noteq> 0 \<and> y \<noteq> 0 \<Longrightarrow>
      \<exists>accounts. withdrawIx self owner lp x y (ata (tokenAMint ps)) (ata (tokenBMint ps)) (ata (lpMint ps)) =
        ProgramIx (am_program self) ''removeBalanceLiquidity'' [BNArg lp, BNArg x, BNArg y] accounts rest \<and>
      same_accounts (without_fee_owner accounts) (without_fee_owner (camel_accounts built))"
  unfolding ata_def ps_def rest_def built_def
  by (auto simp: assms(1) depositIx_def depositMethod_def withdrawIx_def balance_liquidity_accounts_def camel_accounts_def
      without_fee_owner_def same_accounts_def Let_def)

lemma deposits_alike:
  assumes st: "same_state rpc self" and pool: "am_lpSupply self \<noteq> 0" "\<not> isStablePool self"
    and tx: "deposit ch self owner x y lp = Inr tx"
    and lp: "get_pool_token_amount rpc decode (am_address self) (am_poolState self) (vi_vaultState (am_vaultA self))
      (vi_vaultState (am_vaultB self)) x y slippage = Inr lp"
  shows "\<exists>ixs. process_deposit_dynamic_pool E rpc decode fee owner (am_address self) x y slippage = Inr ixs \<and>
    calls_alike tx ixs"
proof -
  let ?ps = "am_poolState self" and ?ata = "rs_get_associated_token_address E owner"
  let ?rest = "curve_getRemainingAccounts (am_swapCurve self)"
  from tx obtain atas pre post where
    atas: "createATAPreInstructions ch owner [tokenAMint ?ps, tokenBMint ?ps, lpMint ?ps] = Inr atas" and
    "tx = newTransaction ch owner (methodTx
      (depositIx self owner x y lp (fst (atas ! 0)) (fst (atas ! 1)) (fst (atas ! 2))) pre post)"
    unfolding deposit_def Let_def by auto
  then have mem: "depositIx self owner x y lp (?ata (tokenAMint ?ps)) (?ata (tokenBMint ?ps)) (?ata (lpMint ?ps))
      \<in> set (tx_instructions tx)"
    using token_accounts [OF atas, of 0] token_accounts [OF atas, of 1] token_accounts [OF atas, of 2] set_methodTx by simp
  from st have prog: "am_program self = dynamic_amm_ID" "am_vaultProgram self = dynamic_vault_ID"
    by (simp_all add: same_state_def Let_def)
  define built where "built = balance_liquidity_accounts E (am_address self) ?ps (vi_vaultState (am_vaultA self))
    (vi_vaultState (am_vaultB self)) owner"
  obtain ixs where ixs: "process_deposit_dynamic_pool E rpc decode fee owner (am_address self) x y slippage = Inr ixs"
    and rs: "RsProgramIx dynamic_amm_ID ''add_balance_liquidity'' [BNArg lp, BNArg x, BNArg y] built \<in> set ixs"
    using st lp by (simp add: process_deposit_dynamic_pool_def same_state_def unwrap_result_def Let_def built_def)
  obtain accounts where
    "ProgramIx dynamic_amm_ID ''addBalanceLiquidity'' [BNArg lp, BNArg x, BNArg y] accounts ?rest \<in> set (tx_instructions tx)"
    "same_accounts (without_fee_owner accounts) (without_fee_owner (camel_accounts built))"
    using liquidity_accounts_agree(1) [OF prog(2) pool, of owner x y lp] mem prog(1) unfolding built_def by metis
  with calls_alikeI [of "''add_balance_liquidity''", OF _ rs] ixs show ?thesis by simp
qed

lemma withdrawals_alike:
  assumes st: "same_state rpc self" and pool: "\<not> isStablePool self \<or> x \<noteq> 0 \<and> y \<noteq> 0"
    and tx: "withdraw ch self owner lp x y = Inr tx"
  shows "\<exists>ixs. process_withdraw_dynamic_pool E rpc fee owner (am_address self) lp x y = Inr ixs \<and> calls_alike tx ixs"
proof -
  let ?ps = "am_poolState self" and ?ata = "rs_get_associated_token_address E owner"
  let ?rest = "curve_getRemainingAccounts (am_swapCurve self)"
  from tx obtain atas pre post where
    atas: "createATAPreInstructions ch owner [tokenAMint ?ps, tokenBMint ?ps, lpMint ?ps] = Inr atas" and
    "tx = newTransaction ch owner (methodTx
      (withdrawIx self owner lp x y (fst (atas ! 0)) (fst (atas ! 1)) (fst (atas ! 2))) pre post)"
    unfolding withdraw_def Let_def by auto
  then have mem: "withdrawIx self owner lp x y (?ata (tokenAMint ?ps)) (?ata (tokenBMint ?ps)) (?ata (lpMint ?ps))
      \<in> set (tx_instructions tx)"
    using token_accounts [OF atas, of 0] token_accounts [OF atas, of 1] token_accounts [OF atas, of 2] set_methodTx by simp
  from st have prog: "am_program self = dynamic_amm_ID" "am_vaultProgram self = dynamic_vault_ID"
    by (simp_all add: same_state_def Let_def)
  define built where "built = balance_liquidity_accounts E (am_address self) ?ps (vi_vaultState (am_vaultA self))
    (vi_vaultState (am_vaultB self)) owner"
  obtain ixs where ixs: "process_withdraw_dynamic_pool E rpc fee owner (am_address self) lp x y = Inr ixs"
    and rs: "RsProgramIx dynamic_amm_ID ''remove_balance_liquidity'' [BNArg lp, BNArg x, BNArg y] built \<in> set ixs"
    using st by (simp add: process_withdraw_dynamic_pool_def same_state_def Let_def built_def)
  obtain accounts where
    "ProgramIx dynamic_amm_ID ''removeBalanceLiquidity'' [BNArg lp, BNArg x, BNArg y] accounts ?rest \<in> set (tx_instructions tx)"
    "same_accounts (without_fee_owner accounts) (without_fee_owner (camel_accounts built))"
    using liquidity_accounts_agree(2) [OF prog(2) pool, of owner lp] mem prog(1) unfolding built_def by metis
  with calls_alikeI [of "''remove_balance_liquidity''", OF _ rs] ixs show ?thesis by simp
qed

text \<open>The pool that the command creates is the one of the account builder, with no fee owner.\<close>

lemma created_pool_is_built:
  "same_accounts (without_fee_owner (camel_accounts (create_pool_accounts E payer a b fee)))
     (without_fee_owner (camel_accounts
        (initialize_permissionless_pool_with_fee_tier_accounts E IxConstantProduct fee a b payer)))"
  by (simp add: create_pool_accounts_def initialize_permissionless_pool_with_fee_tier_accounts_def
      get_or_derive_initialize_pool_related_keys_def CurveType_from_def camel_accounts_def without_fee_owner_def
      same_accounts_def metadata_pda account_keys_agree(2) Let_def)

end

section \<open>The amount of a deposit\<close>

text \<open>An amount of pool tokens in proportion to what the pool holds.\<close>

definition proportional :: "int \<Rightarrow> int \<Rightarrow> int \<Rightarrow> int \<Rightarrow> int \<Rightarrow> int" where
  "proportional max_a max_b supply a b = min (max_a * supply div a) (max_b * supply div b)"

lemma proportional_bounds:
  assumes "0 < a" "0 < b" "0 \<le> max_a" "0 \<le> max_b" "0 \<le> supply"
  shows "0 \<le> proportional max_a max_b supply a b" "proportional max_a max_b supply a b * a \<le> max_a * supply"
    "proportional max_a max_b supply a b * b \<le> max_b * supply"
proof -
  have *: "p * c \<le> n" if "p \<le> n div c" "0 < c" for p n c :: int
    using mult_right_mono [OF that(1), of c] div_mult_le_pos [OF that(2), of n] that(2) by linarith
  show "0 \<le> proportional max_a max_b supply a b"
    using assms by (simp add: proportional_def pos_imp_zdiv_nonneg_iff)
  show "proportional max_a max_b supply a b * a \<le> max_a * supply" "proportional max_a max_b supply a b * b \<le> max_b * supply"
    using assms(1,2) by (auto intro!: * simp: proportional_def)
qed

lemma u64_product: "0 \<le> x \<Longrightarrow> x < 2 ^ 64 \<Longrightarrow> 0 \<le> y \<Longrightarrow> y < 2 ^ 64 \<Longrightarrow> 0 \<le> x * y \<and> x * y < (2 :: int) ^ 128"
  using mult_strict_mono [of x "2 ^ 64" y "2 ^ 64"] by simp

text \<open>\<^verbatim>\<open>get_pool_token_amount\<close> in closed form, once the simulation and the mint are read.\<close>

lemma pool_token_amount_eq:
  assumes read: "rpc_simulate rpc [get_pool_info_ix pool ps va vb] = Some (Some logs)"
      "parse_event_log decode logs (toBase58 dynamic_amm_ID) = Inr (Some (a, b))" "rpc_mint_supply rpc (lpMint ps) = Some supply"
    and range: "0 < a" "0 < b" "0 \<le> max_a" "max_a < 2 ^ 64" "0 \<le> max_b" "max_b < 2 ^ 64" "0 \<le> supply" "supply < 2 ^ 64"
      "0 \<le> slippage"
  shows "get_pool_token_amount rpc decode pool ps va vb max_a max_b slippage =
    (let p = proportional max_a max_b supply a b in
     if slippage \<le> 100 \<and> p * (100 - slippage) < 2 ^ 128 then Inr (as_u64 (p * (100 - slippage) div 100)) else Inl Panic)"
proof -
  have products: "checked 128 (max_a * supply) = Some (max_a * supply)" "checked 128 (max_b * supply) = Some (max_b * supply)"
    using u64_product range by simp_all
  have p: "0 \<le> proportional max_a max_b supply a b" using proportional_bounds(1) range by blast
  show ?thesis
  proof (cases "slippage \<le> 100")
    case True
    then have "checked 128 (100 - slippage) = Some (100 - slippage)"
      "checked 128 (proportional max_a max_b supply a b * (100 - slippage)) =
        (if proportional max_a max_b supply a b * (100 - slippage) < 2 ^ 128
         then Some (proportional max_a max_b supply a b * (100 - slippage)) else None)"
      using p range(9) by (simp_all add: checked_def)
    then show ?thesis
      using True range(1,2) by (simp add: get_pool_token_amount_def read products proportional_def checked_div_def
          of_option_def Let_def del: checked_eq_Some_iff)
  next
    case False
    then have "checked 128 (100 - slippage) = None" by (simp add: checked_def)
    then show ?thesis
      using False range(1,2) by (simp add: get_pool_token_amount_def read products checked_div_def of_option_def
          Let_def del: checked_eq_Some_iff)
  qed
qed

section \<open>Properties\<close>


definition sampleAmmImpl :: ammImpl where
  "sampleAmmImpl = (sampleAmm ConstantProductCurve) \<lparr>am_program := dynamic_amm_ID, am_vaultProgram := dynamic_vault_ID,
     am_poolState := (samplePool ConstantProductCurve)
       \<lparr>tokenAMint := mint_address (vi_tokenMint sampleImplA), tokenBMint := mint_address (vi_tokenMint sampleImplB)\<rparr>\<rparr>"

definition sampleRpc :: rustRpc where
  "sampleRpc = \<lparr>rpc_pool = (\<lambda>_. Some (am_poolState sampleAmmImpl)),
     rpc_vault = (\<lambda>v. Some (if v = aVault (samplePool ConstantProductCurve) then vi_vaultState sampleImplA
       else vi_vaultState sampleImplB)),
     rpc_exists = (\<lambda>_. True), rpc_token_amount = (\<lambda>_. Some 0), rpc_mint_supply = (\<lambda>_. Some 30000),
     rpc_data = (\<lambda>_. None), rpc_clock = None,
     rpc_simulate = (\<lambda>_. Some (Some [''Program '' @ toBase58 dynamic_amm_ID @ '' invoke [1]'', ''Program data: info'']))\<rparr>"

lemma sample_state: "same_state sampleRpc sampleAmmImpl"
  by (simp add: same_state_def sampleRpc_def sampleAmmImpl_def sampleAmm_def samplePool_def Let_def)

lemma sample_event:
  "parse_event_log (\<lambda>_. Decoded (Some (2000, 4000))) [''Program '' @ toBase58 dynamic_amm_ID @ '' invoke [1]'', ''Program data: info'']
     (toBase58 dynamic_amm_ID) = Inr (Some (2000 :: int, 4000 :: int))"
  by code_simp


text \<open>
  C36. The pool tokens that the Rust client deposits for stay in proportion: the amount is worth at most
  the largest amounts the caller gives, on both sides, at the amounts the pool reports; within 64 bits it
  is the smaller proportion less the slippage rate in whole per cent, and a rate above 100 panics.
\<close>

theorem rust_deposit_within_limits:
  assumes "rpc_simulate rpc [get_pool_info_ix pool ps va vb] = Some (Some logs)"
      "parse_event_log decode logs (toBase58 dynamic_amm_ID) = Inr (Some (a, b))" "rpc_mint_supply rpc (lpMint ps) = Some supply"
    and "0 < a" "0 < b" "0 \<le> max_a" "max_a < 2 ^ 64" "0 \<le> max_b" "max_b < 2 ^ 64" "0 \<le> supply" "supply < 2 ^ 64" "0 \<le> slippage"
  shows "(\<forall>lp. get_pool_token_amount rpc decode pool ps va vb max_a max_b slippage = Inr lp \<longrightarrow>
      0 \<le> lp \<and> lp * a \<le> max_a * supply \<and> lp * b \<le> max_b * supply) \<and>
    (slippage \<le> 100 \<and> proportional max_a max_b supply a b < 2 ^ 64 \<longrightarrow>
      get_pool_token_amount rpc decode pool ps va vb max_a max_b slippage =
        Inr (proportional max_a max_b supply a b * (100 - slippage) div 100)) \<and>
    (100 < slippage \<longrightarrow> get_pool_token_amount rpc decode pool ps va vb max_a max_b slippage = Inl Panic)"
proof -
  let ?p = "proportional max_a max_b supply a b"
  note eq = pool_token_amount_eq [OF assms]
  have p: "0 \<le> ?p" "?p * a \<le> max_a * supply" "?p * b \<le> max_b * supply"
    by (rule proportional_bounds [OF assms(4,5,6,8,10)])+
  have scaled: "0 \<le> ?p * (100 - slippage) div 100 \<and> ?p * (100 - slippage) div 100 \<le> ?p" if "slippage \<le> 100"
  proof -
    have "?p * (100 - slippage) \<le> ?p * 100" using p(1) assms(12) by (intro mult_left_mono) auto
    then show ?thesis using p(1) that zdiv_mono1 [of "?p * (100 - slippage)" "?p * 100" 100] by simp
  qed
  have mod_le: "0 \<le> n mod 2 ^ 64 \<and> n mod 2 ^ 64 \<le> n" if "0 \<le> n" for n :: int
    using that zmod_le_nonneg_dividend [of n "2 ^ 64"] by simp
  have below: "0 \<le> lp \<and> lp * a \<le> max_a * supply \<and> lp * b \<le> max_b * supply" if "0 \<le> lp" "lp \<le> ?p" for lp
  proof -
    have "lp * a \<le> ?p * a" "lp * b \<le> ?p * b" using that(2) assms(4,5) by simp_all
    with p that(1) show ?thesis by linarith
  qed
  show ?thesis
  proof (intro conjI allI impI)
    fix lp assume "get_pool_token_amount rpc decode pool ps va vb max_a max_b slippage = Inr lp"
    then have lp: "slippage \<le> 100" "lp = (?p * (100 - slippage) div 100) mod 2 ^ 64"
      by (simp_all add: eq Let_def as_u64_def split: if_splits)
    with scaled mod_le [of "?p * (100 - slippage) div 100"] have "0 \<le> lp" "lp \<le> ?p" by auto
    from below [OF this] show "0 \<le> lp" "lp * a \<le> max_a * supply" "lp * b \<le> max_b * supply" by simp_all
  next
    assume s: "slippage \<le> 100 \<and> ?p < 2 ^ 64"
    then have "?p * (100 - slippage) < 2 ^ 128"
      using u64_product [of ?p "100 - slippage"] p(1) assms(12) by simp
    moreover have "(?p * (100 - slippage) div 100) mod 2 ^ 64 = ?p * (100 - slippage) div 100"
      using scaled s by (intro mod_pos_pos_trivial) auto
    ultimately show "get_pool_token_amount rpc decode pool ps va vb max_a max_b slippage = Inr (?p * (100 - slippage) div 100)"
      using s by (simp add: eq Let_def as_u64_def)
  qed (simp add: eq Let_def)
qed

theorem rust_deposit_within_limits_witness:
  "get_pool_token_amount sampleRpc (\<lambda>_. Decoded (Some (2000, 4000))) (PublicKey ''pool'') (samplePool ConstantProductCurve)
     (vi_vaultState sampleImplA) (vi_vaultState sampleImplB) 1000 1600 10 = Inr 10800"
proof -
  let ?ps = "samplePool ConstantProductCurve"
  have "rpc_simulate sampleRpc [get_pool_info_ix (PublicKey ''pool'') ?ps (vi_vaultState sampleImplA) (vi_vaultState sampleImplB)] =
      Some (Some [''Program '' @ toBase58 dynamic_amm_ID @ '' invoke [1]'', ''Program data: info''])"
    "rpc_mint_supply sampleRpc (lpMint ?ps) = Some 30000"
    by (simp_all add: sampleRpc_def)
  from rust_deposit_within_limits [OF this(1) sample_event this(2), of 1000 1600 10] show ?thesis
    by (simp add: proportional_def)
qed

end
