(* ===== verification/QuoteAgreement.thy ===== *)
theory QuoteAgreement
  imports RustQuote
begin

text \<open>
  The two quotes of the repository against each other: where the Rust library quotes a swap, the
  TypeScript client quotes the same amount out and the same fee for the same accounts. The parts
  are compared in the order of the computation: the curves, the refreshed price of a staked
  token, the trade between the vaults, and the whole quote.
\<close>

section \<open>The interfaces together\<close>

locale client_and_crates = vault_program V + rust_crates R L
  for V :: vaultSdk and R :: rustLib and L :: mathLib

interpretation both: client_and_crates programSdk referenceCrates referenceLib
  by unfold_locales

section \<open>The constant product curve\<close>

context rust_crates
begin

lemma CP_swap_agrees:
  assumes "ConstantProduct_swap R i s d = Some r" "0 \<le> i" "0 \<le> s" "0 \<le> d"
  obtains out where "CP_computeOutAmount L i s d = Inr out" "outAmount out = destination_amount_swapped r"
    "0 \<le> outAmount out" "outAmount out < d"
proof -
  obtain i' x where sw: "spl_swap R i s d = Some (i', x)" "destination_amount_swapped r = x"
    using assms(1) by (auto simp: ConstantProduct_swap_def bind_eq_Some_conv)
  note law = spl_swap_largest [OF sw(1) assms(2-4)]
  have k: "0 < s + i"
  proof (rule ccontr)
    assume "\<not> 0 < s + i"
    then have "s + i = 0" using assms by linarith
    with law show False by (metis conjunct1 conjunct2 add_nonneg_eq_0_iff assms(2,3) less_irrefl mult_zero_left)
  qed
  with law have "0 < s * d" by linarith
  with assms have sd: "0 < s" "0 < d" by (auto simp: zero_less_mult_iff)
  have lo: "x * (s + i) \<le> i * d" and hi: "i * d < (x + 1) * (s + i)" using law by (auto simp: algebra_simps)
  have "x \<le> i * d div (s + i)" using lo k by (simp add: le_div_iff_pos)
  moreover have "i * d div (s + i) < x + 1" using hi by (simp only: div_less_iff_pos [OF k])
  ultimately have x: "x = i * d div (s + i)" by linarith
  have "1 * (s + i) \<le> x * (s + i)" using law k by (intro mult_right_mono) auto
  with lo have "\<not> i * d < s + i" by simp
  then have out: "CP_computeOutAmount L i s d =
      Inr \<lparr>outAmount = x, priceImpact = getPriceImpact L x (i * d div s)\<rparr>"
    using CP_computeOutAmount_cases [OF assms(2) sd, of L] law x by simp
  have "0 < (s + i) * (d - x)" using law \<open>0 < s * d\<close> by linarith
  then have "x < d" using k by (simp add: zero_less_mult_iff)
  with that [OF out] sw law show thesis by simp
qed

end

section \<open>The stable curve\<close>

text \<open>The objects of the two clients for the same curve.\<close>

definition same_curve :: "stableSwap \<Rightarrow> rsStableSwap \<Rightarrow> bool" where
  "same_curve obj self \<longleftrightarrow>
     ss_amp obj = rs_amp self \<and> ss_tokenMultiplier obj = rs_token_multiplier self \<and> ss_depeg obj = rs_depeg self"

definition rsStable_ok :: "rsStableSwap \<Rightarrow> bool" where
  "rsStable_ok self \<longleftrightarrow> 0 \<le> rs_amp self \<and> 0 \<le> tokenAMultiplier (rs_token_multiplier self) \<and>
     0 \<le> tokenBMultiplier (rs_token_multiplier self) \<and> 0 \<le> baseVirtualPrice (rs_depeg self)"

lemma precision_same: "depeg_PRECISION = PRECISION"
  by (simp add: depeg_PRECISION_def PRECISION_def)

lemmas rs_scaling_defs = upscale_token_a_def upscale_token_b_def downscale_token_a_def downscale_token_b_def
  multiplier_upscale_token_a_def multiplier_upscale_token_b_def multiplier_downscale_token_a_def
  multiplier_downscale_token_b_def

lemma upscale_agrees:
  assumes "same_curve obj self"
  shows "upscale_token_a self x = Some y \<Longrightarrow> y = x * scaleA obj"
    and "upscale_token_b self x = Some y \<Longrightarrow> y = x * scaleB obj"
  using assms
  by (auto simp: rs_scaling_defs same_curve_def scaleA_def scaleB_def isDepeg_def precision_same bind_eq_Some_conv
      split: if_splits)

lemma downscale_a_agrees:
  assumes "same_curve obj self" "rsStable_ok self" "downscale_token_a self x = Some y" "0 \<le> x"
  shows "downscaleTokenA obj x = Inr y" "y = x div scaleA obj" "1 \<le> scaleA obj" "\<exists>w. downscaleTokenA obj z = Inr w"
proof -
  let ?m = "tokenAMultiplier (ss_tokenMultiplier obj)"
  have m: "1 \<le> ?m" and y: "y = (if isDepeg obj then x div ?m div PRECISION else x div ?m)"
    using assms
    by (auto simp: rs_scaling_defs same_curve_def rsStable_ok_def isDepeg_def precision_same bind_eq_Some_conv
        split: if_splits)
  show "downscaleTokenA obj x = Inr y" using m y assms(4) by (simp add: downscaleTokenA_def PRECISION_def)
  show "y = x div scaleA obj" using m y by (simp add: scaleA_def PRECISION_def zdiv_zmult2_eq)
  show "1 \<le> scaleA obj" using m by (simp add: scaleA_def PRECISION_def)
  show "\<exists>w. downscaleTokenA obj z = Inr w" using m by (simp add: downscaleTokenA_def bn_div_def PRECISION_def)
qed

lemma downscale_b_agrees:
  assumes "same_curve obj self" "rsStable_ok self" "downscale_token_b self x = Some y" "0 \<le> x"
  shows "downscaleTokenB obj x = Inr y" "y = x div scaleB obj" "1 \<le> scaleB obj" "\<exists>w. downscaleTokenB obj z = Inr w"
proof -
  let ?m = "tokenBMultiplier (ss_tokenMultiplier obj)" and ?p = "baseVirtualPrice (ss_depeg obj)"
  have m: "1 \<le> ?m" and p: "isDepeg obj \<Longrightarrow> 1 \<le> ?p"
    and y: "y = (if isDepeg obj then x div ?m div ?p else x div ?m)"
    using assms
    by (auto simp: rs_scaling_defs same_curve_def rsStable_ok_def isDepeg_def bind_eq_Some_conv split: if_splits)
  show "downscaleTokenB obj x = Inr y"
    using m p y assms(4) by (cases "isDepeg obj") (simp_all add: downscaleTokenB_def)
  show "y = x div scaleB obj" using m p y by (cases "isDepeg obj") (simp_all add: scaleB_def zdiv_zmult2_eq)
  show "1 \<le> scaleB obj" using m p mult_mono [of 1 ?m 1 ?p] by (auto simp: scaleB_def)
  show "\<exists>w. downscaleTokenB obj z = Inr w" using m p by (auto simp: downscaleTokenB_def bn_div_def)
qed

text \<open>The spot price of the client never divides by zero: D is at most one above the sum of the balances.\<close>

lemma spot_price_defined:
  assumes "1 \<le> ss_amp self" "1 \<le> X" "1 \<le> Y" "computeD (ss_amp self) X Y = Inr D"
  shows "\<exists>w. SS_computeOutAmountWithoutSlippage self i X Y D = Inr w"
proof -
  have "D \<le> X + 2 * Y" using computeD_le [OF assms] assms(3) by linarith
  then have "0 \<le> 16 * ss_amp self * (X + 2 * Y - D)" using assms(1) by simp
  moreover have "2 \<le> D" using computeD_ge_2(1) [OF assms] .
  ultimately have "0 < ss_amp self * 16 * X + (2 * (ss_amp self * 16) * Y + (D * 4 - D * ss_amp self * 16))"
    by (simp add: algebra_simps)
  then show ?thesis using assms(2) by (simp add: SS_computeOutAmountWithoutSlippage_def bn_div_def Let_def)
qed

lemma swap_balances_positive:
  assumes D: "computeD am X Y = Inr D" and y: "computeY am (X + i) D = Inr y"
    and "0 \<le> am" "0 \<le> X" "0 \<le> Y" "0 \<le> i" "0 \<le> Y - y - 1"
  shows "1 \<le> am" "1 \<le> X" "1 \<le> Y"
proof -
  show am: "1 \<le> am"
  proof (rule ccontr)
    assume "\<not> ?thesis"
    then have "am = 0" using assms(3) by simp
    with y show False by (simp add: computeY_def)
  qed
  have x: "1 \<le> X + i" using y computeY_zero assms(4,6) by (cases "X + i = 0") auto
  show X: "1 \<le> X"
  proof (rule ccontr)
    assume "\<not> ?thesis"
    then have [simp]: "X = 0" using assms(4) by simp
    have "Y \<le> 1"
      using D by (rule_tac ccontr) (simp add: computeD_def N_COINS_def MAX_ITERS_def eval_nat_numeral Let_def)
    then have "Y = 0 \<or> Y = 1" using assms(5) by linarith
    moreover from this D have "D = Y"
      by (elim disjE) (simp_all add: computeD_def N_COINS_def MAX_ITERS_def eval_nat_numeral Let_def)
    ultimately have "\<bar>D\<bar> \<le> 1" "0 \<le> D" by auto
    then have "y = D"
      using y am x by (simp add: computeY_def N_COINS_def MAX_ITERS_def eval_nat_numeral Let_def)
    with \<open>D = Y\<close> assms(7) show False by simp
  qed
  show "1 \<le> Y"
  proof (rule ccontr)
    assume "\<not> ?thesis"
    then have [simp]: "Y = 0" using assms(5) by simp
    have "X \<le> 1"
      using D X by (rule_tac ccontr) (simp add: computeD_def N_COINS_def MAX_ITERS_def eval_nat_numeral Let_def)
    with X have "X = 1" by simp
    with D have "D = 1" by (simp add: computeD_def N_COINS_def MAX_ITERS_def eval_nat_numeral Let_def)
    then have "y = 1" using y am x by (simp add: computeY_def N_COINS_def MAX_ITERS_def eval_nat_numeral Let_def)
    with assms(7) show False by simp
  qed
qed

context rust_crates
begin

lemma SS_swap_facts_rs:
  assumes rs: "StableSwap_swap R self i s d dir = Some r" and ok: "rsStable_ok self" and same: "same_curve obj self"
    and nn: "0 \<le> i" "0 \<le> s" "0 \<le> d"
  obtains D y x where "computeD (ss_amp obj) (s * src_scale obj dir) (d * dst_scale obj dir) = Inr D"
    "computeY (ss_amp obj) (s * src_scale obj dir + i * src_scale obj dir) D = Inr y"
    "x = d * dst_scale obj dir - y - 1" "0 \<le> x" "0 \<le> y" "0 \<le> src_scale obj dir"
    "1 \<le> ss_amp obj" "1 \<le> s * src_scale obj dir" "1 \<le> d * dst_scale obj dir"
    "(if dir = AToB then downscale_token_b self x else downscale_token_a self x) = Some (destination_amount_swapped r)"
proof -
  let ?X = "s * src_scale obj dir" and ?Y = "d * dst_scale obj dir" and ?I = "i * src_scale obj dir"
  obtain x where x: "saber_swap_to2 R (saber_of self) ?I ?X ?Y saber_no_fees = Some x"
    and dn: "(if dir = AToB then downscale_token_b self x else downscale_token_a self x) = Some (destination_amount_swapped r)"
    using rs upscale_agrees [OF same]
    by (cases dir) (fastforce simp: StableSwap_swap_def src_scale_def dst_scale_def bind_eq_Some_conv)+
  have sc: "0 \<le> src_scale obj dir" "0 \<le> dst_scale obj dir"
    using ok same by (auto simp: rsStable_ok_def same_curve_def src_scale_def dst_scale_def scaleA_def scaleB_def PRECISION_def)
  have "saber_of self = SaberStableSwap_new (ss_amp obj) (ss_amp obj) 0 0 0"
    using same by (simp add: saber_of_def same_curve_def)
  then obtain D y where D: "computeD (ss_amp obj) ?X ?Y = Inr D" and y: "computeY (ss_amp obj) (?X + ?I) D = Inr y"
    and xy: "x = ?Y - y - 1" "0 \<le> x"
    using saber_swap_leaves [of "ss_amp obj" ?I ?X ?Y x] x sc nn by auto
  have amp: "1 \<le> ss_amp obj" "1 \<le> ?X" "1 \<le> ?Y"
    using swap_balances_positive [OF D y] ok same sc nn xy by (auto simp: rsStable_ok_def same_curve_def)
  have "0 \<le> y" using swap_above_curve(1) [OF amp _ D y] sc nn by simp
  from that [OF D y xy this sc(1) amp dn] show thesis .
qed

lemma SS_swap_agrees:
  assumes rs: "StableSwap_swap R self i s d dir = Some r" and ok: "rsStable_ok self"
    and same: "same_curve obj self" and up: "updateDepegInfoIfExpired L obj0 = Inr obj"
    and nn: "0 \<le> i" "0 \<le> s" "0 \<le> d"
  obtains out where "SS_computeOutAmount L obj0 i s d dir = Inr (obj, out)"
    "outAmount out = destination_amount_swapped r" "0 \<le> outAmount out" "outAmount out < d"
proof -
  let ?down = "if dir = AToB then downscaleTokenB obj else downscaleTokenA obj" and ?o = "destination_amount_swapped r"
  let ?X = "s * src_scale obj dir" and ?Y = "d * dst_scale obj dir" and ?I = "i * src_scale obj dir"
  obtain D y x where D: "computeD (ss_amp obj) ?X ?Y = Inr D" and y: "computeY (ss_amp obj) (?X + ?I) D = Inr y"
    and x: "x = ?Y - y - 1" "0 \<le> x" "0 \<le> y" and amp: "1 \<le> ss_amp obj" "1 \<le> ?X" "1 \<le> ?Y"
    and o: "(if dir = AToB then downscale_token_b self x else downscale_token_a self x) = Some ?o"
    using rs ok same nn by (rule SS_swap_facts_rs)
  have dn: "?down x = Inr ?o" "?o = x div dst_scale obj dir" "1 \<le> dst_scale obj dir" "\<exists>w. ?down v = Inr w" for v
    using downscale_a_agrees [OF same ok _ x(2)] downscale_b_agrees [OF same ok _ x(2)] o
    by (auto simp: dst_scale_def split: if_splits)
  obtain w w' where w: "SS_computeOutAmountWithoutSlippage obj ?I ?X ?Y D = Inr w" "?down w = Inr w'"
    using spot_price_defined [OF amp D] dn(4) by blast
  with up D y dn(1) x(1) have out: "SS_computeOutAmount L obj0 i s d dir =
      Inr (obj, \<lparr>outAmount = ?o, priceImpact = getPriceImpact L ?o w'\<rparr>)"
    by (cases dir) (simp_all add: SS_computeOutAmount_def src_scale_def dst_scale_def Let_def)
  have "x < d * dst_scale obj dir" using x by linarith
  then have "?o < d" using dn by (simp add: div_less_iff_pos)
  moreover have "0 \<le> ?o" using dn x by simp
  ultimately show thesis using that [OF out] by simp
qed

end

section \<open>The price of a staked token\<close>

text \<open>
  The clients read the same price from the same account, with two provisos: the TypeScript client
  reads the two amounts of Lido as signed, and decodes a stake pool only if it has the eight
  bytes that follow the amounts it reads.
\<close>

definition stake_accounts_ok :: "depegType \<Rightarrow> pubkey \<Rightarrow> (pubkey, bytes) mapping \<Rightarrow> bool" where
  "stake_accounts_ok t stk stake_data \<longleftrightarrow>
     (case t of
        DepegLido \<Rightarrow>
          (case Mapping.lookup stake_data solido_stake_ID of
             None \<Rightarrow> True
           | Some data \<Rightarrow> le_nat (take 8 (drop 73 data)) < 2 ^ 63 \<and> le_nat (take 8 (drop 81 data)) < 2 ^ 63)
      | DepegSplStake \<Rightarrow>
          (case Mapping.lookup stake_data stk of None \<Rightarrow> True | Some data \<Rightarrow> layout_span StakePoolLayout \<le> length data)
      | _ \<Rightarrow> True)"

lemma price_of_agrees:
  assumes "price_of v t = Some p" "0 \<le> v" "0 \<le> t"
  shows "bn_div (v * PRECISION) t = Inr p" "0 \<le> p"
  using assms by (auto simp: price_of_def precision_same bind_eq_Some_conv PRECISION_def)

lemma slice_reads:
  assumes "slice_u64 data n = Inr v"
  shows "readBigUInt64LE data n = Inr v" "0 \<le> v" "v = int (le_nat (take 8 (drop n data)))"
  using assms by (auto simp: slice_u64_def readBigUInt64LE_def split: if_splits)

lemma slice_reads_signed:
  assumes "slice_u64 data n = Inr v" "le_nat (take 8 (drop n data)) < 2 ^ 63"
  shows "readBigInt64LE data n = Inr v"
  using slice_reads [OF assms(1)] assms(2) by (simp add: readBigInt64LE_def)

lemma stake_IDs: "solido_stake_ID = CURVE_TYPE_ACCOUNTS_lido" "marinade_stake_ID = CURVE_TYPE_ACCOUNTS_marinade"
  by (simp_all add: solido_stake_ID_def marinade_stake_ID_def CURVE_TYPE_ACCOUNTS_lido_def CURVE_TYPE_ACCOUNTS_marinade_def)

context rust_crates
begin

lemma virtual_price_agrees:
  assumes price: "get_stake_pool_virtual_price R t stk stake_data = Inr (Some p)"
    and ok: "stake_accounts_ok t stk stake_data"
    and obj: "ss_extraAccounts obj = Mapping.lookup stake_data" "ss_stakePoolPubkey obj = stk"
  shows "getBasePoolVirtualPrice L obj t = Inr p" "0 \<le> p"
proof -
  have "getBasePoolVirtualPrice L obj t = Inr p \<and> 0 \<le> p"
  proof (cases t)
    case DepegNone
    with price show ?thesis by (simp add: get_stake_pool_virtual_price_def Let_def)
  next
    case DepegMarinade
    with price obtain data v where d: "Mapping.lookup stake_data marinade_stake_ID = Some data" "8 \<le> length data"
      and v: "marinade_msol_price R (drop 8 data) = Some v" "price_of v (marinade_PRICE_DENOMINATOR R) = Some p"
      by (auto simp: get_stake_pool_virtual_price_def marinade_get_virtual_price_def bind_eq_Some_conv Let_def
          split: option.splits)
    note m = msol_price [OF v(1) d(2)]
    have "bn_div (v * PRECISION) 0x100000000 = Inr p" "0 \<le> p"
      using price_of_agrees [OF v(2)] m by (auto simp: msol_denominator)
    with DepegMarinade d m obj show ?thesis by (simp add: getBasePoolVirtualPrice_def stake_IDs)
  next
    case DepegLido
    with price obtain data a b where d: "Mapping.lookup stake_data solido_stake_ID = Some data"
      and ab: "slice_u64 data 73 = Inr a" "slice_u64 data 81 = Inr b" "price_of b a = Some p"
      by (auto simp: get_stake_pool_virtual_price_def solido_get_virtual_price_def Let_def split: option.splits)
    have "readBigInt64LE data 73 = Inr a" "readBigInt64LE data 81 = Inr b"
      using ok DepegLido d ab by (auto simp: stake_accounts_ok_def intro: slice_reads_signed)
    with DepegLido d obj show ?thesis
      using price_of_agrees [OF ab(3) slice_reads(2) [OF ab(2)] slice_reads(2) [OF ab(1)]]
      by (simp add: getBasePoolVirtualPrice_def stake_IDs)
  next
    case DepegSplStake
    with price obtain data a b where d: "Mapping.lookup stake_data stk = Some data"
      and ab: "slice_u64 data 258 = Inr a" "slice_u64 data 266 = Inr b" "price_of a b = Some p"
      by (auto simp: get_stake_pool_virtual_price_def spl_stake_get_virtual_price_def Let_def
          split: option.splits if_splits)
    have "282 \<le> length data" using ok DepegSplStake d by (simp add: stake_accounts_ok_def)
    then have "layout_decode_u64 StakePoolLayout data ''totalLamports'' = Inr a"
      "layout_decode_u64 StakePoolLayout data ''poolTokenSupply'' = Inr b"
      using slice_reads [OF ab(1)] slice_reads [OF ab(2)] by (simp_all add: layout_decode_u64_def)
    with DepegSplStake d obj show ?thesis
      using price_of_agrees [OF ab(3) slice_reads(2) [OF ab(1)] slice_reads(2) [OF ab(2)]]
      by (simp add: getBasePoolVirtualPrice_def)
  qed
  then show "getBasePoolVirtualPrice L obj t = Inr p" "0 \<le> p" by auto
qed

end

section \<open>The curve of a quote\<close>

text \<open>
  The parameters that the TypeScript client quotes with, for the accounts the Rust library is
  given.
\<close>

definition paramsOf :: "quoteData \<Rightarrow> swapQuoteParam" where
  "paramsOf qd = \<lparr>q_poolState = qd_pool qd, q_vaultA = qd_vault_a qd, q_vaultB = qd_vault_b qd,
     q_poolVaultALp = qd_pool_vault_a_lp_token qd, q_poolVaultBLp = qd_pool_vault_b_lp_token qd,
     q_vaultALpSupply = qd_vault_a_lp_mint qd, q_vaultBLpSupply = qd_vault_b_lp_mint qd,
     q_vaultAReserve = qd_vault_a_token qd, q_vaultBReserve = qd_vault_b_token qd,
     q_currentTime = clk_unix_timestamp (qd_clock qd), q_currentSlot = clk_slot (qd_clock qd),
     q_depegAccounts = Mapping.lookup (qd_stake_data qd)\<rparr>"

text \<open>
  The times of a pool of a staked token are numbers the TypeScript client can compare, and the
  staking account is there unless the cached price has not expired.
\<close>

definition depeg_ready :: "quoteData \<Rightarrow> depeg \<Rightarrow> bool" where
  "depeg_ready qd dp \<longleftrightarrow>
     (let now = clk_unix_timestamp (qd_clock qd) in
      depegType dp = DepegNone \<or>
      0 \<le> now \<and> now < 2 ^ 53 \<and> 0 \<le> baseCacheUpdated dp \<and> baseCacheUpdated dp + BASE_CACHE_EXPIRE < 2 ^ 53 \<and>
      (Mapping.is_empty (qd_stake_data qd) \<longrightarrow> now \<le> baseCacheUpdated dp + BASE_CACHE_EXPIRE) \<and>
      stake_accounts_ok (depegType dp) (stake (qd_pool qd)) (qd_stake_data qd))"

definition curve_ready :: "quoteData \<Rightarrow> bool" where
  "curve_ready qd \<longleftrightarrow>
     (case curveType (qd_pool qd) of
        ConstantProductCurve \<Rightarrow> True
      | StableSwapCurve c \<Rightarrow>
          0 \<le> amp c \<and> amp c < 2 ^ 53 \<and> 0 \<le> tokenAMultiplier (curveTokenMultiplier c) \<and>
          0 \<le> tokenBMultiplier (curveTokenMultiplier c) \<and> 0 \<le> baseVirtualPrice (curveDepeg c) \<and>
          depeg_ready qd (curveDepeg c))"

definition refreshed :: "rustLib \<Rightarrow> quoteData \<Rightarrow> poolState rust" where
  "refreshed R qd =
     (if \<not> Mapping.is_empty (qd_stake_data qd) then update_base_virtual_price R (qd_pool qd) (qd_clock qd) (qd_stake_data qd)
      else Inr (qd_pool qd))"

lemmas params_simps = paramsOf_def swapQuoteParam.select_convs

lemma refreshed_frame:
  assumes "refreshed R qd = Inr pool"
  shows "tokenAMint pool = tokenAMint (qd_pool qd)" "tokenBMint pool = tokenBMint (qd_pool qd)" "fees pool = fees (qd_pool qd)"
  using assms by (auto simp: refreshed_def update_base_virtual_price_def Let_def split: if_splits curveType.splits)

definition curve_object :: "quoteData \<Rightarrow> stableCurve \<Rightarrow> stableSwap" where
  "curve_object qd c = \<lparr>ss_amp = amp c, ss_tokenMultiplier = curveTokenMultiplier c, ss_depeg = curveDepeg c,
     ss_extraAccounts = Mapping.lookup (qd_stake_data qd), ss_onChainTime = clk_unix_timestamp (qd_clock qd),
     ss_stakePoolPubkey = stake (qd_pool qd)\<rparr>"

lemma quoteCurve_stable:
  assumes "curveType (qd_pool qd) = StableSwapCurve c" "curve_ready qd"
  shows "quoteCurve (paramsOf qd) init = Inr (StableSwap (curve_object qd c))"
  using assms
  by (simp add: quoteCurve_def newStableSwap_def paramsOf_def curve_object_def curve_ready_def bn_toNumber_def)

text \<open>The refresh of either client, under the conditions on the times.\<close>

definition price_expired :: "quoteData \<Rightarrow> depeg \<Rightarrow> bool" where
  "price_expired qd dp \<longleftrightarrow> depegType dp \<noteq> DepegNone \<and>
     clk_unix_timestamp (qd_clock qd) > baseCacheUpdated dp + BASE_CACHE_EXPIRE"

definition with_price :: "quoteData \<Rightarrow> depeg \<Rightarrow> int \<Rightarrow> depeg" where
  "with_price qd dp p = dp\<lparr>baseVirtualPrice := p, baseCacheUpdated := clk_unix_timestamp (qd_clock qd)\<rparr>"

lemma curve_object_update:
  assumes "curveType (qd_pool qd) = StableSwapCurve c" "curve_ready qd"
  shows "updateDepegInfoIfExpired L (curve_object qd c) =
    (if price_expired qd (curveDepeg c)
     then rbind (getBasePoolVirtualPrice L (curve_object qd c) (depegType (curveDepeg c)))
            (\<lambda>p. Inr ((curve_object qd c)\<lparr>ss_depeg := with_price qd (curveDepeg c) p\<rparr>))
     else Inr (curve_object qd c))"
proof -
  have "bn_toNumber n = Inr n" if "0 \<le> n" "n < 2 ^ 53" for n using that by (simp add: bn_toNumber_def)
  with assms show ?thesis
    by (auto simp: updateDepegInfoIfExpired_def isDepeg_def curve_object_def price_expired_def with_price_def
        curve_ready_def depeg_ready_def BASE_CACHE_EXPIRE_def Let_def)
qed

lemma refreshed_stable:
  assumes "refreshed R qd = Inr pool" and c: "curveType (qd_pool qd) = StableSwapCurve c" and ready: "curve_ready qd"
  shows "if price_expired qd (curveDepeg c)
    then \<exists>p. get_stake_pool_virtual_price R (depegType (curveDepeg c)) (stake (qd_pool qd)) (qd_stake_data qd) =
           Inr (Some p) \<and> curveType pool = StableSwapCurve (c\<lparr>curveDepeg := with_price qd (curveDepeg c) p\<rparr>)
    else pool = qd_pool qd"
proof (cases "depegType (curveDepeg c) = DepegNone")
  case True
  with assms show ?thesis
    by (auto simp: refreshed_def update_base_virtual_price_def DepegType_is_none_def price_expired_def split: if_splits)
next
  case False
  let ?dp = "curveDepeg c" and ?now = "clk_unix_timestamp (qd_clock qd)"
  have nn: "\<not> DepegType_is_none (depegType ?dp)"
    using False by (cases "depegType ?dp") (auto simp: DepegType_is_none_def)
  have dr: "0 \<le> ?now" "?now < 2 ^ 53" "0 \<le> baseCacheUpdated ?dp" "baseCacheUpdated ?dp + 600 < 2 ^ 53"
    "Mapping.is_empty (qd_stake_data qd) \<Longrightarrow> \<not> price_expired qd ?dp"
    using False c ready by (auto simp: curve_ready_def depeg_ready_def price_expired_def BASE_CACHE_EXPIRE_def Let_def)
  have ch: "checked 64 (baseCacheUpdated ?dp + depeg_BASE_CACHE_EXPIRES) = Some (baseCacheUpdated ?dp + BASE_CACHE_EXPIRE)"
    using dr by (simp add: BASE_CACHE_EXPIRE_def depeg_BASE_CACHE_EXPIRES_def)
  have "as_u64 ?now = ?now" using dr by (simp add: as_u64_def)
  with assms(1) c nn ch dr(5) show ?thesis
    by (auto simp: refreshed_def update_base_virtual_price_def price_expired_def with_price_def False Let_def
        split: if_splits)
qed

context rust_crates
begin

lemma refreshed_object:
  assumes r: "refreshed R qd = Inr pool" and c: "curveType (qd_pool qd) = StableSwapCurve c" and ready: "curve_ready qd"
  obtains obj self where "get_swap_curve (curveType pool) = RsStableSwap self"
    "updateDepegInfoIfExpired L (curve_object qd c) = Inr obj" "same_curve obj self" "rsStable_ok self"
proof -
  note result = that
  let ?dp = "curveDepeg c" and ?obj = "curve_object qd c"
  let ?old = "\<lparr>rs_amp = amp c, rs_token_multiplier = curveTokenMultiplier c, rs_depeg = ?dp,
     rs_last_amp_updated_timestamp = lastAmpUpdatedTimestamp c\<rparr>"
  note up = curve_object_update [OF c ready, of L] and rs = refreshed_stable [OF r c ready]
  have same: "same_curve ?obj ?old" "rsStable_ok ?old"
    using c ready by (auto simp: same_curve_def curve_object_def rsStable_ok_def curve_ready_def)
  show thesis
  proof (cases "price_expired qd ?dp")
    case False
    with rs up c show thesis by (intro result [OF _ _ same]) (auto simp: get_swap_curve_def)
  next
    case True
    with rs obtain p where
        price: "get_stake_pool_virtual_price R (depegType ?dp) (stake (qd_pool qd)) (qd_stake_data qd) = Inr (Some p)"
      and pool: "curveType pool = StableSwapCurve (c\<lparr>curveDepeg := with_price qd ?dp p\<rparr>)" by auto
    have "stake_accounts_ok (depegType ?dp) (stake (qd_pool qd)) (qd_stake_data qd)"
      using True c ready by (auto simp: curve_ready_def depeg_ready_def price_expired_def Let_def)
    note vp = virtual_price_agrees [OF price this, of ?obj]
    show thesis
      by (rule result [of "?old\<lparr>rs_depeg := with_price qd ?dp p\<rparr>" "?obj\<lparr>ss_depeg := with_price qd ?dp p\<rparr>"])
        (use True up pool vp same in \<open>auto simp: get_swap_curve_def curve_object_def same_curve_def rsStable_ok_def
           with_price_def\<close>)
  qed
qed

lemma curve_swap_agrees:
  assumes r: "refreshed R qd = Inr pool" and ready: "curve_ready qd" and curve: "quoteCurve (paramsOf qd) init = Inr curve"
    and sw: "rs_curve_swap R (get_swap_curve (curveType pool)) i s d dir = Some sr" and nn: "0 \<le> i" "0 \<le> s" "0 \<le> d"
  obtains curve' out where "curve_computeOutAmount L curve i s d dir = Inr (curve', out)"
    "outAmount out = destination_amount_swapped sr" "0 \<le> outAmount out" "outAmount out < d"
proof (cases "curveType (qd_pool qd)")
  case ConstantProductCurve
  then have "curve = ConstantProductSwap" using curve by (auto simp: quoteCurve_def paramsOf_def Let_def split: if_splits)
  moreover have "pool = qd_pool qd"
    using ConstantProductCurve r by (auto simp: refreshed_def update_base_virtual_price_def split: if_splits)
  then have "ConstantProduct_swap R i s d = Some sr"
    using sw ConstantProductCurve by (simp add: get_swap_curve_def rs_curve_swap_def)
  ultimately show thesis
    by (rule_tac CP_swap_agrees [OF _ nn]) (auto intro: that simp: curve_computeOutAmount_def)
next
  case (StableSwapCurve c)
  obtain obj self where *: "get_swap_curve (curveType pool) = RsStableSwap self"
      "updateDepegInfoIfExpired L (curve_object qd c) = Inr obj" "same_curve obj self" "rsStable_ok self"
    using refreshed_object [OF r StableSwapCurve ready] .
  have "curve = StableSwap (curve_object qd c)" using quoteCurve_stable [OF StableSwapCurve ready] curve by simp
  moreover have "StableSwap_swap R self i s d dir = Some sr" using sw * by (simp add: rs_curve_swap_def)
  ultimately show thesis
    by (rule_tac SS_swap_agrees [OF _ *(4,3,2) nn]) (auto intro: that simp: curve_computeOutAmount_def)
qed

end

section \<open>The trade between the vaults\<close>

text \<open>What the trade computed, step by step.\<close>

lemma compute_quote_trade_D:
  assumes "compute_quote_trade R pool now amt dir iv ov ilp isup osup oacct S D = Inr r"
  obtains t p lp after sr olp where
    "trading_fee (fees pool) amt = Some t" "protocol_trading_fee (fees pool) t = Some p"
    "0 \<le> t - p" "0 \<le> amt - p" "get_unmint_amount iv now (amt - p) isup = Some lp"
    "get_amount_by_share (iv\<lparr>v_totalAmount := v_totalAmount iv + (amt - p)\<rparr>) now (lp + ilp) (isup + lp) = Some after"
    "0 \<le> lp + ilp" "0 \<le> isup + lp" "0 \<le> after - S - (t - p)"
    "rs_curve_swap R (get_swap_curve (curveType pool)) (after - S - (t - p)) S D dir = Some sr"
    "get_unmint_amount ov now (destination_amount_swapped sr) osup = Some olp"
    "get_amount_by_share ov now olp osup = Some (qr_out_amount r)"
    "qr_out_amount r < oacct" "qr_fee r = t - p"
  using assms unfolding compute_quote_trade_def try_into_u64_def Let_def
  by (auto simp only: rbind_Inr_iff of_option_Inr_iff guard_Inr_iff checked_eq_Some_iff) (rule that; simp)

context client_and_crates
begin

lemma trade_agrees:
  assumes rs: "compute_quote_trade R pool (q_currentTime q) amt dir iv ov ilp isup osup oacct S D = Inr r"
    and q: "fees pool = fees (q_poolState q)" "fees_ok (fees (q_poolState q))" "fees_above_minimum (fees (q_poolState q)) amt"
    and nn: "0 \<le> amt" "0 \<le> isup" "0 \<le> osup"
    and max: "calculateMaxSwapOutAmount (if dir = AToB then tokenBMint (q_poolState q) else tokenAMint (q_poolState q))
      (tokenAMint (q_poolState q)) (tokenBMint (q_poolState q)) tA tB (q_vaultAReserve q) (q_vaultBReserve q) =
      Inr (min D oacct)"
    and curve: "\<And>i sr. 0 \<le> i \<Longrightarrow> rs_curve_swap R (get_swap_curve (curveType pool)) i S D dir = Some sr \<Longrightarrow>
      \<exists>curve' out. curve_computeOutAmount L curve i S D dir = Inr (curve', out) \<and>
        outAmount out = destination_amount_swapped sr \<and> 0 \<le> outAmount out \<and> outAmount out < D"
  shows "\<exists>ps' r'. quoteTrade V L q curve amt tA tB dir ilp S D iv ov isup osup = Inr (ps', r') \<and>
    sr_amountOut r' = qr_out_amount r \<and> sr_fee r' = qr_fee r"
proof -
  obtain t p lp after sr olp where f: "trading_fee (fees pool) amt = Some t" "protocol_trading_fee (fees pool) t = Some p"
    and nonneg: "0 \<le> t - p" "0 \<le> amt - p"
    and lp: "get_unmint_amount iv (q_currentTime q) (amt - p) isup = Some lp"
    and after: "get_amount_by_share (iv\<lparr>v_totalAmount := v_totalAmount iv + (amt - p)\<rparr>) (q_currentTime q) (lp + ilp) (isup + lp) = Some after"
      "0 \<le> lp + ilp" "0 \<le> isup + lp" "0 \<le> after - S - (t - p)"
    and sw: "rs_curve_swap R (get_swap_curve (curveType pool)) (after - S - (t - p)) S D dir = Some sr"
    and olp: "get_unmint_amount ov (q_currentTime q) (destination_amount_swapped sr) osup = Some olp"
    and out: "get_amount_by_share ov (q_currentTime q) olp osup = Some (qr_out_amount r)"
    and res: "qr_out_amount r < oacct" "qr_fee r = t - p"
    using rs by (rule compute_quote_trade_D)
  note fee = fees_agree [of "fees (q_poolState q)" amt t p] f q nn
  have src: "quoteSourceAmount V (q_currentTime q) (fees (q_poolState q)) amt iv ilp isup S = Inr (after - S - (t - p), t - p)"
    using fee unmint_agrees [OF lp nonneg(2) nn(2)] share_after_deposit_agrees [OF lp after(1) nonneg(2) after(2,3)]
    by (simp add: quoteSourceAmount_def Let_def)
  obtain curve' o' where cv: "curve_computeOutAmount L curve (after - S - (t - p)) S D dir = Inr (curve', o')"
      "outAmount o' = destination_amount_swapped sr" "0 \<le> outAmount o'" "outAmount o' < D"
    using curve [OF after(4) sw] by blast
  have dst: "quoteDestinationAmount V (q_currentTime q) (outAmount o') ov osup = Inr (qr_out_amount r)"
    using unmint_agrees [OF olp _ nn(3)] share_agrees [OF out unmint_nonneg [OF olp] nn(3)] cv
    by (simp add: quoteDestinationAmount_def Let_def)
  have "qr_out_amount r < D" using redeem_le [OF olp out _ nn(3)] cv by simp
  with src cv dst max res show ?thesis by (simp add: quoteTrade_def Let_def)
qed

end

section \<open>The whole quote\<close>

definition amounts_ok :: "quoteData \<Rightarrow> bool" where
  "amounts_ok qd \<longleftrightarrow> 0 \<le> qd_pool_vault_a_lp_token qd \<and> 0 \<le> qd_pool_vault_b_lp_token qd \<and>
     0 \<le> qd_vault_a_lp_mint qd \<and> 0 \<le> qd_vault_b_lp_mint qd"

lemma maxSwapOut_min:
  assumes "a \<noteq> b"
  shows "calculateMaxSwapOutAmount b a b tA tB rA rB = Inr (min tB rB)"
    "calculateMaxSwapOutAmount a a b tA tB rA rB = Inr (min tA rA)"
  using assms by (auto simp: calculateMaxSwapOutAmount_def min_def)

lemma share_nonneg: "get_amount_by_share v t sh tot = Some a \<Longrightarrow> 0 \<le> a"
  by (auto simp: get_amount_by_share_def bind_eq_Some_conv)

lemma compute_quote_D:
  assumes "compute_quote R mint amt qd = Inr r"
  obtains pool tA tB where "refreshed R qd = Inr pool" "enabled (qd_pool qd)"
    "0 \<le> clk_unix_timestamp (qd_clock qd)"
    "activationPoint (bootstrapping (qd_pool qd)) \<le>
       (if activationType (bootstrapping (qd_pool qd)) = 1 then clk_unix_timestamp (qd_clock qd) else clk_slot (qd_clock qd))"
    "mint = tokenAMint (qd_pool qd) \<or> mint = tokenBMint (qd_pool qd)"
    "get_amount_by_share (qd_vault_a qd) (clk_unix_timestamp (qd_clock qd)) (qd_pool_vault_a_lp_token qd)
       (qd_vault_a_lp_mint qd) = Some tA"
    "get_amount_by_share (qd_vault_b qd) (clk_unix_timestamp (qd_clock qd)) (qd_pool_vault_b_lp_token qd)
       (qd_vault_b_lp_mint qd) = Some tB"
    "compute_quote_sides R pool (clk_unix_timestamp (qd_clock qd)) mint amt qd tA tB = Inr r"
    "tokenAMint pool = tokenAMint (qd_pool qd)"
proof -
  let ?ps = "qd_pool qd" and ?now = "clk_unix_timestamp (qd_clock qd)"
  obtain pool where pool: "refreshed R qd = Inr pool"
    using assms by (auto simp: compute_quote_def refreshed_def Let_def split: sum.splits)
  note same = refreshed_frame [OF pool]
  have "\<exists>t. ActivationType_try_from (activationType (bootstrapping ?ps)) = Inr t \<and> enabled ?ps \<and>
      activationPoint (bootstrapping ?ps) \<le> (case t of Slot \<Rightarrow> clk_slot (qd_clock qd) | Timestamp \<Rightarrow> as_u64 ?now) \<and>
      0 \<le> ?now \<and> ?now < 2 ^ 64"
    using assms by (auto simp: compute_quote_def try_into_u64_def Let_def split: sum.splits)
  then have act: "enabled ?ps" "0 \<le> ?now" "?now < 2 ^ 64" "activationPoint (bootstrapping ?ps) \<le>
       (if activationType (bootstrapping ?ps) = 1 then ?now else clk_slot (qd_clock qd))"
    by (auto simp: ActivationType_try_from_def as_u64_def split: if_splits)
  have "try_into_u64 ?now = Inr ?now" using act by (simp add: try_into_u64_def)
  then obtain tA tB where "mint = tokenAMint ?ps \<or> mint = tokenBMint ?ps"
      "get_amount_by_share (qd_vault_a qd) ?now (qd_pool_vault_a_lp_token qd) (qd_vault_a_lp_mint qd) = Some tA"
      "get_amount_by_share (qd_vault_b qd) ?now (qd_pool_vault_b_lp_token qd) (qd_vault_b_lp_mint qd) = Some tB"
      "compute_quote_sides R pool ?now mint amt qd tA tB = Inr r"
    using assms pool same
    by (auto simp: compute_quote_def refreshed_def Let_def split del: if_split split: sum.splits)
  then show thesis by (rule that [OF pool act(1,2,4) _ _ _ _ same(1)])
qed

lemma quoteCurve_defined:
  assumes "curve_ready qd" "activationPoint (bootstrapping (qd_pool qd)) \<le>
       (if activationType (bootstrapping (qd_pool qd)) = 1 then clk_unix_timestamp (qd_clock qd) else clk_slot (qd_clock qd))"
  obtains curve where "quoteCurve (paramsOf qd) init = Inr curve"
proof (cases "curveType (qd_pool qd)")
  case ConstantProductCurve
  with assms(2) have "quoteCurve (paramsOf qd) init = Inr ConstantProductSwap"
    by (auto simp: quoteCurve_def paramsOf_def Let_def split: option.splits if_splits)
  then show thesis by (rule that)
next
  case (StableSwapCurve c)
  show thesis by (rule that [OF quoteCurve_stable [OF StableSwapCurve assms(1)]])
qed

context client_and_crates
begin

lemma quotes_agree:
  assumes rs: "compute_quote R mint amt qd = Inr r"
    and ok: "amounts_ok qd" "curve_ready qd" "fees_ok (fees (qd_pool qd))" "fees_above_minimum (fees (qd_pool qd)) amt"
    and amt: "0 \<le> amt" and mints: "tokenAMint (qd_pool qd) \<noteq> tokenBMint (qd_pool qd)"
  shows "\<exists>ps' r'. calculateSwapQuote V L mint amt (paramsOf qd) init = Inr (ps', r') \<and>
    sr_amountOut r' = qr_out_amount r \<and> sr_fee r' = qr_fee r"
proof -
  let ?q = "paramsOf qd" and ?now = "clk_unix_timestamp (qd_clock qd)"
  obtain pool tA tB where pool: "refreshed R qd = Inr pool" and en: "enabled (qd_pool qd)"
    and act: "0 \<le> ?now" "activationPoint (bootstrapping (qd_pool qd)) \<le>
       (if activationType (bootstrapping (qd_pool qd)) = 1 then ?now else clk_slot (qd_clock qd))"
    and mint: "mint = tokenAMint (qd_pool qd) \<or> mint = tokenBMint (qd_pool qd)"
    and tA: "get_amount_by_share (qd_vault_a qd) ?now (qd_pool_vault_a_lp_token qd) (qd_vault_a_lp_mint qd) = Some tA"
    and tB: "get_amount_by_share (qd_vault_b qd) ?now (qd_pool_vault_b_lp_token qd) (qd_vault_b_lp_mint qd) = Some tB"
    and trade: "compute_quote_sides R pool ?now mint amt qd tA tB = Inr r" "tokenAMint pool = tokenAMint (qd_pool qd)"
    using rs by (rule compute_quote_D)
  obtain curve where curve: "quoteCurve ?q init = Inr curve" using ok(2) act(2) by (rule quoteCurve_defined)
  have nn: "0 \<le> tA" "0 \<le> tB" "0 \<le> qd_vault_a_lp_mint qd" "0 \<le> qd_vault_b_lp_mint qd"
    using share_nonneg [OF tA] share_nonneg [OF tB] ok(1) by (auto simp: amounts_ok_def)
  have amounts: "sdk_getAmountByShare V (q_poolVaultALp ?q) (calculateWithdrawableAmount V ?now (q_vaultA ?q)) (q_vaultALpSupply ?q) = Inr tA"
    "sdk_getAmountByShare V (q_poolVaultBLp ?q) (calculateWithdrawableAmount V ?now (q_vaultB ?q)) (q_vaultBLpSupply ?q) = Inr tB"
    using share_agrees [OF tA] share_agrees [OF tB] ok(1) by (auto simp: amounts_ok_def paramsOf_def)
  have sw: "\<exists>curve' out. curve_computeOutAmount L curve i S D dir = Inr (curve', out) \<and>
      outAmount out = destination_amount_swapped sr \<and> 0 \<le> outAmount out \<and> outAmount out < D"
    if "0 \<le> i" "rs_curve_swap R (get_swap_curve (curveType pool)) i S D dir = Some sr" "0 \<le> S" "0 \<le> D" for i S D dir sr
    using curve_swap_agrees [OF pool ok(2) curve that(2,1,3,4)] by metis
  have f: "fees pool = fees (q_poolState ?q)" using refreshed_frame(3) [OF pool] by (simp add: paramsOf_def)
  note ta = trade_agrees [of pool ?q amt, OF _ f] ok amt nn maxSwapOut_min [OF mints] sw
  note rest = mint mints en curve amounts
  show ?thesis
  proof (cases "mint = tokenAMint (qd_pool qd)")
    case True
    from True trade ta(1) [of AToB _ _ _ _ _ _ tA tB r tA tB curve] ta(2-) show ?thesis
      using rest by (auto simp: params_simps calculateSwapQuote_def compute_quote_sides_def Let_def)
  next
    case False
    from False trade ta(1) [of BToA _ _ _ _ _ _ tB tA r tA tB curve] ta(2-) show ?thesis
      using rest by (auto simp: params_simps calculateSwapQuote_def compute_quote_sides_def Let_def)
  qed
qed

end

section \<open>Concrete accounts\<close>

text \<open>
  The pools of \<open>sampleParam\<close> for the Rust library, and a pool of a token and its staked form
  whose cached price has expired: the stake pool holds 1.25 lamports for each of its tokens.
\<close>

definition sampleStakePool :: bytes where
  "sampleStakePool = replicate 258 0 @ [50, 0, 0, 0, 0, 0, 0, 0] @ [40, 0, 0, 0, 0, 0, 0, 0] @ replicate 8 0"

definition sampleStakedCurve :: "int \<Rightarrow> int \<Rightarrow> curveType" where
  "sampleStakedCurve price updated = StableSwapCurve \<lparr>amp = 100,
     curveTokenMultiplier = \<lparr>tokenAMultiplier = 1, tokenBMultiplier = 1000, precisionFactor = 9\<rparr>,
     curveDepeg = \<lparr>baseVirtualPrice = price, baseCacheUpdated = updated, depegType = DepegSplStake\<rparr>,
     lastAmpUpdatedTimestamp = 0\<rparr>"

definition sampleQuoteData :: "curveType \<Rightarrow> (pubkey, bytes) mapping \<Rightarrow> quoteData" where
  "sampleQuoteData c stake_data = \<lparr>qd_pool = samplePool c, qd_vault_a = sampleVault 5000000000000, qd_vault_b = sampleVault 6000000000,
     qd_pool_vault_a_lp_token = 1000000000000, qd_pool_vault_b_lp_token = 1000000000,
     qd_vault_a_lp_mint = 5000000000000, qd_vault_b_lp_mint = 5000000000,
     qd_vault_a_token = 4000000000000, qd_vault_b_token = 6000000000,
     qd_clock = \<lparr>clk_slot = 200000000, clk_unix_timestamp = 1700000000\<rparr>,
     qd_stake_data = stake_data\<rparr>"

definition sampleStakeData :: "(pubkey, bytes) mapping" where
  "sampleStakeData = Mapping.update (PublicKey ''stake'') sampleStakePool Mapping.empty"


abbreviation sampleStaked :: quoteData where
  "sampleStaked \<equiv> sampleQuoteData (sampleStakedCurve 1200000 1600000000) sampleStakeData"

lemma sample_price:
  "spl_stake_get_virtual_price sampleStakePool = Inr (Some 1250000)" "length sampleStakePool = 282"
  by (simp_all add: spl_stake_get_virtual_price_def slice_u64_def sampleStakePool_def price_of_def depeg_PRECISION_def
      checked_def checked_div_def)

lemma sample_refreshed:
  "update_base_virtual_price R (qd_pool sampleStaked) (qd_clock sampleStaked) (qd_stake_data sampleStaked) =
     Inr (samplePool (sampleStakedCurve 1250000 1700000000))"
  by (simp add: update_base_virtual_price_def sampleQuoteData_def samplePool_def sampleStakedCurve_def Let_def
      DepegType_is_none_def depeg_BASE_CACHE_EXPIRES_def as_u64_def get_stake_pool_virtual_price_def sampleStakeData_def
      sample_price)

lemma sample_rust_quotes:
  "compute_quote referenceCrates (PublicKey ''A'') 1000000000 (sampleQuoteData ConstantProductCurve Mapping.empty) =
     Inr \<lparr>qr_out_amount = 1195806, qr_fee = 2000000\<rparr>"
  "compute_quote referenceCrates (PublicKey ''A'') 1000000000 (sampleQuoteData sampleStableCurve Mapping.empty) =
     Inr \<lparr>qr_out_amount = 999316, qr_fee = 2000000\<rparr>"
  by code_simp+

lemma sample_rust_staked_sides:
  "compute_quote_sides referenceCrates (samplePool (sampleStakedCurve 1250000 1700000000)) 1700000000 (PublicKey ''A'')
     1000000000 (sampleQuoteData ConstantProductCurve Mapping.empty) 1000000000000 1200000000 =
     Inr \<lparr>qr_out_amount = 801422, qr_fee = 2000000\<rparr>"
  by code_simp

lemma sample_ready:
  "amounts_ok (sampleQuoteData c m)" "fees_ok (fees (qd_pool (sampleQuoteData c m)))"
  "tokenAMint (qd_pool (sampleQuoteData c m)) \<noteq> tokenBMint (qd_pool (sampleQuoteData c m))"
  "fees_above_minimum (fees (qd_pool (sampleQuoteData c m))) 1000000000"
  by (simp_all add: sampleQuoteData_def samplePool_def sampleFees_def amounts_ok_def fees_ok_def
      fees_above_minimum_def above_minimum_def)

lemma sample_staked_quote:
  "compute_quote referenceCrates (PublicKey ''A'') 1000000000 sampleStaked = Inr \<lparr>qr_out_amount = 801422, qr_fee = 2000000\<rparr>"
proof -
  have "compute_quote_sides referenceCrates p t m a sampleStaked x y =
      compute_quote_sides referenceCrates p t m a (sampleQuoteData ConstantProductCurve Mapping.empty) x y" for p t m a x y
    by (simp add: compute_quote_sides_def sampleQuoteData_def)
  note side = this [of "samplePool (sampleStakedCurve 1250000 1700000000)"] sample_rust_staked_sides
  have "get_amount_by_share (sampleVault 5000000000000) 1700000000 1000000000000 5000000000000 = Some 1000000000000"
    "get_amount_by_share (sampleVault 6000000000) 1700000000 1000000000 5000000000 = Some 1200000000"
    by code_simp+
  moreover have "\<not> Mapping.is_empty sampleStakeData" by (simp add: sampleStakeData_def)
  ultimately show ?thesis
    using sample_refreshed [of referenceCrates] side
    by (simp add: compute_quote_def sampleQuoteData_def samplePool_def ActivationType_try_from_def as_u64_def
        try_into_u64_def Let_def)
qed

lemma sample_curve_ready: "curve_ready sampleStaked"
  by (simp add: curve_ready_def sampleQuoteData_def samplePool_def sampleStakedCurve_def depeg_ready_def
      BASE_CACHE_EXPIRE_def sampleStakeData_def stake_accounts_ok_def sample_price Let_def)

section \<open>Properties\<close>



end
