(* ===== verification/RustSafety.thy ===== *)
theory RustSafety
  imports QuoteAgreement
begin

text \<open>
  The quote of the Rust library never favours the trader, whatever the fees: the laws of the vault
  contract, interpreted on the program's own share arithmetic, bound what reaches the curve, and
  the laws of the crates bound what the curve pays.
\<close>

section \<open>A pool no worse off\<close>

text \<open>The client's curve object for the same curve gives the scales of the two balances.\<close>

definition curve_view :: "rsStableSwap \<Rightarrow> stableSwap" where
  "curve_view self = \<lparr>ss_amp = rs_amp self, ss_tokenMultiplier = rs_token_multiplier self, ss_depeg = rs_depeg self,
     ss_extraAccounts = (\<lambda>_. None), ss_onChainTime = 0, ss_stakePoolPubkey = PublicKey_default\<rparr>"

text \<open>
  Balances of source and destination before and after a trade: on the constant product curve the
  product has not fallen, on the stable curve the balances after lie strictly above the curve of
  the D computed before.
\<close>

definition not_worse :: "rsSwapCurve \<Rightarrow> tradeDirection \<Rightarrow> int \<times> int \<Rightarrow> int \<times> int \<Rightarrow> bool" where
  "not_worse curve dir before after \<longleftrightarrow>
     (case curve of
        RsConstantProduct \<Rightarrow> fst before * snd before \<le> fst after * snd after
      | RsStableSwap self \<Rightarrow>
          (let sx = src_scale (curve_view self) dir; dx = dst_scale (curve_view self) dir in
           case computeD (rs_amp self) (fst before * sx) (snd before * dx) of
             Inl e \<Rightarrow> False
           | Inr D \<Rightarrow> above_curve (rs_amp self) D (fst after * sx) (snd after * dx)))"

lemma same_view: "same_curve (curve_view self) self"
  by (simp add: same_curve_def curve_view_def)

context rust_crates
begin

lemma CP_swap_not_worse:
  assumes "ConstantProduct_swap R i s d = Some sr" "0 \<le> i" "0 \<le> s" "0 \<le> d" "i \<le> i'" "out \<le> destination_amount_swapped sr"
  shows "s * d \<le> (s + i') * (d - out)"
proof -
  obtain j x where sw: "spl_swap R i s d = Some (j, x)" "destination_amount_swapped sr = x"
    using assms(1) by (auto simp: ConstantProduct_swap_def bind_eq_Some_conv)
  have "x < d" using CP_swap_agrees [OF assms(1-4)] sw(2) by metis
  then have "(s + i) * (d - x) \<le> (s + i') * (d - out)" using assms sw by (intro mult_mono) auto
  with spl_swap_largest [OF sw(1) assms(2-4)] show ?thesis by linarith
qed

lemma stable_swap_not_worse:
  assumes rs: "StableSwap_swap R self i s d dir = Some sr" and ok: "rsStable_ok self"
    and nn: "0 \<le> i" "0 \<le> s" "0 \<le> d" and bounds: "i \<le> i'" "out \<le> destination_amount_swapped sr"
  shows "not_worse (RsStableSwap self) dir (s, d) (s + i', d - out)"
    "0 \<le> destination_amount_swapped sr" "destination_amount_swapped sr < d"
proof -
  let ?v = "curve_view self" and ?o = "destination_amount_swapped sr"
  let ?sx = "src_scale ?v dir" and ?dx = "dst_scale ?v dir"
  obtain D y x where D: "computeD (ss_amp ?v) (s * ?sx) (d * ?dx) = Inr D"
    and y: "computeY (ss_amp ?v) (s * ?sx + i * ?sx) D = Inr y"
    and x: "x = d * ?dx - y - 1" "0 \<le> x" "0 \<le> y" "0 \<le> ?sx" and amp: "1 \<le> ss_amp ?v" "1 \<le> s * ?sx" "1 \<le> d * ?dx"
    and o: "(if dir = AToB then downscale_token_b self x else downscale_token_a self x) = Some ?o"
    using rs ok same_view nn by (rule SS_swap_facts_rs)
  have dx: "?o = x div ?dx" "1 \<le> ?dx"
    using downscale_a_agrees [OF same_view ok _ x(2)] downscale_b_agrees [OF same_view ok _ x(2)] o
    by (auto simp: dst_scale_def split: if_splits)
  have "?o * ?dx \<le> x" using dx by (simp add: div_mult_le_pos)
  moreover have "out * ?dx \<le> ?o * ?dx" using bounds dx by (intro mult_right_mono) auto
  ultimately have low: "y + 1 \<le> (d - out) * ?dx" using x by (simp add: left_diff_distrib)
  have D0: "0 \<le> D" using computeD_ge_2(1) [OF amp D] by simp
  have "above_curve (ss_amp ?v) D (s * ?sx + i * ?sx) (y + 1)"
    using swap_above_curve(2) [OF amp _ D y] x nn by simp
  moreover have "s * ?sx + i * ?sx \<le> (s + i') * ?sx" using bounds x by (simp add: distrib_right mult_right_mono)
  ultimately have "above_curve (ss_amp ?v) D ((s + i') * ?sx) ((d - out) * ?dx)"
    using above_curve_mono2 [of "ss_amp ?v" D "s * ?sx + i * ?sx" "y + 1"] amp D0 x nn low by simp
  with D show "not_worse (RsStableSwap self) dir (s, d) (s + i', d - out)"
    by (simp add: not_worse_def curve_view_def Let_def)
  show "0 \<le> ?o" using dx x by simp
  have "x < d * ?dx" using x by linarith
  then show "?o < d" using dx by (simp add: div_less_iff_pos)
qed

lemma swap_not_worse:
  assumes sw: "rs_curve_swap R curve i s d dir = Some sr" and ok: "\<And>self. curve = RsStableSwap self \<Longrightarrow> rsStable_ok self"
    and nn: "0 \<le> i" "0 \<le> s" "0 \<le> d" and bounds: "i \<le> i'" "out \<le> destination_amount_swapped sr"
  shows "not_worse curve dir (s, d) (s + i', d - out)" "0 \<le> destination_amount_swapped sr"
    "destination_amount_swapped sr < d"
proof -
  have "not_worse curve dir (s, d) (s + i', d - out) \<and> 0 \<le> destination_amount_swapped sr \<and> destination_amount_swapped sr < d"
  proof (cases curve)
    case RsConstantProduct
    then have cp: "ConstantProduct_swap R i s d = Some sr" using sw by (simp add: rs_curve_swap_def)
    have "0 \<le> destination_amount_swapped sr \<and> destination_amount_swapped sr < d"
      using CP_swap_agrees [OF cp nn] by metis
    with CP_swap_not_worse [OF cp nn bounds] RsConstantProduct show ?thesis by (simp add: not_worse_def)
  next
    case (RsStableSwap self)
    then have ss: "StableSwap_swap R self i s d dir = Some sr" using sw by (simp add: rs_curve_swap_def)
    from stable_swap_not_worse [OF ss ok [OF RsStableSwap] nn bounds] RsStableSwap show ?thesis by simp
  qed
  then show "not_worse curve dir (s, d) (s + i', d - out)" "0 \<le> destination_amount_swapped sr"
    "destination_amount_swapped sr < d" by auto
qed

end

section \<open>What reaches the curve\<close>

text \<open>The deposit into the source vault, valued again, is no more than the amount in less the fees.\<close>

lemma deposit_reaches_at_most:
  assumes lp: "get_unmint_amount v t amt tot = Some m"
    and before: "get_amount_by_share v t sh tot = Some s"
    and after: "get_amount_by_share (v\<lparr>v_totalAmount := v_totalAmount v + amt\<rparr>) t (m + sh) (tot + m) = Some s'"
    and nn: "0 \<le> amt" "0 \<le> sh" "sh \<le> tot"
  shows "s' \<le> s + amt"
proof -
  let ?w = "calculateWithdrawableAmount programSdk t v"
  obtain w where w: "get_unlocked_amount v t = Some w" "w \<noteq> 0" using lp
    by (auto simp: get_unmint_amount_def bind_eq_Some_conv)
  have "?w = w" using program.withdrawable_unlocked [OF w(1)] .
  with w unlocked_nonneg [OF w(1)] have pos: "0 < ?w" by simp
  have "tot \<noteq> 0" using before by (auto simp: get_amount_by_share_def bind_eq_Some_conv)
  with nn have tot: "0 < tot" by linarith
  have m: "0 \<le> m" using unmint_nonneg [OF lp] .
  from nn tot m show ?thesis
    by (intro program.deposit_value_le [OF nn(1) pos tot nn(2,3) program.unmint_agrees [OF lp] program.share_agrees [OF before]
          program.share_after_deposit_agrees [OF lp after]]) auto
qed

lemma fees_rs:
  assumes "trading_fee f amt = Some t" "protocol_trading_fee f t = Some p" "fees_ok f" "0 \<le> amt"
  shows "0 \<le> t" "0 \<le> p"
  using calculate_fee_cases [of amt "tradeFeeNumerator f" "tradeFeeDenominator f" t]
    calculate_fee_cases [of t "protocolTradeFeeNumerator f" "protocolTradeFeeDenominator f" p] assms
  by (auto simp: trading_fee_def protocol_trading_fee_def fees_ok_def)

context rust_crates
begin

lemma trade_not_worse:
  assumes rs: "compute_quote_trade R pool now amt dir iv ov ilp isup osup oacct S D = Inr r"
    and before: "get_amount_by_share iv now ilp isup = Some S"
    and curve: "\<And>self. get_swap_curve (curveType pool) = RsStableSwap self \<Longrightarrow> rsStable_ok self"
    and f: "fees_ok (fees pool)" and nn: "0 \<le> amt" "0 \<le> ilp" "ilp \<le> isup" "0 \<le> osup" "0 \<le> D"
  shows "not_worse (get_swap_curve (curveType pool)) dir (S, D) (S + (amt - qr_fee r), D - qr_out_amount r) \<and>
    0 \<le> qr_fee r \<and> 0 \<le> qr_out_amount r \<and> qr_out_amount r < D \<and> qr_out_amount r < oacct"
proof -
  obtain t p lp after sr olp where fee: "trading_fee (fees pool) amt = Some t" "protocol_trading_fee (fees pool) t = Some p"
      "0 \<le> t - p" "0 \<le> amt - p"
    and lp: "get_unmint_amount iv now (amt - p) isup = Some lp"
    and after: "get_amount_by_share (iv\<lparr>v_totalAmount := v_totalAmount iv + (amt - p)\<rparr>) now (lp + ilp) (isup + lp) = Some after"
    and n: "0 \<le> after - S - (t - p)"
    and sw: "rs_curve_swap R (get_swap_curve (curveType pool)) (after - S - (t - p)) S D dir = Some sr"
    and olp: "get_unmint_amount ov now (destination_amount_swapped sr) osup = Some olp"
    and out: "get_amount_by_share ov now olp osup = Some (qr_out_amount r)"
    and res: "qr_out_amount r < oacct" "qr_fee r = t - p"
    using rs by (rule compute_quote_trade_D)
  have S: "0 \<le> S" using before by (rule share_nonneg)
  have p: "0 \<le> p" using fees_rs [OF fee(1,2) f nn(1)] by simp
  have "after \<le> S + (amt - p)" using deposit_reaches_at_most [OF lp before after fee(4) nn(2,3)] .
  then have le: "after - S - (t - p) \<le> amt - qr_fee r" using p fee(3) res(2) by linarith
  have dest: "0 \<le> destination_amount_swapped sr" "destination_amount_swapped sr < D"
    using swap_not_worse(2,3) [OF sw curve n S nn(5) order_refl order_refl] by auto
  have "qr_out_amount r \<le> destination_amount_swapped sr" using redeem_le [OF olp out dest(1) nn(4)] .
  from swap_not_worse(1) [OF sw curve n S nn(5) le this] this dest share_nonneg [OF out] res fee(3) show ?thesis by simp
qed

end

section \<open>The whole quote\<close>

text \<open>The fields of a stable curve that are unsigned in the program.\<close>

definition rates_ok :: "curveType \<Rightarrow> bool" where
  "rates_ok t \<longleftrightarrow>
     (case t of
        ConstantProductCurve \<Rightarrow> True
      | StableSwapCurve c \<Rightarrow> 0 \<le> amp c \<and> 0 \<le> tokenAMultiplier (curveTokenMultiplier c) \<and>
          0 \<le> tokenBMultiplier (curveTokenMultiplier c) \<and> 0 \<le> baseVirtualPrice (curveDepeg c))"

definition shares_ok :: "quoteData \<Rightarrow> bool" where
  "shares_ok qd \<longleftrightarrow> amounts_ok qd \<and> qd_pool_vault_a_lp_token qd \<le> qd_vault_a_lp_mint qd \<and>
     qd_pool_vault_b_lp_token qd \<le> qd_vault_b_lp_mint qd"

definition vaultInfoA :: "quoteData \<Rightarrow> vaultInfo" where
  "vaultInfoA qd = \<lparr>vi_lp_amount = qd_pool_vault_a_lp_token qd, vi_lp_supply = qd_vault_a_lp_mint qd, vi_vault = qd_vault_a qd\<rparr>"

definition vaultInfoB :: "quoteData \<Rightarrow> vaultInfo" where
  "vaultInfoB qd = \<lparr>vi_lp_amount = qd_pool_vault_b_lp_token qd, vi_lp_supply = qd_vault_b_lp_mint qd, vi_vault = qd_vault_b qd\<rparr>"

lemma virtual_price_nonneg: "get_stake_pool_virtual_price R t k m = Inr (Some p) \<Longrightarrow> 0 \<le> p"
  by (auto simp: get_stake_pool_virtual_price_def marinade_get_virtual_price_def solido_get_virtual_price_def
      spl_stake_get_virtual_price_def price_of_def bind_eq_Some_conv Let_def
      split: depegType.splits option.splits if_splits)

lemma refreshed_rates:
  assumes "refreshed R qd = Inr pool" "rates_ok (curveType (qd_pool qd))" "get_swap_curve (curveType pool) = RsStableSwap self"
  shows "rsStable_ok self"
  using assms virtual_price_nonneg
  by (fastforce simp: refreshed_def update_base_virtual_price_def rates_ok_def get_swap_curve_def rsStable_ok_def Let_def
      split: if_splits curveType.splits)

section \<open>Properties\<close>



end
