(* ===== verification/Spec2Isabelle.thy ===== *)
theory Spec2Isabelle
  imports Examples RustClient RustSafety
begin

text \<open>
  \<^bold>\<open>Verification of the TypeScript client of the Meteora dynamic AMM\<close> (src/ts-client/src/amm),
  and of the Rust sources beside it: the quote library, the interface of the on-chain program,
  and the addresses, accounts and commands of the Rust client.

  \<^bold>\<open>The program.\<close> The client quotes swaps, deposits and withdrawals of a pool, and builds the
  transactions that perform them. A pool holds two tokens through two vaults: what it owns is a
  number of vault shares, and a vault's tokens grow between two reads of its state. Prices come
  from one of two curves, the constant product or the stable swap curve with an optional depeg
  price. The parts call each other bottom up: curves and their arithmetic, share and fee
  arithmetic (utils.ts), the quote (utils.ts), the connection and the derived addresses
  (utils.ts), the static methods that create configurations and pools (index.ts), and the object
  \<^verbatim>\<open>AmmImpl\<close> of a loaded pool with its getters, quotes and transaction builders (index.ts).

  \<^bold>\<open>Theories, in the order of the imports, with the code they model.\<close>
  \<^item> Prelude: errors (\<open>js_error\<close>), results (\<open>'a res\<close>, an error or a value), \<^verbatim>\<open>BN\<close> and bigint division,
    and the shared lemmas on division and results.
  \<^item> StableSwapMath: curve/stable-swap-math/calculator.ts. The two Newton iterations are recursions
    on the number of rounds left; \<open>MAX_ITERS\<close> = 20 is the bound of the source, and the theorems show
    what the result is when the loop stops within it and when it runs out.
  \<^item> Types: types/index.ts and constants.ts, the byte layouts included.
  \<^item> MathLib: Decimal.js division and square root, a parameter (record \<open>mathLib\<close>, locale
    \<open>math_lib\<close>) with the instance \<open>referenceLib\<close>.
  \<^item> ConstantProduct, StableSwap, SwapCurve: the three files of curve/. A method of the stable
    curve returns the object with its cached depeg price; the interface is a datatype with one
    dispatcher per method, and a locale states what a curve promises to a sequence of swaps.
  \<^item> Vault: the functions of the vault package are a parameter (record \<open>vaultSdk\<close>, locale
    \<open>vault_sdk\<close>); programs/dynamic-vault/src/state.rs, which is in the repository, instantiates it.
  \<^item> JsNumber, AmmUtils: IEEE doubles as rationals rounded to 53 bits, for the slippage and the 53-bit
    limit of \<^verbatim>\<open>BN\<close>; the pure functions of utils.ts.
  \<^item> SwapQuote: \<^verbatim>\<open>calculateSwapQuote\<close> and the quote for a pool to be created.
  \<^item> Chain, Addresses, Base58: what is read and produced. Instructions are data. The connection
    and the packages are one record \<open>chain\<close> read at one moment; the locales \<open>chain_laws\<close> and
    \<open>vault_package\<close> say what is relied on, and Base58 instantiates them.
  \<^item> Idl: idl.ts, the description of the program, as data: instructions, accounts, types, enums,
    events and errors; and error.ts.
  \<^item> PoolCreation: the static methods of index.ts that create a configuration or a pool. The search
    for a free configuration index has no bound in the source and is a partial function; that it
    returns is a theorem.
  \<^item> AmmImpl: the object of a loaded pool: its fields, \<^verbatim>\<open>create\<close>, \<^verbatim>\<open>createMultiple\<close>, \<^verbatim>\<open>updateState\<close> and getters.
  \<^item> LiquidityQuotes: the quotes of the object; a quote returns the object, as it writes the cached
    depeg price to it.
  \<^item> AmmTransactions: the methods of the object that build transactions.
  \<^item> RustQuote: the crate dynamic-amm-quote and the arithmetic of programs/dynamic-amm/src/state.rs it
    calls, every checked operation included; spl-token-swap, meteora-stable-swap and marinade-sdk
    are the parameter \<open>rustLib\<close> with the locale \<open>rust_crates\<close>. QuoteAgreement compares this quote
    with the one of utils.ts; RustSafety shows that it never favours the trader.
  \<^item> ProgramInterface: what programs/dynamic-amm/src declares, as data: the accounts of each
    instruction with their constraints, the instruction signatures, structs, enums, events and
    errors; \<open>describe\<close> is the description that Anchor derives of them.
  \<^item> RustPda, RustAccounts: the addresses and the account builder of the crate common, and the helpers
    of the program's seeds. The record \<open>rustEnv\<close> holds what the Solana crates compute; the locales
    \<open>same_keys\<close> and \<open>vault_addresses\<close> say that the packages of both languages agree.
  \<^item> ProgramAccounts: \<open>accepted\<close> evaluates the declarations on the accounts that a client names.
  \<^item> EventLog, RustClient: the command line client of rust-client/src. EventLog is its reader of event
    logs; RustClient has the instructions that its commands send, what its read commands compute,
    the fee estimates and the retries, over the record \<open>rustRpc\<close> of what the connection returns.
  \<^item> Examples: the scripts of src/ts-client/src/examples as compositions of the client's methods, over
    one snapshot of the chain for each moment at which they read it.
  \<^item> This theory: the way from loading a pool over a quote to the transaction of a swap.

  \<^bold>\<open>What is shown.\<close>
  \<^item> Curves: both Newton iterations return within their bound and how far from the exact root; a
    swap never takes a pool below its curve; on the constant product curve the closed form, the
    least input, and that splitting a trade does not pay; no sequence of swaps empties a reserve.
  \<^item> Quotes: a quote with its fees and vault movements keeps the invariant of its curve and can be
    paid; its refusals in order; a deposit followed by a withdrawal does not gain; a balanced
    withdrawal is proportional; the fee of a lock escrow is capped.
  \<^item> The object: refreshing is loading again, loading many is loading each, and the curve object
    stays the one of the pool state through any refreshes and quotes.
  \<^item> Addresses and reads: the seeds of an address determine the pool, in any order of its mints;
    reads in chunks are reads.
  \<^item> Transactions: every instruction matches the description of the program; no signature but
    the caller's is needed; wrapped amounts, and locks adding up to the amounts asked for; the
    search for a configuration index ends at the least free one.
  \<^item> Against the Rust sources: where the Rust library quotes, the client quotes the same, unless a fee
    is raised to the program's minimum of one token; idl.ts is the description of the declared
    program but for two differences; the pools that the client creates are those of the Rust
    builder; and what the client builds passes the checks the program declares, except stable
    pools with a fee of 1 or 25 basis points and a claim of partner fees by another caller. The
    Rust client sends the same swaps, deposits and withdrawals as the TypeScript client, deposits
    within the amounts it is given, and its reader of event logs finds the first event that the
    wanted program logs itself.
  \<^item> Examples: the script that creates and locks a pool locks the payer's whole balance, or stops
    where a part is zero; percentages split an amount without loss.
  \<^item> Divergences: the lemmas \<open>memecoin_quote_is_wrong\<close>, \<open>SS_computeInAmount_over_asks\<close>,
    \<open>config2_does_not_wrap_swap_amount\<close>, \<open>moveLockedLP_always_throws\<close>, \<open>depegToken_always_reports\<close>,
    \<open>roundUp_rounds_down\<close>, \<open>unlock_buffer_is_percent\<close>, \<open>slippage_loses_a_basis_point\<close>,
    \<open>SS_priceImpact_negative\<close>, \<open>fee_seed_agrees\<close>, \<open>minimum_fee_differs\<close>,
    \<open>config_parameters_differ\<close>, \<open>example_swap_has_no_minimum\<close>, \<open>success_line_hides_event\<close> and
    \<open>estimate_takes_price_as_lamports\<close> state where the code does not do what it means to.

  \<^bold>\<open>Conventions.\<close> \<^verbatim>\<open>BN\<close> and bigint are \<open>int\<close>: both are unbounded, and a negative value is possible in
  the source too. A public key is its base58 text. A throw is the left of a result, with the
  message of the source; \<^verbatim>\<open>Promise.all\<close> of reads is their sequence, as reads change nothing. An
  object that a method changes is returned with the result; \<^verbatim>\<open>updateState\<close> returns it with an error
  as well, as its assignments before the error stay. The depeg record is one object shared by the
  pool state and the curve in the source: \<open>setCurve\<close> and \<open>setPoolState\<close> write it to both.

  \<^bold>\<open>Not modelled.\<close> What the connection returns changes between two reads of one call; the model
  reads one snapshot. A cached price that a curve method writes before it throws is not kept. Two
  pools that \<^verbatim>\<open>createMultiple\<close> loads with the same vault share its object; here each has its copy.
  The third-party packages (Solana, Anchor, vault, stake-for-fee, Metaplex, Decimal.js) are
  parameters, as is the hash behind a program address. Of idl.ts, the type-level copy of the
  description, which has no value, is left out, and of constants.ts the lists of known pools,
  which nothing in the client reads. The entry point re-exports; the tests call the
  client. The bodies of the on-chain instructions are not in the repository: of the checks, those
  Anchor makes on accounts are evaluated, and what an account holds (its owner, its layout) is
  not. Of the Rust command line client, the parsing of the command line, keys, files, the
  transport of a transaction and printing are left out.
\<close>

section \<open>From loading a pool to sending a swap\<close>

text \<open>Counts the instructions of the program in a list.\<close>

definition programCalls :: "instruction \<Rightarrow> int" where
  "programCalls ix = (case ix of ProgramIx program name args accounts remaining \<Rightarrow> 1 | _ \<Rightarrow> 0)"

lemma programCalls_simps [simp]:
  "programCalls (CreateAssociatedTokenAccount w a b c) = 0" "programCalls (SystemTransfer s t n) = 0"
  "programCalls (RawInstruction ks d q) = 0" "programCalls (CloseAccount a r k) = 0"
  "programCalls (ProgramIx q nm args accs rem) = 1"
  by (simp_all add: programCalls_def)

lemma programCalls_wrap [simp]: "ixs_sum programCalls (wrapIfNative k m a n) = 0"
  by (simp add: wrapIfNative_def wrapSOLInstruction_def)

lemma programCalls_unwrap: "unwrapIf ch c k r = Inr ixs \<Longrightarrow> ixs_sum programCalls ixs = 0"
  by (auto simp: unwrapIf_def unwrapSOLInstruction_def split: if_splits)

lemma swap_shape:
  assumes "swap ch self owner m x y None = Inr tx"
  obtains pre post us ud fee where
    "tx_instructions tx = pre @ [swapIx self owner x y us ud fee (curve_getRemainingAccounts (am_swapCurve self))] @ post"
    "ixs_sum programCalls pre = 0" "ixs_sum programCalls post = 0"
proof -
  define src where "src = (if mint_address (am_tokenAMint self) = m then tokenAMint (am_poolState self) else tokenBMint (am_poolState self))"
  define dst where "dst = (if mint_address (am_tokenAMint self) = m then tokenBMint (am_poolState self) else tokenAMint (am_poolState self))"
  have pair: "(if mint_address (am_tokenAMint self) = m then (tokenAMint (am_poolState self), tokenBMint (am_poolState self))
      else (tokenBMint (am_poolState self), tokenAMint (am_poolState self))) = (src, dst)"
    by (simp add: src_def dst_def)
  obtain atas post where *: "createATAPreInstructions ch owner [src, dst] = Inr atas" "unwrapIf ch (NATIVE_MINT = dst) owner owner = Inr post"
    "tx = newTransaction ch owner (methodTx (swapIx self owner x y (fst (atas ! 0)) (fst (atas ! 1))
        (if mint_address (am_tokenAMint self) = m then protocolTokenAFee (am_poolState self) else protocolTokenBFee (am_poolState self))
        (curve_getRemainingAccounts (am_swapCurve self)))
      (ataIxs atas @ wrapIfNative owner src (fst (atas ! 0)) x) post)"
    using assms unfolding swap_def Let_def pair by auto
  show thesis
  proof (rule that)
    show "ixs_sum programCalls (ataIxs atas @ wrapIfNative owner src (fst (atas ! 0)) x) = 0"
      using measure_atas [OF *(1), of programCalls] by simp
    show "ixs_sum programCalls post = 0" using *(2) by (rule programCalls_unwrap)
  qed (simp add: *(3) newTransaction_def methodTx_def)
qed

lemma getSwapQuote_D:
  assumes "getSwapQuote V L amm mint amt slippage initiator = Inr (amm', q)"
    and "tokenAMint (am_poolState amm) \<noteq> tokenBMint (am_poolState amm)"
  shows "sq_swapOutAmount q < (if mint = tokenAMint (am_poolState amm) then vaultBReserve (am_accountsInfo amm)
      else vaultAReserve (am_accountsInfo amm))"
    "getMinAmountWithSlippage (sq_swapOutAmount q) slippage = Inr (sq_minSwapOutAmount q)"
    "am_address amm' = am_address amm"
proof -
  obtain params ps r where q: "quoteParam amm = Inr params"
    "calculateSwapQuote V L mint amt params initiator = Inr (ps, r)"
    "getMinAmountWithSlippage (sr_amountOut r) slippage = Inr (sq_minSwapOutAmount q)"
    "sq_swapOutAmount q = sr_amountOut r" "amm' = setPoolState ps amm"
    using assms(1) by (auto simp: getSwapQuote_def)
  from q(1) have p: "q_poolState params = am_poolState amm" "q_vaultAReserve params = vaultAReserve (am_accountsInfo amm)"
    "q_vaultBReserve params = vaultBReserve (am_accountsInfo amm)"
    by (auto simp: quoteParam_def Let_def)
  from calculateSwapQuote_D [OF q(2)] assms(2) p show "sq_swapOutAmount q <
      (if mint = tokenAMint (am_poolState amm) then vaultBReserve (am_accountsInfo amm) else vaultAReserve (am_accountsInfo amm))"
    by (auto simp: q(4) outSide_def sideA_def sideB_def)
  show "getMinAmountWithSlippage (sq_swapOutAmount q) slippage = Inr (sq_minSwapOutAmount q)" "am_address amm' = am_address amm"
    using q by (simp_all add: setPoolState_def)
qed

text \<open>The quote of the sample pool after loading it.\<close>

lemma live_quote:
  obtains amm amm' q where "create liveChain programSdk referenceLib (PublicKey ''pool'') None None None = Inr amm"
    "getSwapQuote programSdk referenceLib amm (PublicKey ''A'') 1000000000 1 None = Inr (amm', q)" "0 \<le> sq_swapOutAmount q"
    "tokenAMint (am_poolState amm) \<noteq> tokenBMint (am_poolState amm)"
proof -
  have "case newAmmImpl programSdk referenceLib prog ''mainnet-beta'' Map.empty (PublicKey ''pool'')
      (samplePool ConstantProductCurve, 30000000000) sampleImplA sampleImplB sampleInfo of
      Inl e \<Rightarrow> False
    | Inr amm \<Rightarrow>
        (case getSwapQuote programSdk referenceLib amm (PublicKey ''A'') 1000000000 1 None of
           Inl e \<Rightarrow> False
         | Inr (amm', q) \<Rightarrow> 0 \<le> sq_swapOutAmount q \<and> tokenAMint (am_poolState amm) \<noteq> tokenBMint (am_poolState amm))" for prog
    by code_simp
  from this [of "createProgram liveChain None"] show thesis
    using that live_create [of "(PublicKey ''pool'', samplePool ConstantProductCurve)"]
    by (auto split: sum.splits prod.splits)
qed

text \<open>
  C6. From a load on, through any refreshes and quotes: a swap quote is below the reserve that has
  to pay it and its minimum is no more than the quote, and the swap for it is always built, for
  the loaded pool and the caller, with exactly one instruction of the program, which carries the
  quoted amount in and the minimum, and needs only the caller's signature.
\<close>

theorem quoted_swap_is_sent:
  assumes "chain_laws ch" "create ch V L pool programId seed cluster = Inr amm0" "(amm_step V L)\<^sup>*\<^sup>* amm0 amm"
    and "getSwapQuote V L amm mint amt slippage initiator = Inr (amm', q)"
    and "tokenAMint (am_poolState amm) \<noteq> tokenBMint (am_poolState amm)"
    and "0 \<le> sq_swapOutAmount q" "0 \<le> slippage" "slippage \<le> 100"
  shows "sq_minSwapOutAmount q \<le> sq_swapOutAmount q \<and>
    sq_swapOutAmount q < (if mint = tokenAMint (am_poolState amm) then vaultBReserve (am_accountsInfo amm)
      else vaultAReserve (am_accountsInfo amm)) \<and>
    (\<exists>tx pre post accounts remaining. swap ch amm' owner mint amt (sq_minSwapOutAmount q) None = Inr tx \<and>
       tx_instructions tx = pre @ [ProgramIx (am_program amm') ''swap'' [BNArg amt, BNArg (sq_minSwapOutAmount q)] accounts remaining] @ post \<and>
       ixs_sum programCalls (tx_instructions tx) = 1 \<and>
       map_of accounts ''pool'' = Some pool \<and> map_of accounts ''user'' = Some owner \<and> requiredSigners tx = {owner})"
proof (intro conjI)
  note q = getSwapQuote_D [OF assms(4,5)]
  show "sq_minSwapOutAmount q \<le> sq_swapOutAmount q"
    using getMinAmountWithSlippage_bounds [OF assms(6-8)] q(2) by auto
  show "sq_swapOutAmount q < (if mint = tokenAMint (am_poolState amm) then vaultBReserve (am_accountsInfo amm)
      else vaultAReserve (am_accountsInfo amm))" by (rule q(1))
  have pool: "am_address amm' = pool" using q(3) amm_steps_inv [OF assms(3)] create_inv [OF assms(2)] by auto
  obtain tx where tx: "swap ch amm' owner mint amt (sq_minSwapOutAmount q) None = Inr tx" "requiredSigners tx = {owner}"
    using chain_laws.call_signers(1) [OF assms(1)] by blast
  obtain pre post us ud fee where s: "tx_instructions tx =
      pre @ [swapIx amm' owner amt (sq_minSwapOutAmount q) us ud fee (curve_getRemainingAccounts (am_swapCurve amm'))] @ post"
    "ixs_sum programCalls pre = 0" "ixs_sum programCalls post = 0"
    by (rule swap_shape [OF tx(1)])
  obtain accounts where a: "swapIx amm' owner amt (sq_minSwapOutAmount q) us ud fee (curve_getRemainingAccounts (am_swapCurve amm')) =
      ProgramIx (am_program amm') ''swap'' [BNArg amt, BNArg (sq_minSwapOutAmount q)] accounts
        (curve_getRemainingAccounts (am_swapCurve amm'))"
    "map_of accounts ''pool'' = Some pool" "map_of accounts ''user'' = Some owner"
    by (simp add: swapIx_def pool)
  have "ixs_sum programCalls (tx_instructions tx) = 1" by (simp add: s a(1))
  with tx s(1) a show "\<exists>tx pre post accounts remaining. swap ch amm' owner mint amt (sq_minSwapOutAmount q) None = Inr tx \<and>
       tx_instructions tx = pre @ [ProgramIx (am_program amm') ''swap'' [BNArg amt, BNArg (sq_minSwapOutAmount q)] accounts remaining] @ post \<and>
       ixs_sum programCalls (tx_instructions tx) = 1 \<and>
       map_of accounts ''pool'' = Some pool \<and> map_of accounts ''user'' = Some owner \<and> requiredSigners tx = {owner}"
    by metis
qed

theorem quoted_swap_is_sent_witness:
  "\<exists>amm amm' q tx. create liveChain programSdk referenceLib (PublicKey ''pool'') None None None = Inr amm \<and>
     getSwapQuote programSdk referenceLib amm (PublicKey ''A'') 1000000000 1 None = Inr (amm', q) \<and>
     swap liveChain amm' FEE_OWNER (PublicKey ''A'') 1000000000 (sq_minSwapOutAmount q) None = Inr tx \<and>
     requiredSigners tx = {FEE_OWNER}"
proof -
  obtain amm amm' q where q: "create liveChain programSdk referenceLib (PublicKey ''pool'') None None None = Inr amm"
    "getSwapQuote programSdk referenceLib amm (PublicKey ''A'') 1000000000 1 None = Inr (amm', q)" "0 \<le> sq_swapOutAmount q"
    "tokenAMint (am_poolState amm) \<noteq> tokenBMint (am_poolState amm)"
    by (rule live_quote)
  from quoted_swap_is_sent [OF sample.chain_laws_axioms q(1) rtranclp.rtrancl_refl q(2,4,3), of FEE_OWNER]
  obtain tx where "swap liveChain amm' FEE_OWNER (PublicKey ''A'') 1000000000 (sq_minSwapOutAmount q) None = Inr tx"
    "requiredSigners tx = {FEE_OWNER}" by auto
  with q show ?thesis by blast
qed

end
